(* ===== verification/Go_Prelude.thy ===== *)
theory Go_Prelude
  imports Main "HOL-Library.AList" "HOL-Library.Word"
begin

text \<open>
  The part of Go and of its standard library that the agent uses, shared by every component:
  error values, the functions of package \<open>strings\<close> on byte strings, maps, 64 bit and 32 bit
  integers, durations and instants, and the lemmas about them.

  A Go string is a \<^typ>\<open>string\<close>, a list of bytes. Case mapping and white space are those of ASCII:
  \<open>ToLower\<close>, \<open>ToUpper\<close>, \<open>EqualFold\<close> and \<open>TrimSpace\<close> agree with package \<open>strings\<close> on ASCII text,
  which verbs, resource names, namespaces, topics and header names are.

  A Go map is an association list whose keys are distinct; its order stands for the order in which
  one \<open>range\<close> statement visits the map, so a statement about all such lists is a statement about
  every iteration order.
\<close>

named_theorems go_str \<open>rewriting of the functions of package strings\<close>
named_theorems go_map \<open>lookup, length and key laws of Go maps\<close>

section \<open>Errors and panics\<close>

text \<open>
  \<open>Errorf fmt args\<close> is the value \<open>fmt.Errorf\<close> builds: its format and its arguments, \<open>%w\<close> arguments
  as the wrapped error. \<open>LibErr\<close> is an error a library returns. A result with an error is a sum
  (\<open>Inl\<close> the error), an \<open>error\<close> result alone is an option (\<open>None\<close> is \<open>nil\<close>). A function that may
  panic returns \<open>'a res\<close>.
\<close>

datatype go_error = Errorf string "go_arg list" | LibErr string
  and go_arg = AStr string | AInt int | AErr go_error

datatype 'a res = Ok 'a | Err go_error | Panic

fun res_bind :: "'a res \<Rightarrow> ('a \<Rightarrow> 'b res) \<Rightarrow> 'b res" where
  "res_bind (Ok x) f = f x"
| "res_bind (Err e) f = Err e"
| "res_bind Panic f = Panic"

lemma res_bind_eq_Ok [simp]: "res_bind r f = Ok y \<longleftrightarrow> (\<exists>x. r = Ok x \<and> f x = Ok y)"
  by (cases r) auto

lemma res_bind_eq_Panic: "res_bind r f = Panic \<longleftrightarrow> r = Panic \<or> (\<exists>x. r = Ok x \<and> f x = Panic)"
  by (cases r) auto

text \<open>\<open>if err != nil\<close> over the error results of a sequence of checks: the first error wins.\<close>

fun first_error :: "go_error option list \<Rightarrow> go_error option" where
  "first_error [] = None"
| "first_error (None # es) = first_error es"
| "first_error (Some e # es) = Some e"

lemma first_error_None [simp]: "first_error es = None \<longleftrightarrow> (\<forall>e \<in> set es. e = None)"
  by (induction es rule: first_error.induct) auto

text \<open>\<open>os.ReadFile\<close>: the file system is a function from paths.\<close>

datatype file_read = Missing | Unreadable go_error | Contents string

definition read_file :: "(string \<Rightarrow> file_read) \<Rightarrow> string \<Rightarrow> go_error + string" where
  "read_file read path =
     (case read path of
        Missing \<Rightarrow> Inl (LibErr ''no such file or directory'')
      | Unreadable e \<Rightarrow> Inl e
      | Contents d \<Rightarrow> Inr d)"

section \<open>Package strings\<close>

definition HasPrefix :: "string \<Rightarrow> string \<Rightarrow> bool" where
  "HasPrefix s p \<longleftrightarrow> length p \<le> length s \<and> take (length p) s = p"

definition HasSuffix :: "string \<Rightarrow> string \<Rightarrow> bool" where
  "HasSuffix s p \<longleftrightarrow> length p \<le> length s \<and> drop (length s - length p) s = p"

definition TrimPrefix :: "string \<Rightarrow> string \<Rightarrow> string" where
  "TrimPrefix s p = (if HasPrefix s p then drop (length p) s else s)"

definition TrimSuffix :: "string \<Rightarrow> string \<Rightarrow> string" where
  "TrimSuffix s p = (if HasSuffix s p then take (length s - length p) s else s)"

definition trim_func :: "(char \<Rightarrow> bool) \<Rightarrow> string \<Rightarrow> string" where
  "trim_func p s = rev (dropWhile p (rev (dropWhile p s)))"

definition trim_right :: "(char \<Rightarrow> bool) \<Rightarrow> string \<Rightarrow> string" where
  "trim_right p s = rev (dropWhile p (rev s))"

definition is_space :: "char \<Rightarrow> bool" where
  "is_space c \<longleftrightarrow> of_char c \<in> {9, 10, 11, 12, 13, 32 :: int}"

definition TrimSpace :: "string \<Rightarrow> string" where
  "TrimSpace s = trim_func is_space s"

text \<open>\<open>strings.Trim(s, "/")\<close>\<close>

definition TrimChar :: "string \<Rightarrow> char \<Rightarrow> string" where
  "TrimChar s c = trim_func (\<lambda>d. d = c) s"

text \<open>\<open>strings.Split(s, sep)\<close> for a separator of one byte.\<close>

fun SplitChar :: "char \<Rightarrow> string \<Rightarrow> string list" where
  "SplitChar c [] = [[]]"
| "SplitChar c (x # xs) =
     (if x = c then [] # SplitChar c xs
      else (case SplitChar c xs of [] \<Rightarrow> [[x]] | y # ys \<Rightarrow> (x # y) # ys))"

fun JoinStr :: "string list \<Rightarrow> string \<Rightarrow> string" where
  "JoinStr [] sep = []"
| "JoinStr [x] sep = x"
| "JoinStr (x # y # ys) sep = x @ sep @ JoinStr (y # ys) sep"

text \<open>The text before the first occurrence of a byte: \<open>s[:strings.Index(s, c)]\<close>, all of \<open>s\<close> when
  there is none.\<close>

definition cut_at :: "char \<Rightarrow> string \<Rightarrow> string" where
  "cut_at c s = takeWhile (\<lambda>d. d \<noteq> c) s"

definition lower_char :: "char \<Rightarrow> char" where
  "lower_char c = (if 65 \<le> (of_char c :: int) \<and> (of_char c :: int) \<le> 90
                   then char_of (of_char c + 32 :: int) else c)"

definition upper_char :: "char \<Rightarrow> char" where
  "upper_char c = (if 97 \<le> (of_char c :: int) \<and> (of_char c :: int) \<le> 122
                   then char_of (of_char c - 32 :: int) else c)"

definition ToLower :: "string \<Rightarrow> string" where
  "ToLower s = map lower_char s"

definition ToUpper :: "string \<Rightarrow> string" where
  "ToUpper s = map upper_char s"

definition EqualFold :: "string \<Rightarrow> string \<Rightarrow> bool" where
  "EqualFold s t \<longleftrightarrow> ToLower s = ToLower t"

text \<open>\<open>strings.ReplaceAll(s, old, new)\<close> for a non-empty \<open>old\<close>; \<open>strings.Contains\<close>.\<close>

function ReplaceAll :: "string \<Rightarrow> string \<Rightarrow> string \<Rightarrow> string" where
  "ReplaceAll s old new =
     (if old = [] \<or> s = [] then s
      else if HasPrefix s old then new @ ReplaceAll (drop (length old) s) old new
      else hd s # ReplaceAll (tl s) old new)"
  by pat_completeness auto
termination
  by (relation "measure (\<lambda>(s, old, new). length s)") auto

declare ReplaceAll.simps [simp del]

fun Contains :: "string \<Rightarrow> string \<Rightarrow> bool" where
  "Contains [] sub = (sub = [])"
| "Contains (x # xs) sub = (HasPrefix (x # xs) sub \<or> Contains xs sub)"

text \<open>Decimal text of an integer: \<open>strconv.Itoa\<close> and the verb \<open>%d\<close>.\<close>

definition digit_char :: "int \<Rightarrow> char" where
  "digit_char d = char_of (48 + d)"

function int_text :: "int \<Rightarrow> string" where
  "int_text n = (if n < 10 then [digit_char n] else int_text (n div 10) @ [digit_char (n mod 10)])"
  by pat_completeness auto
termination
  by (relation "measure nat") auto

declare int_text.simps [simp del]

definition Itoa :: "int \<Rightarrow> string" where
  "Itoa i = (if i < 0 then CHR ''-'' # int_text (- i) else int_text i)"

text \<open>\<open>strconv.Atoi\<close> on a signed decimal numeral that fits an \<open>int\<close>; anything else is an error.\<close>

definition is_digit :: "char \<Rightarrow> bool" where
  "is_digit c \<longleftrightarrow> 48 \<le> (of_char c :: int) \<and> (of_char c :: int) \<le> 57"

definition digits_val :: "string \<Rightarrow> int" where
  "digits_val s = foldl (\<lambda>n c. 10 * n + (of_char c - 48)) 0 s"

definition parse_nat :: "string \<Rightarrow> int option" where
  "parse_nat s = (if s \<noteq> [] \<and> list_all is_digit s then Some (digits_val s) else None)"

definition max_int :: int where "max_int = 9223372036854775807"
definition min_int :: int where "min_int = -9223372036854775808"

definition Atoi :: "string \<Rightarrow> int option" where
  "Atoi s =
     (let (neg, ds) = (case s of c # r \<Rightarrow> if c = CHR ''-'' then (True, r)
                                      else if c = CHR ''+'' then (False, r) else (False, s)
                       | [] \<Rightarrow> (False, []))
      in case parse_nat ds of
           None \<Rightarrow> None
         | Some n \<Rightarrow> (let i = (if neg then - n else n)
                     in if min_int \<le> i \<and> i \<le> max_int then Some i else None))"

subsection \<open>Lemmas\<close>

lemma of_char_digit: "0 \<le> d \<Longrightarrow> d < 10 \<Longrightarrow> of_char (digit_char d) = 48 + d"
  by (simp add: digit_char_def)

lemma is_digit_digit_char: "0 \<le> d \<Longrightarrow> d < 10 \<Longrightarrow> is_digit (digit_char d)"
  by (simp add: is_digit_def of_char_digit)

lemma digits_val_snoc: "digits_val (s @ [c]) = 10 * digits_val s + (of_char c - 48)"
  by (simp add: digits_val_def)

lemma int_text_digits:
  "0 \<le> n \<Longrightarrow> digits_val (int_text n) = n \<and> list_all is_digit (int_text n) \<and> int_text n \<noteq> []"
proof (induction n rule: int_text.induct)
  case (1 n)
  show ?case
  proof (cases "n < 10")
    case True
    then show ?thesis using 1(2)
      by (simp add: int_text.simps [of n] digits_val_def of_char_digit is_digit_digit_char)
  next
    case False
    then have "digits_val (int_text (n div 10)) = n div 10 \<and> list_all is_digit (int_text (n div 10))"
      using 1 by simp
    moreover have "0 \<le> n mod 10" "n mod 10 < 10" by simp_all
    ultimately show ?thesis using False
      by (simp add: int_text.simps [of n] digits_val_snoc of_char_digit is_digit_digit_char)
  qed
qed

lemma is_digit_not_sign: "is_digit c \<Longrightarrow> c \<noteq> CHR ''-'' \<and> c \<noteq> CHR ''+''"
  by (auto simp: is_digit_def)

text \<open>Decimal text read back.\<close>

lemma Atoi_Itoa: "min_int \<le> i \<Longrightarrow> i \<le> max_int \<Longrightarrow> Atoi (Itoa i) = Some i"
proof -
  assume r: "min_int \<le> i" "i \<le> max_int"
  show ?thesis
  proof (cases "i < 0")
    case True
    then show ?thesis using int_text_digits [of "- i"] r
      by (simp add: Itoa_def Atoi_def parse_nat_def Let_def)
  next
    case False
    then have d: "digits_val (int_text i) = i" "list_all is_digit (int_text i)" "int_text i \<noteq> []"
      using int_text_digits [of i] by simp_all
    then obtain c cs where c: "int_text i = c # cs" by (cases "int_text i") auto
    then have "is_digit c" using d by simp
    then show ?thesis using False r d c is_digit_not_sign [of c]
      by (simp add: Itoa_def Atoi_def parse_nat_def Let_def)
  qed
qed

lemma Itoa_not_Nil [simp]: "Itoa i \<noteq> []"
  using int_text_digits [of i] by (simp add: Itoa_def)

lemma HasPrefix_append [go_str, simp]: "HasPrefix (p @ r) p"
  by (simp add: HasPrefix_def)

lemma HasPrefix_iff: "HasPrefix s p \<longleftrightarrow> (\<exists>r. s = p @ r)"
  by (metis HasPrefix_append HasPrefix_def append_take_drop_id)

lemma HasPrefix_Nil [go_str, simp]: "HasPrefix s []"
  by (simp add: HasPrefix_def)

lemma HasPrefix_Nil_left [go_str, simp]: "HasPrefix [] p \<longleftrightarrow> p = []"
  by (auto simp: HasPrefix_def)

lemma HasPrefix_Cons [go_str, simp]: "HasPrefix (x # xs) (y # ys) \<longleftrightarrow> x = y \<and> HasPrefix xs ys"
  by (auto simp: HasPrefix_def)

lemma TrimPrefix_append [go_str, simp]: "TrimPrefix (p @ r) p = r"
  by (simp add: TrimPrefix_def)

lemma HasSuffix_append [go_str, simp]: "HasSuffix (r @ p) p"
  by (simp add: HasSuffix_def)

lemma TrimSuffix_append [go_str, simp]: "TrimSuffix (r @ p) p = r"
  by (simp add: TrimSuffix_def)

lemma HasSuffix_iff: "HasSuffix s p \<longleftrightarrow> (\<exists>r. s = r @ p)"
  by (metis HasSuffix_append HasSuffix_def append_take_drop_id)

lemma TrimSuffix_no: "\<not> HasSuffix s p \<Longrightarrow> TrimSuffix s p = s"
  by (simp add: TrimSuffix_def)

lemma dropWhile_id: "s = [] \<or> \<not> p (hd s) \<Longrightarrow> dropWhile p s = s"
  by (cases s) auto

lemma trim_func_id:
  "s = [] \<or> \<not> p (hd s) \<and> \<not> p (last s) \<Longrightarrow> trim_func p s = s"
  by (auto simp: trim_func_def dropWhile_id hd_rev)

lemma dropWhile_hd: "dropWhile p s = [] \<or> \<not> p (hd (dropWhile p s))"
  using hd_dropWhile [of p s] by blast

lemma trim_func_ends: "trim_func p s = [] \<or> \<not> p (hd (trim_func p s)) \<and> \<not> p (last (trim_func p s))"
proof -
  let ?d = "dropWhile p s"
  let ?t = "dropWhile p (rev ?d)"
  have last: "?t = [] \<or> \<not> p (hd ?t)" by (rule dropWhile_hd)
  have "?t = [] \<or> \<not> p (last ?t)"
  proof (cases ?t)
    case (Cons x xs)
    have "last ?t = last (rev ?d)"
      using Cons by (metis dropWhile_eq_drop last_drop list.distinct(1) length_drop length_greater_0_conv zero_less_diff)
    moreover have "?d \<noteq> []" using Cons by (metis dropWhile.simps(1) list.distinct(1) rev.simps(1))
    ultimately have "last ?t = hd ?d" by (simp add: last_rev)
    then show ?thesis using dropWhile_hd [of p s] \<open>?d \<noteq> []\<close> by auto
  qed simp
  with last show ?thesis
    by (auto simp: trim_func_def hd_rev last_rev)
qed

lemma trim_func_idem [simp]: "trim_func p (trim_func p s) = trim_func p s"
  using trim_func_ends [of p s] by (blast intro: trim_func_id)

lemma TrimSpace_idem [go_str, simp]: "TrimSpace (TrimSpace s) = TrimSpace s"
  by (simp add: TrimSpace_def)

lemma set_trim_func: "set (trim_func p s) \<subseteq> set s"
  by (auto simp: trim_func_def dest!: set_dropWhileD)

lemma TrimSpace_Nil [go_str, simp]: "TrimSpace [] = []"
  by (simp add: TrimSpace_def trim_func_def)

lemma TrimSpace_id: "s = [] \<or> \<not> is_space (hd s) \<and> \<not> is_space (last s) \<Longrightarrow> TrimSpace s = s"
  by (auto simp: TrimSpace_def intro: trim_func_id)

lemma SplitChar_neq_Nil [simp]: "SplitChar c s \<noteq> []"
  by (induction s) (auto split: list.splits)

lemma SplitChar_no_sep: "c \<notin> set s \<Longrightarrow> SplitChar c s = [s]"
  by (induction s) auto

lemma SplitChar_append_sep:
  "SplitChar c (a @ c # b) = SplitChar c a @ SplitChar c b"
  by (induction a) (auto split: list.splits)

lemma SplitChar_seg [go_str]: "c \<notin> set a \<Longrightarrow> SplitChar c (a @ c # b) = a # SplitChar c b"
  by (simp add: SplitChar_append_sep SplitChar_no_sep)

lemma SplitChar_parts: "x \<in> set (SplitChar c s) \<Longrightarrow> c \<notin> set x"
  by (induction s arbitrary: x) (auto split: list.splits if_splits)

lemma JoinStr_Cons: "xs \<noteq> [] \<Longrightarrow> JoinStr (x # xs) sep = x @ sep @ JoinStr xs sep"
  by (cases xs) auto

lemma Join_Split: "JoinStr (SplitChar c s) [c] = s"
proof (induction s)
  case (Cons x xs)
  then show ?case
    by (cases "SplitChar c xs"; cases "tl (SplitChar c xs)") (auto simp: JoinStr_Cons)
qed simp

lemma Split_Join:
  "xs \<noteq> [] \<Longrightarrow> \<forall>x \<in> set xs. c \<notin> set x \<Longrightarrow> SplitChar c (JoinStr xs [c]) = xs"
proof (induction xs)
  case (Cons x xs)
  then show ?case
    by (cases "xs = []") (auto simp: JoinStr_Cons SplitChar_seg SplitChar_no_sep)
qed simp

lemma cut_at_no: "c \<notin> set s \<Longrightarrow> cut_at c s = s"
  by (auto simp: cut_at_def takeWhile_eq_all_conv)

lemma cut_at_append: "c \<notin> set s \<Longrightarrow> cut_at c (s @ c # r) = s"
  by (induction s) (auto simp: cut_at_def)

lemma lower_char_idem [simp]: "lower_char (lower_char c) = lower_char c"
  by (auto simp: lower_char_def)

lemma ToLower_idem [go_str, simp]: "ToLower (ToLower s) = ToLower s"
  by (simp add: ToLower_def)

lemma EqualFold_refl [go_str, simp]: "EqualFold s s"
  by (simp add: EqualFold_def)

lemma EqualFold_sym: "EqualFold s t = EqualFold t s"
  by (auto simp: EqualFold_def)

lemma ReplaceAll_Nil [simp]: "ReplaceAll [] old new = []"
  by (simp add: ReplaceAll.simps)

section \<open>Maps\<close>

type_synonym ('k, 'v) gomap = "('k \<times> 'v) list"

definition gm_get :: "('k, 'v) gomap \<Rightarrow> 'k \<Rightarrow> 'v option" where
  "gm_get m k = map_of m k"

definition gm_put :: "'k \<Rightarrow> 'v \<Rightarrow> ('k, 'v) gomap \<Rightarrow> ('k, 'v) gomap" where
  "gm_put k v m = AList.update k v m"

definition gm_del :: "'k \<Rightarrow> ('k, 'v) gomap \<Rightarrow> ('k, 'v) gomap" where
  "gm_del k m = AList.delete k m"

definition gm_keys :: "('k, 'v) gomap \<Rightarrow> 'k list" where
  "gm_keys m = map fst m"

definition gm_len :: "('k, 'v) gomap \<Rightarrow> nat" where
  "gm_len m = length m"

definition gm_ok :: "('k, 'v) gomap \<Rightarrow> bool" where
  "gm_ok m \<longleftrightarrow> distinct (map fst m)"

text \<open>
  The contract of a Go map that the components rely on, and what follows from it once for all of
  them: the effect of storing and deleting, the number of keys before and after.
\<close>

locale go_map_spec =
  fixes empty :: 'm
    and get :: "'m \<Rightarrow> 'k \<Rightarrow> 'v option"
    and put :: "'k \<Rightarrow> 'v \<Rightarrow> 'm \<Rightarrow> 'm"
    and del :: "'k \<Rightarrow> 'm \<Rightarrow> 'm"
    and len :: "'m \<Rightarrow> nat"
    and ok :: "'m \<Rightarrow> bool"
  assumes get_empty: "get empty = (\<lambda>_. None)"
    and get_put: "get (put k v m) = (get m)(k \<mapsto> v)"
    and get_del: "ok m \<Longrightarrow> get (del k m) = (get m)(k := None)"
    and len_card: "ok m \<Longrightarrow> len m = card (dom (get m))"
    and finite_dom: "finite (dom (get m))"
    and ok_empty: "ok empty"
    and ok_put: "ok m \<Longrightarrow> ok (put k v m)"
    and ok_del: "ok m \<Longrightarrow> ok (del k m)"
begin

lemma put_del_get: "ok m \<Longrightarrow> get (del k (put k v m)) = (get m)(k := None)"
  by (simp add: get_put get_del ok_put)

lemma len_put: "ok m \<Longrightarrow> len (put k v m) = (if get m k = None then Suc (len m) else len m)"
  by (auto simp: len_card ok_put get_put finite_dom card_insert_if domIff)

lemma len_del: "ok m \<Longrightarrow> len (del k m) = (if get m k = None then len m else len m - 1)"
  by (auto simp: len_card ok_del get_del finite_dom domIff card_Diff_singleton_if)

lemma len_0_iff: "ok m \<Longrightarrow> len m = 0 \<longleftrightarrow> get m = (\<lambda>_. None)"
  by (simp add: len_card finite_dom)

end

interpretation gm: go_map_spec "[]" gm_get gm_put gm_del gm_len gm_ok
proof unfold_locales
  fix m :: "('a, 'b) gomap" and k :: 'a and v :: 'b
  show "gm_get ([] :: ('a, 'b) gomap) = (\<lambda>_. None)" by (simp add: gm_get_def fun_eq_iff)
  show "gm_get (gm_put k v m) = (gm_get m)(k \<mapsto> v)"
    by (simp add: gm_get_def gm_put_def update_conv' fun_eq_iff)
  show "gm_get (gm_del k m) = (gm_get m)(k := None)"
    by (simp add: gm_get_def gm_del_def delete_conv' fun_eq_iff)
  show "gm_ok m \<Longrightarrow> gm_len m = card (dom (gm_get m))"
    by (metis distinct_card dom_map_of_conv_image_fst gm_get_def gm_len_def gm_ok_def
        image_set length_map ext)
  show "finite (dom (gm_get m))" by (simp add: gm_get_def [abs_def] finite_dom_map_of)
  show "gm_ok ([] :: ('a, 'b) gomap)" by (simp add: gm_ok_def)
  show "gm_ok m \<Longrightarrow> gm_ok (gm_put k v m)"
    by (simp add: gm_ok_def gm_put_def distinct_update)
  show "gm_ok m \<Longrightarrow> gm_ok (gm_del k m)"
    by (simp add: gm_ok_def gm_del_def distinct_delete)
qed

lemmas gm_laws [go_map, simp] = gm.get_empty gm.get_put gm.ok_empty gm.ok_put gm.ok_del

lemma gm_get_del [go_map, simp]: "gm_get (gm_del k m) = (gm_get m)(k := None)"
  by (simp add: gm_get_def gm_del_def delete_conv' fun_eq_iff)

lemma gm_len_Nil [go_map, simp]: "gm_len [] = 0"
  by (simp add: gm_len_def)

lemma gm_get_Nil [go_map, simp]: "gm_get [] k = None"
  by (simp add: gm_get_def)

lemma gm_get_Cons [go_map]: "gm_get ((a, b) # m) k = (if k = a then Some b else gm_get m k)"
  by (simp add: gm_get_def)

lemma gm_keys_iff: "k \<in> set (gm_keys m) \<longleftrightarrow> gm_get m k \<noteq> None"
  by (metis (no_types, opaque_lifting) gm_get_def gm_keys_def image_set map_of_eq_None_iff)

lemma gm_get_empty: "gm_get m = Map.empty \<longleftrightarrow> m = []"
  by (simp add: gm_get_def [abs_def] map_of_eq_empty_iff)

lemma gm_get_mem: "gm_ok m \<Longrightarrow> (k, v) \<in> set m \<longleftrightarrow> gm_get m k = Some v"
  by (simp add: gm_get_def gm_ok_def)

lemma gm_get_rev: "gm_ok m \<Longrightarrow> gm_get (rev m) k = gm_get m k"
proof -
  assume m: "gm_ok m"
  then have "gm_ok (rev m)" by (simp add: gm_ok_def rev_map [symmetric])
  then have "gm_get (rev m) k = Some v \<longleftrightarrow> gm_get m k = Some v" for v
    using gm_get_mem [OF m] gm_get_mem [of "rev m"] by (metis set_rev)
  then show ?thesis by (metis not_Some_eq)
qed

section \<open>Integers, durations and instants\<close>

text \<open>
  \<open>int64 x\<close> is the 64 bit two's complement value of an integer, as Go's \<open>int\<close> and
  \<^verbatim>\<open>time.Duration\<close> arithmetic keeps it. A duration counts nanoseconds. An instant is a number of
  nanoseconds since the Unix epoch; the zero \<^verbatim>\<open>time.Time\<close> is 1 January of year 1.
\<close>

type_synonym gtime = int
type_synonym clock = "gtime \<times> gtime"

definition int64 :: "int \<Rightarrow> int" where
  "int64 x = sint (word_of_int x :: 64 word)"

definition second :: int where "second = 1000000000"

definition zero_time :: gtime where "zero_time = - 62135596800 * 1000000000"

definition seconds_duration :: "int \<Rightarrow> int" where
  "seconds_duration n = int64 (n * second)"

lemma int64_id: "- (2 ^ 63) \<le> x \<Longrightarrow> x < 2 ^ 63 \<Longrightarrow> int64 x = x"
  by (simp add: int64_def sint_sbintrunc' signed_take_bit_int_eq_self_iff)

lemma int64_range: "- (2 ^ 63) \<le> int64 x \<and> int64 x < 2 ^ 63"
  using sint_range_size [of "word_of_int x :: 64 word"]
  by (simp add: int64_def word_size)

lemma seconds_duration_pos:
  "0 < n \<Longrightarrow> n \<le> 9223372036 \<Longrightarrow> seconds_duration n = n * second"
  by (simp add: seconds_duration_def second_def int64_id)

lemma int64_wrap: "2 ^ 63 \<le> x \<Longrightarrow> x < 2 ^ 64 + 2 ^ 63 \<Longrightarrow> int64 x = x - 2 ^ 64"
proof -
  assume "2 ^ 63 \<le> x" and "x < 2 ^ 64 + 2 ^ 63"
  then have "int64 (x - 2 ^ 64) = x - 2 ^ 64" by (intro int64_id) simp_all
  moreover have "(word_of_int (x - 2 ^ 64) :: 64 word) = word_of_int x"
    by (simp add: word_of_int_eq_iff take_bit_eq_mod)
  ultimately show ?thesis by (simp only: int64_def)
qed

text \<open>The product with \<^verbatim>\<open>time.Second\<close> wraps to the past for time to live values over 292 years.\<close>

lemma seconds_duration_wrap:
  "9223372037 \<le> n \<Longrightarrow> n \<le> 18446744073 \<Longrightarrow> seconds_duration n < 0"
proof -
  assume "9223372037 \<le> n" and "n \<le> 18446744073"
  then have "seconds_duration n = n * second - 2 ^ 64"
    unfolding seconds_duration_def by (intro int64_wrap) (simp_all add: second_def)
  then show ?thesis using \<open>n \<le> 18446744073\<close> by (simp add: second_def)
qed

text \<open>Conversion to 32 bits, which drops the high bits.\<close>

definition int32 :: "int \<Rightarrow> int" where
  "int32 x = sint (word_of_int x :: 32 word)"

lemma int32_id: "- (2 ^ 31) \<le> x \<Longrightarrow> x < 2 ^ 31 \<Longrightarrow> int32 x = x"
  by (simp add: int32_def sint_sbintrunc' signed_take_bit_int_eq_self_iff)

lemma int32_range: "- (2 ^ 31) \<le> int32 x \<and> int32 x < 2 ^ 31"
  using sint_range_size [of "word_of_int x :: 32 word"]
  by (simp add: int32_def word_size)

lemma int32_add: "int32 (int32 x + y) = int32 (x + y)"
proof -
  have "(word_of_int (int32 x) :: 32 word) = word_of_int x"
    by (simp add: int32_def)
  then show ?thesis by (simp add: int32_def)
qed

section \<open>Reachable states\<close>

text \<open>
  The states a concurrent component can be in: its atomic operations, one mutex section each, happen
  in any order.
\<close>

inductive reachable :: "('s \<Rightarrow> bool) \<Rightarrow> ('s \<Rightarrow> 's \<Rightarrow> bool) \<Rightarrow> 's \<Rightarrow> bool" for init step where
  reach_init: "init s \<Longrightarrow> reachable init step s"
| reach_step: "reachable init step s \<Longrightarrow> step s s' \<Longrightarrow> reachable init step s'"

lemma reachable_invariant:
  assumes "reachable init step s" and "\<And>s. init s \<Longrightarrow> I s"
    and "\<And>s s'. I s \<Longrightarrow> step s s' \<Longrightarrow> I s'"
  shows "I s"
  using assms(1) by induction (auto intro: assms(2,3))

end
