(* ===== verification/Go_Json.thy ===== *)
theory Go_Json
  imports Go_Prelude
begin

text \<open>
  JSON documents and the decoding of them into Go structs by package \<open>encoding/json\<close>, as the command
  envelope and every payload of the agent use it.

  A document is a value of \<open>json\<close>: the text of a \<open>json.RawMessage\<close> inside a decoded message is
  always well formed, so raw bytes are a \<open>json option\<close>, \<open>None\<close> the empty message. Integer literals
  are \<open>JInt\<close>, every other number is \<open>JFrac\<close> with its text.

  Struct decoding visits the members of the object in order. A member belongs to a field when the
  names are equal up to case; \<open>null\<close> leaves a string, number, boolean or struct as it is and makes
  a pointer, a slice or an interface nil; a value of another type is an error.
\<close>

datatype json =
    JNull
  | JBool bool
  | JInt int
  | JFrac string
  | JStr string
  | JArr "json list"
  | JObj "(string \<times> json) list"

type_synonym raw = "json option"
type_synonym obj = "(string \<times> json) list"

abbreviation (input) json_error :: go_error where
  "json_error \<equiv> LibErr ''json''"

section \<open>Fields\<close>

definition members :: "string \<Rightarrow> obj \<Rightarrow> json list" where
  "members name kvs = map snd (filter (\<lambda>(k, v). EqualFold k name) kvs)"

fun dec_scalar :: "(json \<Rightarrow> 'a option) \<Rightarrow> 'a \<Rightarrow> json list \<Rightarrow> 'a option" where
  "dec_scalar f d [] = Some d"
| "dec_scalar f d (v # vs) =
     (if v = JNull then dec_scalar f d vs
      else case f v of None \<Rightarrow> None | Some x \<Rightarrow> dec_scalar f x vs)"

fun dec_nilable :: "(json \<Rightarrow> 'a option) \<Rightarrow> 'a option \<Rightarrow> json list \<Rightarrow> 'a option option" where
  "dec_nilable f d [] = Some d"
| "dec_nilable f d (v # vs) =
     (if v = JNull then dec_nilable f None vs
      else case f v of None \<Rightarrow> None | Some x \<Rightarrow> dec_nilable f (Some x) vs)"

fun json_str :: "json \<Rightarrow> string option" where
  "json_str (JStr s) = Some s"
| "json_str _ = None"

fun json_bool :: "json \<Rightarrow> bool option" where
  "json_bool (JBool b) = Some b"
| "json_bool _ = None"

fun json_int :: "json \<Rightarrow> int option" where
  "json_int (JInt i) = (if min_int \<le> i \<and> i \<le> max_int then Some i else None)"
| "json_int _ = None"

fun json_obj :: "json \<Rightarrow> obj option" where
  "json_obj (JObj kvs) = Some kvs"
| "json_obj _ = None"

fun map_opt :: "('a \<Rightarrow> 'b option) \<Rightarrow> 'a list \<Rightarrow> 'b list option" where
  "map_opt f [] = Some []"
| "map_opt f (x # xs) =
     (case f x of None \<Rightarrow> None
      | Some y \<Rightarrow> (case map_opt f xs of None \<Rightarrow> None | Some ys \<Rightarrow> Some (y # ys)))"

text \<open>An element of a slice: \<open>null\<close> is the zero value.\<close>

definition elem_or :: "'a \<Rightarrow> (json \<Rightarrow> 'a option) \<Rightarrow> json \<Rightarrow> 'a option" where
  "elem_or z f v = (if v = JNull then Some z else f v)"

fun json_arr :: "'a \<Rightarrow> (json \<Rightarrow> 'a option) \<Rightarrow> json \<Rightarrow> 'a list option" where
  "json_arr z f (JArr vs) = map_opt (elem_or z f) vs"
| "json_arr z f _ = None"

definition fld_str :: "string \<Rightarrow> obj \<Rightarrow> string option" where
  "fld_str n kvs = dec_scalar json_str [] (members n kvs)"

definition fld_bool :: "string \<Rightarrow> obj \<Rightarrow> bool option" where
  "fld_bool n kvs = dec_scalar json_bool False (members n kvs)"

definition fld_int :: "string \<Rightarrow> obj \<Rightarrow> int option" where
  "fld_int n kvs = dec_scalar json_int 0 (members n kvs)"

definition fld_int_ptr :: "string \<Rightarrow> obj \<Rightarrow> int option option" where
  "fld_int_ptr n kvs = dec_nilable json_int None (members n kvs)"

text \<open>A slice field; a nil slice and an empty one are the same to the code that reads it.\<close>

definition fld_list :: "string \<Rightarrow> 'a \<Rightarrow> (json \<Rightarrow> 'a option) \<Rightarrow> obj \<Rightarrow> 'a list option" where
  "fld_list n z f kvs =
     map_option (\<lambda>r. case r of None \<Rightarrow> [] | Some xs \<Rightarrow> xs)
       (dec_nilable (json_arr z f) None (members n kvs))"

definition fld_strs :: "string \<Rightarrow> obj \<Rightarrow> string list option" where
  "fld_strs n kvs = fld_list n [] json_str kvs"

text \<open>A \<open>json.RawMessage\<close> field: the last member with that name, whatever its value.\<close>

definition fld_raw :: "string \<Rightarrow> obj \<Rightarrow> raw" where
  "fld_raw n kvs = (case rev (members n kvs) of [] \<Rightarrow> None | v # _ \<Rightarrow> Some v)"

text \<open>
  A pointer to a struct: \<open>null\<close> makes it nil; decoding a second object into the same struct is
  decoding the members of both, in order. A \<open>map[string]string\<close>: each member is one entry.
\<close>

fun dec_obj_ptr :: "obj option \<Rightarrow> json list \<Rightarrow> obj option option" where
  "dec_obj_ptr d [] = Some d"
| "dec_obj_ptr d (v # vs) =
     (case v of
        JNull \<Rightarrow> dec_obj_ptr None vs
      | JObj kvs \<Rightarrow> dec_obj_ptr (Some ((case d of None \<Rightarrow> [] | Some o' \<Rightarrow> o') @ kvs)) vs
      | _ \<Rightarrow> None)"

definition fld_obj_ptr :: "string \<Rightarrow> obj \<Rightarrow> obj option option" where
  "fld_obj_ptr n kvs = dec_obj_ptr None (members n kvs)"

text \<open>A struct field that is a struct: \<open>null\<close> leaves it, objects add their members.\<close>

fun dec_obj :: "obj \<Rightarrow> json list \<Rightarrow> obj option" where
  "dec_obj d [] = Some d"
| "dec_obj d (v # vs) =
     (case v of JNull \<Rightarrow> dec_obj d vs | JObj kvs \<Rightarrow> dec_obj (d @ kvs) vs | _ \<Rightarrow> None)"

fun put_strs :: "obj \<Rightarrow> (string, string) gomap \<Rightarrow> (string, string) gomap option" where
  "put_strs [] m = Some m"
| "put_strs ((k, v) # kvs) m =
     (case elem_or [] json_str v of None \<Rightarrow> None | Some s \<Rightarrow> put_strs kvs (gm_put k s m))"

fun dec_str_map :: "(string, string) gomap \<Rightarrow> json list \<Rightarrow> (string, string) gomap option" where
  "dec_str_map m [] = Some m"
| "dec_str_map m (v # vs) =
     (case v of
        JNull \<Rightarrow> dec_str_map [] vs
      | JObj kvs \<Rightarrow> (case put_strs kvs m of None \<Rightarrow> None | Some m' \<Rightarrow> dec_str_map m' vs)
      | _ \<Rightarrow> None)"

definition fld_str_map :: "string \<Rightarrow> obj \<Rightarrow> (string, string) gomap option" where
  "fld_str_map n kvs = dec_str_map [] (members n kvs)"

text \<open>\<open>json.Unmarshal(raw, &p)\<close> of a struct: the members of the object to decode.\<close>

fun unmarshal_struct :: "raw \<Rightarrow> go_error + obj" where
  "unmarshal_struct None = Inl json_error"
| "unmarshal_struct (Some JNull) = Inr []"
| "unmarshal_struct (Some (JObj kvs)) = Inr kvs"
| "unmarshal_struct (Some _) = Inl json_error"

definition or_json_error :: "'a option \<Rightarrow> go_error + 'a" where
  "or_json_error r = (case r of None \<Rightarrow> Inl json_error | Some x \<Rightarrow> Inr x)"

fun sum_bind :: "'e + 'a \<Rightarrow> ('a \<Rightarrow> 'e + 'b) \<Rightarrow> 'e + 'b" where
  "sum_bind (Inl e) f = Inl e"
| "sum_bind (Inr x) f = f x"

lemma sum_bind_eq_Inr [simp]: "sum_bind r f = Inr y \<longleftrightarrow> (\<exists>x. r = Inr x \<and> f x = Inr y)"
  by (cases r) auto

text \<open>\<open>return nil, fmt.Errorf("decode payload: %w", err)\<close>\<close>

definition decode_payload :: "go_error + 'a \<Rightarrow> go_error + 'a" where
  "decode_payload r =
     (case r of Inl e \<Rightarrow> Inl (Errorf ''decode payload: %w'' [AErr e]) | Inr x \<Rightarrow> Inr x)"

lemma decode_payload_eq_Inr [simp]: "decode_payload r = Inr x \<longleftrightarrow> r = Inr x"
  by (cases r) (auto simp: decode_payload_def)

lemma or_json_error_eq_Inr [simp]: "or_json_error r = Inr x \<longleftrightarrow> r = Some x"
  by (cases r) (auto simp: or_json_error_def)

lemma map_opt_length: "map_opt f xs = Some ys \<Longrightarrow> length ys = length xs"
  by (induction xs arbitrary: ys) (auto split: option.splits)

section \<open>Instants in RFC 3339 form\<close>

text \<open>
  \<^verbatim>\<open>time.Time\<close> fields are decoded by the strict RFC 3339 parser: \<open>YYYY-MM-DDThh:mm:ss\<close>, an optional
  fraction and \<open>Z\<close> or \<open>+hh:mm\<close> / \<open>-hh:mm\<close>.
\<close>

definition num_in :: "int \<Rightarrow> int \<Rightarrow> string \<Rightarrow> int option" where
  "num_in lo hi s =
     (case parse_nat s of None \<Rightarrow> None | Some n \<Rightarrow> if lo \<le> n \<and> n \<le> hi then Some n else None)"

definition leap :: "int \<Rightarrow> bool" where
  "leap y \<longleftrightarrow> y mod 4 = 0 \<and> (y mod 100 \<noteq> 0 \<or> y mod 400 = 0)"

definition days_in :: "int \<Rightarrow> int \<Rightarrow> int" where
  "days_in y m = (if m = 2 then (if leap y then 29 else 28)
                  else if m \<in> {4, 6, 9, 11} then 30 else 31)"

definition civil_days :: "int \<Rightarrow> int \<Rightarrow> int \<Rightarrow> int" where
  "civil_days y m d =
     (let y' = (if m \<le> 2 then y - 1 else y); mp = (m + 9) mod 12
      in 365 * y' + y' div 4 - y' div 100 + y' div 400 + (153 * mp + 2) div 5 + d - 719469)"

definition nanos_of :: "string \<Rightarrow> int" where
  "nanos_of ds = digits_val (take 9 (ds @ replicate 9 (CHR ''0'')))"

definition zone_offset :: "string \<Rightarrow> int option" where
  "zone_offset z =
     (if z = ''Z'' then Some 0
      else if length z = 6 \<and> (z ! 0 = CHR ''+'' \<or> z ! 0 = CHR ''-'') \<and> z ! 3 = CHR '':'' then
        (case (num_in 0 23 (take 2 (drop 1 z)), num_in 0 59 (drop 4 z)) of
           (Some h, Some m) \<Rightarrow>
             (let off = (h * 60 + m) * 60 in Some (if z ! 0 = CHR ''-'' then - off else off))
         | _ \<Rightarrow> None)
      else None)"

definition parse_rfc3339 :: "string \<Rightarrow> gtime option" where
  "parse_rfc3339 s =
     (if length s < 20 \<or> s ! 4 \<noteq> CHR ''-'' \<or> s ! 7 \<noteq> CHR ''-'' \<or> s ! 10 \<noteq> CHR ''T''
         \<or> s ! 13 \<noteq> CHR '':'' \<or> s ! 16 \<noteq> CHR '':'' then None
      else case (num_in 0 9999 (take 4 s), num_in 1 12 (take 2 (drop 5 s)),
                 num_in 0 23 (take 2 (drop 11 s)), num_in 0 59 (take 2 (drop 14 s)),
                 num_in 0 59 (take 2 (drop 17 s))) of
        (Some y, Some mo, Some h, Some mi, Some sec) \<Rightarrow>
          (case num_in 1 (days_in y mo) (take 2 (drop 8 s)) of
             None \<Rightarrow> None
           | Some d \<Rightarrow>
             (let r = drop 19 s;
                  ds = (if r \<noteq> [] \<and> hd r = CHR ''.'' then takeWhile is_digit (tl r) else []);
                  z = (if ds = [] then r else drop (Suc (length ds)) r)
              in case zone_offset z of
                   None \<Rightarrow> None
                 | Some off \<Rightarrow>
                     Some ((civil_days y mo d * 86400 + h * 3600 + mi * 60 + sec - off)
                             * second + (if ds = [] then 0 else nanos_of ds))))
      | _ \<Rightarrow> None)"

fun json_time :: "json \<Rightarrow> gtime option" where
  "json_time (JStr s) = parse_rfc3339 s"
| "json_time _ = None"

definition fld_time :: "string \<Rightarrow> obj \<Rightarrow> gtime option" where
  "fld_time n kvs = dec_scalar json_time zero_time (members n kvs)"

definition fld_time_ptr :: "string \<Rightarrow> obj \<Rightarrow> gtime option option" where
  "fld_time_ptr n kvs = dec_nilable json_time None (members n kvs)"

end
