(* ===== verification/Command_Router.thy ===== *)
theory Command_Router
  imports Go_Json "HOL-Library.Monad_Syntax"
begin

text \<open>
  Commands and replies: \<open>internal/result/response.go\<close> (the reply and its three constructors),
  \<open>internal/command/types.go\<close> and \<open>envelope.go\<close> (the command types, the request envelope and its
  validation) and \<open>router.go\<close> (dispatch of a validated command to the handler of its type).

  A handler is a function on the state it serves. \<open>time.Now()\<close> is an argument: \<open>clock\<close> holds the
  instant a handler reads when it starts and the one it reads when it finishes. The error text of
  a reply is kept as the error value whose text it is.
\<close>

section \<open>Replies (internal/result)\<close>

text \<open>The body of an HTTP response: a JSON document, or bytes that are not one.\<close>

datatype http_body = BodyJson json | BodyRaw string

record partial_error =
  pe_Pod :: string
  pe_Container :: string
  pe_Reason :: string
  pe_Message :: go_error

record resource_ref =
  rr_Group :: string
  rr_Version :: string
  rr_Kind :: string
  rr_Namespace :: string
  rr_Name :: string

record error_detail =
  ed_Code :: string
  ed_Message :: go_error

record response =
  r_SchemaVersion :: string
  r_CommandID :: string
  r_CorrelationID :: string
  r_Status :: string
  r_Reason :: string
  r_HTTPStatus :: int
  r_HTTPBody :: http_body
  r_ResourceRef :: "resource_ref option"
  r_ResourceVersion :: string
  r_StartedAt :: gtime
  r_FinishedAt :: gtime
  r_Error :: "error_detail option"
  r_S3Bucket :: string
  r_S3Key :: string
  r_ByteSize :: int
  r_FileCount :: int
  r_PartialErrors :: "partial_error list"
  r_Truncated :: bool
  r_SubscriptionID :: string
  r_OutputTopic :: string
  r_IntervalSeconds :: int
  r_KeysWritten :: int
  r_KeysDeleted :: int
  r_KeysCleared :: int

abbreviation (input) StatusCompleted :: string where "StatusCompleted \<equiv> ''completed''"
abbreviation (input) StatusFailed :: string where "StatusFailed \<equiv> ''failed''"
abbreviation (input) StatusRejected :: string where "StatusRejected \<equiv> ''rejected''"
abbreviation (input) StatusExecuting :: string where "StatusExecuting \<equiv> ''executing''"

definition new_response :: "string \<Rightarrow> string \<Rightarrow> string \<Rightarrow> string \<Rightarrow> gtime \<Rightarrow> gtime \<Rightarrow> error_detail option \<Rightarrow> response" where
  "new_response cid corr st rsn started finished err =
     \<lparr> r_SchemaVersion = ''v1'', r_CommandID = cid, r_CorrelationID = corr, r_Status = st,
       r_Reason = rsn, r_HTTPStatus = 0, r_HTTPBody = BodyRaw [], r_ResourceRef = None,
       r_ResourceVersion = [], r_StartedAt = started, r_FinishedAt = finished, r_Error = err,
       r_S3Bucket = [], r_S3Key = [], r_ByteSize = 0, r_FileCount = 0, r_PartialErrors = [],
       r_Truncated = False, r_SubscriptionID = [], r_OutputTopic = [], r_IntervalSeconds = 0,
       r_KeysWritten = 0, r_KeysDeleted = 0, r_KeysCleared = 0 \<rparr>"

definition Rejected :: "string \<Rightarrow> string \<Rightarrow> string \<Rightarrow> string \<Rightarrow> go_error \<Rightarrow> gtime \<Rightarrow> gtime \<Rightarrow> response" where
  "Rejected cid corr rsn code msg started finished =
     new_response cid corr StatusRejected rsn started finished
       (Some \<lparr> ed_Code = code, ed_Message = msg \<rparr>)"

definition Failed :: "string \<Rightarrow> string \<Rightarrow> string \<Rightarrow> string \<Rightarrow> go_error \<Rightarrow> gtime \<Rightarrow> gtime \<Rightarrow> response" where
  "Failed cid corr rsn code msg started finished =
     new_response cid corr StatusFailed rsn started finished
       (Some \<lparr> ed_Code = code, ed_Message = msg \<rparr>)"

definition Completed :: "string \<Rightarrow> string \<Rightarrow> gtime \<Rightarrow> gtime \<Rightarrow> response" where
  "Completed cid corr started finished =
     new_response cid corr StatusCompleted [] started finished None"

lemmas response_defs = new_response_def Rejected_def Failed_def Completed_def

section \<open>Command types and envelope (internal/command)\<close>

abbreviation (input) TypeK8sAPI :: string where "TypeK8sAPI \<equiv> ''k8s.api''"
abbreviation (input) TypeLogsCollect :: string where "TypeLogsCollect \<equiv> ''logs.collect''"
abbreviation (input) TypeWatchSubscribe :: string where "TypeWatchSubscribe \<equiv> ''watch.subscribe''"
abbreviation (input) TypeWatchUnsubscribe :: string where "TypeWatchUnsubscribe \<equiv> ''watch.unsubscribe''"
abbreviation (input) TypeCachePut :: string where "TypeCachePut \<equiv> ''cache.put''"
abbreviation (input) TypeCacheDelete :: string where "TypeCacheDelete \<equiv> ''cache.delete''"
abbreviation (input) TypeCacheClear :: string where "TypeCacheClear \<equiv> ''cache.clear''"
abbreviation (input) TypeLogsStreamStart :: string where "TypeLogsStreamStart \<equiv> ''logs.stream.start''"
abbreviation (input) TypeLogsStreamStop :: string where "TypeLogsStreamStop \<equiv> ''logs.stream.stop''"
abbreviation (input) TypeHealthReportStart :: string where "TypeHealthReportStart \<equiv> ''health.report.start''"
abbreviation (input) TypeHealthReportStop :: string where "TypeHealthReportStop \<equiv> ''health.report.stop''"

definition SyncCommandTypes :: "string list" where
  "SyncCommandTypes =
     [TypeK8sAPI, TypeWatchSubscribe, TypeWatchUnsubscribe, TypeCachePut, TypeCacheDelete,
      TypeCacheClear, TypeLogsStreamStart, TypeLogsStreamStop, TypeHealthReportStart,
      TypeHealthReportStop]"

definition AsyncCommandTypes :: "string list" where
  "AsyncCommandTypes = [TypeLogsCollect]"

record http_request =
  hr_Method :: string
  hr_Path :: string
  hr_Query :: string
  hr_Headers :: "(string, string) gomap"
  hr_Body :: raw

record command =
  c_SchemaVersion :: string
  c_CommandID :: string
  c_Type :: string
  c_Issuer :: string
  c_IdempotencyKey :: string
  c_Timeout :: string
  c_IssuedAt :: gtime
  c_HTTP :: "http_request option"
  c_Payload :: raw

record request_meta =
  m_CorrelationID :: string
  m_ReplyTopic :: string
  m_Partition :: int
  m_Offset :: int

text \<open>\<open>json.Unmarshal\<close> into a \<open>Command\<close>; \<open>None\<close> is a type mismatch.\<close>

definition decode_http :: "obj \<Rightarrow> http_request option" where
  "decode_http kvs =
     do {
       mth \<leftarrow> fld_str ''method'' kvs;
       pth \<leftarrow> fld_str ''path'' kvs;
       qry \<leftarrow> fld_str ''query'' kvs;
       hdrs \<leftarrow> fld_str_map ''headers'' kvs;
       Some \<lparr> hr_Method = mth, hr_Path = pth, hr_Query = qry, hr_Headers = hdrs,
              hr_Body = fld_raw ''body'' kvs \<rparr>
     }"

definition decode_command :: "obj \<Rightarrow> command option" where
  "decode_command kvs =
     do {
       sv \<leftarrow> fld_str ''schema_version'' kvs;
       cid \<leftarrow> fld_str ''command_id'' kvs;
       ty \<leftarrow> fld_str ''type'' kvs;
       iss \<leftarrow> fld_str ''issuer'' kvs;
       ik \<leftarrow> fld_str ''idempotency_key'' kvs;
       tmo \<leftarrow> fld_str ''timeout'' kvs;
       at \<leftarrow> fld_time ''issued_at'' kvs;
       h \<leftarrow> fld_obj_ptr ''http'' kvs;
       http \<leftarrow> (case h of None \<Rightarrow> Some None | Some o' \<Rightarrow> map_option Some (decode_http o'));
       Some \<lparr> c_SchemaVersion = sv, c_CommandID = cid, c_Type = ty, c_Issuer = iss,
              c_IdempotencyKey = ik, c_Timeout = tmo, c_IssuedAt = at, c_HTTP = http,
              c_Payload = fld_raw ''payload'' kvs \<rparr>
     }"

definition Validate :: "command option \<Rightarrow> go_error option" where
  "Validate cmd =
     (case cmd of
        None \<Rightarrow> Some (Errorf ''command is nil'' [])
      | Some c \<Rightarrow>
          if c_SchemaVersion c \<noteq> ''v1'' then
            Some (Errorf ''unsupported schema_version %q'' [AStr (c_SchemaVersion c)])
          else if c_CommandID c = [] then Some (Errorf ''command_id is required'' [])
          else if c_Type c = [] then Some (Errorf ''type is required'' [])
          else if TrimSpace (c_Issuer c) = [] then Some (Errorf ''issuer is required'' [])
          else if c_IdempotencyKey c = [] then Some (Errorf ''idempotency_key is required'' [])
          else if c_IssuedAt c = zero_time then Some (Errorf ''issued_at is required'' [])
          else None)"

text \<open>
  \<open>parse_duration\<close> is \<open>time.ParseDuration\<close>, whose fractions are rounded in floating point: the
  duration in nanoseconds, \<open>None\<close> for text that is not a duration.
\<close>

definition TimeoutDuration :: "(string \<Rightarrow> int option) \<Rightarrow> command \<Rightarrow> int \<Rightarrow> int" where
  "TimeoutDuration parse_duration c default_timeout =
     (if c_Timeout c = [] then default_timeout
      else case parse_duration (c_Timeout c) of
             None \<Rightarrow> default_timeout
           | Some d \<Rightarrow> if d \<le> 0 then default_timeout else d)"

section \<open>Router (internal/command/router.go)\<close>

text \<open>
  What \<open>Handle\<close> may do: return a reply, return \<open>(nil, nil)\<close> because the reply comes later, return an
  error, or panic.
\<close>

datatype handled = Reply response | Async | Fail go_error | Crash

type_synonym 's handle = "'s \<Rightarrow> command \<Rightarrow> request_meta \<Rightarrow> clock \<Rightarrow> 's \<times> handled"
type_synonym 's handler = "string \<times> 's handle"
type_synonym 's router = "(string, 's handle) gomap"

definition Register :: "'s handler \<Rightarrow> 's router \<Rightarrow> 's router" where
  "Register h r = gm_put (fst h) (snd h) r"

definition NewRouter :: "'s handler list \<Rightarrow> 's router" where
  "NewRouter hs = fold Register hs []"

definition Router_Handle :: "'s router \<Rightarrow> 's \<Rightarrow> command option \<Rightarrow> request_meta \<Rightarrow> clock \<Rightarrow> 's \<times> handled" where
  "Router_Handle r s cmd m t =
     (case Validate cmd of
        Some e \<Rightarrow>
          (case cmd of
             None \<Rightarrow> (s, Crash)
           | Some c \<Rightarrow> (s, Reply (Rejected (c_CommandID c) (m_CorrelationID m) ''ValidationFailed''
                                  ''INVALID_ENVELOPE'' e (fst t) (snd t))))
      | None \<Rightarrow>
          (case cmd of
             None \<Rightarrow> (s, Crash)
           | Some c \<Rightarrow>
               (case gm_get r (c_Type c) of
                  None \<Rightarrow> (s, Reply (Rejected (c_CommandID c) (m_CorrelationID m) ''UnknownCommand''
                                ''UNKNOWN_TYPE'' (Errorf ''no handler for type %q'' [AStr (c_Type c)])
                                (fst t) (snd t)))
                | Some h \<Rightarrow> h s c m t)))"

section \<open>The contract of a handler\<close>

text \<open>
  A reply is well formed for a request when it repeats the ids of the request, has the schema
  version, one of the three final statuses, the two instants of the handler, and an error exactly
  when the command did not complete.
\<close>

definition reply_ok :: "command \<Rightarrow> request_meta \<Rightarrow> clock \<Rightarrow> response \<Rightarrow> bool" where
  "reply_ok c m t r \<longleftrightarrow>
     r_SchemaVersion r = ''v1'' \<and> r_CommandID r = c_CommandID c \<and>
     r_CorrelationID r = m_CorrelationID m \<and>
     r_Status r \<in> {StatusCompleted, StatusFailed, StatusRejected} \<and>
     (r_Error r = None \<longleftrightarrow> r_Status r = StatusCompleted) \<and>
     r_StartedAt r = fst t \<and> r_FinishedAt r = snd t"

lemma reply_ok_Rejected [simp]:
  "reply_ok c m t (Rejected (c_CommandID c) (m_CorrelationID m) rsn code msg (fst t) (snd t))"
  by (simp add: reply_ok_def response_defs)

lemma reply_ok_Failed [simp]:
  "reply_ok c m t (Failed (c_CommandID c) (m_CorrelationID m) rsn code msg (fst t) (snd t))"
  by (simp add: reply_ok_def response_defs)

lemma reply_ok_Completed [simp]:
  "reply_ok c m t (Completed (c_CommandID c) (m_CorrelationID m) (fst t) (snd t))"
  by (simp add: reply_ok_def response_defs)

lemmas reply_ok_pairs [simp] =
  reply_ok_Rejected [where t = "(a, b)" for a b, simplified]
  reply_ok_Failed [where t = "(a, b)" for a b, simplified]
  reply_ok_Completed [where t = "(a, b)" for a b, simplified]

lemma reply_ok_updates [simp]:
  "reply_ok c m t (r\<lparr>r_KeysWritten := n\<rparr>) = reply_ok c m t r"
  "reply_ok c m t (r\<lparr>r_KeysDeleted := n\<rparr>) = reply_ok c m t r"
  "reply_ok c m t (r\<lparr>r_KeysCleared := n\<rparr>) = reply_ok c m t r"
  "reply_ok c m t (r\<lparr>r_SubscriptionID := s\<rparr>) = reply_ok c m t r"
  "reply_ok c m t (r\<lparr>r_OutputTopic := s\<rparr>) = reply_ok c m t r"
  "reply_ok c m t (r\<lparr>r_IntervalSeconds := n\<rparr>) = reply_ok c m t r"
  "reply_ok c m t (r\<lparr>r_HTTPStatus := n\<rparr>) = reply_ok c m t r"
  "reply_ok c m t (r\<lparr>r_HTTPBody := b\<rparr>) = reply_ok c m t r"
  "reply_ok c m t (r\<lparr>r_ResourceVersion := s\<rparr>) = reply_ok c m t r"
  "reply_ok c m t (r\<lparr>r_S3Bucket := s\<rparr>) = reply_ok c m t r"
  "reply_ok c m t (r\<lparr>r_S3Key := s\<rparr>) = reply_ok c m t r"
  "reply_ok c m t (r\<lparr>r_ByteSize := n\<rparr>) = reply_ok c m t r"
  "reply_ok c m t (r\<lparr>r_FileCount := n\<rparr>) = reply_ok c m t r"
  "reply_ok c m t (r\<lparr>r_PartialErrors := ps\<rparr>) = reply_ok c m t r"
  "reply_ok c m t (r\<lparr>r_Truncated := tr\<rparr>) = reply_ok c m t r"
  "reply_ok c m t (r\<lparr>r_Reason := s\<rparr>) = reply_ok c m t r"
  by (simp_all add: reply_ok_def)

locale command_handler =
  fixes handle :: "'s \<Rightarrow> command \<Rightarrow> request_meta \<Rightarrow> clock \<Rightarrow> 's \<times> handled"
  assumes replies: "handle s c m t = (s', Reply r) \<Longrightarrow> reply_ok c m t r"
begin

lemma completed_iff: "handle s c m t = (s', Reply r) \<Longrightarrow> r_Status r = StatusCompleted \<longleftrightarrow> r_Error r = None"
  by (auto dest: replies simp: reply_ok_def)

end

text \<open>
  A router all of whose handlers keep the contract keeps it as a whole, and what it answers is
  decided by the envelope: an invalid one or one of an unregistered type is rejected and changes
  nothing.
\<close>

locale routed_handlers =
  fixes r :: "'s router"
  assumes handlers: "gm_get r ty = Some h \<Longrightarrow> command_handler h"
begin

lemma route_replies: "Router_Handle r s (Some c) m t = (s', Reply resp) \<Longrightarrow> reply_ok c m t resp"
  by (auto simp: Router_Handle_def split: option.splits dest: handlers command_handler.replies)

end

sublocale routed_handlers \<subseteq> command_handler "\<lambda>s c. Router_Handle r s (Some c)"
  by unfold_locales (rule route_replies)

lemma fold_Register_get:
  "gm_get (fold Register hs r) ty =
     (case map_of (rev hs) ty of None \<Rightarrow> gm_get r ty | Some h \<Rightarrow> Some h)"
  by (induction hs arbitrary: r)
     (auto simp: Register_def map_add_def split: option.splits)

lemma NewRouter_get: "gm_get (NewRouter hs) ty = map_of (rev hs) ty"
  by (simp add: NewRouter_def fold_Register_get split: option.splits)

lemma NewRouter_SomeD: "gm_get (NewRouter hs) ty = Some h \<Longrightarrow> (ty, h) \<in> set hs"
  using map_of_SomeD [of "rev hs" ty h] by (simp add: NewRouter_get)

lemma NewRouter_distinct:
  "distinct (map fst hs) \<Longrightarrow> (ty, h) \<in> set hs \<Longrightarrow> gm_get (NewRouter hs) ty = Some h"
  by (simp add: NewRouter_get rev_map [symmetric])

section \<open>Handlers on a part of the state\<close>

text \<open>A handler that serves one part of the agent, as a handler of the whole.\<close>

definition on_part :: "('s \<Rightarrow> 'a) \<Rightarrow> ('a \<Rightarrow> 's \<Rightarrow> 's) \<Rightarrow> 'a handle \<Rightarrow> 's handle" where
  "on_part sel upd h s c m t = (case h (sel s) c m t of (a, r) \<Rightarrow> (upd a s, r))"

lemma command_handler_on_part: "command_handler h \<Longrightarrow> command_handler (on_part sel upd h)"
  by unfold_locales (auto simp: on_part_def split: prod.splits dest: command_handler.replies)

end
