(* ===== verification/Policy_Path.thy ===== *)
theory Policy_Path
  imports Command_Router
begin

text \<open>
  The analysis of an apiserver path, \<open>internal/policy/path.go\<close>: the verb, the group, version and
  kind, the namespace and the name that an HTTP method and path stand for. \<open>resourceToKind\<close> slices
  the first byte of a string that may be empty, so the analysis may panic.
\<close>

record api_request =
  q_Method :: string
  q_Path :: string
  q_Verb :: string
  q_Group :: string
  q_Version :: string
  q_Kind :: string
  q_Namespace :: string
  q_Name :: string
  q_IsSecret :: bool

definition httpMethodVerb :: "string \<Rightarrow> string" where
  "httpMethodVerb m =
     (if m = ''GET'' \<or> m = ''HEAD'' then ''get''
      else if m = ''POST'' then ''create''
      else if m = ''PUT'' then ''update''
      else if m = ''PATCH'' then ''patch''
      else if m = ''DELETE'' then ''delete''
      else ToLower m)"

text \<open>The named resources of \<open>resourceToKind\<close>, plural and singular.\<close>

definition known_kinds :: "(string \<times> string) list" where
  "known_kinds =
     [(''pods'', ''Pod''), (''pod'', ''Pod''),
      (''services'', ''Service''), (''service'', ''Service''),
      (''configmaps'', ''ConfigMap''), (''configmap'', ''ConfigMap''),
      (''secrets'', ''Secret''), (''secret'', ''Secret''),
      (''events'', ''Event''), (''event'', ''Event''),
      (''deployments'', ''Deployment''), (''deployment'', ''Deployment''),
      (''deploymentconfigs'', ''DeploymentConfig''), (''deploymentconfig'', ''DeploymentConfig''),
      (''virtualservices'', ''VirtualService''), (''virtualservice'', ''VirtualService''),
      (''destinationrules'', ''DestinationRule''), (''destinationrule'', ''DestinationRule''),
      (''gateways'', ''Gateway''), (''gateway'', ''Gateway''),
      (''authorizationpolicies'', ''AuthorizationPolicy''),
      (''authorizationpolicy'', ''AuthorizationPolicy''),
      (''rolebindings'', ''RoleBinding''), (''rolebinding'', ''RoleBinding''),
      (''roles'', ''Role''), (''role'', ''Role''),
      (''namespaces'', ''Namespace''), (''namespace'', ''Namespace'')]"

definition resourceToKind :: "string \<Rightarrow> string res" where
  "resourceToKind resource =
     (case map_of known_kinds resource of
        Some k \<Rightarrow> Ok k
      | None \<Rightarrow>
          if resource = [] then Ok []
          else (case TrimSuffix resource ''s'' of
                  [] \<Rightarrow> Panic
                | c # cs \<Rightarrow> Ok (ToUpper [c] @ cs)))"

text \<open>
  The assignments that record a resource segment: its kind (the step that may panic), the mark of
  a secret and, when the path has one more segment, the name.
\<close>

definition set_resource :: "api_request \<Rightarrow> string \<Rightarrow> bool \<Rightarrow> string option \<Rightarrow> api_request res" where
  "set_resource req resource secret name =
     res_bind (resourceToKind resource) (\<lambda>k.
       Ok (req\<lparr>q_Kind := k, q_IsSecret := (if secret then True else q_IsSecret req),
               q_Name := (case name of None \<Rightarrow> q_Name req | Some n \<Rightarrow> n)\<rparr>))"

definition part :: "string list \<Rightarrow> nat \<Rightarrow> string option" where
  "part parts i = (if i < length parts then Some (parts ! i) else None)"

definition parseCoreResources :: "api_request \<Rightarrow> string list \<Rightarrow> api_request res" where
  "parseCoreResources req parts =
     (if parts = [] then Ok req
      else if parts ! 0 = ''namespaces'' then
        (if length parts = 1 then Ok (req\<lparr>q_Kind := ''Namespace''\<rparr>)
         else if length parts = 2 then
           Ok (req\<lparr>q_Kind := ''Namespace'', q_Name := parts ! 1, q_Namespace := parts ! 1\<rparr>)
         else
           set_resource (req\<lparr>q_Namespace := parts ! 1\<rparr>) (parts ! 2) (parts ! 2 = ''secrets'')
             (part parts 3))
      else
        res_bind
          (set_resource req (parts ! 0)
             (parts ! 0 = ''secrets'' \<or> HasSuffix (parts ! 0) ''/secrets'') None)
          (\<lambda>req.
             if 2 \<le> length parts \<and> parts ! 1 = ''namespaces'' then
               (if length parts < 3 then Ok req
                else if 4 \<le> length parts then
                  set_resource (req\<lparr>q_Namespace := parts ! 2\<rparr>) (parts ! 3)
                    (parts ! 3 = ''secrets'') (part parts 4)
                else Ok (req\<lparr>q_Namespace := parts ! 2\<rparr>))
             else if 2 \<le> length parts then Ok (req\<lparr>q_Name := parts ! 1\<rparr>)
             else Ok req))"

definition new_request :: "string \<Rightarrow> string \<Rightarrow> api_request" where
  "new_request method path =
     \<lparr> q_Method = method, q_Path = path, q_Verb = httpMethodVerb method, q_Group = [],
       q_Version = [], q_Kind = [], q_Namespace = [], q_Name = [], q_IsSecret = False \<rparr>"

text \<open>The switch on the first segments.\<close>

definition parse_parts :: "api_request \<Rightarrow> string list \<Rightarrow> api_request res" where
  "parse_parts req parts =
     (if length parts < 2 then Err (Errorf ''unsupported path %q'' [AStr (q_Path req)])
      else if parts ! 0 = ''api'' then
        parseCoreResources (req\<lparr>q_Group := [], q_Version := parts ! 1\<rparr>) (drop 2 parts)
      else if parts ! 0 = ''apis'' then
        (if length parts < 3 then Err (Errorf ''unsupported apis path %q'' [AStr (q_Path req)])
         else parseCoreResources (req\<lparr>q_Group := parts ! 1, q_Version := parts ! 2\<rparr>) (drop 3 parts))
      else Err (Errorf ''unsupported path prefix %q'' [AStr (parts ! 0)]))"

text \<open>The path that is analysed: trimmed, rooted, without its query.\<close>

definition clean_path :: "string \<Rightarrow> string" where
  "clean_path path =
     (let p = TrimSpace path; p = (if HasPrefix p ''/'' then p else ''/'' @ p)
      in cut_at (CHR ''?'') p)"

definition path_parts :: "string \<Rightarrow> string list" where
  "path_parts path = SplitChar (CHR ''/'') (TrimChar path (CHR ''/''))"

definition ParseAPIPath :: "string \<Rightarrow> string \<Rightarrow> api_request res" where
  "ParseAPIPath method path =
     (let method = ToUpper (TrimSpace method)
      in if method = [] \<or> TrimSpace path = [] then Err (Errorf ''method and path are required'' [])
         else parse_parts (new_request method (clean_path path)) (path_parts (clean_path path)))"

section \<open>Paths written from segments\<close>

text \<open>
  A path in the form the apiserver documents: segments without \<open>/\<close>, \<open>?\<close> and spaces joined by \<open>/\<close>,
  the first and the last not empty, and possibly a query.
\<close>

definition path_of :: "string list \<Rightarrow> string" where
  "path_of parts = ''/'' @ JoinStr parts ''/''"

definition seg_ok :: "string \<Rightarrow> bool" where
  "seg_ok p \<longleftrightarrow> list_all (\<lambda>c. c \<noteq> CHR ''/'' \<and> c \<noteq> CHR ''?'' \<and> \<not> is_space c) p"

definition parts_ok :: "string list \<Rightarrow> bool" where
  "parts_ok parts \<longleftrightarrow> parts \<noteq> [] \<and> list_all seg_ok parts \<and> hd parts \<noteq> [] \<and> last parts \<noteq> []"

definition query_ok :: "string \<Rightarrow> bool" where
  "query_ok q \<longleftrightarrow> q = [] \<or> hd q = CHR ''?''"

lemma JoinStr_hd: "parts_ok parts \<Longrightarrow> JoinStr parts s \<noteq> [] \<and> hd (JoinStr parts s) = hd (hd parts)"
  by (cases parts; cases "tl parts") (auto simp: parts_ok_def JoinStr_Cons)

lemma JoinStr_last: "parts \<noteq> [] \<Longrightarrow> last parts \<noteq> [] \<Longrightarrow> JoinStr parts s \<noteq> [] \<and> last (JoinStr parts s) = last (last parts)"
proof (induction parts)
  case (Cons x xs)
  then show ?case by (cases "xs = []") (auto simp: JoinStr_Cons)
qed simp

lemma seg_okD: "seg_ok p \<Longrightarrow> c \<in> set p \<Longrightarrow> c \<noteq> CHR ''/'' \<and> c \<noteq> CHR ''?'' \<and> \<not> is_space c"
  by (auto simp: seg_ok_def list_all_iff)

lemma JoinStr_set: "c \<in> set (JoinStr parts s) \<Longrightarrow> c \<in> set s \<or> (\<exists>p \<in> set parts. c \<in> set p)"
  by (induction parts s rule: JoinStr.induct) auto

lemma path_of_no_query: "parts_ok parts \<Longrightarrow> CHR ''?'' \<notin> set (path_of parts)"
  by (auto simp: path_of_def parts_ok_def list_all_iff dest!: JoinStr_set seg_okD)

lemma parts_ends:
  assumes "parts_ok parts"
  shows "hd (hd parts) \<noteq> CHR ''/''" "last (last parts) \<noteq> CHR ''/''" "\<not> is_space (last (last parts))"
proof -
  have h: "seg_ok (hd parts)" "hd parts \<noteq> []" and l: "seg_ok (last parts)" "last parts \<noteq> []"
    using assms by (auto simp: parts_ok_def list_all_iff)
  show "hd (hd parts) \<noteq> CHR ''/''" using seg_okD [OF h(1), of "hd (hd parts)"] h(2) by simp
  show "last (last parts) \<noteq> CHR ''/''" "\<not> is_space (last (last parts))"
    using seg_okD [OF l(1), of "last (last parts)"] l(2) by simp_all
qed

lemma not_space_slash [simp]: "\<not> is_space (CHR ''/'')" "\<not> is_space (CHR ''?'')"
  by (simp_all add: is_space_def)

lemma trim_func_append_q:
  assumes "s \<noteq> []" "\<not> p (hd s)" "\<not> p x"
  shows "\<exists>r. trim_func p (s @ x # q) = s @ x # r"
proof -
  have "dropWhile p (s @ x # q) = s @ x # q" using assms by (cases s) auto
  moreover have "dropWhile p (rev q @ x # rev s) = dropWhile p (rev q) @ x # rev s"
    using assms(3) by (induction "rev q") (auto simp: dropWhile_append dropWhile_append3)
  ultimately show ?thesis by (simp add: trim_func_def)
qed

lemma path_of_rooted: "HasPrefix (path_of parts) ''/''" "HasPrefix (path_of parts @ q) ''/''"
  by (simp_all add: path_of_def)

lemma clean_path_of:
  assumes "parts_ok parts" and "query_ok q"
  shows "clean_path (path_of parts @ q) = path_of parts"
proof -
  let ?p = "path_of parts"
  have p: "?p \<noteq> []" "hd ?p = CHR ''/''" by (simp_all add: path_of_def)
  have last: "\<not> is_space (last ?p)"
    using assms(1) parts_ends(3) [OF assms(1)] JoinStr_last [of parts "''/''"]
    by (auto simp: path_of_def parts_ok_def)
  have noq: "CHR ''?'' \<notin> set ?p" using assms(1) by (rule path_of_no_query)
  show ?thesis
  proof (cases q)
    case Nil
    have "TrimSpace ?p = ?p" using p last by (simp add: TrimSpace_id)
    then show ?thesis using Nil noq by (simp add: clean_path_def cut_at_no path_of_rooted)
  next
    case (Cons x r)
    then have "x = CHR ''?''" using assms(2) by (simp add: query_ok_def)
    then obtain r' where "TrimSpace (?p @ q) = ?p @ CHR ''?'' # r'"
      using trim_func_append_q [of ?p is_space "CHR ''?''" r] p Cons by (auto simp: TrimSpace_def)
    then show ?thesis using noq by (simp add: clean_path_def cut_at_append path_of_rooted)
  qed
qed

lemma path_parts_of: "parts_ok parts \<Longrightarrow> path_parts (path_of parts) = parts"
proof -
  assume ok: "parts_ok parts"
  let ?j = "JoinStr parts ''/''"
  have "?j \<noteq> []" "hd ?j = hd (hd parts)" using JoinStr_hd [OF ok] by auto
  moreover have "last ?j = last (last parts)"
    using ok JoinStr_last [of parts "''/''"] by (auto simp: parts_ok_def)
  ultimately have "trim_func (\<lambda>d. d = CHR ''/'') ?j = ?j"
    using parts_ends [OF ok] by (intro trim_func_id) auto
  then have "TrimChar (path_of parts) (CHR ''/'') = ?j"
    by (simp add: TrimChar_def path_of_def trim_func_def)
  moreover have "\<forall>x \<in> set parts. CHR ''/'' \<notin> set x"
    using ok by (auto simp: parts_ok_def list_all_iff dest: seg_okD)
  ultimately show ?thesis
    using ok by (simp add: path_parts_def Split_Join parts_ok_def)
qed

lemma TrimSpace_path_of: "parts_ok parts \<Longrightarrow> query_ok q \<Longrightarrow> TrimSpace (path_of parts @ q) \<noteq> []"
  using clean_path_of [of parts q] JoinStr_hd [of parts "''/''"]
  by (auto simp: clean_path_def cut_at_def path_of_def split: if_splits)

lemma set_resource_Ok:
  assumes "set_resource req r secret name = Ok req'"
  shows "q_IsSecret req' \<longleftrightarrow> secret \<or> q_IsSecret req" "q_Namespace req' = q_Namespace req"
    "resourceToKind r = Ok (q_Kind req')"
  using assms by (auto simp: set_resource_def split: if_splits)

lemma set_resource_Panic: "set_resource req r secret name = Panic \<longleftrightarrow> resourceToKind r = Panic"
  by (simp add: set_resource_def res_bind_eq_Panic)

lemma TrimSuffix_s_Nil: "TrimSuffix r ''s'' = [] \<longleftrightarrow> r \<in> {[], ''s''}"
  by (cases r rule: rev_cases) (auto simp: TrimSuffix_def HasSuffix_def)

lemma resourceToKind_Panic: "resourceToKind r = Panic \<longleftrightarrow> r = ''s''"
proof
  assume "resourceToKind r = Panic"
  then have "r \<noteq> []" and "TrimSuffix r ''s'' = []"
    by (auto simp: resourceToKind_def split: option.splits list.splits if_splits)
  then show "r = ''s''" by (auto simp: TrimSuffix_s_Nil)
next
  assume r: "r = ''s''"
  have "map_of known_kinds ''s'' = None" by code_simp
  then show "resourceToKind r = Panic"
    using TrimSuffix_s_Nil [of "''s''"] by (simp add: r resourceToKind_def)
qed

text \<open>The analysis of such a path is the switch on its segments; the query plays no part.\<close>

lemma ParseAPIPath_path_of:
  assumes "parts_ok parts" and "query_ok q" and "TrimSpace m \<noteq> []"
  shows "ParseAPIPath m (path_of parts @ q)
           = parse_parts (new_request (ToUpper (TrimSpace m)) (path_of parts)) parts"
  using assms
  by (simp add: ParseAPIPath_def clean_path_of path_parts_of TrimSpace_path_of ToUpper_def Let_def)

end
