(* ===== verification/Features.thy ===== *)
theory Features
  imports Command_Router
begin

text \<open>
  Capability groups, \<open>internal/features/features.go\<close>: the groups of features.yaml, the merge of the
  enabled ones into the lists of allowed command types and resource kinds, and the registry that
  answers whether a group or a command type is on.

  A set built in a Go map is a list without repetitions, in the order one \<open>range\<close> visits it. The
  file system is the parameter \<open>read\<close>, the YAML decoder of \<open>gopkg.in/yaml.v3\<close> the parameter \<open>yaml\<close>.
\<close>

record gvk =
  g_Group :: string
  g_Version :: string
  g_Kind :: string

record feature =
  f_Enabled :: bool
  f_Description :: string
  f_RBACRole :: string
  f_CommandTypes :: "string list"
  f_AllowedGVK :: "gvk list"

type_synonym features_config = "(string, feature) gomap"

text \<open>\<open>None\<close> is a nil map.\<close>

record feat_registry =
  fr_enabled :: "string set option"
  fr_byCmd :: "string set option"

definition features_Load ::
  "(string \<Rightarrow> file_read) \<Rightarrow> (string \<Rightarrow> go_error + features_config) \<Rightarrow> string
     \<Rightarrow> go_error + features_config option" where
  "features_Load read yaml path =
     (if path = [] then Inr None
      else case read path of
        Missing \<Rightarrow> Inr None
      | Unreadable e \<Rightarrow> Inl (Errorf ''read features file: %w'' [AErr e])
      | Contents d \<Rightarrow>
          (case yaml d of
             Inl e \<Rightarrow> Inl (Errorf ''parse features file: %w'' [AErr e])
           | Inr cfg \<Rightarrow>
               if gm_len cfg = 0
               then Inl (Errorf ''features file %s: no features defined'' [AStr path])
               else Inr (Some cfg)))"

record apply_result =
  ar_CommandTypes :: "string list"
  ar_AllowedGVK :: "gvk list"
  ar_Registry :: feat_registry

definition add_commands :: "string list \<Rightarrow> string list \<Rightarrow> string list" where
  "add_commands cmds cmdSet = fold (\<lambda>c. List.insert (TrimSpace c)) cmds cmdSet"

definition add_gvks :: "gvk list \<Rightarrow> gvk list \<Rightarrow> gvk list" where
  "add_gvks gs gvkSet = fold (\<lambda>g s. if g_Kind g = [] then s else List.insert g s) gs gvkSet"

text \<open>The loop over \<open>featCfg.Features\<close>: the enabled groups, the command types and the kinds.\<close>

fun merge_features ::
  "(string \<times> feature) list \<Rightarrow> string list \<Rightarrow> string list \<Rightarrow> gvk list
     \<Rightarrow> go_error + (string list \<times> string list \<times> gvk list)" where
  "merge_features [] enabledFeatures cmdSet gvkSet = Inr (enabledFeatures, cmdSet, gvkSet)"
| "merge_features ((name, feat) # fs) enabledFeatures cmdSet gvkSet =
     (if \<not> f_Enabled feat then merge_features fs enabledFeatures cmdSet gvkSet
      else if f_CommandTypes feat = [] then
        Inl (Errorf ''feature %q: command_types is required when enabled'' [AStr name])
      else merge_features fs (List.insert name enabledFeatures)
             (add_commands (f_CommandTypes feat) cmdSet)
             (add_gvks (f_AllowedGVK feat) gvkSet))"

definition allEnabledRegistry :: feat_registry where
  "allEnabledRegistry =
     \<lparr> fr_enabled = None,
       fr_byCmd = Some (set
         [TypeK8sAPI, TypeLogsCollect, TypeWatchSubscribe, TypeWatchUnsubscribe, TypeCachePut,
          TypeCacheDelete, TypeCacheClear, TypeLogsStreamStart, TypeLogsStreamStop,
          TypeHealthReportStart, TypeHealthReportStop]) \<rparr>"

definition Apply :: "features_config option \<Rightarrow> go_error + apply_result" where
  "Apply featCfg =
     (case featCfg of
        None \<Rightarrow> Inr \<lparr> ar_CommandTypes = [], ar_AllowedGVK = [], ar_Registry = allEnabledRegistry \<rparr>
      | Some cfg \<Rightarrow>
          if gm_len cfg = 0
          then Inr \<lparr> ar_CommandTypes = [], ar_AllowedGVK = [], ar_Registry = allEnabledRegistry \<rparr>
          else case merge_features cfg [] [] [] of
            Inl e \<Rightarrow> Inl e
          | Inr (en, outCmds, outGVK) \<Rightarrow>
              if outCmds = [] then
                Inl (Errorf ''features: at least one feature must be enabled'' [])
              else if TypeK8sAPI \<in> set outCmds \<and> outGVK = [] then
                Inl (Errorf ''features: enabled k8s.api requires allowed_gvk on at least one feature'' [])
              else if TypeWatchSubscribe \<in> set outCmds \<and> outGVK = [] then
                Inl (Errorf ''features: enabled watch requires allowed_gvk on watch_events or another feature'' [])
              else Inr \<lparr> ar_CommandTypes = outCmds, ar_AllowedGVK = outGVK,
                         ar_Registry = \<lparr> fr_enabled = Some (set en), fr_byCmd = Some (set outCmds) \<rparr> \<rparr>)"

definition feat_Enabled :: "feat_registry option \<Rightarrow> string \<Rightarrow> bool" where
  "feat_Enabled r name =
     (case r of None \<Rightarrow> True
      | Some reg \<Rightarrow> (case fr_enabled reg of None \<Rightarrow> True | Some en \<Rightarrow> name \<in> en))"

definition CommandEnabled :: "feat_registry option \<Rightarrow> string \<Rightarrow> bool" where
  "CommandEnabled r commandType =
     (case r of None \<Rightarrow> True
      | Some reg \<Rightarrow> (case fr_byCmd reg of None \<Rightarrow> True | Some cs \<Rightarrow> commandType \<in> cs))"

definition EnabledFeatures :: "feat_registry option \<Rightarrow> features_config option \<Rightarrow> string list" where
  "EnabledFeatures r featCfg =
     (case featCfg of None \<Rightarrow> []
      | Some cfg \<Rightarrow> map fst (filter (\<lambda>(name, feat). f_Enabled feat) cfg))"

section \<open>Properties\<close>

text \<open>What an enabled group contributes.\<close>

definition offers :: "features_config \<Rightarrow> string \<Rightarrow> bool" where
  "offers cfg cmd \<longleftrightarrow>
     (\<exists>(name, feat) \<in> set cfg. f_Enabled feat \<and> cmd \<in> TrimSpace ` set (f_CommandTypes feat))"

definition offers_gvk :: "features_config \<Rightarrow> gvk \<Rightarrow> bool" where
  "offers_gvk cfg g \<longleftrightarrow>
     g_Kind g \<noteq> [] \<and> (\<exists>(name, feat) \<in> set cfg. f_Enabled feat \<and> g \<in> set (f_AllowedGVK feat))"

lemma set_add_commands [simp]: "set (add_commands cmds cs) = TrimSpace ` set cmds \<union> set cs"
  unfolding add_commands_def by (induction cmds arbitrary: cs) auto

lemma set_add_gvks [simp]: "set (add_gvks gs s) = {g \<in> set gs. g_Kind g \<noteq> []} \<union> set s"
  unfolding add_gvks_def by (induction gs arbitrary: s) auto

lemma merge_features_Inr:
  assumes "merge_features cfg en cs gs = Inr (en', cs', gs')"
  shows "set en' = set en \<union> {n. \<exists>f. (n, f) \<in> set cfg \<and> f_Enabled f} \<and>
         set cs' = set cs \<union> {c. offers cfg c} \<and>
         set gs' = set gs \<union> {g. offers_gvk cfg g}"
  using assms
proof (induction cfg en cs gs rule: merge_features.induct)
  case (2 name feat fs en cs gs)
  then show ?case
    by (auto simp: offers_def offers_gvk_def split: if_splits)
qed (auto simp: offers_def offers_gvk_def)

lemma Apply_registry:
  assumes "Apply (Some cfg) = Inr res" and "gm_len cfg \<noteq> 0"
  shows "CommandEnabled (Some (ar_Registry res)) cmd \<longleftrightarrow> offers cfg cmd"
    and "set (ar_CommandTypes res) = {c. offers cfg c}"
    and "set (ar_AllowedGVK res) = {g. offers_gvk cfg g}"
    and "feat_Enabled (Some (ar_Registry res)) n \<longleftrightarrow> (\<exists>f. (n, f) \<in> set cfg \<and> f_Enabled f)"
    and "ar_CommandTypes res \<noteq> []"
  using assms
  by (auto simp: Apply_def CommandEnabled_def feat_Enabled_def
      split: sum.splits if_splits prod.splits dest!: merge_features_Inr)

lemma Apply_gvk_nonempty:
  assumes "Apply (Some cfg) = Inr res" and "gm_len cfg \<noteq> 0"
    and "CommandEnabled (Some (ar_Registry res)) c" and "c \<in> {TypeK8sAPI, TypeWatchSubscribe}"
  shows "ar_AllowedGVK res \<noteq> []"
  using assms
  by (auto simp: Apply_def CommandEnabled_def split: sum.splits if_splits prod.splits)

end
