(* ===== verification/Policy_Engine.thy ===== *)
theory Policy_Engine
  imports Policy_Path Features
begin

text \<open>
  The allow-list, \<open>internal/policy/engine.go\<close>: the configuration read from policy.yaml, the engine
  built from it and its checks. The lookup tables of the engine are sets. The checks return the
  Go error, \<open>None\<close> for nil; \<open>AllowHTTP\<close> may also panic, in the analysis of the path.
\<close>

record policy_config =
  pc_AllowedGVK :: "gvk list"
  pc_AllowedVerbs :: "string list"
  pc_AllowedNamespaces :: "string list"
  pc_AllowedCommandTypes :: "string list"
  pc_AllowedIssuers :: "string list"
  pc_AllowedReplyTopics :: "string list"
  pc_AllowedReplyTopicPrefixes :: "string list"
  pc_DenySecrets :: bool

record engine =
  e_cfg :: policy_config
  e_ns :: "string set"
  e_gvk :: "gvk set"
  e_verb :: "string set"
  e_cmd :: "string set"
  e_issuer :: "string set"
  e_reply :: "string set"
  e_replyPrefix :: "string list"

definition with_defaults :: "policy_config \<Rightarrow> policy_config" where
  "with_defaults cfg =
     (let cfg = cfg\<lparr>pc_DenySecrets := True\<rparr>;
          cfg = (if pc_AllowedVerbs cfg = []
                 then cfg\<lparr>pc_AllowedVerbs := [''get'', ''list'', ''watch'', ''create'', ''update'',
                                             ''patch'', ''delete'', ''apply'']\<rparr>
                 else cfg)
      in if pc_AllowedCommandTypes cfg = []
         then cfg\<lparr>pc_AllowedCommandTypes := [''k8s.api'']\<rparr> else cfg)"

text \<open>The loop that fills \<open>e.ns\<close>.\<close>

fun add_namespaces :: "string list \<Rightarrow> string set \<Rightarrow> go_error + string set" where
  "add_namespaces [] s = Inr s"
| "add_namespaces (n # ns) s =
     (let n = TrimSpace n
      in if n = [] \<or> n = ''*'' then Inl (Errorf ''wildcard namespace is not allowed'' [])
         else add_namespaces ns (insert n s))"

definition NewEngine :: "policy_config \<Rightarrow> go_error + engine" where
  "NewEngine cfg0 =
     (let cfg = with_defaults cfg0
      in case add_namespaces (pc_AllowedNamespaces cfg) {} of
           Inl e \<Rightarrow> Inl e
         | Inr ns \<Rightarrow>
             Inr \<lparr> e_cfg = cfg, e_ns = ns, e_gvk = set (pc_AllowedGVK cfg),
                   e_verb = set (map ToLower (pc_AllowedVerbs cfg)),
                   e_cmd = set (pc_AllowedCommandTypes cfg),
                   e_issuer = set (filter (\<lambda>i. i \<noteq> []) (map TrimSpace (pc_AllowedIssuers cfg))),
                   e_reply = set (filter (\<lambda>i. i \<noteq> []) (map TrimSpace (pc_AllowedReplyTopics cfg))),
                   e_replyPrefix = pc_AllowedReplyTopicPrefixes cfg \<rparr>)"

text \<open>
  Reading of the two files both loaders start with; \<open>read\<close> is the file system, \<open>yaml\<close> and
  \<open>yaml_ns\<close> the YAML decoder at the two struct types.
\<close>

definition read_policy ::
  "(string \<Rightarrow> file_read) \<Rightarrow> (string \<Rightarrow> go_error + policy_config) \<Rightarrow> (string \<Rightarrow> go_error + string list)
     \<Rightarrow> string \<Rightarrow> string \<Rightarrow> go_error + policy_config" where
  "read_policy read yaml yaml_ns policyFile namespacesFile =
     (case read_file read policyFile of
        Inl e \<Rightarrow> Inl (Errorf ''read policy file: %w'' [AErr e])
      | Inr d \<Rightarrow>
          (case yaml d of
             Inl e \<Rightarrow> Inl (Errorf ''parse policy file: %w'' [AErr e])
           | Inr cfg \<Rightarrow>
               if namespacesFile = [] then Inr cfg
               else case read_file read namespacesFile of
                 Inl e \<Rightarrow> Inl (Errorf ''read namespaces file: %w'' [AErr e])
               | Inr nd \<Rightarrow>
                   (case yaml_ns nd of
                      Inl e \<Rightarrow> Inl (Errorf ''parse namespaces file: %w'' [AErr e])
                    | Inr nss \<Rightarrow>
                        Inr (if nss \<noteq> [] then cfg\<lparr>pc_AllowedNamespaces := nss\<rparr> else cfg))))"

definition LoadFromFiles ::
  "(string \<Rightarrow> file_read) \<Rightarrow> (string \<Rightarrow> go_error + policy_config) \<Rightarrow> (string \<Rightarrow> go_error + string list)
     \<Rightarrow> string \<Rightarrow> string \<Rightarrow> go_error + engine" where
  "LoadFromFiles read yaml yaml_ns policyFile namespacesFile =
     sum_bind (read_policy read yaml yaml_ns policyFile namespacesFile) NewEngine"

definition LoadFromFilesWithFeatures ::
  "(string \<Rightarrow> file_read) \<Rightarrow> (string \<Rightarrow> go_error + policy_config) \<Rightarrow> (string \<Rightarrow> go_error + string list)
     \<Rightarrow> (string \<Rightarrow> go_error + features_config) \<Rightarrow> string \<Rightarrow> string \<Rightarrow> string
     \<Rightarrow> go_error + (engine \<times> feat_registry)" where
  "LoadFromFilesWithFeatures read yaml yaml_ns yaml_feat policyFile namespacesFile featuresFile =
     sum_bind (read_policy read yaml yaml_ns policyFile namespacesFile) (\<lambda>cfg.
     sum_bind (features_Load read yaml_feat featuresFile) (\<lambda>featCfg.
     sum_bind (Apply featCfg) (\<lambda>featRes.
       let cfg = (if featCfg \<noteq> None then
                    let cfg = cfg\<lparr>pc_AllowedCommandTypes := ar_CommandTypes featRes\<rparr>
                    in if ar_AllowedGVK featRes \<noteq> []
                       then cfg\<lparr>pc_AllowedGVK := ar_AllowedGVK featRes\<rparr> else cfg
                  else cfg)
       in sum_bind (NewEngine cfg) (\<lambda>engine. Inr (engine, ar_Registry featRes)))))"

definition AllowCommandType :: "engine \<Rightarrow> string \<Rightarrow> go_error option" where
  "AllowCommandType e commandType =
     (if commandType \<in> e_cmd e then None
      else Some (Errorf ''command type %q is not allowed'' [AStr commandType]))"

definition allowNamespace :: "engine \<Rightarrow> string \<Rightarrow> go_error option" where
  "allowNamespace e ns =
     (if e_ns e = {} then None
      else if ns \<in> e_ns e then None
      else Some (Errorf ''namespace %q is not allowed'' [AStr ns]))"

definition AllowNamespace :: "engine \<Rightarrow> string \<Rightarrow> go_error option" where
  "AllowNamespace e ns = allowNamespace e ns"

definition AllowHTTP :: "engine \<Rightarrow> string \<Rightarrow> string \<Rightarrow> unit res" where
  "AllowHTTP e method path =
     res_bind (ParseAPIPath method path) (\<lambda>req.
       if pc_DenySecrets (e_cfg e) \<and> q_IsSecret req then Err (Errorf ''secret access is denied'' [])
       else
         case (if q_Namespace req \<noteq> [] then allowNamespace e (q_Namespace req) else None) of
           Some err \<Rightarrow> Err err
         | None \<Rightarrow>
             if q_Verb req \<noteq> [] \<and> ToLower (q_Verb req) \<notin> e_verb e then
               Err (Errorf ''verb %q is not allowed'' [AStr (q_Verb req)])
             else if e_gvk e \<noteq> {} then
               (if q_Kind req = [] then
                  Err (Errorf ''resource kind could not be determined for path %q'' [AStr path])
                else if \<lparr> g_Group = q_Group req, g_Version = q_Version req, g_Kind = q_Kind req \<rparr> \<notin> e_gvk e
                then Err (Errorf ''resource %s/%s/%s is not allowed''
                       [AStr (q_Group req), AStr (q_Version req), AStr (q_Kind req)])
                else Ok ())
             else Ok ())"

definition AllowIssuer :: "engine \<Rightarrow> string \<Rightarrow> go_error option" where
  "AllowIssuer e issuer =
     (if e_issuer e = {} then None
      else let issuer = TrimSpace issuer
           in if issuer \<in> e_issuer e then None
              else Some (Errorf ''issuer %q is not allowed'' [AStr issuer]))"

definition AllowReplyTopic :: "engine \<Rightarrow> string \<Rightarrow> go_error option" where
  "AllowReplyTopic e topic =
     (if e_reply e = {} \<and> e_replyPrefix e = [] then None
      else let topic = TrimSpace topic
           in if topic = [] then Some (Errorf ''reply_topic is required'' [])
              else if topic \<in> e_reply e then None
              else if list_ex (\<lambda>prefix. prefix \<noteq> [] \<and> HasPrefix topic prefix) (e_replyPrefix e)
              then None
              else Some (Errorf ''reply topic %q is not allowed'' [AStr topic]))"

definition AllowGVK :: "engine \<Rightarrow> gvk \<Rightarrow> go_error option" where
  "AllowGVK e g =
     (if e_gvk e = {} then None
      else if g_Kind g = [] then Some (Errorf ''resource kind is required'' [])
      else if g \<in> e_gvk e then None
      else Some (Errorf ''resource %s/%s/%s is not allowed''
                   [AStr (g_Group g), AStr (g_Version g), AStr (g_Kind g)]))"

definition AllowedNamespaces :: "engine \<Rightarrow> string list" where
  "AllowedNamespaces e = pc_AllowedNamespaces (e_cfg e)"

section \<open>The engine built from a configuration\<close>

lemma add_namespaces_Inr:
  "add_namespaces ns s = Inr s' \<longleftrightarrow>
     (\<forall>n \<in> set ns. TrimSpace n \<notin> {[], ''*''}) \<and> s' = TrimSpace ` set ns \<union> s"
  by (induction ns arbitrary: s) (auto simp: Let_def)

lemma add_namespaces_Inl: "add_namespaces ns s = Inl err \<Longrightarrow> err = Errorf ''wildcard namespace is not allowed'' []"
  by (induction ns arbitrary: s) (auto simp: Let_def split: if_splits)

lemma with_defaults_keeps [simp]:
  "pc_AllowedNamespaces (with_defaults cfg) = pc_AllowedNamespaces cfg"
  "pc_AllowedGVK (with_defaults cfg) = pc_AllowedGVK cfg"
  "pc_AllowedIssuers (with_defaults cfg) = pc_AllowedIssuers cfg"
  "pc_AllowedReplyTopics (with_defaults cfg) = pc_AllowedReplyTopics cfg"
  "pc_AllowedReplyTopicPrefixes (with_defaults cfg) = pc_AllowedReplyTopicPrefixes cfg"
  "pc_DenySecrets (with_defaults cfg)"
  "pc_AllowedCommandTypes (with_defaults cfg) =
     (if pc_AllowedCommandTypes cfg = [] then [''k8s.api''] else pc_AllowedCommandTypes cfg)"
  by (simp_all add: with_defaults_def Let_def)

lemma NewEngine_Inr:
  assumes "NewEngine cfg = Inr e"
  shows "e_ns e = TrimSpace ` set (pc_AllowedNamespaces cfg)"
    and "e_gvk e = set (pc_AllowedGVK cfg)"
    and "pc_DenySecrets (e_cfg e)"
    and "e_cmd e = (if pc_AllowedCommandTypes cfg = [] then {''k8s.api''}
                    else set (pc_AllowedCommandTypes cfg))"
    and "e_issuer e = TrimSpace ` set (pc_AllowedIssuers cfg) - {[]}"
    and "e_reply e = TrimSpace ` set (pc_AllowedReplyTopics cfg) - {[]}"
    and "e_replyPrefix e = pc_AllowedReplyTopicPrefixes cfg"
proof -
  obtain ns where ns: "add_namespaces (pc_AllowedNamespaces cfg) {} = Inr ns"
    using assms by (auto simp: NewEngine_def Let_def split: sum.splits)
  then have n: "ns = TrimSpace ` set (pc_AllowedNamespaces cfg)" by (simp add: add_namespaces_Inr)
  have f: "set (filter (\<lambda>i. i \<noteq> []) (map TrimSpace xs)) = TrimSpace ` set xs - {[]}" for xs
    by auto
  note e = assms [unfolded NewEngine_def Let_def with_defaults_keeps(1) ns sum.case
      sum.inject f, symmetric]
  show "e_ns e = TrimSpace ` set (pc_AllowedNamespaces cfg)" by (simp add: e n)
  show "e_gvk e = set (pc_AllowedGVK cfg)" by (simp add: e)
  show "pc_DenySecrets (e_cfg e)" by (simp add: e)
  show "e_cmd e = (if pc_AllowedCommandTypes cfg = [] then {''k8s.api''}
                   else set (pc_AllowedCommandTypes cfg))" by (simp add: e)
  show "e_issuer e = TrimSpace ` set (pc_AllowedIssuers cfg) - {[]}" by (simp add: e)
  show "e_reply e = TrimSpace ` set (pc_AllowedReplyTopics cfg) - {[]}" by (simp add: e)
  show "e_replyPrefix e = pc_AllowedReplyTopicPrefixes cfg" by (simp add: e)
qed

lemma NewEngine_ns:
  assumes "NewEngine cfg = Inr e" and "n \<in> e_ns e"
  shows "n \<noteq> []" and "n \<noteq> ''*''"
proof -
  have "\<forall>n \<in> set (pc_AllowedNamespaces cfg). TrimSpace n \<notin> {[], ''*''}"
    using assms(1) by (simp add: NewEngine_def Let_def add_namespaces_Inr split: sum.splits)
  then show "n \<noteq> []" and "n \<noteq> ''*''"
    using assms(2) by (auto simp: NewEngine_Inr(1) [OF assms(1)])
qed

lemma NewEngine_error:
  assumes "NewEngine cfg = Inl err"
  shows "\<exists>n \<in> set (pc_AllowedNamespaces cfg). TrimSpace n \<in> {[], ''*''}"
  using assms add_namespaces_Inr [of "pc_AllowedNamespaces cfg" "{}"]
  by (auto simp: NewEngine_def Let_def split: sum.splits)

section \<open>What a path is taken for\<close>

text \<open>The segments after the group and version, for both prefixes.\<close>

fun resource_parts :: "string list \<Rightarrow> string list option" where
  "resource_parts (p # v # rest) =
     (if p = ''api'' then Some rest
      else if p = ''apis'' then (case rest of [] \<Rightarrow> None | _ # rest' \<Rightarrow> Some rest')
      else None)"
| "resource_parts _ = None"

lemma parse_parts_resource:
  assumes "resource_parts parts = Some rest"
  shows "\<exists>g v. parse_parts req parts = parseCoreResources (req\<lparr>q_Group := g, q_Version := v\<rparr>) rest"
  using assms
  by (cases parts rule: resource_parts.cases)
     (auto simp: parse_parts_def split: if_splits list.splits)

text \<open>A path to secrets: of the cluster, or of a namespace.\<close>

fun names_secrets :: "string list \<Rightarrow> bool" where
  "names_secrets (r # rest) =
     (r = ''secrets'' \<or> r = ''namespaces'' \<and> 2 \<le> length rest \<and> rest ! 1 = ''secrets'')"
| "names_secrets [] = False"

lemma names_secrets_cases:
  assumes "names_secrets rest"
  obtains (cluster) rs where "rest = ''secrets'' # rs"
    | (namespaced) ns rs where "rest = ''namespaces'' # ns # ''secrets'' # rs"
proof (cases rest)
  case (Cons r rs)
  then show thesis using assms that by (cases rs; cases "tl rs") auto
qed (use assms in simp)

lemma parseCore_cluster_secret:
  assumes "parseCoreResources req (''secrets'' # rs) = Ok req'"
  shows "q_IsSecret req'"
proof -
  obtain req1 where r: "set_resource req ''secrets'' True None = Ok req1"
    using assms by (auto simp: parseCoreResources_def)
  then have "q_IsSecret req1" by (simp add: set_resource_Ok(1))
  then show ?thesis using assms r
    by (auto simp: parseCoreResources_def dest!: set_resource_Ok(1) split: if_splits)
qed

lemma parseCore_secret:
  assumes "names_secrets rest" and "parseCoreResources req rest = Ok req'"
  shows "q_IsSecret req'"
  using assms(1)
proof (cases rule: names_secrets_cases)
  case (cluster rs)
  then show ?thesis using assms(2) parseCore_cluster_secret by blast
next
  case (namespaced ns rs)
  then show ?thesis using assms(2)
    by (simp add: parseCoreResources_def set_resource_Ok(1))
qed

lemma parseCore_namespace:
  assumes "parseCoreResources req (''namespaces'' # ns # rest) = Ok req'"
  shows "q_Namespace req' = ns"
  using assms by (cases rest) (auto simp: parseCoreResources_def dest!: set_resource_Ok(2))

lemma AllowHTTP_OkD:
  assumes "AllowHTTP e m p = Ok ()"
  obtains req where "ParseAPIPath m p = Ok req"
    and "\<not> (pc_DenySecrets (e_cfg e) \<and> q_IsSecret req)"
    and "q_Namespace req \<noteq> [] \<Longrightarrow> allowNamespace e (q_Namespace req) = None"
    and "q_Verb req \<noteq> [] \<Longrightarrow> ToLower (q_Verb req) \<in> e_verb e"
    and "e_gvk e \<noteq> {} \<Longrightarrow>
           \<lparr> g_Group = q_Group req, g_Version = q_Version req, g_Kind = q_Kind req \<rparr> \<in> e_gvk e"
  using assms by (auto simp: AllowHTTP_def split: if_splits option.splits)

lemma AllowHTTP_OkI:
  assumes "ParseAPIPath m p = Ok req"
    and "\<not> (pc_DenySecrets (e_cfg e) \<and> q_IsSecret req)"
    and "q_Namespace req \<noteq> [] \<Longrightarrow> allowNamespace e (q_Namespace req) = None"
    and "q_Verb req \<noteq> [] \<Longrightarrow> ToLower (q_Verb req) \<in> e_verb e"
    and "e_gvk e \<noteq> {} \<Longrightarrow> q_Kind req \<noteq> [] \<and>
           \<lparr> g_Group = q_Group req, g_Version = q_Version req, g_Kind = q_Kind req \<rparr> \<in> e_gvk e"
  shows "AllowHTTP e m p = Ok ()"
  using assms by (auto simp: AllowHTTP_def split: option.splits)

lemma ParseAPIPath_method: "ParseAPIPath m p = Ok req \<Longrightarrow> TrimSpace m \<noteq> []"
  by (auto simp: ParseAPIPath_def ToUpper_def split: if_splits)

text \<open>An allowed path made of segments was analysed by the switch on its segments.\<close>

lemma AllowHTTP_path_of:
  assumes "AllowHTTP e m (path_of parts @ q) = Ok ()" and "parts_ok parts" and "query_ok q"
    and "resource_parts parts = Some rest"
  obtains req0 req where "parseCoreResources req0 rest = Ok req"
    and "\<not> (pc_DenySecrets (e_cfg e) \<and> q_IsSecret req)"
    and "q_Namespace req \<noteq> [] \<Longrightarrow> allowNamespace e (q_Namespace req) = None"
proof -
  from assms(1) obtain req where req: "ParseAPIPath m (path_of parts @ q) = Ok req"
    and sec: "\<not> (pc_DenySecrets (e_cfg e) \<and> q_IsSecret req)"
    and ns: "q_Namespace req \<noteq> [] \<Longrightarrow> allowNamespace e (q_Namespace req) = None"
    by (rule AllowHTTP_OkD) blast
  from req have "parse_parts (new_request (ToUpper (TrimSpace m)) (path_of parts)) parts = Ok req"
    using ParseAPIPath_path_of [OF assms(2,3) ParseAPIPath_method [OF req]] by simp
  with parse_parts_resource [OF assms(4)] sec ns that show thesis by metis
qed

lemma secrets_denied:
  assumes "NewEngine cfg = Inr e"
    and "resource_parts parts = Some rest" and "names_secrets rest"
    and "parts_ok parts" and "query_ok q"
  shows "AllowHTTP e m (path_of parts @ q) \<noteq> Ok ()"
proof
  assume ok: "AllowHTTP e m (path_of parts @ q) = Ok ()"
  then obtain req0 req where "parseCoreResources req0 rest = Ok req"
    and "\<not> (pc_DenySecrets (e_cfg e) \<and> q_IsSecret req)"
    by (rule AllowHTTP_path_of [OF _ assms(4,5,2)]) blast
  then show False using NewEngine_Inr(3) [OF assms(1)] parseCore_secret [OF assms(3)] by blast
qed

text \<open>
  C1: secrets are out of reach of \<open>k8s.api\<close>: whatever the configuration, an engine never allows a
  path whose resource is \<open>secrets\<close>, cluster wide or in a namespace, under \<open>/api\<close> or \<open>/apis\<close>, for any
  method, any further segments (a name, a subresource) and any query.
\<close>

theorem secrets_never_allowed:
  assumes "NewEngine cfg = Inr e"
    and "resource_parts parts = Some rest" and "names_secrets rest"
    and "parts_ok parts" and "query_ok q"
  shows "AllowHTTP e m (path_of parts @ q) \<noteq> Ok ()"
  by (rule secrets_denied [OF assms])

text \<open>
  C2: confinement to the configured namespaces: when the configuration lists namespaces, a path
  below \<open>namespaces/<ns>\<close> is allowed only for an \<open>ns\<close> of the list (compared without surrounding
  space), whatever the resource, the name, the method and the query.
\<close>

theorem namespace_confinement:
  assumes "NewEngine cfg = Inr e" and "pc_AllowedNamespaces cfg \<noteq> []"
    and "resource_parts parts = Some (''namespaces'' # ns # rest)" and "ns \<noteq> []"
    and "parts_ok parts" and "query_ok q"
    and "AllowHTTP e m (path_of parts @ q) = Ok ()"
  shows "ns \<in> TrimSpace ` set (pc_AllowedNamespaces cfg)"
proof -
  obtain req0 req where "parseCoreResources req0 (''namespaces'' # ns # rest) = Ok req"
    and "q_Namespace req \<noteq> [] \<Longrightarrow> allowNamespace e (q_Namespace req) = None"
    by (rule AllowHTTP_path_of [OF assms(7,5,6,3)]) blast
  then have "allowNamespace e ns = None" using assms(4) by (auto dest: parseCore_namespace)
  then show ?thesis
    using assms(2) NewEngine_Inr(1) [OF assms(1)] by (auto simp: allowNamespace_def split: if_splits)
qed

text \<open>Witnesses of the two: an engine for the namespace \<open>shop\<close>.\<close>

definition shop_policy :: policy_config where
  "shop_policy =
     \<lparr> pc_AllowedGVK = [], pc_AllowedVerbs = [], pc_AllowedNamespaces = ['' shop ''],
       pc_AllowedCommandTypes = [], pc_AllowedIssuers = [''core''], pc_AllowedReplyTopics = [''replies''],
       pc_AllowedReplyTopicPrefixes = [''core.''], pc_DenySecrets = False \<rparr>"

definition shop_engine :: engine where
  "shop_engine = (case NewEngine shop_policy of Inr e \<Rightarrow> e | Inl _ \<Rightarrow> undefined)"

lemma shop_engine: "NewEngine shop_policy = Inr shop_engine"
proof -
  have "\<exists>e. NewEngine shop_policy = Inr e"
    by (simp add: NewEngine_def shop_policy_def with_defaults_def Let_def TrimSpace_def trim_func_def
        is_space_def)
  then show ?thesis by (auto simp: shop_engine_def)
qed

theorem secrets_never_allowed_witness:
  "AllowHTTP shop_engine ''GET''
     (path_of [''api'', ''v1'', ''namespaces'', ''shop'', ''secrets'', ''db''] @ ''?watch=1'') \<noteq> Ok ()"
proof -
  let ?p = "[''api'', ''v1'', ''namespaces'', ''shop'', ''secrets'', ''db'']"
  have "parts_ok ?p" and "query_ok ''?watch=1''" by code_simp+
  then show ?thesis
    by (intro secrets_never_allowed [OF shop_engine, of _ "drop 2 ?p"]) simp_all
qed

theorem namespace_confinement_witness:
  "''shop'' \<in> TrimSpace ` set (pc_AllowedNamespaces shop_policy)"
proof -
  let ?p = "[''api'', ''v1'', ''namespaces'', ''shop'', ''pods'']"
  have ok: "parts_ok ?p" "query_ok []" by code_simp+
  have "AllowHTTP shop_engine ''GET'' (path_of ?p @ []) = Ok ()" by code_simp
  then show ?thesis
    by (intro namespace_confinement [OF shop_engine _ _ _ ok, of _ "[''pods'']" "''GET''"])
       (simp_all add: shop_policy_def)
qed

section \<open>Panics of the path analysis\<close>

text \<open>The segments that are turned into a kind.\<close>

definition kind_segments :: "string list \<Rightarrow> string set" where
  "kind_segments rest =
     (if rest = [] then {}
      else if rest ! 0 = ''namespaces'' then (if 3 \<le> length rest then {rest ! 2} else {})
      else {rest ! 0} \<union> (if 4 \<le> length rest \<and> rest ! 1 = ''namespaces'' then {rest ! 3} else {}))"

lemma parseCore_ns_Panic:
  assumes "rest ! 0 = ''namespaces''" and "rest \<noteq> []"
  shows "parseCoreResources req rest = Panic \<longleftrightarrow> ''s'' \<in> kind_segments rest"
proof -
  consider "length rest = 1" | "length rest = 2" | "3 \<le> length rest"
    using assms(2) by (cases rest; cases "tl rest"; cases "tl (tl rest)") simp_all
  then show ?thesis
    unfolding parseCoreResources_def kind_segments_def
    by cases (use assms in \<open>simp_all add: set_resource_Panic resourceToKind_Panic
      eq_commute [of "''s''"]\<close>)
qed

lemma set_resource_not_Err: "set_resource req r secret name \<noteq> Err e"
proof -
  have "resourceToKind r \<noteq> Err e"
    by (simp add: resourceToKind_def split: option.splits list.splits)
  then show ?thesis by (cases "resourceToKind r") (simp_all add: set_resource_def)
qed

lemma parseCore_Panic: "parseCoreResources req rest = Panic \<longleftrightarrow> ''s'' \<in> kind_segments rest"
proof (cases "rest = [] \<or> rest ! 0 = ''namespaces''")
  case True
  moreover have ?thesis if "rest = []" using that by (simp add: parseCoreResources_def kind_segments_def)
  ultimately show ?thesis using parseCore_ns_Panic by blast
next
  case False
  let ?s = "set_resource req (rest ! 0)
    (rest ! 0 = ''secrets'' \<or> HasSuffix (rest ! 0) ''/secrets'') None"
  show ?thesis
  proof (cases ?s)
    case (Ok req1)
    then have "?s \<noteq> Panic" by simp
    then have "rest ! 0 \<noteq> ''s''" by (simp only: set_resource_Panic resourceToKind_Panic simp_thms)
    then show ?thesis using False Ok
      by (simp add: parseCoreResources_def kind_segments_def set_resource_Panic resourceToKind_Panic
          eq_commute [of "''s''"])
  next
    case Panic
    then have "rest ! 0 = ''s''" by (simp add: set_resource_Panic resourceToKind_Panic)
    then show ?thesis using False Panic by (simp add: parseCoreResources_def kind_segments_def)
  qed (simp add: set_resource_not_Err)
qed

lemma AllowHTTP_Panic: "AllowHTTP e m p = Panic \<longleftrightarrow> ParseAPIPath m p = Panic"
  by (cases "ParseAPIPath m p") (auto simp: AllowHTTP_def split: option.splits)

text \<open>
  C36: the path check panics exactly when a segment that names a resource is the single letter \<open>s\<close>:
  \<open>resourceToKind\<close> trims the plural \<open>s\<close> and slices the first byte of the empty rest. Every other
  path made of segments is answered with a verdict.
\<close>

theorem AllowHTTP_panic_iff:
  assumes "parts_ok parts" and "query_ok q" and "TrimSpace m \<noteq> []"
    and "resource_parts parts = Some rest"
  shows "AllowHTTP e m (path_of parts @ q) = Panic \<longleftrightarrow> ''s'' \<in> kind_segments rest"
proof -
  let ?req = "new_request (ToUpper (TrimSpace m)) (path_of parts)"
  obtain g v where "parse_parts ?req parts
      = parseCoreResources (?req\<lparr>q_Group := g, q_Version := v\<rparr>) rest"
    using parse_parts_resource [OF assms(4)] by blast
  then show ?thesis
    by (simp add: AllowHTTP_Panic ParseAPIPath_path_of [OF assms(1-3)] parseCore_Panic)
qed

theorem AllowHTTP_panic_iff_witness:
  "AllowHTTP shop_engine ''GET'' (path_of [''api'', ''v1'', ''s''] @ []) = Panic"
proof -
  have "parts_ok [''api'', ''v1'', ''s'']" "query_ok []" "TrimSpace ''GET'' \<noteq> []"
    and "''s'' \<in> kind_segments [''s'']" by code_simp+
  then show ?thesis by (subst AllowHTTP_panic_iff) simp_all
qed

section \<open>The checks and the configuration\<close>

text \<open>
  an engine is built from a configuration exactly when no listed namespace is blank or \<open>*\<close>, and
  then its checks are the lists: the default command type when none is listed, a list of
  namespaces, kinds or issuers that is empty allows everything, names and issuers compare without
  surrounding space, and no blank name is ever on a list.
\<close>

lemma engine_reflects_config:
  "(case NewEngine cfg of
      Inl err \<Rightarrow> err = Errorf ''wildcard namespace is not allowed'' [] \<and>
        list_ex (\<lambda>n. TrimSpace n \<in> {[], ''*''}) (pc_AllowedNamespaces cfg)
    | Inr e \<Rightarrow>
        \<not> list_ex (\<lambda>n. TrimSpace n \<in> {[], ''*''}) (pc_AllowedNamespaces cfg) \<and>
        (AllowCommandType e c = None \<longleftrightarrow>
           c \<in> set (if pc_AllowedCommandTypes cfg = [] then [''k8s.api''] else pc_AllowedCommandTypes cfg)) \<and>
        (AllowNamespace e n = None \<longleftrightarrow>
           pc_AllowedNamespaces cfg = [] \<or> n \<in> TrimSpace ` set (pc_AllowedNamespaces cfg)) \<and>
        (AllowGVK e g = None \<longleftrightarrow>
           pc_AllowedGVK cfg = [] \<or> g_Kind g \<noteq> [] \<and> g \<in> set (pc_AllowedGVK cfg)) \<and>
        (AllowIssuer e i = None \<longleftrightarrow>
           TrimSpace ` set (pc_AllowedIssuers cfg) \<subseteq> {[]} \<or>
           TrimSpace i \<noteq> [] \<and> TrimSpace i \<in> TrimSpace ` set (pc_AllowedIssuers cfg)))"
proof (cases "NewEngine cfg")
  case (Inl err)
  then have "err = Errorf ''wildcard namespace is not allowed'' []"
    by (auto simp: NewEngine_def Let_def add_namespaces_Inl split: sum.splits)
  with Inl NewEngine_error [OF Inl] show ?thesis by (simp add: list_ex_iff)
next
  case (Inr e)
  note facts = NewEngine_Inr [OF Inr]
  have "\<not> list_ex (\<lambda>n. TrimSpace n \<in> {[], ''*''}) (pc_AllowedNamespaces cfg)"
    using NewEngine_ns [OF Inr] by (force simp: facts(1) list_ex_iff)
  moreover have "AllowCommandType e c = None \<longleftrightarrow>
      c \<in> set (if pc_AllowedCommandTypes cfg = [] then [''k8s.api''] else pc_AllowedCommandTypes cfg)"
    by (simp add: AllowCommandType_def facts(4))
  moreover have "AllowNamespace e n = None \<longleftrightarrow>
      pc_AllowedNamespaces cfg = [] \<or> n \<in> TrimSpace ` set (pc_AllowedNamespaces cfg)"
    by (simp add: AllowNamespace_def allowNamespace_def facts(1))
  moreover have "AllowGVK e g = None \<longleftrightarrow>
      pc_AllowedGVK cfg = [] \<or> g_Kind g \<noteq> [] \<and> g \<in> set (pc_AllowedGVK cfg)"
    by (simp add: AllowGVK_def facts(2))
  moreover have "AllowIssuer e i = None \<longleftrightarrow>
      TrimSpace ` set (pc_AllowedIssuers cfg) \<subseteq> {[]} \<or>
      TrimSpace i \<noteq> [] \<and> TrimSpace i \<in> TrimSpace ` set (pc_AllowedIssuers cfg)"
    by (auto simp: AllowIssuer_def Let_def facts(5))
  ultimately show ?thesis using Inr by simp
qed

text \<open>
  the allow-list of reply topics: without configured topics and prefixes every topic passes;
  otherwise a topic passes exactly when, without surrounding space, it is not blank and is a
  configured topic or starts with a configured non-empty prefix.
\<close>

lemma AllowReplyTopic_iff:
  assumes "NewEngine cfg = Inr e"
  shows "AllowReplyTopic e topic = None \<longleftrightarrow>
    TrimSpace ` set (pc_AllowedReplyTopics cfg) \<subseteq> {[]} \<and> pc_AllowedReplyTopicPrefixes cfg = [] \<or>
    TrimSpace topic \<noteq> [] \<and>
      (TrimSpace topic \<in> TrimSpace ` set (pc_AllowedReplyTopics cfg) \<or>
       (\<exists>p r. p \<noteq> [] \<and> p \<in> set (pc_AllowedReplyTopicPrefixes cfg) \<and> TrimSpace topic = p @ r))"
proof -
  let ?t = "TrimSpace topic"
  have "list_ex (\<lambda>p. p \<noteq> [] \<and> HasPrefix ?t p) (e_replyPrefix e) \<longleftrightarrow>
      (\<exists>p r. p \<noteq> [] \<and> p \<in> set (pc_AllowedReplyTopicPrefixes cfg) \<and> ?t = p @ r)"
    by (auto simp: list_ex_iff HasPrefix_iff NewEngine_Inr(7) [OF assms])
  moreover have "e_reply e = {} \<and> e_replyPrefix e = [] \<longleftrightarrow>
      TrimSpace ` set (pc_AllowedReplyTopics cfg) \<subseteq> {[]} \<and> pc_AllowedReplyTopicPrefixes cfg = []"
    by (auto simp: NewEngine_Inr(6,7) [OF assms])
  moreover have "?t \<noteq> [] \<Longrightarrow> ?t \<in> e_reply e \<longleftrightarrow> ?t \<in> TrimSpace ` set (pc_AllowedReplyTopics cfg)"
    by (simp add: NewEngine_Inr(6) [OF assms])
  ultimately show ?thesis by (simp add: AllowReplyTopic_def Let_def)
qed

lemma AllowReplyTopic_iff_example:
  "AllowReplyTopic shop_engine ''core.replies'' = None"
  unfolding AllowReplyTopic_iff [OF shop_engine]
  by (rule disjI2) (auto simp: shop_policy_def TrimSpace_def trim_func_def is_space_def)

section \<open>Policy and features together\<close>

lemma Load_with_features:
  assumes "LoadFromFilesWithFeatures read yaml yaml_ns yaml_feat pf nf ff = Inr (e, reg)"
    and "features_Load read yaml_feat ff = Inr (Some feats)"
  obtains cfg res where "read_policy read yaml yaml_ns pf nf = Inr cfg"
    and "Apply (Some feats) = Inr res" and "reg = ar_Registry res"
    and "NewEngine (if ar_AllowedGVK res \<noteq> []
           then cfg\<lparr>pc_AllowedCommandTypes := ar_CommandTypes res, pc_AllowedGVK := ar_AllowedGVK res\<rparr>
           else cfg\<lparr>pc_AllowedCommandTypes := ar_CommandTypes res\<rparr>) = Inr e"
  using assms by (auto simp: LoadFromFilesWithFeatures_def Let_def)

lemma features_Load_nonempty:
  "features_Load read yaml path = Inr (Some cfg) \<Longrightarrow> gm_len cfg \<noteq> 0"
  by (auto simp: features_Load_def split: if_splits file_read.splits sum.splits)

lemma features_commands:
  assumes "LoadFromFilesWithFeatures read yaml yaml_ns yaml_feat pf nf ff = Inr (e, reg)"
    and "features_Load read yaml_feat ff = Inr (Some feats)"
  shows "e_cmd e = {c. offers feats c}" "CommandEnabled (Some reg) c \<longleftrightarrow> offers feats c"
    "AllowCommandType e c = None \<longleftrightarrow> offers feats c"
proof -
  note ne = features_Load_nonempty [OF assms(2)]
  obtain cfg res where res: "Apply (Some feats) = Inr res" "reg = ar_Registry res"
    and e: "NewEngine (if ar_AllowedGVK res \<noteq> []
        then cfg\<lparr>pc_AllowedCommandTypes := ar_CommandTypes res, pc_AllowedGVK := ar_AllowedGVK res\<rparr>
        else cfg\<lparr>pc_AllowedCommandTypes := ar_CommandTypes res\<rparr>) = Inr e"
    by (rule Load_with_features [OF assms]) blast
  note reg = Apply_registry [OF res(1) ne]
  show cmd: "e_cmd e = {c. offers feats c}"
    using NewEngine_Inr(4) [OF e] reg(2,5) by (auto split: if_splits)
  show "CommandEnabled (Some reg) c \<longleftrightarrow> offers feats c" using reg(1) by (simp add: res(2))
  show "AllowCommandType e c = None \<longleftrightarrow> offers feats c" using cmd by (simp add: AllowCommandType_def)
qed

text \<open>
  C31: with a features file the engine and the registry agree, and both are the enabled groups: a
  command type passes the policy exactly when the registry has it enabled, which is when an enabled
  group lists it; and once a path can be requested or watched at all (\<open>k8s.api\<close> or
  \<open>watch.subscribe\<close> enabled), a kind passes exactly when an enabled group lists it.
\<close>

theorem features_decide_policy:
  assumes "LoadFromFilesWithFeatures read yaml yaml_ns yaml_feat pf nf ff = Inr (e, reg)"
    and "features_Load read yaml_feat ff = Inr (Some feats)"
  shows "(AllowCommandType e c = None \<longleftrightarrow> CommandEnabled (Some reg) c) \<and>
         (CommandEnabled (Some reg) c \<longleftrightarrow> offers feats c) \<and>
         (offers feats ''k8s.api'' \<or> offers feats ''watch.subscribe'' \<longrightarrow>
            (AllowGVK e g = None \<longleftrightarrow> offers_gvk feats g))"
proof -
  note ne = features_Load_nonempty [OF assms(2)]
  obtain cfg res where res: "Apply (Some feats) = Inr res" "reg = ar_Registry res"
    and e: "NewEngine (if ar_AllowedGVK res \<noteq> []
        then cfg\<lparr>pc_AllowedCommandTypes := ar_CommandTypes res, pc_AllowedGVK := ar_AllowedGVK res\<rparr>
        else cfg\<lparr>pc_AllowedCommandTypes := ar_CommandTypes res\<rparr>) = Inr e"
    by (rule Load_with_features [OF assms]) blast
  note reg = Apply_registry [OF res(1) ne]
  have "AllowGVK e g = None \<longleftrightarrow> offers_gvk feats g"
    if "offers feats ''k8s.api'' \<or> offers feats ''watch.subscribe''"
  proof -
    have gvk: "ar_AllowedGVK res \<noteq> []"
      using Apply_gvk_nonempty [OF res(1) ne] that reg(1) by blast
    then have "e_gvk e = set (ar_AllowedGVK res)" using NewEngine_Inr(2) [OF e] by simp
    moreover have "offers_gvk feats g \<Longrightarrow> g_Kind g \<noteq> []" by (simp add: offers_gvk_def)
    ultimately show ?thesis using gvk reg(3) by (auto simp: AllowGVK_def)
  qed
  then show ?thesis using features_commands [OF assms] by simp
qed

text \<open>A features file with one enabled group, and the decoders at it.\<close>

definition demo_read :: "string \<Rightarrow> file_read" where
  "demo_read path = (if path = ''missing'' then Missing else Contents path)"

definition demo_features :: features_config where
  "demo_features =
     [(''api'', \<lparr> f_Enabled = True, f_Description = [], f_RBACRole = [],
                 f_CommandTypes = [''k8s.api'', '' cache.put''],
                 f_AllowedGVK = [\<lparr> g_Group = [], g_Version = ''v1'', g_Kind = ''Pod'' \<rparr>] \<rparr>),
      (''logs'', \<lparr> f_Enabled = False, f_Description = [], f_RBACRole = [],
                 f_CommandTypes = [''logs.collect''], f_AllowedGVK = [] \<rparr>)]"

theorem features_decide_policy_witness:
  "\<exists>e reg. LoadFromFilesWithFeatures demo_read (\<lambda>_. Inr shop_policy) (\<lambda>_. Inr []) (\<lambda>_. Inr demo_features)
             ''policy'' [] ''features'' = Inr (e, reg) \<and>
           AllowCommandType e ''cache.put'' = None \<and> AllowCommandType e ''logs.collect'' \<noteq> None"
proof -
  let ?l = "LoadFromFilesWithFeatures demo_read (\<lambda>_. Inr shop_policy) (\<lambda>_. Inr [])
              (\<lambda>_. Inr demo_features) ''policy'' [] ''features''"
  have "\<not> isl ?l" by code_simp
  then obtain e reg where l: "?l = Inr (e, reg)" by (cases ?l) auto
  have f: "features_Load demo_read (\<lambda>_. Inr demo_features) ''features'' = Inr (Some demo_features)"
    by code_simp
  have "offers demo_features ''cache.put''" and "\<not> offers demo_features ''logs.collect''"
    by code_simp+
  then show ?thesis
    using l features_decide_policy [OF l f, of "''cache.put''"]
      features_decide_policy [OF l f, of "''logs.collect''"] by auto
qed

end
