(* ===== verification/Config.thy ===== *)
theory Config
  imports Go_Json
begin

text \<open>
  The configuration read from the environment, \<open>internal/config/config.go\<close>, and the security mode
  of the Kafka connections, \<open>internal/kafka/tls.go\<close>.

  \<open>getenv\<close> is \<open>os.Getenv\<close> (the empty string for an unset variable), \<open>host\<close> the result of
  \<open>os.Hostname\<close>. A \<open>float32\<close> is its bit pattern; \<open>parse_float32\<close> is \<open>strconv.ParseFloat\<close> followed by
  the conversion, whose rounding is not modelled. A certificate is what it is read from.
\<close>

abbreviation (input) DefaultHTTPPort :: int where "DefaultHTTPPort \<equiv> 8080"
abbreviation (input) DefaultInternalHTTPPort :: int where "DefaultInternalHTTPPort \<equiv> 8081"
abbreviation (input) DefaultLogsNodeHTTPPort :: int where "DefaultLogsNodeHTTPPort \<equiv> 8083"
abbreviation (input) DefaultRequestTopic :: string where "DefaultRequestTopic \<equiv> ''k8s.commands.request''"
abbreviation (input) DefaultConsumerGroup :: string where "DefaultConsumerGroup \<equiv> ''k8s-agent''"
abbreviation (input) DefaultLogsCollectMaxJobs :: int where "DefaultLogsCollectMaxJobs \<equiv> 20"
abbreviation (input) DefaultLogsCollectMaxBytes :: int where "DefaultLogsCollectMaxBytes \<equiv> 524288000"
abbreviation (input) DefaultSyncWorkerConcurrency :: int where "DefaultSyncWorkerConcurrency \<equiv> 1"
abbreviation (input) DefaultPodLogsRoot :: string where "DefaultPodLogsRoot \<equiv> ''/var/log/pods''"

abbreviation (input) ComponentAll :: string where "ComponentAll \<equiv> ''all''"
abbreviation (input) ComponentIngress :: string where "ComponentIngress \<equiv> ''ingress''"
abbreviation (input) ComponentEgress :: string where "ComponentEgress \<equiv> ''egress''"
abbreviation (input) ComponentAgentService :: string where "ComponentAgentService \<equiv> ''agent-service''"
abbreviation (input) ComponentLogsNode :: string where "ComponentLogsNode \<equiv> ''logs-node''"

abbreviation (input) ImplementationV1 :: string where "ImplementationV1 \<equiv> ''v1''"
abbreviation (input) ImplementationV2 :: string where "ImplementationV2 \<equiv> ''v2''"
abbreviation (input) LogsBackendAPI :: string where "LogsBackendAPI \<equiv> ''api''"
abbreviation (input) LogsBackendNodeLocal :: string where "LogsBackendNodeLocal \<equiv> ''nodelocal''"
abbreviation (input) KafkaModeJSON :: string where "KafkaModeJSON \<equiv> ''json''"
abbreviation (input) KafkaModeProtobuf :: string where "KafkaModeProtobuf \<equiv> ''protobuf''"
abbreviation (input) KafkaModeDual :: string where "KafkaModeDual \<equiv> ''dual''"

type_synonym float32 = "32 word"

record tls_config =
  t_Enabled :: bool
  t_CAFile :: string
  t_CertFile :: string
  t_KeyFile :: string

record kafka_config =
  k_Brokers :: "string list"
  k_RequestTopic :: string
  k_ConsumerGroup :: string
  k_EventsTopic :: string
  k_LogsStreamTopic :: string
  k_HealthTopic :: string
  k_LifecycleTopic :: string
  k_CommitOnReceive :: bool
  k_SecurityMode :: string
  k_TLSRequired :: bool
  k_ClientPrincipal :: string
  k_TLS :: tls_config
  k_Mode :: string
  k_InRequestTopicTemplate :: string
  k_OutResponseTopicTemplate :: string
  k_OutRequestTopic :: string
  k_EventsWatcherTopic :: string
  k_MetricsWatcherTopic :: string
  k_ShadowConsumerGroup :: string
  k_ResponseTimeoutMs :: int
  k_HeartbeatTimeoutMs :: int

record s3_config =
  s3_Endpoint :: string
  s3_Region :: string
  s3_ForcePathStyle :: bool

record agent_config =
  a_Component :: string
  a_Implementation :: string
  a_AgentServiceURL :: string
  a_InternalHTTPPort :: int
  a_LeaderLeaseName :: string
  a_LeaderElection :: bool
  a_LeaderOnlyCommands :: bool
  a_SyncWorkerConcurrency :: int
  a_LogsCollectMaxJobs :: int
  a_LogsCollectMaxBytes :: int
  a_LogStreamMaxPerPod :: int
  a_LogStreamBacklogMax :: int
  a_HealthMaxPodsPerMessage :: int
  a_K8sAPIQPS :: float32
  a_K8sAPIBurst :: int
  a_InstanceID :: string
  a_RegistrationEnabled :: bool
  a_RegistrationDelayMs :: int

record http_config =
  h_Port :: int
  h_BearerToken :: string
  h_InternalBearerToken :: string

record policy_files =
  pf_NamespacesFile :: string
  pf_PolicyFile :: string
  pf_FeaturesFile :: string

record logs_config =
  l_Backend :: string
  l_PodLogsRoot :: string
  l_NodeName :: string
  l_NodeHTTPPort :: int
  l_NodeAgentSelector :: string

record config =
  cfg_ClusterID :: string
  cfg_Kafka :: kafka_config
  cfg_S3 :: s3_config
  cfg_Agent :: agent_config
  cfg_HTTP :: http_config
  cfg_Policy :: policy_files
  cfg_Logs :: logs_config

section \<open>Reading of the environment\<close>

definition env :: "(string \<Rightarrow> string) \<Rightarrow> string \<Rightarrow> string \<Rightarrow> string" where
  "env getenv key fallback = (let v = getenv key in if v \<noteq> [] then v else fallback)"

definition ParseBool :: "string \<Rightarrow> bool option" where
  "ParseBool s =
     (if s \<in> set [''1'', ''t'', ''T'', ''true'', ''TRUE'', ''True''] then Some True
      else if s \<in> set [''0'', ''f'', ''F'', ''false'', ''FALSE'', ''False''] then Some False
      else None)"

definition envBool :: "(string \<Rightarrow> string) \<Rightarrow> string \<Rightarrow> bool \<Rightarrow> bool" where
  "envBool getenv key fallback =
     (let v = getenv key
      in if v = [] then fallback
         else case ParseBool v of None \<Rightarrow> fallback | Some b \<Rightarrow> b)"

definition intFromEnv :: "(string \<Rightarrow> string) \<Rightarrow> string \<Rightarrow> int \<Rightarrow> int" where
  "intFromEnv getenv key fallback =
     (let v = getenv key
      in if v = [] then fallback
         else case Atoi v of None \<Rightarrow> fallback | Some n \<Rightarrow> n)"

definition float32FromEnv ::
  "(string \<Rightarrow> float32 option) \<Rightarrow> (string \<Rightarrow> string) \<Rightarrow> string \<Rightarrow> float32 \<Rightarrow> float32" where
  "float32FromEnv parse_float32 getenv key fallback =
     (let v = getenv key
      in if v = [] then fallback
         else case parse_float32 v of None \<Rightarrow> fallback | Some n \<Rightarrow> n)"

definition splitCSV :: "string \<Rightarrow> string list" where
  "splitCSV s = filter (\<lambda>p. p \<noteq> []) (map TrimSpace (SplitChar (CHR '','') s))"

text \<open>\<open>strconv.Atoi(env(key, strconv.Itoa(n)))\<close> with the error wrapped under the name of the variable.\<close>

definition env_Atoi :: "(string \<Rightarrow> string) \<Rightarrow> string \<Rightarrow> string \<Rightarrow> int \<Rightarrow> go_error + int" where
  "env_Atoi getenv fmt key fallback =
     (case Atoi (env getenv key (Itoa fallback)) of
        None \<Rightarrow> Inl (Errorf fmt [AErr (LibErr ''strconv'')])
      | Some n \<Rightarrow> Inr n)"

definition internalHTTPPortFromEnv :: "(string \<Rightarrow> string) \<Rightarrow> go_error + int" where
  "internalHTTPPortFromEnv getenv =
     env_Atoi getenv ''INTERNAL_HTTP_PORT: %w'' ''INTERNAL_HTTP_PORT'' DefaultInternalHTTPPort"

section \<open>Validation\<close>

definition kafkaSecurityMode :: "kafka_config \<Rightarrow> string" where
  "kafkaSecurityMode k =
     (if k_SecurityMode k \<noteq> [] then k_SecurityMode k
      else if \<not> t_Enabled (k_TLS k) then ''plaintext''
      else if t_CertFile (k_TLS k) \<noteq> [] \<and> t_KeyFile (k_TLS k) \<noteq> [] then ''mtls''
      else ''tls'')"

definition validateComponent :: "config \<Rightarrow> go_error option" where
  "validateComponent c =
     (let compo = a_Component (cfg_Agent c)
      in if compo \<notin> set [ComponentAll, ComponentIngress, ComponentEgress, ComponentAgentService,
                         ComponentLogsNode]
         then Some (Errorf ''AGENT_COMPONENT must be one of: all, ingress, egress, agent-service, logs-node'' [])
         else if (compo = ComponentIngress \<or> compo = ComponentEgress) \<and> a_AgentServiceURL (cfg_Agent c) = []
         then Some (Errorf ''AGENT_SERVICE_URL is required for component %q'' [AStr compo])
         else if (compo = ComponentAgentService \<or> compo = ComponentEgress \<or> compo = ComponentLogsNode) \<and>
                 h_InternalBearerToken (cfg_HTTP c) = []
         then Some (Errorf ''HTTP_INTERNAL_BEARER_TOKEN is required for component %q'' [AStr compo])
         else if compo = ComponentLogsNode \<and> l_PodLogsRoot (cfg_Logs c) = []
         then Some (Errorf ''POD_LOGS_ROOT is required for component logs-node'' [])
         else if l_Backend (cfg_Logs c) = LogsBackendNodeLocal \<and>
                 (compo = ComponentAgentService \<or> compo = ComponentAll) \<and> l_NodeHTTPPort (cfg_Logs c) < 1
         then Some (Errorf ''LOGS_NODE_HTTP_PORT must be >= 1 for nodelocal backend'' [])
         else if compo = ComponentEgress \<and> k_TLSRequired (cfg_Kafka c) \<and>
                 kafkaSecurityMode (cfg_Kafka c) \<noteq> ''mtls''
         then Some (Errorf ''egress with KAFKA_TLS_REQUIRED must use KAFKA_SECURITY_MODE=mtls (Kafka ACL client identity)'' [])
         else None)"

section \<open>Load\<close>

text \<open>The struct literals of \<open>Load\<close>, in its order.\<close>

definition env_kafka :: "(string \<Rightarrow> string) \<Rightarrow> string list \<Rightarrow> kafka_config" where
  "env_kafka getenv brokers =
     \<lparr> k_Brokers = brokers,
       k_RequestTopic = env getenv ''KAFKA_REQUEST_TOPIC'' DefaultRequestTopic,
       k_ConsumerGroup = env getenv ''KAFKA_CONSUMER_GROUP'' DefaultConsumerGroup,
       k_EventsTopic = env getenv ''KAFKA_EVENTS_TOPIC'' ''cluster.events'',
       k_LogsStreamTopic = env getenv ''KAFKA_LOGS_STREAM_TOPIC'' ''logs.stream'',
       k_HealthTopic = env getenv ''KAFKA_HEALTH_TOPIC'' ''cluster.health'',
       k_LifecycleTopic = env getenv ''KAFKA_LIFECYCLE_TOPIC'' ''agent.lifecycle'',
       k_CommitOnReceive = envBool getenv ''KAFKA_COMMIT_ON_RECEIVE'' False,
       k_SecurityMode = ToLower (env getenv ''KAFKA_SECURITY_MODE'' []),
       k_TLSRequired = envBool getenv ''KAFKA_TLS_REQUIRED'' False,
       k_ClientPrincipal = env getenv ''KAFKA_TLS_CLIENT_PRINCIPAL'' [],
       k_TLS = \<lparr> t_Enabled = envBool getenv ''KAFKA_TLS_ENABLED'' False,
                 t_CAFile = env getenv ''KAFKA_TLS_CA_FILE'' [],
                 t_CertFile = env getenv ''KAFKA_TLS_CERT_FILE'' [],
                 t_KeyFile = env getenv ''KAFKA_TLS_KEY_FILE'' [] \<rparr>,
       k_Mode = ToLower (env getenv ''KAFKA_MODE'' KafkaModeJSON),
       k_InRequestTopicTemplate = env getenv ''KAFKA_IN_REQUEST_TOPIC_TEMPLATE''
         ''uamc-core.ssl.request.{cluster-id}-{uamc-agent}'',
       k_OutResponseTopicTemplate = env getenv ''KAFKA_OUT_RESPONSE_TOPIC_TEMPLATE''
         ''uamc-agent.ssl.response.{cluster-id}-{uamc-agent}'',
       k_OutRequestTopic = env getenv ''KAFKA_OUT_REQUEST_TOPIC'' ''uamc-agent.ssl.request'',
       k_EventsWatcherTopic = env getenv ''KAFKA_EVENTS_WATCHER_TOPIC'' ''uamc-events-watcher.ssl.request'',
       k_MetricsWatcherTopic = env getenv ''KAFKA_METRICS_WATCHER_TOPIC'' ''uamc-metrics-watcher.ssl.request'',
       k_ShadowConsumerGroup = env getenv ''KAFKA_SHADOW_CONSUMER_GROUP'' [],
       k_ResponseTimeoutMs = intFromEnv getenv ''KAFKA_RESPONSE_TIMEOUT_MS'' 10000,
       k_HeartbeatTimeoutMs = intFromEnv getenv ''KAFKA_HEARTBEAT_TIMEOUT_MS'' 2000 \<rparr>"

definition env_agent ::
  "(string \<Rightarrow> float32 option) \<Rightarrow> (string \<Rightarrow> string) \<Rightarrow> int \<Rightarrow> int \<Rightarrow> int \<Rightarrow> int \<Rightarrow> string \<Rightarrow> agent_config" where
  "env_agent parse_float32 getenv internalHTTPPort syncConcurrency logsMaxJobs logsMaxBytes instanceID =
     \<lparr> a_Component = env getenv ''AGENT_COMPONENT'' ComponentAll,
       a_Implementation = ToLower (env getenv ''AGENT_IMPLEMENTATION'' ImplementationV1),
       a_AgentServiceURL = env getenv ''AGENT_SERVICE_URL'' [],
       a_InternalHTTPPort = internalHTTPPort,
       a_LeaderLeaseName = env getenv ''LEADER_LEASE_NAME'' [],
       a_LeaderElection = envBool getenv ''LEADER_ELECTION_ENABLED'' True,
       a_LeaderOnlyCommands = envBool getenv ''LEADER_ONLY_COMMANDS'' True,
       a_SyncWorkerConcurrency = syncConcurrency,
       a_LogsCollectMaxJobs = logsMaxJobs,
       a_LogsCollectMaxBytes = logsMaxBytes,
       a_LogStreamMaxPerPod = intFromEnv getenv ''LOG_STREAM_MAX_PER_POD'' 1,
       a_LogStreamBacklogMax = intFromEnv getenv ''LOG_STREAM_BACKLOG_MAX'' 1000,
       a_HealthMaxPodsPerMessage = intFromEnv getenv ''HEALTH_MAX_PODS_PER_MESSAGE'' 500,
       a_K8sAPIQPS = float32FromEnv parse_float32 getenv ''K8S_API_QPS'' 0x42480000,
       a_K8sAPIBurst = intFromEnv getenv ''K8S_API_BURST'' 100,
       a_InstanceID = instanceID,
       a_RegistrationEnabled = envBool getenv ''AGENT_REGISTRATION_ENABLED'' False,
       a_RegistrationDelayMs = intFromEnv getenv ''AGENT_REGISTRATION_DELAY_MS'' 1000 \<rparr>"

definition env_config :: "(string \<Rightarrow> string) \<Rightarrow> kafka_config \<Rightarrow> agent_config \<Rightarrow> int \<Rightarrow> config" where
  "env_config getenv kafka agent httpPort =
     \<lparr> cfg_ClusterID = env getenv ''CLUSTER_ID'' ''local'',
       cfg_Kafka = kafka,
       cfg_S3 = \<lparr> s3_Endpoint = env getenv ''S3_ENDPOINT'' [],
                  s3_Region = env getenv ''S3_REGION'' ''us-east-1'',
                  s3_ForcePathStyle = envBool getenv ''S3_FORCE_PATH_STYLE'' False \<rparr>,
       cfg_Agent = agent,
       cfg_HTTP = \<lparr> h_Port = httpPort,
                    h_BearerToken = env getenv ''HTTP_BEARER_TOKEN'' [],
                    h_InternalBearerToken = env getenv ''HTTP_INTERNAL_BEARER_TOKEN'' [] \<rparr>,
       cfg_Policy =
         \<lparr> pf_NamespacesFile = env getenv ''POLICY_NAMESPACES_FILE'' ''/etc/k8s-agent/policy/namespaces.yaml'',
           pf_PolicyFile = env getenv ''POLICY_FILE'' ''/etc/k8s-agent/policy/policy.yaml'',
           pf_FeaturesFile = env getenv ''FEATURES_FILE'' ''/etc/k8s-agent/policy/features.yaml'' \<rparr>,
       cfg_Logs =
         \<lparr> l_Backend = ToLower (env getenv ''LOGS_BACKEND'' LogsBackendAPI),
           l_PodLogsRoot = env getenv ''POD_LOGS_ROOT'' DefaultPodLogsRoot,
           l_NodeName = env getenv ''NODE_NAME'' [],
           l_NodeHTTPPort = intFromEnv getenv ''LOGS_NODE_HTTP_PORT'' DefaultLogsNodeHTTPPort,
           l_NodeAgentSelector = env getenv ''LOGS_NODE_AGENT_SELECTOR''
             ''app.kubernetes.io/component=logs-node-agent'' \<rparr> \<rparr>"

text \<open>The checks and defaults that follow the literal.\<close>

definition normalise_mode :: "config \<Rightarrow> go_error + config" where
  "normalise_mode cfg =
     (let mode = k_Mode (cfg_Kafka cfg)
      in if mode \<in> set [KafkaModeJSON, KafkaModeProtobuf, KafkaModeDual] then Inr cfg
         else if mode = [] then Inr (cfg\<lparr>cfg_Kafka := (cfg_Kafka cfg)\<lparr>k_Mode := KafkaModeJSON\<rparr>\<rparr>)
         else Inl (Errorf ''KAFKA_MODE must be one of: json, protobuf, dual'' []))"

definition normalise_implementation :: "config \<Rightarrow> go_error + config" where
  "normalise_implementation cfg =
     (let impl = a_Implementation (cfg_Agent cfg)
      in if impl \<in> set [ImplementationV1, ImplementationV2] then Inr cfg
         else if impl = [] then Inr (cfg\<lparr>cfg_Agent := (cfg_Agent cfg)\<lparr>a_Implementation := ImplementationV1\<rparr>\<rparr>)
         else Inl (Errorf ''AGENT_IMPLEMENTATION must be one of: v1, v2'' []))"

definition normalise_backend :: "(string \<Rightarrow> string) \<Rightarrow> config \<Rightarrow> go_error + config" where
  "normalise_backend getenv cfg =
     (let backend = l_Backend (cfg_Logs cfg);
          set_backend = (\<lambda>b. cfg\<lparr>cfg_Logs := (cfg_Logs cfg)\<lparr>l_Backend := b\<rparr>\<rparr>)
      in if backend \<notin> set [LogsBackendAPI, LogsBackendNodeLocal, []]
         then Inl (Errorf ''LOGS_BACKEND must be one of: api, nodelocal'' [])
         else if a_Implementation (cfg_Agent cfg) = ImplementationV2 \<and> env getenv ''LOGS_BACKEND'' [] = []
         then Inr (set_backend LogsBackendNodeLocal)
         else Inr (if backend = [] then set_backend LogsBackendAPI else cfg))"

definition check_config :: "(string \<Rightarrow> string) \<Rightarrow> config \<Rightarrow> go_error + config" where
  "check_config getenv cfg =
     (if a_SyncWorkerConcurrency (cfg_Agent cfg) < 1
      then Inl (Errorf ''SYNC_WORKER_CONCURRENCY must be >= 1'' [])
      else
        sum_bind (normalise_mode cfg) (\<lambda>cfg.
        sum_bind (normalise_implementation cfg) (\<lambda>cfg.
        sum_bind (normalise_backend getenv cfg) (\<lambda>cfg.
          case validateComponent cfg of Some e \<Rightarrow> Inl e | None \<Rightarrow> Inr cfg))))"

definition instance_id :: "string \<Rightarrow> (string \<Rightarrow> string) \<Rightarrow> string" where
  "instance_id host getenv =
     (let i = env getenv ''AGENT_INSTANCE_ID'' []
      in if i = [] then (if host \<noteq> [] then host else ''unknown'') else i)"

definition Load :: "(string \<Rightarrow> float32 option) \<Rightarrow> string \<Rightarrow> (string \<Rightarrow> string) \<Rightarrow> go_error + config" where
  "Load parse_float32 host getenv =
     (let brokers = splitCSV (env getenv ''KAFKA_BROKERS'' ''localhost:9092'')
      in if brokers = [] \<and> env getenv ''AGENT_COMPONENT'' ComponentAll \<noteq> ComponentLogsNode
         then Inl (Errorf ''KAFKA_BROKERS must not be empty'' [])
         else
           sum_bind (env_Atoi getenv ''HTTP_PORT: %w'' ''HTTP_PORT'' DefaultHTTPPort) (\<lambda>httpPort.
           sum_bind (internalHTTPPortFromEnv getenv) (\<lambda>internalHTTPPort.
           sum_bind (env_Atoi getenv ''SYNC_WORKER_CONCURRENCY: %w'' ''SYNC_WORKER_CONCURRENCY''
                       DefaultSyncWorkerConcurrency) (\<lambda>syncConcurrency.
           sum_bind (env_Atoi getenv ''LOGS_COLLECT_MAX_JOBS: %w'' ''LOGS_COLLECT_MAX_JOBS''
                       DefaultLogsCollectMaxJobs) (\<lambda>logsMaxJobs.
           sum_bind (env_Atoi getenv ''LOGS_COLLECT_MAX_BYTES: %w'' ''LOGS_COLLECT_MAX_BYTES''
                       DefaultLogsCollectMaxBytes) (\<lambda>logsMaxBytes.
             check_config getenv
               (env_config getenv (env_kafka getenv brokers)
                  (env_agent parse_float32 getenv internalHTTPPort syncConcurrency logsMaxJobs
                     logsMaxBytes (instance_id host getenv)) httpPort)))))))"

definition ShutdownGracePeriod :: "config \<Rightarrow> int" where
  "ShutdownGracePeriod c = 30 * second"

text \<open>\<open>strings.NewReplacer\<close>: at each position the first pair that matches, replacements not rescanned.\<close>

function replace_pairs :: "(string \<times> string) list \<Rightarrow> string \<Rightarrow> string" where
  "replace_pairs ps s =
     (case s of
        [] \<Rightarrow> []
      | c # cs \<Rightarrow>
          (case find (\<lambda>(old, new). old \<noteq> [] \<and> HasPrefix s old) ps of
             None \<Rightarrow> c # replace_pairs ps cs
           | Some (old, new) \<Rightarrow> new @ replace_pairs ps (drop (length old - 1) cs)))"
  by pat_completeness auto
termination
  by (relation "measure (\<lambda>(ps, s). length s)") auto

declare replace_pairs.simps [simp del]

definition ResolveTopic :: "string \<Rightarrow> string \<Rightarrow> string" where
  "ResolveTopic template clusterID =
     replace_pairs [(''{cluster-id}'', clusterID), (''{uamc-agent}'', ''uamc-agent'')] template"

section \<open>Properties\<close>

lemma env_not_Nil [simp]: "fallback \<noteq> [] \<Longrightarrow> env getenv key fallback \<noteq> []"
  by (simp add: env_def Let_def)

lemma splitCSV_parts: "p \<in> set (splitCSV s) \<Longrightarrow> p \<noteq> [] \<and> TrimSpace p = p"
  by (auto simp: splitCSV_def TrimSpace_idem)

lemma normalise_mode_Inr:
  assumes "normalise_mode cfg = Inr cfg'"
  shows "k_Mode (cfg_Kafka cfg') \<in> {KafkaModeJSON, KafkaModeProtobuf, KafkaModeDual}"
    and "cfg_Agent cfg' = cfg_Agent cfg" and "cfg_Logs cfg' = cfg_Logs cfg"
    and "cfg_HTTP cfg' = cfg_HTTP cfg" and "k_Brokers (cfg_Kafka cfg') = k_Brokers (cfg_Kafka cfg)"
  using assms by (auto simp: normalise_mode_def Let_def split: if_splits)

lemma normalise_implementation_Inr:
  assumes "normalise_implementation cfg = Inr cfg'"
  shows "a_Implementation (cfg_Agent cfg') \<in> {ImplementationV1, ImplementationV2}"
    and "cfg_Kafka cfg' = cfg_Kafka cfg" and "cfg_Logs cfg' = cfg_Logs cfg"
    and "cfg_HTTP cfg' = cfg_HTTP cfg"
    and "a_Component (cfg_Agent cfg') = a_Component (cfg_Agent cfg)"
    and "a_SyncWorkerConcurrency (cfg_Agent cfg') = a_SyncWorkerConcurrency (cfg_Agent cfg)"
    and "a_InstanceID (cfg_Agent cfg') = a_InstanceID (cfg_Agent cfg)"
  using assms by (auto simp: normalise_implementation_def Let_def split: if_splits)

lemma normalise_backend_Inr:
  assumes "normalise_backend getenv cfg = Inr cfg'"
  shows "l_Backend (cfg_Logs cfg') \<in> {LogsBackendAPI, LogsBackendNodeLocal}"
    and "cfg_Kafka cfg' = cfg_Kafka cfg" and "cfg_Agent cfg' = cfg_Agent cfg"
    and "cfg_HTTP cfg' = cfg_HTTP cfg"
    and "a_Implementation (cfg_Agent cfg) = ImplementationV2 \<Longrightarrow> getenv ''LOGS_BACKEND'' = [] \<Longrightarrow>
           l_Backend (cfg_Logs cfg') = LogsBackendNodeLocal"
  using assms by (auto simp: normalise_backend_def Let_def env_def split: if_splits)

lemma validateComponent_None:
  assumes "validateComponent c = None"
  defines "compo \<equiv> a_Component (cfg_Agent c)"
  shows "compo \<in> {ComponentAll, ComponentIngress, ComponentEgress, ComponentAgentService, ComponentLogsNode}"
    and "compo = ComponentIngress \<or> compo = ComponentEgress \<Longrightarrow> a_AgentServiceURL (cfg_Agent c) \<noteq> []"
    and "compo = ComponentAgentService \<or> compo = ComponentEgress \<or> compo = ComponentLogsNode \<Longrightarrow>
           h_InternalBearerToken (cfg_HTTP c) \<noteq> []"
    and "compo = ComponentEgress \<Longrightarrow> k_TLSRequired (cfg_Kafka c) \<Longrightarrow>
           kafkaSecurityMode (cfg_Kafka c) = ''mtls''"
    and "l_Backend (cfg_Logs c) = LogsBackendNodeLocal \<Longrightarrow>
           compo = ComponentAgentService \<or> compo = ComponentAll \<Longrightarrow> 1 \<le> l_NodeHTTPPort (cfg_Logs c)"
  using assms(1) unfolding compo_def validateComponent_def Let_def
  by (simp_all split: if_splits)

lemma check_config_Inr:
  assumes "check_config getenv cfg = Inr cfg'"
  obtains cfg1 cfg2 where "1 \<le> a_SyncWorkerConcurrency (cfg_Agent cfg)"
    and "normalise_mode cfg = Inr cfg1" and "normalise_implementation cfg1 = Inr cfg2"
    and "normalise_backend getenv cfg2 = Inr cfg'" and "validateComponent cfg' = None"
  using assms by (auto simp: check_config_def split: if_splits option.splits)

lemma Load_Inr:
  assumes "Load pf host getenv = Inr cfg"
  obtains cfg0 where "check_config getenv cfg0 = Inr cfg"
    and "k_Brokers (cfg_Kafka cfg0) = [] \<Longrightarrow> a_Component (cfg_Agent cfg0) = ComponentLogsNode"
    and "a_InstanceID (cfg_Agent cfg0) \<noteq> []"
proof -
  let ?b = "splitCSV (env getenv ''KAFKA_BROKERS'' ''localhost:9092'')"
  let ?cfg = "\<lambda>ip sc mj mb p. env_config getenv (env_kafka getenv ?b)
                (env_agent pf getenv ip sc mj mb (instance_id host getenv)) p"
  have b: "\<not> (?b = [] \<and> env getenv ''AGENT_COMPONENT'' ComponentAll \<noteq> ComponentLogsNode)"
  proof
    assume "?b = [] \<and> env getenv ''AGENT_COMPONENT'' ComponentAll \<noteq> ComponentLogsNode"
    then show False using assms by (simp add: Load_def)
  qed
  obtain ip sc mj mb p where c: "check_config getenv (?cfg ip sc mj mb p) = Inr cfg"
    using assms by (simp only: Load_def Let_def sum_bind_eq_Inr b if_False) (elim exE conjE)
  have "instance_id host getenv \<noteq> []" by (simp add: instance_id_def Let_def)
  then show thesis using that [OF c] b
    by (simp add: env_config_def env_kafka_def env_agent_def)
qed


definition demo_env :: "string \<Rightarrow> string" where
  "demo_env k =
     (if k = ''AGENT_COMPONENT'' then ''egress''
      else if k = ''AGENT_SERVICE_URL'' then ''http://agent''
      else if k = ''HTTP_INTERNAL_BEARER_TOKEN'' then ''token''
      else if k = ''KAFKA_TLS_REQUIRED'' then ''true''
      else if k = ''KAFKA_SECURITY_MODE'' then ''MTLS''
      else [])"


end
