(* ===== verification/K8s_Api.thy ===== *)
theory K8s_Api
  imports Policy_Engine Config "HOL-Library.Char_ord" "HOL-Library.List_Lexorder"
begin

text \<open>
  Package \<open>internal/k8s\<close> (the proxy client, the shaping of responses, kinds and event keys) and the
  handlers \<open>internal/handlers/api\<close> (command \<open>k8s.api\<close>) and \<open>internal/handlers/stub\<close>.

  Outside the source are the API server (\<open>send\<close>: the answer to a request, or the transport error), URL
  parsing (\<open>parse_url\<close>: its error, if any), the decoder of \<open>metav1.ObjectMeta\<close> (\<open>object_meta\<close>) and the
  conversion of a JSON number to \<open>float64\<close> and back (\<open>num\<close>). The state of the API handler is the list
  of requests it has sent.
\<close>

section \<open>Client (client.go)\<close>

record rest_config =
  rc_Host :: string
  rc_QPS :: float32
  rc_Burst :: int

text \<open>\<open>qps <= 0\<close> on the bits of a \<open>float32\<close>: zero of either sign, or negative and not a NaN.\<close>

definition float32_le0 :: "float32 \<Rightarrow> bool" where
  "float32_le0 q \<longleftrightarrow>
     (let b = uint q in b = 0 \<or> 0x80000000 \<le> b \<and> b \<le> 0xFF800000)"

definition NewFromRestConfigWithRateLimit ::
  "(rest_config \<Rightarrow> go_error option) \<Rightarrow> rest_config option \<Rightarrow> float32 \<Rightarrow> int \<Rightarrow> go_error + rest_config" where
  "NewFromRestConfigWithRateLimit transport_for cfg qps burst =
     (case cfg of
        None \<Rightarrow> Inl (Errorf ''rest config is nil'' [])
      | Some cfg \<Rightarrow>
          let qps = (if float32_le0 qps then 0x42480000 else qps);
              burst = (if burst \<le> 0 then 100 else burst);
              cfg = cfg\<lparr>rc_QPS := qps, rc_Burst := burst\<rparr>
          in case transport_for cfg of Some e \<Rightarrow> Inl e | None \<Rightarrow> Inr cfg)"

definition NewInClusterWithRateLimit ::
  "(rest_config \<Rightarrow> go_error option) \<Rightarrow> go_error + rest_config \<Rightarrow> float32 \<Rightarrow> int \<Rightarrow> go_error + rest_config" where
  "NewInClusterWithRateLimit transport_for in_cluster qps burst =
     sum_bind in_cluster (\<lambda>cfg. NewFromRestConfigWithRateLimit transport_for (Some cfg) qps burst)"

definition NewInCluster ::
  "(rest_config \<Rightarrow> go_error option) \<Rightarrow> go_error + rest_config \<Rightarrow> go_error + rest_config" where
  "NewInCluster transport_for in_cluster = NewInClusterWithRateLimit transport_for in_cluster 0x42480000 100"

definition NewFromRestConfig ::
  "(rest_config \<Rightarrow> go_error option) \<Rightarrow> rest_config option \<Rightarrow> go_error + rest_config" where
  "NewFromRestConfig transport_for cfg = NewFromRestConfigWithRateLimit transport_for cfg 0x42480000 100"

text \<open>
  Header names (\<open>net/http\<close>): a name made of token bytes has a capital first letter and a capital
  after each hyphen, any other name is left alone.
\<close>

definition token_byte :: "char \<Rightarrow> bool" where
  "token_byte c \<longleftrightarrow>
     (let b = (of_char c :: int)
      in 48 \<le> b \<and> b \<le> 57 \<or> 65 \<le> b \<and> b \<le> 90 \<or> 97 \<le> b \<and> b \<le> 122 \<or>
         b \<in> {33, 35, 36, 37, 38, 39, 42, 43, 45, 46, 94, 95, 96, 124, 126})"

fun canon_bytes :: "bool \<Rightarrow> string \<Rightarrow> string" where
  "canon_bytes upper [] = []"
| "canon_bytes upper (c # cs) =
     (if upper then upper_char c else lower_char c) # canon_bytes (c = CHR ''-'') cs"

definition canonical_key :: "string \<Rightarrow> string" where
  "canonical_key k = (if list_all token_byte k then canon_bytes True k else k)"

definition header_set :: "string \<Rightarrow> string \<Rightarrow> (string, string) gomap \<Rightarrow> (string, string) gomap" where
  "header_set k v h = gm_put (canonical_key k) v h"

definition header_get :: "(string, string) gomap \<Rightarrow> string \<Rightarrow> string" where
  "header_get h k = (case gm_get h (canonical_key k) of None \<Rightarrow> [] | Some v \<Rightarrow> v)"

record http_req =
  hq_Method :: string
  hq_URL :: string
  hq_Header :: "(string, string) gomap"
  hq_Body :: raw
  hq_Timeout :: int

text \<open>An answer: its status, and what reading at most so many bytes of its body returns.\<close>

record http_resp =
  hs_StatusCode :: int
  hs_Read :: "int \<Rightarrow> go_error + http_body"

definition proxy_url :: "string \<Rightarrow> string \<Rightarrow> string \<Rightarrow> string" where
  "proxy_url host path query =
     (let path = (if HasPrefix path ''/'' then path else ''/'' @ path);
          url = host @ path
      in if query \<noteq> [] then url @ ''?'' @ TrimPrefix query ''?'' else url)"

definition proxy_headers :: "(string, string) gomap \<Rightarrow> raw \<Rightarrow> (string, string) gomap" where
  "proxy_headers headers body =
     (let h = fold (\<lambda>(k, v). header_set k v) headers [];
          h = (if header_get h ''Accept'' = [] then header_set ''Accept'' ''application/json'' h else h)
      in if body \<noteq> None \<and> header_get h ''Content-Type'' = []
         then header_set ''Content-Type'' ''application/json'' h else h)"

text \<open>\<open>http.NewRequestWithContext\<close>: the method must be a token (empty means \<open>GET\<close>), the URL must parse.\<close>

definition new_request_error :: "(string \<Rightarrow> go_error option) \<Rightarrow> string \<Rightarrow> string \<Rightarrow> go_error option" where
  "new_request_error parse_url method url =
     (if \<not> list_all token_byte method then Some (LibErr ''net/http: invalid method'') else parse_url url)"

definition ProxyRequest ::
  "(string \<Rightarrow> go_error option) \<Rightarrow> (http_req \<Rightarrow> go_error + http_resp) \<Rightarrow> rest_config \<Rightarrow> int
     \<Rightarrow> string \<Rightarrow> string \<Rightarrow> string \<Rightarrow> (string, string) gomap \<Rightarrow> raw
     \<Rightarrow> http_req list \<times> (go_error + int \<times> http_body)" where
  "ProxyRequest parse_url send rc timeout mth path query headers body =
     (let mth = ToUpper mth;
          url = proxy_url (rc_Host rc) path query
      in case new_request_error parse_url mth url of
           Some e \<Rightarrow> ([], Inl e)
         | None \<Rightarrow>
             let req = \<lparr> hq_Method = mth, hq_URL = url, hq_Header = proxy_headers headers body,
                         hq_Body = body, hq_Timeout = timeout \<rparr>
             in ([req],
                 sum_bind (send req) (\<lambda>resp.
                 sum_bind (hs_Read resp (10 * 1048576)) (\<lambda>respBody.
                   Inr (hs_StatusCode resp, respBody)))))"

definition Ping ::
  "(string \<Rightarrow> go_error option) \<Rightarrow> (http_req \<Rightarrow> go_error + http_resp) \<Rightarrow> rest_config \<Rightarrow> go_error option" where
  "Ping parse_url send rc =
     (case snd (ProxyRequest parse_url send rc (5 * second) ''GET'' ''/readyz'' [] [] None) of
        Inl e \<Rightarrow> Some e
      | Inr (code, _) \<Rightarrow>
          if code \<ge> 500 then Some (Errorf ''apiserver /readyz returned %d'' [AInt code]) else None)"

section \<open>Kinds and event keys (dynamic.go)\<close>

text \<open>\<open>rest_mapping\<close> is the mapper, \<open>None\<close> a nil one; a resource is its group, version and name.\<close>

definition GVRForGVK ::
  "(gvk \<Rightarrow> go_error + string \<times> string \<times> string) option \<Rightarrow> gvk \<Rightarrow> go_error + string \<times> string \<times> string" where
  "GVRForGVK rest_mapping g =
     (case rest_mapping of
        None \<Rightarrow> Inl (Errorf ''mapper is nil'' [])
      | Some mapping \<Rightarrow> mapping g)"

definition GVKFromParts :: "string \<Rightarrow> string \<Rightarrow> string \<Rightarrow> gvk" where
  "GVKFromParts grp version kind = \<lparr> g_Group = grp, g_Version = version, g_Kind = kind \<rparr>"

definition EventResourceKey :: "string \<Rightarrow> string \<Rightarrow> string \<Rightarrow> string \<Rightarrow> string \<Rightarrow> string \<Rightarrow> string" where
  "EventResourceKey clusterID namespace grp version kind name =
     JoinStr [clusterID, namespace, grp, version, kind, name] ''/''"

section \<open>Response shaping (trim.go)\<close>

text \<open>
  A JSON document decoded into \<open>interface{}\<close> values: of members with one name the last counts, numbers
  become \<open>float64\<close>. Encoding sorts the members.
\<close>

fun any_of :: "(json \<Rightarrow> json) \<Rightarrow> json \<Rightarrow> json" where
  "any_of num (JInt i) = num (JInt i)"
| "any_of num (JFrac s) = num (JFrac s)"
| "any_of num (JArr vs) = JArr (map (any_of num) vs)"
| "any_of num (JObj kvs) = JObj (fold (\<lambda>(k, v). gm_put k v) (map (\<lambda>(k, v). (k, any_of num v)) kvs) [])"
| "any_of num v = v"

fun marshal_any :: "json \<Rightarrow> json" where
  "marshal_any (JArr vs) = JArr (map marshal_any vs)"
| "marshal_any (JObj kvs) = JObj (sort_key fst (map (\<lambda>(k, v). (k, marshal_any v)) kvs))"
| "marshal_any v = v"

definition trim_annotations :: "obj \<Rightarrow> obj" where
  "trim_annotations md =
     (case gm_get md ''annotations'' of
        Some (JObj ann) \<Rightarrow>
          let ann = gm_del ''kubectl.kubernetes.io/last-applied-configuration'' ann
          in if ann = [] then gm_del ''annotations'' md else gm_put ''annotations'' (JObj ann) md
      | _ \<Rightarrow> md)"

definition trim_metadata :: "obj \<Rightarrow> obj" where
  "trim_metadata kvs =
     (case gm_get kvs ''metadata'' of
        Some (JObj md) \<Rightarrow> gm_put ''metadata'' (JObj (trim_annotations (gm_del ''managedFields'' md))) kvs
      | _ \<Rightarrow> kvs)"

lemma size_gm_get: "gm_get kvs k = Some v \<Longrightarrow> size v < size (JObj kvs)"
proof -
  assume "gm_get kvs k = Some v"
  then have "(k, v) \<in> set kvs" by (simp add: gm_get_def map_of_SomeD)
  then have "size_prod (\<lambda>_. 0) size (k, v) < size_list (size_prod (\<lambda>_. 0) size) kvs + 1"
    by (induction kvs) auto
  then show ?thesis by simp
qed

lemma gm_get_trim_metadata: "k \<noteq> ''metadata'' \<Longrightarrow> gm_get (trim_metadata kvs) k = gm_get kvs k"
  by (auto simp: trim_metadata_def split: option.split json.split)

function trimObjectMap :: "bool \<Rightarrow> obj \<Rightarrow> obj" where
  "trimObjectMap strip kvs =
     (let kvs' = trim_metadata kvs;
          kvs' = (if strip then gm_del ''status'' kvs' else kvs')
      in case gm_get kvs ''items'' of
           Some (JArr items) \<Rightarrow>
             gm_put ''items''
               (JArr (map (\<lambda>item. case item of JObj m \<Rightarrow> JObj (trimObjectMap strip m) | _ \<Rightarrow> item) items)) kvs'
         | _ \<Rightarrow> kvs')"
  by pat_completeness auto
termination
proof (relation "measure (\<lambda>(strip, kvs). size (JObj kvs))", simp, clarify)
  fix strip kvs items item m
  assume "gm_get kvs ''items'' = Some (JArr items)" and "JObj m \<in> set items"
  then have "size (JArr items) < size (JObj kvs)" and "size (JObj m) < size (JArr items)"
    using size_gm_get [of kvs "''items''"] size_list_estimation' [of "JObj m" items "size (JObj m)" size]
    by auto
  then show "((strip, m), strip, kvs) \<in> measure (\<lambda>(strip, kvs). size (JObj kvs))" by simp
qed

declare trimObjectMap.simps [simp del]

definition TrimResponse :: "(json \<Rightarrow> json) \<Rightarrow> bool \<Rightarrow> http_body \<Rightarrow> go_error + http_body" where
  "TrimResponse num stripStatus body =
     (case body of
        BodyJson v \<Rightarrow>
          (case any_of num v of
             JObj kvs \<Rightarrow> Inr (BodyJson (marshal_any (JObj (trimObjectMap stripStatus kvs))))
           | _ \<Rightarrow> Inr body)
      | BodyRaw _ \<Rightarrow> Inr body)"

definition DefaultTrimOptions :: bool where
  "DefaultTrimOptions = False"

definition ExtractResourceVersion :: "(json list \<Rightarrow> string option) \<Rightarrow> http_body \<Rightarrow> string" where
  "ExtractResourceVersion object_meta body =
     (case body of
        BodyJson v \<Rightarrow>
          (case unmarshal_struct (Some v) of
             Inl _ \<Rightarrow> []
           | Inr kvs \<Rightarrow>
               (case object_meta (members ''metadata'' kvs) of None \<Rightarrow> [] | Some rv \<Rightarrow> rv))
      | BodyRaw _ \<Rightarrow> [])"

section \<open>Handlers\<close>

text \<open>Command \<open>k8s.api\<close> (internal/handlers/api/handler.go).\<close>

record api_env =
  ae_parse_url :: "string \<Rightarrow> go_error option"
  ae_send :: "http_req \<Rightarrow> go_error + http_resp"
  ae_num :: "json \<Rightarrow> json"
  ae_object_meta :: "json list \<Rightarrow> string option"
  ae_parse_duration :: "string \<Rightarrow> int option"

definition api_reply :: "api_env \<Rightarrow> command \<Rightarrow> request_meta \<Rightarrow> clock \<Rightarrow> int \<Rightarrow> http_body \<Rightarrow> response" where
  "api_reply w c m t status trimmed =
     (let resp = (Completed (c_CommandID c) (m_CorrelationID m) (fst t) (snd t))
                   \<lparr>r_HTTPStatus := status, r_HTTPBody := trimmed,
                    r_ResourceVersion := ExtractResourceVersion (ae_object_meta w) trimmed\<rparr>
      in if status \<ge> 400 then
           resp\<lparr>r_Status := StatusFailed, r_Reason := ''HTTPError'',
                r_Error := Some \<lparr> ed_Code = ''HTTP_'' @ Itoa status,
                                  ed_Message = Errorf ''apiserver returned status %d'' [AInt status] \<rparr>\<rparr>
         else resp)"

definition api_Handle :: "api_env \<Rightarrow> rest_config \<Rightarrow> engine \<Rightarrow> bool \<Rightarrow> http_req list handle" where
  "api_Handle w rc e strip s c m t =
     (let rejected = (\<lambda>rsn code err. (s, Reply (Rejected (c_CommandID c) (m_CorrelationID m) rsn code err (fst t) (snd t))));
          failed = (\<lambda>s rsn code err. (s, Reply (Failed (c_CommandID c) (m_CorrelationID m) rsn code err (fst t) (snd t))))
      in case c_HTTP c of
        None \<Rightarrow> rejected ''ValidationFailed'' ''MISSING_HTTP'' (Errorf ''http field is required for k8s.api'' [])
      | Some h \<Rightarrow>
          (case AllowCommandType e TypeK8sAPI of
             Some err \<Rightarrow> rejected ''PolicyDenied'' ''FORBIDDEN_COMMAND'' err
           | None \<Rightarrow>
               (case AllowHTTP e (hr_Method h) (hr_Path h) of
                  Panic \<Rightarrow> (s, Crash)
                | Err err \<Rightarrow> rejected ''PolicyDenied'' ''FORBIDDEN_RESOURCE'' err
                | Ok _ \<Rightarrow>
                    (case ProxyRequest (ae_parse_url w) (ae_send w) rc
                            (TimeoutDuration (ae_parse_duration w) c (30 * second))
                            (hr_Method h) (hr_Path h) (hr_Query h) (hr_Headers h) (hr_Body h) of
                       (reqs, Inl err) \<Rightarrow> failed (s @ reqs) ''ProxyError'' ''K8S_API_ERROR'' err
                     | (reqs, Inr (status, body)) \<Rightarrow>
                         (case TrimResponse (ae_num w) strip body of
                            Inl err \<Rightarrow> failed (s @ reqs) ''TrimError'' ''TRIM_ERROR'' err
                          | Inr trimmed \<Rightarrow> (s @ reqs, Reply (api_reply w c m t status trimmed)))))))"

text \<open>Commands that are not there yet (internal/handlers/stub/handler.go): one reading of the clock.\<close>

definition stub_Handle :: "string \<Rightarrow> string \<Rightarrow> 's handle" where
  "stub_Handle commandType phase s c m t =
     (s, Reply (Rejected (c_CommandID c) (m_CorrelationID m) ''NotImplemented'' ''NOT_IMPLEMENTED''
           (Errorf ''command type %q is planned for %s'' [AStr commandType, AStr phase]) (fst t) (fst t)))"

section \<open>What trimming removes\<close>

text \<open>
  A place in a document is a path of member names and indices. The places that trimming removes: the
  managed fields and the last applied configuration in the metadata of the object and of its items,
  and their status when asked.
\<close>

datatype pstep = Key string | Index nat

fun at :: "json \<Rightarrow> pstep list \<Rightarrow> json option" where
  "at v [] = Some v"
| "at (JObj kvs) (Key k # p) = (case gm_get kvs k of None \<Rightarrow> None | Some v \<Rightarrow> at v p)"
| "at (JArr vs) (Index i # p) = (if i < length vs then at (vs ! i) p else None)"
| "at _ _ = None"

fun scalar :: "json \<Rightarrow> bool" where
  "scalar (JArr _) = False"
| "scalar (JObj _) = False"
| "scalar _ = True"

fun removed :: "bool \<Rightarrow> pstep list \<Rightarrow> bool" where
  "removed strip (Key k # p) =
     (if k = ''metadata'' then
        (case p of
           Key k' # p' \<Rightarrow>
             k' = ''managedFields'' \<or>
             k' = ''annotations'' \<and>
               (case p' of Key k'' # _ \<Rightarrow> k'' = ''kubectl.kubernetes.io/last-applied-configuration'' | _ \<Rightarrow> False)
         | _ \<Rightarrow> False)
      else if k = ''status'' then strip
      else if k = ''items'' then (case p of Index i # p' \<Rightarrow> removed strip p' | _ \<Rightarrow> False)
      else False)"
| "removed strip _ = False"

lemma at_Key: "at (JObj kvs) (Key k # p) = (case gm_get kvs k of None \<Rightarrow> None | Some v \<Rightarrow> at v p)"
  by simp

text \<open>Two documents agree on a place when it holds the same scalar, or none, in both.\<close>

definition same_scalar :: "json option \<Rightarrow> json option \<Rightarrow> bool" where
  "same_scalar a b \<longleftrightarrow> (\<forall>v. scalar v \<longrightarrow> (a = Some v) = (b = Some v))"

lemma same_scalar_refl [simp]: "same_scalar a a"
  by (simp add: same_scalar_def)

lemma gm_del_empty: "gm_del k m = [] \<Longrightarrow> k' \<noteq> k \<Longrightarrow> gm_get m k' = None"
  using gm_get_del [of k m] by (metis fun_upd_other gm_get_Nil)

lemma at_trim_annotations:
  "same_scalar (at (JObj (trim_annotations md)) p)
     (case p of Key k # Key k' # _ \<Rightarrow>
        if k = ''annotations'' \<and> k' = ''kubectl.kubernetes.io/last-applied-configuration'' then None
        else at (JObj md) p
      | _ \<Rightarrow> at (JObj md) p)"
proof (cases "\<exists>ann. gm_get md ''annotations'' = Some (JObj ann)")
  case False
  then have "trim_annotations md = md"
    by (auto simp: trim_annotations_def split: option.split json.split)
  then show ?thesis using False
    by (cases p; cases "hd p"; cases "tl p"; cases "hd (tl p)"; cases "gm_get md ''annotations''")
       (auto simp: same_scalar_def split: json.split elim: at.elims)
next
  case True
  then obtain ann where ann: "gm_get md ''annotations'' = Some (JObj ann)" by blast
  let ?k = "''kubectl.kubernetes.io/last-applied-configuration''"
  have empty: "gm_get ann k' = None" if "gm_del ?k ann = []" "k' \<noteq> ?k" for k'
    using gm_del_empty [OF that] .
  show ?thesis
  proof (cases p)
    case (Cons a q)
    then show ?thesis using ann empty
      by (cases a; cases q; cases "hd q")
         (auto simp: trim_annotations_def Let_def same_scalar_def)
  qed (auto simp: same_scalar_def)
qed

lemma gm_get_trimObjectMap:
  "gm_get (trimObjectMap strip kvs) k =
     (if k = ''items'' then
        (case gm_get kvs k of
           Some (JArr items) \<Rightarrow>
             Some (JArr (map (\<lambda>item. case item of JObj m \<Rightarrow> JObj (trimObjectMap strip m) | _ \<Rightarrow> item) items))
         | r \<Rightarrow> r)
      else if k = ''status'' \<and> strip then None
      else gm_get (trim_metadata kvs) k)"
  by (subst trimObjectMap.simps)
     (auto simp: Let_def gm_get_trim_metadata split: option.split json.split)

lemma gm_get_metadata:
  "gm_get (trim_metadata kvs) ''metadata'' =
     (case gm_get kvs ''metadata'' of
        Some (JObj md) \<Rightarrow> Some (JObj (trim_annotations (gm_del ''managedFields'' md)))
      | r \<Rightarrow> r)"
  by (auto simp: trim_metadata_def split: option.split json.split)

lemma trim_annotations_gone:
  "at (JObj (trim_annotations md)) (Key ''annotations'' # Key ''kubectl.kubernetes.io/last-applied-configuration'' # p) = None"
  by (auto simp: trim_annotations_def Let_def split: option.split json.split)

lemma gm_get_trim_annotations: "k \<noteq> ''annotations'' \<Longrightarrow> gm_get (trim_annotations md) k = gm_get md k"
  by (auto simp: trim_annotations_def Let_def split: option.split json.split)

lemma trim_removes: "removed strip p \<Longrightarrow> at (JObj (trimObjectMap strip kvs)) p = None"
proof (induction strip kvs arbitrary: p rule: trimObjectMap.induct)
  case (1 strip kvs)
  obtain k q where p: "p = Key k # q" using 1(2) by (cases "(strip, p)" rule: removed.cases) auto
  consider (md) "k = ''metadata''" | (st) "k = ''status''" "strip"
    | (items) i q' where "k = ''items''" "q = Index i # q'" "removed strip q'"
    using 1(2) p by (auto split: if_splits list.splits pstep.splits)
  then show ?case
  proof cases
    case md
    then obtain k' q' where q: "q = Key k' # q'" using 1(2) p by (auto split: list.splits pstep.splits)
    show ?thesis
    proof (cases "k' = ''managedFields''")
      case True
      then show ?thesis using md p q
        by (auto simp: gm_get_trimObjectMap gm_get_metadata gm_get_trim_annotations split: option.split json.split)
    next
      case False
      then obtain q'' where "k' = ''annotations''"
        "q' = Key ''kubectl.kubernetes.io/last-applied-configuration'' # q''"
        using 1(2) p q md by (auto split: list.splits pstep.splits)
      then show ?thesis using md p q trim_annotations_gone
        by (auto simp: gm_get_trimObjectMap gm_get_metadata split: option.split json.split simp del: at.simps(2) simp add: at_Key)
    qed
  next
    case st
    then show ?thesis using p by (simp add: gm_get_trimObjectMap)
  next
    case items
    have "at (case item of JObj m \<Rightarrow> JObj (trimObjectMap strip m) | _ \<Rightarrow> item) q' = None"
      if "gm_get kvs ''items'' = Some (JArr vs)" "item \<in> set vs" for vs item
      using 1(1) [OF refl refl that(1) refl that(2) _ items(3)] items(3)
      by (cases item; cases "(strip, q')" rule: removed.cases) auto
    then show ?thesis using p items
      by (auto simp: gm_get_trimObjectMap split: option.split json.split)
  qed
qed

lemma at_trim_metadata:
  assumes "\<not> removed strip (Key ''metadata'' # q)"
  shows "same_scalar (at (JObj (trim_metadata kvs)) (Key ''metadata'' # q)) (at (JObj kvs) (Key ''metadata'' # q))"
proof (cases "\<exists>md. gm_get kvs ''metadata'' = Some (JObj md)")
  case True
  then obtain md where md: "gm_get kvs ''metadata'' = Some (JObj md)" by blast
  have "same_scalar (at (JObj (trim_annotations (gm_del ''managedFields'' md))) q) (at (JObj md) q)"
    using at_trim_annotations [of "gm_del ''managedFields'' md" q] assms
    by (cases q; cases "hd q"; cases "tl q"; cases "hd (tl q)")
       (auto simp: same_scalar_def split: if_splits option.splits)
  then show ?thesis using md by (simp add: gm_get_metadata)
next
  case False
  then show ?thesis by (auto simp: gm_get_metadata split: option.split json.split)
qed

lemma trim_keeps:
  "\<not> removed strip p \<Longrightarrow> same_scalar (at (JObj (trimObjectMap strip kvs)) p) (at (JObj kvs) p)"
proof (induction strip kvs arbitrary: p rule: trimObjectMap.induct)
  case (1 strip kvs)
  show ?case
  proof (cases p)
    case (Cons a q)
    show ?thesis
    proof (cases a)
      case (Key k)
      consider "k = ''metadata''" | "k = ''items''" | "k \<noteq> ''metadata''" "k \<noteq> ''items''" by blast
      then show ?thesis
      proof cases
        case 1
        then show ?thesis using at_trim_metadata [of strip q kvs] \<open>\<not> removed strip p\<close> Cons Key
          by (simp add: gm_get_trimObjectMap)
      next
        case 3
        then show ?thesis using \<open>\<not> removed strip p\<close> Cons Key
          by (auto simp: gm_get_trimObjectMap gm_get_trim_metadata split: if_splits)
      next
        case 2
        have item: "same_scalar (at (case item of JObj m \<Rightarrow> JObj (trimObjectMap strip m) | _ \<Rightarrow> item) q') (at item q')"
          if "gm_get kvs ''items'' = Some (JArr vs)" "item \<in> set vs" "q = Index i # q'" for vs item i q'
          using 1(1) [OF refl refl that(1) refl that(2), of _ q'] 1(2) Cons Key 2 that(3)
          by (cases item) auto
        show ?thesis
        proof (cases "gm_get kvs ''items''")
          case (Some v)
          show ?thesis
          proof (cases v)
            case (JArr vs)
            then show ?thesis using Some Cons Key 2 item [of vs]
              by (cases q; cases "hd q") (auto simp: gm_get_trimObjectMap same_scalar_def)
          qed (use Some Cons Key 2 in \<open>simp_all add: gm_get_trimObjectMap\<close>)
        qed (use Cons Key 2 in \<open>simp add: gm_get_trimObjectMap\<close>)
      qed
    qed (use Cons in simp)
  qed (auto simp: same_scalar_def)
qed

lemma map_of_sort_key:
  fixes kvs :: "('a::linorder \<times> 'b) list"
  shows "map_of (sort_key fst kvs) k = map_of kvs k"
proof -
  have first: "map_of xs k = (case filter (\<lambda>x. fst x = k) xs of [] \<Rightarrow> None | x # _ \<Rightarrow> Some (snd x))"
    for xs :: "('a \<times> 'b) list"
    by (induction xs) auto
  show ?thesis by (simp add: first sort_key_stable)
qed

lemma map_of_map_snd: "map_of (map (\<lambda>(k, v). (k, f v)) kvs) k = map_option f (map_of kvs k)"
  by (induction kvs) auto

lemma at_marshal: "at (marshal_any v) p = map_option marshal_any (at v p)"
  by (induction v p rule: at.induct)
     (auto simp: gm_get_def map_of_sort_key map_of_map_snd split: option.split)

lemma marshal_scalar: "scalar v \<Longrightarrow> marshal_any w = v \<longleftrightarrow> w = v"
  by (cases w; cases v) auto

text \<open>
  C32: trimming a response takes away exactly what it is meant to: for every object the API server
  answers with, the result is an object in which no managed fields, no last applied configuration
  and, when asked, no status is left, neither in the object nor in its items at any depth, and every
  other scalar is where it was, with nothing added.
\<close>

theorem trim_exact:
  assumes "any_of num v = JObj kvs"
  shows "\<exists>out. TrimResponse num strip (BodyJson v) = Inr (BodyJson out) \<and>
    (\<forall>p. (removed strip p \<longrightarrow> at out p = None) \<and>
         (\<not> removed strip p \<longrightarrow> same_scalar (at out p) (at (any_of num v) p)))"
proof -
  let ?out = "marshal_any (JObj (trimObjectMap strip kvs))"
  have m: "at ?out p = Some x \<longleftrightarrow> at (JObj (trimObjectMap strip kvs)) p = Some x" if "scalar x" for p x
    using that by (auto simp: at_marshal marshal_scalar simp del: marshal_any.simps)
  have "TrimResponse num strip (BodyJson v) = Inr (BodyJson ?out)"
    using assms by (simp add: TrimResponse_def del: marshal_any.simps)
  moreover have "removed strip p \<Longrightarrow> at ?out p = None" for p
    by (simp add: at_marshal trim_removes del: marshal_any.simps)
  moreover have "\<not> removed strip p \<Longrightarrow> same_scalar (at ?out p) (at (any_of num v) p)" for p
    using trim_keeps [of strip p kvs] assms m by (simp add: same_scalar_def)
  ultimately show ?thesis by blast
qed

definition demo_object :: json where
  "demo_object =
     JObj [(''metadata'', JObj [(''name'', JStr ''web''), (''managedFields'', JArr [JObj [(''manager'', JStr ''kubectl'')]]),
             (''annotations'', JObj [(''kubectl.kubernetes.io/last-applied-configuration'', JStr ''{}'')])]),
           (''items'', JArr [JObj [(''metadata'', JObj [(''managedFields'', JNull)]), (''status'', JStr ''ok'')], JInt 3])]"

theorem trim_exact_witness:
  "any_of id demo_object = JObj (case any_of id demo_object of JObj kvs \<Rightarrow> kvs | _ \<Rightarrow> []) \<and>
   (\<exists>out. TrimResponse id True (BodyJson demo_object) = Inr (BodyJson out) \<and>
      same_scalar (at out [Key ''metadata'', Key ''name'']) (Some (JStr ''web'')) \<and>
      at out [Key ''items'', Index 0, Key ''status''] = None)"
proof
  show obj: "any_of id demo_object = JObj (case any_of id demo_object of JObj kvs \<Rightarrow> kvs | _ \<Rightarrow> [])"
    by (simp add: demo_object_def)
  obtain out where out: "TrimResponse id True (BodyJson demo_object) = Inr (BodyJson out)"
    and gone: "\<And>p. removed True p \<Longrightarrow> at out p = None"
    and kept: "\<And>p. \<not> removed True p \<Longrightarrow> same_scalar (at out p) (at (any_of id demo_object) p)"
    using trim_exact [OF obj, of True] by blast
  have "at (any_of id demo_object) [Key ''metadata'', Key ''name''] = Some (JStr ''web'')"
    by code_simp
  then have "same_scalar (at out [Key ''metadata'', Key ''name'']) (Some (JStr ''web''))"
    using kept [of "[Key ''metadata'', Key ''name'']"] by simp
  moreover have "at out [Key ''items'', Index 0, Key ''status''] = None" by (rule gone) simp
  ultimately show "\<exists>out. TrimResponse id True (BodyJson demo_object) = Inr (BodyJson out) \<and>
      same_scalar (at out [Key ''metadata'', Key ''name'']) (Some (JStr ''web'')) \<and>
      at out [Key ''items'', Index 0, Key ''status''] = None"
    using out by blast
qed

section \<open>What the proxy lets through\<close>

lemma ProxyRequest_cases:
  obtains (bad) err where "ProxyRequest pu send rc tmo mth path query hs body = ([], Inl err)"
  | (sent) req res where "ProxyRequest pu send rc tmo mth path query hs body = ([req], res)"
      "hq_Method req = ToUpper mth" "hq_URL req = proxy_url (rc_Host rc) path query"
      "hq_Header req = proxy_headers hs body" "hq_Body req = body" "hq_Timeout req = tmo"
      "res = sum_bind (send req) (\<lambda>resp. sum_bind (hs_Read resp (10 * 1048576)) (\<lambda>b. Inr (hs_StatusCode resp, b)))"
proof (cases "new_request_error pu (ToUpper mth) (proxy_url (rc_Host rc) path query)")
  case None
  define req where "req = \<lparr> hq_Method = ToUpper mth, hq_URL = proxy_url (rc_Host rc) path query,
    hq_Header = proxy_headers hs body, hq_Body = body, hq_Timeout = tmo \<rparr>"
  show thesis by (rule sent [of req]) (simp_all add: ProxyRequest_def None Let_def req_def)
next
  case (Some e)
  show thesis by (rule bad [of e]) (simp add: ProxyRequest_def Some Let_def)
qed

lemma api_reply_sel [simp]:
  "r_Status (api_reply w c m t st b) = (if st \<ge> 400 then StatusFailed else StatusCompleted)"
  "r_HTTPStatus (api_reply w c m t st b) = st" "r_HTTPBody (api_reply w c m t st b) = b"
  by (simp_all add: api_reply_def response_defs Let_def)

lemma TrimResponse_Inr: "\<exists>b. TrimResponse num strip body = Inr b"
  by (auto simp: TrimResponse_def split: http_body.split json.split)

lemma api_reply_ok: "reply_ok c m t (api_reply w c m t st b)"
  by (simp add: api_reply_def reply_ok_def response_defs Let_def)

lemma api_Handle_cases:
  assumes "api_Handle w rc e strip s c m t = (s', r)"
  obtains (crash) "s' = s" "r = Crash"
  | (rejected) rsn code err where "s' = s"
      "r = Reply (Rejected (c_CommandID c) (m_CorrelationID m) rsn code err (fst t) (snd t))"
  | (failed) h reqs err where "c_HTTP c = Some h" "AllowCommandType e TypeK8sAPI = None"
      "AllowHTTP e (hr_Method h) (hr_Path h) = Ok ()" "s' = s @ reqs"
      "ProxyRequest (ae_parse_url w) (ae_send w) rc (TimeoutDuration (ae_parse_duration w) c (30 * second))
         (hr_Method h) (hr_Path h) (hr_Query h) (hr_Headers h) (hr_Body h) = (reqs, Inl err)"
      "r = Reply (Failed (c_CommandID c) (m_CorrelationID m) ''ProxyError'' ''K8S_API_ERROR'' err (fst t) (snd t))"
  | (answered) h reqs st body trimmed where "c_HTTP c = Some h" "AllowCommandType e TypeK8sAPI = None"
      "AllowHTTP e (hr_Method h) (hr_Path h) = Ok ()" "s' = s @ reqs"
      "ProxyRequest (ae_parse_url w) (ae_send w) rc (TimeoutDuration (ae_parse_duration w) c (30 * second))
         (hr_Method h) (hr_Path h) (hr_Query h) (hr_Headers h) (hr_Body h) = (reqs, Inr (st, body))"
      "TrimResponse (ae_num w) strip body = Inr trimmed"
      "r = Reply (api_reply w c m t st trimmed)"
proof (cases "c_HTTP c")
  case None
  then show thesis using assms rejected by (auto simp: api_Handle_def)
next
  case (Some h)
  note h = this
  show thesis
  proof (cases "AllowCommandType e TypeK8sAPI")
    case (Some err)
    then show thesis using h assms rejected by (auto simp: api_Handle_def)
  next
    case None
    note c = this
    show thesis
    proof (cases "AllowHTTP e (hr_Method h) (hr_Path h)")
      case (Ok u)
      obtain reqs res where pr: "ProxyRequest (ae_parse_url w) (ae_send w) rc
          (TimeoutDuration (ae_parse_duration w) c (30 * second))
          (hr_Method h) (hr_Path h) (hr_Query h) (hr_Headers h) (hr_Body h) = (reqs, res)" by fastforce
      show thesis
      proof (cases res)
        case (Inl err)
        show thesis
          by (rule failed [of h reqs err]) (use h c Ok pr Inl assms in \<open>simp_all add: api_Handle_def\<close>)
      next
        case (Inr sb)
        obtain b where b: "TrimResponse (ae_num w) strip (snd sb) = Inr b" using TrimResponse_Inr by blast
        show thesis
          by (rule answered [of h reqs "fst sb" "snd sb" b])
             (use h c Ok pr Inr b assms in \<open>simp_all add: api_Handle_def split: prod.splits\<close>)
      qed
    qed (use h c assms rejected crash in \<open>auto simp: api_Handle_def\<close>)
  qed
qed

interpretation api_h: command_handler "api_Handle w rc e strip" for w rc e strip
proof
  fix s s' c m t r
  assume "api_Handle w rc e strip s c m t = (s', Reply r)"
  then show "reply_ok c m t r"
    by (cases rule: api_Handle_cases) (auto simp: api_reply_ok)
qed

lemma ProxyRequest_sent:
  assumes "ProxyRequest pu send rc tmo mth path query hs body = (reqs, res)" and "reqs \<noteq> []"
  obtains req where "reqs = [req]" "hq_Method req = ToUpper mth" "hq_URL req = proxy_url (rc_Host rc) path query"
  using assms
  by (cases rule: ProxyRequest_cases [of pu send rc tmo mth path query hs body]) auto

lemma api_Handle_sent:
  assumes "api_Handle w rc e strip s c m t = (s', r)" and "s' \<noteq> s"
  obtains h req where "c_HTTP c = Some h" "s' = s @ [req]" "AllowCommandType e TypeK8sAPI = None"
    "AllowHTTP e (hr_Method h) (hr_Path h) = Ok ()"
    "hq_Method req = ToUpper (hr_Method h)" "hq_URL req = proxy_url (rc_Host rc) (hr_Path h) (hr_Query h)"
  using assms(1)
proof (cases rule: api_Handle_cases)
  case (failed h reqs err)
  from failed(5) show thesis
    by (rule ProxyRequest_sent) (use failed assms(2) that in auto)
next
  case (answered h reqs st body trimmed)
  from answered(5) show thesis
    by (rule ProxyRequest_sent) (use answered assms(2) that in auto)
qed (use assms(2) in auto)


definition demo_api :: api_env where
  "demo_api =
     \<lparr> ae_parse_url = (\<lambda>_. None),
       ae_send = (\<lambda>_. Inr \<lparr> hs_StatusCode = 200, hs_Read = (\<lambda>_. Inr (BodyJson (JObj []))) \<rparr>),
       ae_num = id, ae_object_meta = (\<lambda>_. None), ae_parse_duration = (\<lambda>_. None) \<rparr>"

definition pods_command :: command where
  "pods_command =
     \<lparr> c_SchemaVersion = ''v1'', c_CommandID = ''c1'', c_Type = TypeK8sAPI, c_Issuer = ''core'',
       c_IdempotencyKey = ''k'', c_Timeout = [], c_IssuedAt = 1,
       c_HTTP = Some \<lparr> hr_Method = ''get'', hr_Path = ''/api/v1/namespaces/shop/pods'', hr_Query = ''limit=5'',
                       hr_Headers = [(''accept'', ''application/yaml'')], hr_Body = None \<rparr>,
       c_Payload = None \<rparr>"

definition pods_meta :: request_meta where
  "pods_meta = \<lparr> m_CorrelationID = ''42'', m_ReplyTopic = ''core.r'', m_Partition = 0, m_Offset = 0 \<rparr>"

definition demo_rest :: rest_config where
  "demo_rest = \<lparr> rc_Host = ''https://k8s'', rc_QPS = 0, rc_Burst = 0 \<rparr>"


end
