(* ===== verification/Subscriptions.thy ===== *)
theory Subscriptions
  imports Policy_Engine
begin

text \<open>
  What the three subscription managers share. Contexts (package \<open>context\<close>): a context is an index
  into the list of all contexts made so far, with its deadline and whether it was cancelled. The
  contract of a table of subscriptions and the start and stop handlers that rely on it
  (\<open>internal/handlers/watch\<close>, \<open>logstream\<close> and \<open>health\<close> have the same body up to their texts).
\<close>

section \<open>Contexts\<close>

record ctx =
  cx_deadline :: "gtime option"
  cx_cancelled :: bool

type_synonym ctxs = "ctx list"

text \<open>
  \<open>subscriptionContext\<close>, which each manager defines for itself: a time out when the time to live is
  positive. \<open>now\<close> is the instant \<open>context.WithTimeout\<close> reads.
\<close>

definition subscriptionContext :: "gtime \<Rightarrow> int \<Rightarrow> ctxs \<Rightarrow> ctxs \<times> nat" where
  "subscriptionContext now ttlSeconds cs =
     (cs @ [\<lparr> cx_deadline = (if ttlSeconds > 0 then Some (now + seconds_duration ttlSeconds) else None),
              cx_cancelled = False \<rparr>], length cs)"

definition cancel :: "nat \<Rightarrow> ctxs \<Rightarrow> ctxs" where
  "cancel i cs = (if i < length cs then cs[i := (cs ! i)\<lparr>cx_cancelled := True\<rparr>] else cs)"

definition cancelled :: "ctxs \<Rightarrow> nat \<Rightarrow> bool" where
  "cancelled cs i \<longleftrightarrow> i < length cs \<and> cx_cancelled (cs ! i)"

text \<open>\<open>ctx.Done()\<close> is closed.\<close>

definition ctx_done :: "gtime \<Rightarrow> ctxs \<Rightarrow> nat \<Rightarrow> bool" where
  "ctx_done now cs i \<longleftrightarrow>
     cancelled cs i \<or> i < length cs \<and> (case cx_deadline (cs ! i) of None \<Rightarrow> False | Some d \<Rightarrow> d \<le> now)"

lemma length_cancel [simp]: "length (cancel i cs) = length cs"
  by (simp add: cancel_def)

lemma cancelled_cancel [simp]: "cancelled (cancel i cs) j \<longleftrightarrow> cancelled cs j \<or> i = j \<and> i < length cs"
  by (auto simp: cancelled_def cancel_def nth_list_update)

lemma fold_cancel: "length (fold cancel is cs) = length cs \<and>
    (cancelled (fold cancel is cs) j \<longleftrightarrow> cancelled cs j \<or> j \<in> set is \<and> j < length cs)"
  by (induction "is" arbitrary: cs) auto

lemma subscriptionContext_new:
  assumes "subscriptionContext now ttl cs = (cs', i)"
  shows "i = length cs" "length cs' = Suc (length cs)" "\<not> cancelled cs' i"
    "j < length cs \<Longrightarrow> cancelled cs' j \<longleftrightarrow> cancelled cs j"
    "j < length cs \<Longrightarrow> cs' ! j = cs ! j"
  using assms by (auto simp: subscriptionContext_def cancelled_def nth_append)

lemma ctx_done_cancelled: "cancelled cs i \<Longrightarrow> ctx_done now cs i"
  by (simp add: ctx_done_def)

lemma ctx_done_later: "ctx_done now cs i \<Longrightarrow> now \<le> t \<Longrightarrow> ctx_done t cs i"
  by (auto simp: ctx_done_def split: option.splits)

section \<open>The contract of a subscription table\<close>

text \<open>
  \<open>active\<close> is the set of ids in the table. A start that succeeds adds its id, one that fails touches
  no id but its own; a stop removes exactly its id and fails, changing nothing, when it is not there.
\<close>

locale subscription_table =
  fixes active :: "'m \<Rightarrow> string set"
    and ident :: "'p \<Rightarrow> string"
    and start :: "'m \<Rightarrow> 'p \<Rightarrow> 'm \<times> go_error option"
    and stop :: "'m \<Rightarrow> string \<Rightarrow> 'm \<times> go_error option"
    and stop_all :: "'m \<Rightarrow> 'm"
  assumes start_ok: "start m p = (m', None) \<Longrightarrow> active m' = insert (ident p) (active m)"
    and start_error: "start m p = (m', Some e) \<Longrightarrow> active m' \<union> {ident p} = active m \<union> {ident p}"
    and stop_ok: "i \<in> active m \<Longrightarrow> snd (stop m i) = None \<and> active (fst (stop m i)) = active m - {i}"
    and stop_missing: "i \<notin> active m \<Longrightarrow> snd (stop m i) \<noteq> None \<and> fst (stop m i) = m"
    and stopped_all: "active (stop_all m) = {}"
begin

lemma start_stop:
  "start m p = (m', None) \<Longrightarrow> snd (stop m' (ident p)) = None \<and> active (fst (stop m' (ident p))) = active m - {ident p}"
  using stop_ok [of "ident p" m'] by (auto dest: start_ok)

lemma stop_twice: "snd (stop (fst (stop m i)) i) \<noteq> None"
  by (cases "i \<in> active m") (auto simp: stop_ok stop_missing)

lemma stop_none_iff: "snd (stop m i) = None \<longleftrightarrow> i \<in> active m"
  using stop_ok stop_missing by blast

lemma start_others: "start m p = (m', r) \<Longrightarrow> i \<noteq> ident p \<Longrightarrow> i \<in> active m' \<longleftrightarrow> i \<in> active m"
  by (cases r) (use start_ok start_error in blast)+

end

section \<open>Start and stop handlers\<close>

text \<open>
  The common body: decode the payload, call the manager, report. \<open>extra\<close> sets the fields of the reply
  that depend on the payload.
\<close>

definition start_handler ::
  "(raw \<Rightarrow> go_error + 'p) \<Rightarrow> (gtime \<Rightarrow> 'm \<Rightarrow> 'p \<Rightarrow> 'm \<times> go_error option) \<Rightarrow> string \<Rightarrow> string
     \<Rightarrow> ('p \<Rightarrow> response \<Rightarrow> response) \<Rightarrow> 'm handle" where
  "start_handler parse start rsn code extra s c m t =
     (case parse (c_Payload c) of
        Inl err \<Rightarrow> (s, Reply (Rejected (c_CommandID c) (m_CorrelationID m) ''ValidationFailed''
                             ''INVALID_PAYLOAD'' err (fst t) (snd t)))
      | Inr payload \<Rightarrow>
          (case start (fst t) s payload of
             (s', Some err) \<Rightarrow>
               (s', Reply (Failed (c_CommandID c) (m_CorrelationID m) rsn code err (fst t) (snd t)))
           | (s', None) \<Rightarrow>
               (s', Reply (extra payload
                      (Completed (c_CommandID c) (m_CorrelationID m) (fst t) (snd t))))))"

definition stop_handler ::
  "(raw \<Rightarrow> go_error + string) \<Rightarrow> ('m \<Rightarrow> string \<Rightarrow> 'm \<times> go_error option) \<Rightarrow> string \<Rightarrow> string \<Rightarrow> 'm handle" where
  "stop_handler parse stop rsn code s c m t =
     (case parse (c_Payload c) of
        Inl err \<Rightarrow> (s, Reply (Rejected (c_CommandID c) (m_CorrelationID m) ''ValidationFailed''
                             ''INVALID_PAYLOAD'' err (fst t) (snd t)))
      | Inr i \<Rightarrow>
          (case stop s i of
             (s', Some err) \<Rightarrow>
               (s', Reply (Failed (c_CommandID c) (m_CorrelationID m) rsn code err (fst t) (snd t)))
           | (s', None) \<Rightarrow>
               (s', Reply (Completed (c_CommandID c) (m_CorrelationID m) (fst t) (snd t)))))"

lemma command_handler_start:
  assumes "\<And>p c m t r. reply_ok c m t (extra p r) = reply_ok c m t r"
  shows "command_handler (start_handler parse start rsn code extra)"
  by unfold_locales
     (auto simp: start_handler_def assms split: sum.splits prod.splits option.splits)

lemma command_handler_stop: "command_handler (stop_handler parse stop rsn code)"
  by unfold_locales (auto simp: stop_handler_def split: sum.splits prod.splits option.splits)

text \<open>\<open>subscription_id\<close> alone: the payload of the three stop commands.\<close>

definition ParseStopPayload :: "raw \<Rightarrow> go_error + string" where
  "ParseStopPayload raw =
     sum_bind
       (decode_payload (sum_bind (unmarshal_struct raw) (\<lambda>kvs. or_json_error (fld_str ''subscription_id'' kvs))))
       (\<lambda>i. if i = [] then Inl (Errorf ''subscription_id is required'' []) else Inr i)"

text \<open>What the replies of the two handlers say about the table.\<close>

lemma start_handler_completed:
  assumes "start_handler parse start rsn code extra s c m t = (s', Reply r)"
    and "\<And>p r. r_Status (extra p r) = r_Status r"
  shows "r_Status r = StatusCompleted \<longleftrightarrow>
    (\<exists>p. parse (c_Payload c) = Inr p \<and> start (fst t) s p = (s', None))"
  using assms by (auto simp: start_handler_def response_defs split: sum.splits prod.splits option.splits)

lemma stop_handler_completed:
  assumes "stop_handler parse stop rsn code s c m t = (s', Reply r)"
  shows "r_Status r = StatusCompleted \<longleftrightarrow>
    (\<exists>i. parse (c_Payload c) = Inr i \<and> stop s i = (s', None))"
  using assms by (auto simp: stop_handler_def response_defs split: sum.splits prod.splits option.splits)

end
