(* ===== verification/Node_Logs.thy ===== *)
theory Node_Logs
  imports K8s_Api
begin

text \<open>
  Logs read on the node: \<open>internal/nodelocal\<close> (the reader of the log files of the kubelet, the client
  that asks a node) and \<open>internal/nodeagent\<close> (the HTTP server on the node).

  Outside the source are the file system (\<open>node_fs\<close>), the network, the lister of agent pods, and three
  functions on text: \<open>pj\<close> parses a JSON document, \<open>pt\<close> is \<open>time.Parse\<close> with \<open>RFC3339Nano\<close> and \<open>ft\<close> the
  format of an instant in JSON.
\<close>

section \<open>Paths (package path/filepath)\<close>

fun clean_parts :: "bool \<Rightarrow> string list \<Rightarrow> string list \<Rightarrow> string list" where
  "clean_parts rooted st [] = rev st"
| "clean_parts rooted st (p # ps) =
     (if p = [] \<or> p = ''.'' then clean_parts rooted st ps
      else if p = ''..'' then
        (case st of
           [] \<Rightarrow> clean_parts rooted (if rooted then [] else [''..'']) ps
         | s # st' \<Rightarrow> clean_parts rooted (if s = ''..'' then ''..'' # st else st') ps)
      else clean_parts rooted (p # st) ps)"

definition path_clean :: "string \<Rightarrow> string" where
  "path_clean path =
     (if path = [] then ''.''
      else let rooted = (hd path = CHR ''/'');
               s = JoinStr (clean_parts rooted [] (SplitChar (CHR ''/'') path)) ''/''
           in if rooted then ''/'' @ s else if s = [] then ''.'' else s)"

definition path_join :: "string list \<Rightarrow> string" where
  "path_join es =
     (let es = filter (\<lambda>e. e \<noteq> []) es in if es = [] then [] else path_clean (JoinStr es ''/''))"

section \<open>Reader (internal/nodelocal/reader.go)\<close>

record read_options =
  ro_Namespace :: string
  ro_Pod :: string
  ro_PodUID :: string
  ro_Container :: string
  ro_Previous :: bool
  ro_SinceTime :: "gtime option"
  ro_TailLines :: "int option"
  ro_LimitBytes :: "int option"

record node_fs =
  fs_readdir :: "string \<Rightarrow> go_error + (string \<times> bool) list"
  fs_isdir :: "string \<Rightarrow> bool"
  fs_mtime :: "string \<Rightarrow> gtime option"
  fs_open :: "string \<Rightarrow> go_error + string"

definition NewReader :: "string \<Rightarrow> string" where
  "NewReader root = (if root = [] then ''/var/log/pods'' else root)"

text \<open>The expression \<open>numberedLog\<close>; \<open>strconv.Atoi\<close> of digits that do not fit gives the largest \<open>int\<close>.\<close>

definition numberedLog :: "string \<Rightarrow> int option" where
  "numberedLog name =
     (if HasSuffix name ''.log'' then
        (case parse_nat (TrimSuffix name ''.log'') of
           None \<Rightarrow> None
         | Some n \<Rightarrow> Some (if n \<le> max_int then n else max_int))
      else None)"

text \<open>
  \<open>sort.Slice\<close> on up to twelve elements is insertion sort: each element moves to the left while it is
  less than its neighbour. The prefix that is sorted is kept in reverse.
\<close>

fun insert_left :: "('a \<Rightarrow> 'a \<Rightarrow> bool) \<Rightarrow> 'a \<Rightarrow> 'a list \<Rightarrow> 'a list" where
  "insert_left lt x [] = [x]"
| "insert_left lt x (y # ys) = (if lt x y then y # insert_left lt x ys else x # y # ys)"

definition sort_slice :: "('a \<Rightarrow> 'a \<Rightarrow> bool) \<Rightarrow> 'a list \<Rightarrow> 'a list" where
  "sort_slice lt xs = rev (foldl (\<lambda>rs x. insert_left lt x rs) [] xs)"

definition newer :: "node_fs \<Rightarrow> string \<Rightarrow> string \<Rightarrow> bool" where
  "newer fs a b =
     (case (fs_mtime fs a, fs_mtime fs b) of
        (Some ta, Some tb) \<Rightarrow> ta > tb
      | _ \<Rightarrow> a < b)"

definition findPodDir :: "node_fs \<Rightarrow> string \<Rightarrow> string \<Rightarrow> string \<Rightarrow> string \<Rightarrow> go_error + string" where
  "findPodDir fs root namespace pod uid =
     (if uid \<noteq> [] then
        let dir = path_join [root, namespace @ ''_'' @ pod @ ''_'' @ uid]
        in if fs_isdir fs dir then Inr dir
           else Inl (Errorf ''pod log dir not found for uid %s'' [AStr uid])
      else
        let prefix = namespace @ ''_'' @ pod @ ''_''
        in case fs_readdir fs root of
             Inl e \<Rightarrow> Inl (Errorf ''read pod logs root: %w'' [AErr e])
           | Inr entries \<Rightarrow>
               let dirs = map (\<lambda>(n, _). path_join [root, n]) (filter (\<lambda>(n, d). d \<and> HasPrefix n prefix) entries)
               in case dirs of
                    [] \<Rightarrow> Inl (Errorf ''pod log dir not found for %s/%s'' [AStr namespace, AStr pod])
                  | [dir] \<Rightarrow> Inr dir
                  | _ \<Rightarrow> Inr (hd (sort_slice (newer fs) dirs)))"

text \<open>The file to read: the one with the largest number, the second largest for the previous container.\<close>

definition pick_log :: "read_options \<Rightarrow> int list \<Rightarrow> go_error + int" where
  "pick_log opts nums =
     (let nums = sort nums
      in if nums = [] then
           Inl (Errorf ''no log files for container %s in %s/%s''
                  [AStr (ro_Container opts), AStr (ro_Namespace opts), AStr (ro_Pod opts)])
         else if ro_Previous opts then
           (if length nums < 2 then Inl (Errorf ''no previous log for container %s'' [AStr (ro_Container opts)])
            else Inr (nums ! (length nums - 2)))
         else Inr (nums ! (length nums - 1)))"

definition resolveLogFile :: "node_fs \<Rightarrow> string \<Rightarrow> read_options \<Rightarrow> go_error + string" where
  "resolveLogFile fs root opts =
     (if ro_Namespace opts = [] \<or> ro_Pod opts = [] \<or> ro_Container opts = [] then
        Inl (Errorf ''namespace, pod and container are required'' [])
      else
        sum_bind (findPodDir fs root (ro_Namespace opts) (ro_Pod opts) (ro_PodUID opts)) (\<lambda>podDir.
          let containerDir = path_join [podDir, ro_Container opts]
          in case fs_readdir fs containerDir of
               Inl e \<Rightarrow> Inl (Errorf ''container logs %s: %w'' [AStr (ro_Container opts), AErr e])
             | Inr entries \<Rightarrow>
                 sum_bind (pick_log opts
                     (List.map_filter (\<lambda>(n, d). if d then None else numberedLog n) entries)) (\<lambda>n.
                   Inr (path_join [containerDir, Itoa n @ ''.log'']))))"

definition trim_eol :: "string \<Rightarrow> string" where
  "trim_eol s = trim_right (\<lambda>c. c = CHR 0x0A \<or> c = CHR 0x0D) s"

definition parseCRILine ::
  "(string \<Rightarrow> json option) \<Rightarrow> (string \<Rightarrow> gtime option) \<Rightarrow> string \<Rightarrow> (string \<times> gtime option) option" where
  "parseCRILine pj pt raw =
     (case unmarshal_struct (pj raw) of
        Inl _ \<Rightarrow> None
      | Inr kvs \<Rightarrow>
          (case (fld_str ''log'' kvs, fld_str ''stream'' kvs, fld_str ''time'' kvs) of
             (Some log, Some _, Some time) \<Rightarrow>
               Some (trim_eol log, if time = [] then None else pt time)
           | _ \<Rightarrow> None))"

text \<open>
  \<open>bufio.Scanner\<close> with a buffer of one mebibyte: the lines before the first that does not fit, and
  whether there was one. A carriage return before the end of the line is dropped.
\<close>

definition drop_cr :: "string \<Rightarrow> string" where
  "drop_cr l = (if l \<noteq> [] \<and> last l = CHR 0x0D then butlast l else l)"

definition scan_lines :: "string \<Rightarrow> string list \<times> bool" where
  "scan_lines s =
     (let ls = SplitChar (CHR 0x0A) s;
          ls = (if last ls = [] then butlast ls else ls);
          fit = takeWhile (\<lambda>l. int (length l) < 1048576) ls
      in (map drop_cr fit, length fit < length ls))"

text \<open>A line as the loop of \<open>decodeTo\<close> takes it, and the two tests on it.\<close>

definition decoded :: "(string \<Rightarrow> json option) \<Rightarrow> (string \<Rightarrow> gtime option) \<Rightarrow> string \<Rightarrow> string \<times> gtime option" where
  "decoded pj pt raw = (case parseCRILine pj pt raw of None \<Rightarrow> (raw, None) | Some r \<Rightarrow> r)"

definition too_old :: "gtime option \<Rightarrow> gtime option \<Rightarrow> bool" where
  "too_old since ts = (case (since, ts) of (Some s, Some t) \<Rightarrow> t < s | _ \<Rightarrow> False)"

definition over_limit :: "int option \<Rightarrow> int \<Rightarrow> bool" where
  "over_limit limit totalBytes = (case limit of None \<Rightarrow> False | Some l \<Rightarrow> totalBytes > l)"

text \<open>
  The loop: the lines kept so far, in order, and the count of their bytes. \<open>ctx_done i\<close> is whether the
  request is cancelled when line \<open>i\<close> is read.
\<close>

fun scan_loop ::
  "(string \<Rightarrow> json option) \<Rightarrow> (string \<Rightarrow> gtime option) \<Rightarrow> (nat \<Rightarrow> bool) \<Rightarrow> read_options \<Rightarrow> nat \<Rightarrow> string list
     \<Rightarrow> int \<Rightarrow> string list \<Rightarrow> (string list \<times> bool) option" where
  "scan_loop pj pt ctx_done opts i lines totalBytes [] = Some (lines, False)"
| "scan_loop pj pt ctx_done opts i lines totalBytes (raw # raws) =
     (if ctx_done i then None
      else case decoded pj pt raw of
        (msg, ts) \<Rightarrow>
          if too_old (ro_SinceTime opts) ts
          then scan_loop pj pt ctx_done opts (Suc i) lines totalBytes raws
          else if over_limit (ro_LimitBytes opts) (totalBytes + int (length msg) + 1)
          then Some (lines @ [msg], True)
          else scan_loop pj pt ctx_done opts (Suc i) (lines @ [msg]) (totalBytes + int (length msg) + 1) raws)"

definition tail_lines :: "int option \<Rightarrow> string list \<Rightarrow> string list" where
  "tail_lines n lines =
     (case n of
        Some k \<Rightarrow> if k \<ge> 0 \<and> int (length lines) > k then drop (nat (int (length lines) - k)) lines else lines
      | None \<Rightarrow> lines)"

text \<open>
  What \<open>decodeTo\<close> writes, \<open>None\<close> when it returns an error, which it does before it writes. The scan
  error counts only when the loop came that far.
\<close>

definition decodeTo ::
  "(string \<Rightarrow> json option) \<Rightarrow> (string \<Rightarrow> gtime option) \<Rightarrow> (nat \<Rightarrow> bool) \<Rightarrow> read_options \<Rightarrow> string \<Rightarrow> string option" where
  "decodeTo pj pt ctx_done opts content =
     (case scan_lines content of
        (raws, too_long) \<Rightarrow>
          (case scan_loop pj pt ctx_done opts 0 [] 0 raws of
             None \<Rightarrow> None
           | Some (lines, stopped) \<Rightarrow>
               if too_long \<and> \<not> stopped then None
               else Some (concat (map (\<lambda>l. l @ [CHR 0x0A]) (tail_lines (ro_TailLines opts) lines)))))"

text \<open>\<open>Open\<close>, and what reading its result to the end returns.\<close>

definition reader_Open ::
  "(string \<Rightarrow> json option) \<Rightarrow> (string \<Rightarrow> gtime option) \<Rightarrow> (nat \<Rightarrow> bool) \<Rightarrow> node_fs \<Rightarrow> string \<Rightarrow> read_options
     \<Rightarrow> go_error + string" where
  "reader_Open pj pt ctx_done fs root opts =
     sum_bind (resolveLogFile fs root opts) (\<lambda>path.
     sum_bind (fs_open fs path) (\<lambda>content.
       Inr (case decodeTo pj pt ctx_done opts content of None \<Rightarrow> [] | Some out \<Rightarrow> out)))"

section \<open>Requests (internal/nodelocal/client.go, internal/nodeagent/server.go)\<close>

record fetch_request =
  fr_Namespace :: string
  fr_Pod :: string
  fr_PodUID :: string
  fr_Container :: string
  fr_Previous :: bool
  fr_SinceTime :: "gtime option"
  fr_TailLines :: "int option"
  fr_LimitBytes :: "int option"

text \<open>\<open>json.Marshal\<close> of a request; empty and nil fields marked \<open>omitempty\<close> are left out.\<close>

definition omit_str :: "string \<Rightarrow> string \<Rightarrow> obj" where
  "omit_str k v = (if v = [] then [] else [(k, JStr v)])"

definition omit_nil :: "string \<Rightarrow> json option \<Rightarrow> obj" where
  "omit_nil k v = (case v of None \<Rightarrow> [] | Some j \<Rightarrow> [(k, j)])"

definition encode_fetch :: "(gtime \<Rightarrow> string) \<Rightarrow> fetch_request \<Rightarrow> json" where
  "encode_fetch ft r =
     JObj ([(''namespace'', JStr (fr_Namespace r)), (''pod'', JStr (fr_Pod r))]
           @ omit_str ''pod_uid'' (fr_PodUID r)
           @ [(''container'', JStr (fr_Container r)), (''previous'', JBool (fr_Previous r))]
           @ omit_nil ''since_time'' (map_option (\<lambda>t. JStr (ft t)) (fr_SinceTime r))
           @ omit_nil ''tail_lines'' (map_option JInt (fr_TailLines r))
           @ omit_nil ''limit_bytes'' (map_option JInt (fr_LimitBytes r)))"

definition decode_fetch :: "obj \<Rightarrow> fetch_request option" where
  "decode_fetch kvs =
     do {
       ns \<leftarrow> fld_str ''namespace'' kvs;
       pod \<leftarrow> fld_str ''pod'' kvs;
       uid \<leftarrow> fld_str ''pod_uid'' kvs;
       c \<leftarrow> fld_str ''container'' kvs;
       prev \<leftarrow> fld_bool ''previous'' kvs;
       since \<leftarrow> fld_time_ptr ''since_time'' kvs;
       tail \<leftarrow> fld_int_ptr ''tail_lines'' kvs;
       lim \<leftarrow> fld_int_ptr ''limit_bytes'' kvs;
       Some \<lparr> fr_Namespace = ns, fr_Pod = pod, fr_PodUID = uid, fr_Container = c, fr_Previous = prev,
              fr_SinceTime = since, fr_TailLines = tail, fr_LimitBytes = lim \<rparr>
     }"

subsection \<open>Client\<close>

text \<open>A pod of the agent: its address and its phase.\<close>

record agent_pod =
  ap_PodIP :: string
  ap_Phase :: string

record node_client =
  nc_Namespace :: string
  nc_Selector :: string
  nc_Port :: int
  nc_Token :: string

type_synonym pod_lister = "string \<Rightarrow> string \<Rightarrow> string \<Rightarrow> go_error + agent_pod list"

definition agent_ready :: "agent_pod \<Rightarrow> bool" where
  "agent_ready p \<longleftrightarrow> ap_PodIP p \<noteq> [] \<and> (ap_Phase p = [] \<or> ap_Phase p = ''Running'')"

definition ResolveAgentURL :: "pod_lister \<Rightarrow> node_client \<Rightarrow> string \<Rightarrow> go_error + string" where
  "ResolveAgentURL list_pods c nodeName =
     (if nodeName = [] then Inl (Errorf ''node name is empty'' [])
      else
        sum_bind (list_pods (nc_Namespace c) (nc_Selector c) (''spec.nodeName='' @ nodeName)) (\<lambda>items.
          case filter agent_ready items of
            [] \<Rightarrow> Inl (Errorf ''no logs-node-agent pod on node %s'' [AStr nodeName])
          | p # _ \<Rightarrow> Inr (''http://'' @ ap_PodIP p @ '':'' @ Itoa (nc_Port c))))"

text \<open>
  A call of the node agent: URL, headers, body and time out of the HTTP client. The answer is a
  status and a text; only 200 is a stream.
\<close>

record node_call =
  nr_URL :: string
  nr_Headers :: "(string, string) gomap"
  nr_Body :: json
  nr_Timeout :: int

type_synonym node_net = "node_call \<Rightarrow> go_error + int \<times> string"

definition node_request ::
  "(gtime \<Rightarrow> string) \<Rightarrow> pod_lister \<Rightarrow> node_net \<Rightarrow> node_client \<Rightarrow> string \<Rightarrow> fetch_request \<Rightarrow> string \<Rightarrow> int \<Rightarrow> string
     \<Rightarrow> go_error + string" where
  "node_request ft list_pods net c nodeName req endpoint timeout fmt =
     sum_bind (ResolveAgentURL list_pods c nodeName) (\<lambda>base.
     sum_bind (net \<lparr> nr_URL = base @ endpoint,
                     nr_Headers = [(''Content-Type'', ''application/json''), (''Authorization'', ''Bearer '' @ nc_Token c)],
                     nr_Body = encode_fetch ft req, nr_Timeout = timeout \<rparr>) (\<lambda>(status, body).
       if status \<noteq> 200 then Inl (Errorf fmt [AStr nodeName, AInt status, AStr (take 2048 body)])
       else Inr body))"

definition Fetch ::
  "(gtime \<Rightarrow> string) \<Rightarrow> pod_lister \<Rightarrow> node_net \<Rightarrow> node_client \<Rightarrow> string \<Rightarrow> fetch_request \<Rightarrow> go_error + string" where
  "Fetch ft list_pods net c nodeName req =
     node_request ft list_pods net c nodeName req ''/internal/v1/logs/fetch'' (120 * second)
       ''node agent %s: status %d: %s''"

definition node_Stream ::
  "(gtime \<Rightarrow> string) \<Rightarrow> pod_lister \<Rightarrow> node_net \<Rightarrow> node_client \<Rightarrow> string \<Rightarrow> fetch_request \<Rightarrow> go_error + string" where
  "node_Stream ft list_pods net c nodeName req =
     node_request ft list_pods net c nodeName req ''/internal/v1/logs/stream?follow=true'' 0
       ''node agent stream %s: status %d: %s''"

subsection \<open>Server\<close>

record node_server =
  ns_root :: string
  ns_policy :: "engine option"
  ns_token :: string
  ns_nodeName :: string

text \<open>An inbound request: method, \<open>Authorization\<close> header, body and whether the query has \<open>follow=true\<close>.\<close>

record node_http =
  nh_Method :: string
  nh_Auth :: string
  nh_Body :: raw
  nh_Follow :: bool

text \<open>An answer: an error status with its error, or a text.\<close>

datatype node_answer = Refused int go_error | Text string

definition node_authorize :: "node_server \<Rightarrow> string \<Rightarrow> bool" where
  "node_authorize s auth \<longleftrightarrow> \<not> (ns_token s = [] \<or> auth \<noteq> ''Bearer '' @ ns_token s)"

definition allowNS :: "node_server \<Rightarrow> string \<Rightarrow> go_error option" where
  "allowNS s ns = (case ns_policy s of None \<Rightarrow> None | Some e \<Rightarrow> AllowNamespace e ns)"

definition read_opts :: "fetch_request \<Rightarrow> read_options" where
  "read_opts r =
     \<lparr> ro_Namespace = fr_Namespace r, ro_Pod = fr_Pod r, ro_PodUID = fr_PodUID r, ro_Container = fr_Container r,
       ro_Previous = fr_Previous r, ro_SinceTime = fr_SinceTime r, ro_TailLines = fr_TailLines r,
       ro_LimitBytes = fr_LimitBytes r \<rparr>"

text \<open>The checks that both endpoints start with.\<close>

definition checked_fetch :: "node_server \<Rightarrow> node_http \<Rightarrow> (fetch_request \<Rightarrow> node_answer) \<Rightarrow> node_answer" where
  "checked_fetch s r serve =
     (if nh_Method r \<noteq> ''POST'' then Refused 405 (Errorf ''method not allowed'' [])
      else if \<not> node_authorize s (nh_Auth r) then Refused 401 (Errorf ''unauthorized'' [])
      else case sum_bind (unmarshal_struct (nh_Body r)) (\<lambda>kvs. or_json_error (decode_fetch kvs)) of
             Inl _ \<Rightarrow> Refused 400 (Errorf ''invalid JSON'' [])
           | Inr req \<Rightarrow>
               (case allowNS s (fr_Namespace req) of
                  Some e \<Rightarrow> Refused 403 e
                | None \<Rightarrow> serve req))"

definition handleFetch ::
  "(string \<Rightarrow> json option) \<Rightarrow> (string \<Rightarrow> gtime option) \<Rightarrow> (nat \<Rightarrow> bool) \<Rightarrow> node_fs \<Rightarrow> node_server \<Rightarrow> node_http
     \<Rightarrow> node_answer" where
  "handleFetch pj pt ctx_done fs s r =
     checked_fetch s r (\<lambda>req.
       case reader_Open pj pt ctx_done fs (ns_root s) (read_opts req) of
         Inl e \<Rightarrow> Refused 404 e
       | Inr out \<Rightarrow> Text out)"

text \<open>
  The follow loop of \<open>handleStream\<close>, one element of the list per second: whether the client is gone,
  the file system at that moment, and the clock after the copy.
\<close>

fun follow_loop ::
  "(string \<Rightarrow> json option) \<Rightarrow> (string \<Rightarrow> gtime option) \<Rightarrow> string \<Rightarrow> fetch_request
     \<Rightarrow> (bool \<times> node_fs \<times> gtime) list \<Rightarrow> string" where
  "follow_loop pj pt root req [] = []"
| "follow_loop pj pt root req ((gone, fs, t) # rounds) =
     (if gone then []
      else case reader_Open pj pt (\<lambda>_. False) fs root (read_opts req) of
             Inl e \<Rightarrow> []
           | Inr out \<Rightarrow> out @ follow_loop pj pt root (req\<lparr>fr_SinceTime := Some t\<rparr>) rounds)"

definition handleStream ::
  "(string \<Rightarrow> json option) \<Rightarrow> (string \<Rightarrow> gtime option) \<Rightarrow> node_fs \<Rightarrow> gtime \<Rightarrow> (bool \<times> node_fs \<times> gtime) list
     \<Rightarrow> node_server \<Rightarrow> node_http \<Rightarrow> node_answer" where
  "handleStream pj pt fs now rounds s r =
     checked_fetch s r (\<lambda>req.
       case reader_Open pj pt (\<lambda>_. False) fs (ns_root s) (read_opts req) of
         Inl e \<Rightarrow> Refused 404 e
       | Inr out \<Rightarrow>
           Text (out @ (if nh_Follow r
                        then follow_loop pj pt (ns_root s) (req\<lparr>fr_SinceTime := Some now, fr_TailLines := None\<rparr>) rounds
                        else [])))"

section \<open>Leader and node agree on a request\<close>

definition fetch_fields :: "string list" where
  "fetch_fields =
     [''namespace'', ''pod'', ''pod_uid'', ''container'', ''previous'', ''since_time'', ''tail_lines'', ''limit_bytes'']"

lemma fetch_fields_fold: "a \<in> set fetch_fields \<Longrightarrow> b \<in> set fetch_fields \<Longrightarrow> EqualFold a b \<longleftrightarrow> a = b"
proof -
  have "list_all (\<lambda>a. list_all (\<lambda>b. EqualFold a b = (a = b)) fetch_fields) fetch_fields" by code_simp
  then show "a \<in> set fetch_fields \<Longrightarrow> b \<in> set fetch_fields \<Longrightarrow> EqualFold a b \<longleftrightarrow> a = b"
    by (simp add: list_all_iff)
qed

lemma members_append [simp]: "members n (a @ b) = members n a @ members n b"
  by (simp add: members_def)

lemma members_field:
  "k \<in> set fetch_fields \<Longrightarrow> n \<in> set fetch_fields \<Longrightarrow> members n ((k, v) # kvs) = (if k = n then v # members n kvs else members n kvs)"
  "k \<in> set fetch_fields \<Longrightarrow> n \<in> set fetch_fields \<Longrightarrow> members n (omit_str k s) = (if k = n \<and> s \<noteq> [] then [JStr s] else [])"
  "k \<in> set fetch_fields \<Longrightarrow> n \<in> set fetch_fields \<Longrightarrow>
     members n (omit_nil k j) = (if k = n then (case j of None \<Rightarrow> [] | Some x \<Rightarrow> [x]) else [])"
  "members n [] = []"
  by (auto simp: members_def omit_str_def omit_nil_def fetch_fields_fold split: option.split)

text \<open>
  a log request survives the call from the leader to the node: what the node decodes from the body
  the leader sends is the request, with every optional field, as long as instants are written in a
  form that reads back and numbers fit 64 bits.
\<close>

lemma fetch_roundtrip:
  assumes "\<And>t. fr_SinceTime r = Some t \<Longrightarrow> parse_rfc3339 (ft t) = Some t"
    and "\<And>n. n \<in> set_option (fr_TailLines r) \<union> set_option (fr_LimitBytes r) \<Longrightarrow> min_int \<le> n \<and> n \<le> max_int"
  shows "sum_bind (unmarshal_struct (Some (encode_fetch ft r))) (\<lambda>kvs. or_json_error (decode_fetch kvs)) = Inr r"
proof -
  have f: "x \<in> set fetch_fields" if "x \<in> {''namespace'', ''pod'', ''pod_uid'', ''container'', ''previous'',
      ''since_time'', ''tail_lines'', ''limit_bytes''}" for x
    using that by (simp add: fetch_fields_def) 
  have time: "fr_SinceTime r = Some t \<Longrightarrow> json_time (JStr (ft t)) = Some t" for t using assms(1) by simp
  have num: "fr_TailLines r = Some n \<or> fr_LimitBytes r = Some n \<Longrightarrow> json_int (JInt n) = Some n" for n
    using assms(2) [of n] by auto
  show ?thesis
    using time num
    by (cases r; cases "fr_SinceTime r"; cases "fr_TailLines r"; cases "fr_LimitBytes r")
       (simp_all add: encode_fetch_def decode_fetch_def fld_str_def fld_bool_def fld_time_ptr_def fld_int_ptr_def
         members_field f or_json_error_def)
qed

definition demo_fetch :: fetch_request where
  "demo_fetch =
     \<lparr> fr_Namespace = ''shop'', fr_Pod = ''web'', fr_PodUID = ''u1'', fr_Container = ''app'', fr_Previous = False,
       fr_SinceTime = Some 1767225600000000000, fr_TailLines = Some 100, fr_LimitBytes = None \<rparr>"

lemma fetch_roundtrip_example:
  "sum_bind (unmarshal_struct (Some (encode_fetch (\<lambda>_. ''2026-01-01T00:00:00Z'') demo_fetch)))
     (\<lambda>kvs. or_json_error (decode_fetch kvs)) = Inr demo_fetch"
proof (rule fetch_roundtrip)
  have "parse_rfc3339 ''2026-01-01T00:00:00Z'' = Some 1767225600000000000" by code_simp
  then show "parse_rfc3339 ''2026-01-01T00:00:00Z'' = Some t" if "fr_SinceTime demo_fetch = Some t" for t
    using that by (simp add: demo_fetch_def)
qed (auto simp: demo_fetch_def min_int_def max_int_def)

section \<open>Which file is read\<close>

text \<open>A name of a file: not empty, without a separator, and neither of the two special names.\<close>

definition name_ok :: "string \<Rightarrow> bool" where
  "name_ok n \<longleftrightarrow> n \<noteq> [] \<and> CHR ''/'' \<notin> set n \<and> n \<noteq> ''.'' \<and> n \<noteq> ''..''"

lemma clean_parts_ok: "list_all name_ok ps \<Longrightarrow> clean_parts r st ps = rev st @ ps"
  by (induction ps arbitrary: st) (auto simp: name_ok_def)

lemma clean_parts_append:
  "clean_parts True st (ps @ qs) = clean_parts True (rev (clean_parts True st ps)) qs"
  by (induction ps arbitrary: st) (auto split: list.split)

lemma Split_path_of:
  "ps \<noteq> [] \<Longrightarrow> list_all name_ok ps \<Longrightarrow> SplitChar (CHR ''/'') (path_of ps) = [] # ps"
  by (simp add: path_of_def Split_Join list_all_iff name_ok_def)

lemma path_clean_parts:
  assumes "ps \<noteq> []" and "list_all name_ok ps"
  shows "path_clean (path_of ps @ ''/'' @ e) = ''/'' @ JoinStr (clean_parts True (rev ps) (SplitChar (CHR ''/'') e)) ''/''"
proof -
  have "SplitChar (CHR ''/'') (path_of ps @ ''/'' @ e) = [] # ps @ SplitChar (CHR ''/'') e"
    using Split_path_of [OF assms] SplitChar_append_sep [of "CHR ''/''" "path_of ps" e] by simp
  then show ?thesis
    using assms(2) clean_parts_append [of "[]" ps] clean_parts_ok [of ps True "[]"]
    by (simp add: path_clean_def path_of_def)
qed

lemma path_join_parts:
  assumes "ps \<noteq> []" and "list_all name_ok ps" and "e \<noteq> []"
  shows "path_join [path_of ps, e] = ''/'' @ JoinStr (clean_parts True (rev ps) (SplitChar (CHR ''/'') e)) ''/''"
  using path_clean_parts [OF assms(1,2), of e] assms(3) by (simp add: path_join_def path_of_def)

lemma path_join_name:
  assumes "ps \<noteq> []" and "list_all name_ok ps" and "name_ok n"
  shows "path_join [path_of ps, n] = path_of (ps @ [n])"
proof -
  have "SplitChar (CHR ''/'') n = [n]" "n \<noteq> []" using assms(3) by (auto simp: name_ok_def SplitChar_no_sep)
  then show ?thesis
    using path_join_parts [OF assms(1,2), of n] clean_parts_ok [of "[n]" True "rev ps"] assms(3)
    by (simp add: path_of_def)
qed

lemma path_join_up:
  assumes "list_all name_ok ps" and "name_ok dir" and "name_ok c" and "name_ok p"
  shows "path_join [path_of (ps @ [p]), ''../'' @ dir @ ''/'' @ c] = path_of (ps @ [dir, c])"
proof -
  have "SplitChar (CHR ''/'') (''../'' @ dir @ ''/'' @ c) = [''..'', dir, c]"
    using assms(2,3) by (simp add: name_ok_def SplitChar_seg SplitChar_no_sep)
  moreover have "clean_parts True (p # rev ps) [''..'', dir, c] = ps @ [dir, c]"
    using clean_parts_ok [of "[dir, c]" True "rev ps"] assms(2,3,4) by (simp add: name_ok_def)
  ultimately show ?thesis
    using path_join_parts [of "ps @ [p]" "''../'' @ dir @ ''/'' @ c"] assms(1,4)
    by (simp add: path_of_def del: clean_parts.simps SplitChar.simps)
qed

lemma int_text_no_slash: "0 \<le> n \<Longrightarrow> CHR ''/'' \<notin> set (int_text n)"
proof
  assume "0 \<le> n" "CHR ''/'' \<in> set (int_text n)"
  then have "is_digit (CHR ''/'')" using int_text_digits [of n] by (auto simp: list_all_iff)
  then show False by (simp add: is_digit_def)
qed

lemma name_ok_log: "name_ok (Itoa n @ ''.log'')"
  using int_text_no_slash [of n] int_text_no_slash [of "- n"]
  by (cases "n < 0") (auto simp: name_ok_def Itoa_def append_eq_Cons_conv)

lemma name_ok_pod: "CHR ''/'' \<notin> set ns \<Longrightarrow> CHR ''/'' \<notin> set (pod @ uid) \<Longrightarrow> ns \<noteq> [] \<Longrightarrow> name_ok (ns @ ''_'' @ pod @ ''_'' @ uid)"
  by (auto simp: name_ok_def append_eq_Cons_conv)

lemma set_insert_left [simp]: "set (insert_left lt x xs) = insert x (set xs)"
  by (induction xs) auto

lemma set_sort_slice [simp]: "set (sort_slice lt xs) = set xs"
proof -
  have "set (foldl (\<lambda>rs x. insert_left lt x rs) ys xs) = set ys \<union> set xs" for ys
    by (induction xs arbitrary: ys) auto
  then show ?thesis by (simp add: sort_slice_def)
qed

definition entries_ok :: "node_fs \<Rightarrow> string \<Rightarrow> bool" where
  "entries_ok fs dir \<longleftrightarrow> (case fs_readdir fs dir of Inl _ \<Rightarrow> True | Inr es \<Rightarrow> list_all (\<lambda>(n, _). name_ok n) es)"

lemma pick_dir:
  assumes "(case dirs of [] \<Rightarrow> Inl e | [d] \<Rightarrow> Inr d | _ \<Rightarrow> Inr (hd (sort_slice lt dirs))) = Inr dir"
  shows "dir \<in> set dirs"
proof -
  have "hd (sort_slice lt dirs) \<in> set dirs" if "dirs \<noteq> []"
  proof -
    have "sort_slice lt dirs \<noteq> []" using that set_sort_slice [of lt dirs] by force
    then show ?thesis using hd_in_set [of "sort_slice lt dirs"] by simp
  qed
  then show ?thesis using assms by (cases dirs; cases "tl dirs") auto
qed

lemma findPodDir_Inr:
  assumes "findPodDir fs (path_of root) ns pod uid = Inr dir"
    and "root \<noteq> []" and "list_all name_ok root"
    and "ns \<noteq> []" and "CHR ''/'' \<notin> set (ns @ pod @ uid)"
    and names: "entries_ok fs (path_of root)"
  obtains d where "name_ok d" and "HasPrefix d (ns @ ''_'' @ pod @ ''_'')" and "dir = path_of (root @ [d])"
proof (cases "uid = []")
  case False
  let ?d = "ns @ ''_'' @ pod @ ''_'' @ uid"
  have ok: "name_ok ?d" using assms(4,5) by (intro name_ok_pod) auto
  have "HasPrefix ?d (ns @ ''_'' @ pod @ ''_'')" by (simp add: HasPrefix_iff)
  moreover have "dir = path_of (root @ [?d])"
    using assms(1) False path_join_name [OF assms(2,3) ok] by (auto simp: findPodDir_def Let_def split: if_splits)
  ultimately show thesis using that ok by blast
next
  case True
  obtain es where es: "fs_readdir fs (path_of root) = Inr es"
    using assms(1) True by (auto simp: findPodDir_def Let_def split: sum.splits)
  let ?dirs = "map (\<lambda>(n, _). path_join [path_of root, n]) (filter (\<lambda>(n, d). d \<and> HasPrefix n (ns @ ''_'' @ pod @ ''_'')) es)"
  have "dir \<in> set ?dirs"
    by (rule pick_dir [where lt = "newer fs" and e = "Errorf ''pod log dir not found for %s/%s'' [AStr ns, AStr pod]"])
       (use assms(1) in \<open>unfold findPodDir_def Let_def True es, simp only: simp_thms if_False sum.case\<close>)
  then obtain n d where n: "(n, d) \<in> set es" "HasPrefix n (ns @ ''_'' @ pod @ ''_'')" "dir = path_join [path_of root, n]"
    by auto
  have "name_ok n" using names es n(1) by (auto simp: entries_ok_def list_all_iff)
  then show thesis using that n path_join_name [OF assms(2,3)] by simp
qed

lemma pick_log_Inr: "pick_log opts nums = Inr n \<Longrightarrow> n \<in> set nums"
  using nth_mem [of "length nums - 2" "sort nums"] nth_mem [of "length nums - 1" "sort nums"]
  by (cases "nums = []") (auto simp: pick_log_def Let_def split: if_splits)

lemma pick_log_current: "pick_log opts nums = Inr n \<Longrightarrow> \<not> ro_Previous opts \<Longrightarrow> n = Max (set nums)"
proof -
  assume a: "pick_log opts nums = Inr n" "\<not> ro_Previous opts"
  then have ne: "nums \<noteq> []" and n: "n = sort nums ! (length nums - 1)"
    by (cases "nums = []"; simp add: pick_log_def Let_def split: if_splits)+
  have "m \<le> n" if "m \<in> set nums" for m
  proof -
    have "m \<in> set (sort nums)" using that by simp
    then obtain i where i: "i < length (sort nums)" "m = sort nums ! i" by (metis in_set_conv_nth)
    then have "sort nums ! i \<le> sort nums ! (length nums - 1)"
      using ne by (intro sorted_nth_mono sorted_sort) auto
    then show ?thesis using n i by simp
  qed
  then show ?thesis using pick_log_Inr [OF a(1)] by (intro Max_eqI [symmetric]) auto
qed

lemma resolveLogFile_Inr:
  assumes "resolveLogFile fs (path_of root) opts = Inr path"
    and root: "root \<noteq> []" "list_all name_ok root"
    and "CHR ''/'' \<notin> set (ro_Namespace opts @ ro_Pod opts @ ro_PodUID opts)" and "name_ok (ro_Container opts)"
    and names: "entries_ok fs (path_of root)"
  obtains d n es where "HasPrefix d (ro_Namespace opts @ ''_'' @ ro_Pod opts @ ''_'')"
    and "path = path_of (root @ [d, ro_Container opts, Itoa n @ ''.log''])"
    and "fs_readdir fs (path_of (root @ [d, ro_Container opts])) = Inr es"
    and "pick_log opts (List.map_filter (\<lambda>(n, d). if d then None else numberedLog n) es) = Inr n"
proof -
  obtain podDir where pd: "findPodDir fs (path_of root) (ro_Namespace opts) (ro_Pod opts) (ro_PodUID opts) = Inr podDir"
    and ns: "ro_Namespace opts \<noteq> []"
    using assms(1) by (auto simp: resolveLogFile_def split: if_splits)
  obtain d where d: "name_ok d" "HasPrefix d (ro_Namespace opts @ ''_'' @ ro_Pod opts @ ''_'')" "podDir = path_of (root @ [d])"
    using findPodDir_Inr [OF pd root ns assms(4) names] by blast
  let ?c = "path_of (root @ [d, ro_Container opts])"
  have c: "path_join [podDir, ro_Container opts] = ?c"
    using path_join_name [of "root @ [d]" "ro_Container opts"] d root assms(5) by simp
  obtain es where es: "fs_readdir fs ?c = Inr es"
    using assms(1) pd c by (auto simp: resolveLogFile_def Let_def split: if_splits sum.splits)
  obtain n where n: "pick_log opts (List.map_filter (\<lambda>(n, d). if d then None else numberedLog n) es) = Inr n"
    and path: "path = path_join [?c, Itoa n @ ''.log'']"
    using assms(1) pd c es by (auto simp: resolveLogFile_def Let_def split: if_splits)
  have "path = path_of (root @ [d, ro_Container opts, Itoa n @ ''.log''])"
    unfolding path
    using path_join_name [of "root @ [d, ro_Container opts]" "Itoa n @ ''.log''"] name_ok_log d root assms(5) by simp
  then show thesis using that d es n by blast
qed

lemma checked_fetch_Text:
  assumes "checked_fetch s r serve = Text out"
  obtains req where "nh_Method r = ''POST''" "ns_token s \<noteq> []" "nh_Auth r = ''Bearer '' @ ns_token s"
    "sum_bind (unmarshal_struct (nh_Body r)) (\<lambda>kvs. or_json_error (decode_fetch kvs)) = Inr req"
    "allowNS s (fr_Namespace req) = None" "serve req = Text out"
  using assms by (auto simp: checked_fetch_def node_authorize_def split: if_splits sum.splits option.splits)


definition demo_fs :: node_fs where
  "demo_fs =
     \<lparr> fs_readdir = (\<lambda>p. if p = ''/var/log/pods/shop_web_u1/app'' then Inr [(''0.log'', False), (''1.log'', False)]
                        else if p = ''/var/log/pods/kube-system_etcd_u9/etcd'' then Inr [(''0.log'', False)]
                        else Inl (LibErr ''no such directory'')),
       fs_isdir = (\<lambda>p. p = ''/var/log/pods/shop_web_u1'' \<or> p = ''/var/log/pods/kube-system_etcd_u9''),
       fs_mtime = (\<lambda>_. None),
       fs_open = (\<lambda>p. if p = ''/var/log/pods/shop_web_u1/app/1.log'' then Inr (''GET /'' @ [CHR 0x0A])
                     else if p = ''/var/log/pods/kube-system_etcd_u9/etcd/0.log'' then Inr (''secret'' @ [CHR 0x0A])
                     else Inl (LibErr ''no such file'')) \<rparr>"

definition demo_node :: node_server where
  "demo_node = \<lparr> ns_root = ''/var/log/pods'', ns_policy = Some shop_engine, ns_token = ''t'', ns_nodeName = ''n1'' \<rparr>"

definition fetch_http :: "string \<Rightarrow> node_http" where
  "fetch_http container =
     \<lparr> nh_Method = ''POST'', nh_Auth = ''Bearer t'',
       nh_Body = Some (JObj [(''namespace'', JStr ''shop''), (''pod'', JStr ''web''), (''pod_uid'', JStr ''u1''),
                             (''container'', JStr container)]),
       nh_Follow = False \<rparr>"

definition fetch_of :: "string \<Rightarrow> fetch_request" where
  "fetch_of container =
     \<lparr> fr_Namespace = ''shop'', fr_Pod = ''web'', fr_PodUID = ''u1'', fr_Container = container, fr_Previous = False,
       fr_SinceTime = None, fr_TailLines = None, fr_LimitBytes = None \<rparr>"


text \<open>
  C34: a container name with a separator leaves the namespace. For a request whose namespace and pod
  are fine, a container of the form \<open>../<dir>/<container>\<close> makes the reader open the log of any other
  pod directory of the node, of whatever namespace: the name is joined to the path, and cleaning the
  path takes the step up.
\<close>

theorem container_escapes_namespace:
  assumes "root \<noteq> []" and "list_all name_ok root" and "name_ok dir" and "name_ok c"
    and "ro_Namespace opts \<noteq> []" and "ro_Pod opts \<noteq> []" and "ro_PodUID opts \<noteq> []"
    and "CHR ''/'' \<notin> set (ro_Namespace opts @ ro_Pod opts @ ro_PodUID opts)"
    and "fs_isdir fs (path_of (root @ [ro_Namespace opts @ ''_'' @ ro_Pod opts @ ''_'' @ ro_PodUID opts]))"
    and "ro_Container opts = ''../'' @ dir @ ''/'' @ c"
    and "fs_readdir fs (path_of (root @ [dir, c])) = Inr [(''0.log'', False)]" and "\<not> ro_Previous opts"
  shows "resolveLogFile fs (path_of root) opts = Inr (path_of (root @ [dir, c, ''0.log'']))"
proof -
  let ?pod = "ro_Namespace opts @ ''_'' @ ro_Pod opts @ ''_'' @ ro_PodUID opts"
  have pod: "name_ok ?pod" using assms(5,8) by (intro name_ok_pod) auto
  have dir: "findPodDir fs (path_of root) (ro_Namespace opts) (ro_Pod opts) (ro_PodUID opts) = Inr (path_of (root @ [?pod]))"
    using assms(7,9) path_join_name [OF assms(1,2) pod] by (simp add: findPodDir_def Let_def)
  have ok: "list_all name_ok (root @ [?pod])" "list_all name_ok (root @ [dir, c])" using assms(2,3,4) pod by simp_all
  have cd: "path_join [path_of (root @ [?pod]), ro_Container opts] = path_of (root @ [dir, c])"
    unfolding assms(10) using assms(2,3,4) pod by (rule path_join_up)
  have "List.map_filter (\<lambda>(n, d). if d then None else numberedLog n) [(''0.log'', False)] = [0]" by code_simp
  then have "pick_log opts (List.map_filter (\<lambda>(n, d). if d then None else numberedLog n) [(''0.log'', False)]) = Inr 0"
    using assms(12) by (simp add: pick_log_def)
  moreover have "Itoa 0 @ ''.log'' = ''0.log''" by code_simp
  then have "path_join [path_of (root @ [dir, c]), Itoa 0 @ ''.log''] = path_of (root @ [dir, c, ''0.log''])"
    using path_join_name [of "root @ [dir, c]" "Itoa 0 @ ''.log''"] ok(2) name_ok_log [of 0] by simp
  ultimately show ?thesis
    using assms(5,6,10) dir cd assms(11) by (simp add: resolveLogFile_def Let_def)
qed

theorem container_escapes_namespace_witness:
  "allowNS demo_node ''kube-system'' \<noteq> None \<and>
   resolveLogFile demo_fs (path_of [''var'', ''log'', ''pods'']) (read_opts (fetch_of ''../kube-system_etcd_u9/etcd''))
     = Inr (path_of ([''var'', ''log'', ''pods''] @ [''kube-system_etcd_u9'', ''etcd'', ''0.log'']))"
proof
  show "allowNS demo_node ''kube-system'' \<noteq> None" by code_simp
  let ?root = "[''var'', ''log'', ''pods'']"
  have n: "list_all name_ok ?root" "name_ok ''kube-system_etcd_u9''" "name_ok ''etcd''" by code_simp+
  have "fs_isdir demo_fs (path_of (?root @ [''shop_web_u1'']))"
    "fs_readdir demo_fs (path_of (?root @ [''kube-system_etcd_u9'', ''etcd''])) = Inr [(''0.log'', False)]" by code_simp+
  then show "resolveLogFile demo_fs (path_of ?root) (read_opts (fetch_of ''../kube-system_etcd_u9/etcd''))
     = Inr (path_of (?root @ [''kube-system_etcd_u9'', ''etcd'', ''0.log'']))"
    using n by (intro container_escapes_namespace) (simp_all add: read_opts_def fetch_of_def)
qed

section \<open>Which lines are read\<close>

text \<open>The messages of the lines that are not from before the asked instant.\<close>

definition kept ::
  "(string \<Rightarrow> json option) \<Rightarrow> (string \<Rightarrow> gtime option) \<Rightarrow> gtime option \<Rightarrow> string list \<Rightarrow> string list" where
  "kept pj pt since raws =
     map fst (filter (\<lambda>(msg, ts). \<not> too_old since ts) (map (decoded pj pt) raws))"

definition bytes :: "string list \<Rightarrow> int" where
  "bytes ls = sum_list (map (\<lambda>l. int (length l) + 1) ls)"

lemma bytes_simps [simp]: "bytes [] = 0" "bytes (l # ls) = int (length l) + 1 + bytes ls" "bytes (a @ b) = bytes a + bytes b"
  by (simp_all add: bytes_def)

lemma bytes_nonneg: "0 \<le> bytes ls"
  by (induction ls) auto

lemma bytes_butlast: "bytes (butlast ls) \<le> bytes ls"
  by (induction ls) auto

lemma bytes_butlast_drop: "bytes (butlast (drop n ls)) \<le> bytes (butlast ls)"
proof (cases "n < length ls")
  case True
  then have "butlast ls = take n ls @ butlast (drop n ls)"
    using butlast_append [of "take n ls" "drop n ls"] by auto
  then show ?thesis using bytes_nonneg [of "take n ls"] by (metis add_increasing bytes_simps(3) order_refl)
qed (simp add: bytes_nonneg)

lemma scan_loop_Cons:
  "scan_loop pj pt cd opts i lines tot (raw # raws) =
     (if cd i then None
      else if too_old (ro_SinceTime opts) (snd (decoded pj pt raw))
      then scan_loop pj pt cd opts (Suc i) lines tot raws
      else if over_limit (ro_LimitBytes opts) (tot + int (length (fst (decoded pj pt raw))) + 1)
      then Some (lines @ [fst (decoded pj pt raw)], True)
      else scan_loop pj pt cd opts (Suc i) (lines @ [fst (decoded pj pt raw)])
             (tot + int (length (fst (decoded pj pt raw))) + 1) raws)"
  by (simp split: prod.split)

lemma kept_Cons:
  "kept pj pt since (raw # raws) =
     (if too_old since (snd (decoded pj pt raw)) then kept pj pt since raws
      else fst (decoded pj pt raw) # kept pj pt since raws)"
  by (auto simp: kept_def split: prod.splits)

lemma scan_loop_take:
  assumes "scan_loop pj pt cd opts i lines (bytes lines) raws = Some (ls, stopped)"
  shows "(\<exists>m. ls = lines @ take m (kept pj pt (ro_SinceTime opts) raws)) \<and>
    (\<not> stopped \<longrightarrow> ls = lines @ kept pj pt (ro_SinceTime opts) raws) \<and>
    (ro_LimitBytes opts = None \<longrightarrow> \<not> stopped) \<and>
    (\<forall>l. ro_LimitBytes opts = Some l \<and> bytes lines \<le> l \<longrightarrow> bytes (butlast ls) \<le> l)"
  using assms
proof (induction raws arbitrary: i lines)
  case Nil
  then show ?case using bytes_butlast [of lines] by (auto simp: kept_def)
next
  case (Cons raw raws)
  let ?m = "fst (decoded pj pt raw)"
  let ?old = "too_old (ro_SinceTime opts) (snd (decoded pj pt raw))"
  let ?over = "over_limit (ro_LimitBytes opts) (bytes lines + int (length ?m) + 1)"
  have cd: "\<not> cd i" using Cons.prems by (auto simp: scan_loop_Cons simp del: scan_loop.simps)
  consider (old) "?old" | (over) "\<not> ?old" "?over" | (next_line) "\<not> ?old" "\<not> ?over" by blast
  then show ?case
  proof cases
    case old
    then have "scan_loop pj pt cd opts (Suc i) lines (bytes lines) raws = Some (ls, stopped)"
      using Cons.prems cd by (simp add: scan_loop_Cons del: scan_loop.simps)
    from Cons.IH [OF this] show ?thesis using old by (simp add: kept_Cons)
  next
    case over
    then have ls: "ls = lines @ [?m]" "stopped" using Cons.prems cd by (auto simp: scan_loop_Cons simp del: scan_loop.simps)
    have "[?m] = take 1 (kept pj pt (ro_SinceTime opts) (raw # raws))" using over by (simp add: kept_Cons)
    then have "\<exists>m. ls = lines @ take m (kept pj pt (ro_SinceTime opts) (raw # raws))" using ls(1) by metis
    moreover have "ro_LimitBytes opts \<noteq> None" using over(2) by (cases "ro_LimitBytes opts") (simp_all add: over_limit_def)
    ultimately show ?thesis using ls by simp
  next
    case next_line
    then have "scan_loop pj pt cd opts (Suc i) (lines @ [?m]) (bytes (lines @ [?m])) raws = Some (ls, stopped)"
      using Cons.prems cd by (simp add: scan_loop_Cons add.assoc del: scan_loop.simps)
    note IH = Cons.IH [OF this]
    have k: "kept pj pt (ro_SinceTime opts) (raw # raws) = ?m # kept pj pt (ro_SinceTime opts) raws"
      using next_line(1) by (simp add: kept_Cons)
    obtain m where "ls = (lines @ [?m]) @ take m (kept pj pt (ro_SinceTime opts) raws)" using IH by blast
    then have "ls = lines @ take (Suc m) (?m # kept pj pt (ro_SinceTime opts) raws)" by simp
    then have ex: "\<exists>m. ls = lines @ take m (?m # kept pj pt (ro_SinceTime opts) raws)" by (rule exI)
    have le: "bytes (lines @ [?m]) \<le> l" if "ro_LimitBytes opts = Some l" for l
      using next_line(2) that by (simp add: over_limit_def)
    show ?thesis unfolding k
      by (intro conjI ex) (use IH le in auto)
  qed
qed

text \<open>
  what a node returns of a file. The text is whole lines; they are the last ones, at most as many as
  asked for, of a first part of the messages since the asked instant (of all of them when there is no
  byte limit), and all but the last line stay within the byte limit. So the limit may be exceeded by
  one line, and it cuts before the tail is taken.
\<close>

lemma decode_bounds:
  assumes "decodeTo pj pt cd opts content = Some out"
  shows "\<exists>ls m. out = concat (map (\<lambda>l. l @ [CHR 0x0A]) ls) \<and>
    ls = tail_lines (ro_TailLines opts) (take m (kept pj pt (ro_SinceTime opts) (fst (scan_lines content)))) \<and>
    (ro_LimitBytes opts = None \<longrightarrow> length (kept pj pt (ro_SinceTime opts) (fst (scan_lines content))) \<le> m) \<and>
    (\<forall>k. ro_TailLines opts = Some k \<and> 0 \<le> k \<longrightarrow> int (length ls) \<le> k) \<and>
    (\<forall>l. ro_LimitBytes opts = Some l \<and> 0 \<le> l \<longrightarrow> bytes (butlast ls) \<le> l)"
proof -
  let ?kept = "kept pj pt (ro_SinceTime opts) (fst (scan_lines content))"
  obtain lines stopped where sl: "scan_loop pj pt cd opts 0 [] (bytes []) (fst (scan_lines content)) = Some (lines, stopped)"
    and out: "out = concat (map (\<lambda>l. l @ [CHR 0x0A]) (tail_lines (ro_TailLines opts) lines))"
    using assms by (auto simp: decodeTo_def split: prod.splits option.splits if_splits)
  note s = scan_loop_take [OF sl]
  obtain m where m: "lines = take m ?kept" "ro_LimitBytes opts = None \<Longrightarrow> length ?kept \<le> m"
  proof (cases stopped)
    case True
    then show thesis using s that by auto
  next
    case False
    then show thesis using s that [of "length ?kept"] by auto
  qed
  have "int (length (tail_lines (ro_TailLines opts) lines)) \<le> k" if "ro_TailLines opts = Some k" "0 \<le> k" for k
    using that by (auto simp: tail_lines_def)
  moreover have "bytes (butlast (tail_lines (ro_TailLines opts) lines)) \<le> bytes (butlast lines)"
    using bytes_butlast_drop by (auto simp: tail_lines_def split: option.split)
  then have "bytes (butlast (tail_lines (ro_TailLines opts) lines)) \<le> l" if "ro_LimitBytes opts = Some l" "0 \<le> l" for l
    using s that by fastforce
  ultimately show ?thesis using out m by (intro exI [of _ "tail_lines (ro_TailLines opts) lines"] exI [of _ m]) blast
qed

definition three_lines :: string where
  "three_lines = ''one'' @ [CHR 0x0A] @ ''two'' @ [CHR 0x0A] @ ''three'' @ [CHR 0x0A]"

lemma decode_bounds_example:
  "\<exists>ls. decodeTo (\<lambda>_. None) (\<lambda>_. None) (\<lambda>_. False)
      ((read_opts (fetch_of ''app''))\<lparr>ro_TailLines := Some 1, ro_LimitBytes := Some 5\<rparr>) three_lines
      = Some (concat (map (\<lambda>l. l @ [CHR 0x0A]) ls)) \<and> int (length ls) \<le> 1 \<and> bytes (butlast ls) \<le> 5"
proof -
  let ?o = "(read_opts (fetch_of ''app''))\<lparr>ro_TailLines := Some 1, ro_LimitBytes := Some 5\<rparr>"
  have "decodeTo (\<lambda>_. None) (\<lambda>_. None) (\<lambda>_. False) ?o three_lines = Some (''two'' @ [CHR 0x0A])" by code_simp
  from decode_bounds [OF this] show ?thesis
    using \<open>decodeTo (\<lambda>_. None) (\<lambda>_. None) (\<lambda>_. False) ?o three_lines = _\<close> by fastforce
qed

section \<open>Following a file\<close>

lemma resolveLogFile_since: "resolveLogFile fs root (opts\<lparr>ro_SinceTime := s\<rparr>) = resolveLogFile fs root opts"
proof -
  have "pick_log (opts\<lparr>ro_SinceTime := s\<rparr>) = pick_log opts" by (simp add: pick_log_def fun_eq_iff Let_def)
  then show ?thesis by (simp add: resolveLogFile_def Let_def cong: sum.case_cong)
qed

text \<open>
  following repeats a file whose lines are not JSON. The follow loop asks only for lines since the
  last round, but a line that is not a JSON object has no time stamp, as all lines of the CRI format
  (\<open>time stream flag text\<close>) have none: each round sends the whole file again.
\<close>

lemma follow_repeats_plain_lines:
  assumes "resolveLogFile fs root (read_opts req) = Inr path" and "fs_open fs path = Inr content"
    and "list_all (\<lambda>raw. pj raw = None) (fst (scan_lines content))" and "\<not> snd (scan_lines content)"
    and "fr_TailLines req = None" and "fr_LimitBytes req = None"
  shows "follow_loop pj pt root req (map (\<lambda>t. (False, fs, t)) ts) =
    concat (replicate (length ts) (concat (map (\<lambda>l. l @ [CHR 0x0A]) (fst (scan_lines content)))))"
  using assms(1,5,6)
proof (induction ts arbitrary: req)
  case (Cons t ts)
  let ?raws = "fst (scan_lines content)"
  have resolve: "resolveLogFile fs root (read_opts (req\<lparr>fr_SinceTime := s\<rparr>)) = resolveLogFile fs root (read_opts req)" for s
    using resolveLogFile_since [where opts = "read_opts req" and s = s] by (simp add: read_opts_def)
  have dec: "decoded pj pt raw = (raw, None)" if "raw \<in> set ?raws" for raw
    using assms(3) that by (simp add: decoded_def parseCRILine_def list_all_iff)
  have scan: "set raws \<subseteq> set ?raws \<Longrightarrow>
      scan_loop pj pt (\<lambda>_. False) (read_opts req) i lines n raws = Some (lines @ raws, False)" for raws i lines n
    using Cons.prems(3)
    by (induction raws arbitrary: i lines n)
       (auto simp: dec too_old_def over_limit_def read_opts_def split: option.split)
  have "decodeTo pj pt (\<lambda>_. False) (read_opts req) content = Some (concat (map (\<lambda>l. l @ [CHR 0x0A]) ?raws))"
  proof -
    have "ro_TailLines (read_opts req) = None" using Cons.prems(2) by (simp add: read_opts_def)
    moreover obtain raws too_long where "scan_lines content = (raws, too_long)" by fastforce
    ultimately show ?thesis using scan [of ?raws 0 "[]" 0] assms(4) by (simp add: decodeTo_def tail_lines_def)
  qed
  then have "reader_Open pj pt (\<lambda>_. False) fs root (read_opts req) = Inr (concat (map (\<lambda>l. l @ [CHR 0x0A]) ?raws))"
    using Cons.prems(1) assms(2) by (simp add: reader_Open_def)
  then show ?case using Cons.IH [of "req\<lparr>fr_SinceTime := Some t\<rparr>"] Cons.prems resolve by simp
qed simp

lemma follow_repeats_plain_lines_example:
  "follow_loop (\<lambda>_. None) (\<lambda>_. None) ''/var/log/pods'' (fetch_of ''app'') (map (\<lambda>t. (False, demo_fs, t)) [1, 2]) =
     ''GET /'' @ [CHR 0x0A] @ ''GET /'' @ [CHR 0x0A]"
proof -
  let ?c = "''GET /'' @ [CHR 0x0A]"
  have r: "resolveLogFile demo_fs ''/var/log/pods'' (read_opts (fetch_of ''app'')) = Inr ''/var/log/pods/shop_web_u1/app/1.log''"
    "fs_open demo_fs ''/var/log/pods/shop_web_u1/app/1.log'' = Inr ?c" by code_simp+
  have s: "fst (scan_lines ?c) = [''GET /'']" "\<not> snd (scan_lines ?c)" by code_simp+
  have "list_all (\<lambda>raw. (\<lambda>_. None) raw = (None :: json option)) (fst (scan_lines ?c))" by (simp add: list_all_iff)
  then have "follow_loop (\<lambda>_. None) (\<lambda>_. None) ''/var/log/pods'' (fetch_of ''app'') (map (\<lambda>t. (False, demo_fs, t)) [1, 2]) =
      concat (replicate (length [1, 2 :: gtime]) (concat (map (\<lambda>l. l @ [CHR 0x0A]) (fst (scan_lines ?c)))))"
    by (intro follow_repeats_plain_lines [OF r _ s(2)]) (simp_all add: fetch_of_def)
  then show ?thesis unfolding s(1) by (simp del: follow_loop.simps)
qed

end
