(* ===== verification/Log_Stream.thy ===== *)
theory Log_Stream
  imports Subscriptions Node_Logs "HOL-Library.Sublist"
begin

text \<open>
  Log streams: \<open>internal/logstream/manager.go\<close> and \<open>internal/handlers/logstream\<close>.

  The manager holds its two tables (subscriptions by id, and the id of each pod), the contexts, and the
  goroutines that run. A goroutine is its subscription; it leaves with the deferred function of \<open>run\<close>.
  Between a stop and that moment the id can be used again. The lines a goroutine publishes are a
  function of what its select loop receives.
\<close>

section \<open>Payload\<close>

record stream_payload =
  lp_SubscriptionID :: string
  lp_Namespace :: string
  lp_Pod :: string
  lp_Container :: string
  lp_Follow :: bool
  lp_TailLines :: "int option"
  lp_SinceSeconds :: "int option"
  lp_OutputTopic :: string
  lp_TTLSeconds :: int

definition decode_stream :: "obj \<Rightarrow> stream_payload option" where
  "decode_stream kvs =
     do {
       i \<leftarrow> fld_str ''subscription_id'' kvs;
       ns \<leftarrow> fld_str ''namespace'' kvs;
       pod \<leftarrow> fld_str ''pod'' kvs;
       c \<leftarrow> fld_str ''container'' kvs;
       f \<leftarrow> fld_bool ''follow'' kvs;
       tail \<leftarrow> fld_int_ptr ''tail_lines'' kvs;
       since \<leftarrow> fld_int_ptr ''since_seconds'' kvs;
       ot \<leftarrow> fld_str ''output_topic'' kvs;
       ttl \<leftarrow> fld_int ''ttl_seconds'' kvs;
       Some \<lparr> lp_SubscriptionID = i, lp_Namespace = ns, lp_Pod = pod, lp_Container = c, lp_Follow = f,
              lp_TailLines = tail, lp_SinceSeconds = since, lp_OutputTopic = ot, lp_TTLSeconds = ttl \<rparr>
     }"

definition ParseStreamPayload :: "raw \<Rightarrow> go_error + stream_payload" where
  "ParseStreamPayload raw =
     sum_bind
       (decode_payload (sum_bind (unmarshal_struct raw) (\<lambda>kvs. or_json_error (decode_stream kvs))))
       (\<lambda>p.
          if lp_SubscriptionID p = [] then Inl (Errorf ''subscription_id is required'' [])
          else if lp_Namespace p = [] \<or> lp_Pod p = [] then Inl (Errorf ''namespace and pod are required'' [])
          else if lp_Container p = [] then Inl (Errorf ''container is required'' [])
          else Inr p)"

definition stream_OutputTopicOr :: "stream_payload \<Rightarrow> string \<Rightarrow> string" where
  "stream_OutputTopicOr p defaultTopic = (if lp_OutputTopic p \<noteq> [] then lp_OutputTopic p else defaultTopic)"

section \<open>Manager\<close>

record stream_sub =
  lsub_payload :: stream_payload
  lsub_ctx :: nat
  lsub_podKey :: string

record stream_manager =
  lm_clusterID :: string
  lm_defaultTopic :: string
  lm_policy :: engine
  lm_maxPerPod :: int
  lm_backlogMax :: int
  lm_metrics :: bool
  lm_backend :: string
  lm_nodeClient :: "node_client option"
  lm_subs :: "(string, stream_sub) gomap"
  lm_podSubs :: "(string, string) gomap"
  lm_ctxs :: ctxs
  lm_running :: "stream_sub list"

definition stream_NewManager :: "string \<Rightarrow> string \<Rightarrow> engine \<Rightarrow> int \<Rightarrow> int \<Rightarrow> bool \<Rightarrow> stream_manager" where
  "stream_NewManager clusterID defaultTopic e maxPerPod backlogMax metrics =
     \<lparr> lm_clusterID = clusterID, lm_defaultTopic = defaultTopic, lm_policy = e,
       lm_maxPerPod = (if maxPerPod < 1 then 1 else maxPerPod),
       lm_backlogMax = (if backlogMax < 1 then 1000 else backlogMax), lm_metrics = metrics,
       lm_backend = LogsBackendAPI, lm_nodeClient = None, lm_subs = [], lm_podSubs = [], lm_ctxs = [],
       lm_running = [] \<rparr>"

definition stream_WithNodeLocal :: "node_client option \<Rightarrow> stream_manager \<Rightarrow> stream_manager" where
  "stream_WithNodeLocal client m = m\<lparr>lm_backend := LogsBackendNodeLocal, lm_nodeClient := client\<rparr>"

definition pod_key :: "stream_payload \<Rightarrow> string" where
  "pod_key p = lp_Namespace p @ ''/'' @ lp_Pod p"

definition stream_Start :: "gtime \<Rightarrow> stream_manager \<Rightarrow> stream_payload \<Rightarrow> stream_manager \<times> go_error option" where
  "stream_Start now m p =
     (case first_error [AllowCommandType (lm_policy m) TypeLogsStreamStart, AllowNamespace (lm_policy m) (lp_Namespace p)] of
        Some err \<Rightarrow> (m, Some err)
      | None \<Rightarrow>
          (case gm_get (lm_subs m) (lp_SubscriptionID p) of
             Some _ \<Rightarrow> (m, Some (Errorf ''subscription %q already exists'' [AStr (lp_SubscriptionID p)]))
           | None \<Rightarrow>
               (case gm_get (lm_podSubs m) (pod_key p) of
                  Some existing \<Rightarrow>
                    (m, Some (Errorf ''pod %q already has an active stream subscription %q'' [AStr (pod_key p), AStr existing]))
                | None \<Rightarrow>
                    (case subscriptionContext now (lp_TTLSeconds p) (lm_ctxs m) of
                       (cs, i) \<Rightarrow>
                         let sub = \<lparr> lsub_payload = p, lsub_ctx = i, lsub_podKey = pod_key p \<rparr>
                         in (m\<lparr>lm_ctxs := cs, lm_subs := gm_put (lp_SubscriptionID p) sub (lm_subs m),
                               lm_podSubs := gm_put (pod_key p) (lp_SubscriptionID p) (lm_podSubs m),
                               lm_running := lm_running m @ [sub]\<rparr>, None)))))"

text \<open>\<open>if m.podSubs[key] == id { delete(m.podSubs, key) }\<close>; a missing entry reads as the empty string.\<close>

definition release_pod :: "string \<Rightarrow> string \<Rightarrow> (string, string) gomap \<Rightarrow> (string, string) gomap" where
  "release_pod key i ps =
     (if (case gm_get ps key of None \<Rightarrow> [] | Some j \<Rightarrow> j) = i then gm_del key ps else ps)"

definition stream_Stop :: "stream_manager \<Rightarrow> string \<Rightarrow> stream_manager \<times> go_error option" where
  "stream_Stop m i =
     (case gm_get (lm_subs m) i of
        None \<Rightarrow> (m, Some (Errorf ''subscription %q not found'' [AStr i]))
      | Some sub \<Rightarrow>
          (m\<lparr>lm_subs := gm_del i (lm_subs m), lm_podSubs := release_pod (lsub_podKey sub) i (lm_podSubs m),
             lm_ctxs := cancel (lsub_ctx sub) (lm_ctxs m)\<rparr>, None))"

definition stream_StopAll :: "stream_manager \<Rightarrow> stream_manager" where
  "stream_StopAll m =
     m\<lparr>lm_subs := [], lm_podSubs := [],
       lm_ctxs := fold cancel (map (lsub_ctx \<circ> snd) (lm_subs m)) (lm_ctxs m)\<rparr>"

definition stream_ActiveCount :: "stream_manager \<Rightarrow> int" where
  "stream_ActiveCount m = int (gm_len (lm_subs m))"

text \<open>The deferred function of \<open>run\<close>, the last thing a goroutine does.\<close>

definition run_exit :: "stream_sub \<Rightarrow> stream_manager \<Rightarrow> stream_manager" where
  "run_exit sub m =
     m\<lparr>lm_subs := gm_del (lp_SubscriptionID (lsub_payload sub)) (lm_subs m),
       lm_podSubs := release_pod (lsub_podKey sub) (lp_SubscriptionID (lsub_payload sub)) (lm_podSubs m),
       lm_ctxs := cancel (lsub_ctx sub) (lm_ctxs m),
       lm_running := remove1 sub (lm_running m)\<rparr>"

section \<open>One stream\<close>

text \<open>
  \<open>openLogStream\<close>: what is asked of whom. \<open>get_pod\<close> is the pod lookup: the node and the uid of a pod.
\<close>

record pod_log_options =
  po_Container :: string
  po_Follow :: bool
  po_TailLines :: "int option"
  po_SinceSeconds :: "int option"

datatype log_source = FromNode node_client string fetch_request | FromAPI string string pod_log_options

definition openLogStream ::
  "(string \<Rightarrow> string \<Rightarrow> go_error + string \<times> string) \<Rightarrow> gtime \<Rightarrow> stream_manager \<Rightarrow> stream_payload
     \<Rightarrow> go_error + log_source" where
  "openLogStream get_pod now m p =
     (case (if lm_backend m = LogsBackendNodeLocal then lm_nodeClient m else None) of
        Some client \<Rightarrow>
          sum_bind (get_pod (lp_Namespace p) (lp_Pod p)) (\<lambda>(node, uid).
            if node = [] then Inl (Errorf ''pod %s has no nodeName'' [AStr (lp_Pod p)])
            else Inr (FromNode client node
                   \<lparr> fr_Namespace = lp_Namespace p, fr_Pod = lp_Pod p, fr_PodUID = uid,
                     fr_Container = lp_Container p, fr_Previous = False,
                     fr_SinceTime = map_option (\<lambda>s. now + int64 (- s * second)) (lp_SinceSeconds p),
                     fr_TailLines = lp_TailLines p, fr_LimitBytes = None \<rparr>))
      | None \<Rightarrow>
          Inr (FromAPI (lp_Namespace p) (lp_Pod p)
                 \<lparr> po_Container = lp_Container p, po_Follow = lp_Follow p, po_TailLines = lp_TailLines p,
                   po_SinceSeconds = lp_SinceSeconds p \<rparr>))"

record log_message =
  lg_Topic :: string
  lg_Key :: string
  lg_SchemaVersion :: string
  lg_SubscriptionID :: string
  lg_Namespace :: string
  lg_Pod :: string
  lg_Container :: string
  lg_Lines :: "string list"

definition stream_message :: "stream_manager \<Rightarrow> stream_payload \<Rightarrow> string list \<Rightarrow> log_message" where
  "stream_message m p ls =
     \<lparr> lg_Topic = stream_OutputTopicOr p (lm_defaultTopic m),
       lg_Key = lm_clusterID m @ ''/'' @ lp_Namespace p @ ''/v1/pod/'' @ lp_Pod p @ ''/container/'' @ lp_Container p,
       lg_SchemaVersion = ''v1'', lg_SubscriptionID = lp_SubscriptionID p, lg_Namespace = lp_Namespace p,
       lg_Pod = lp_Pod p, lg_Container = lp_Container p, lg_Lines = ls \<rparr>"

abbreviation (input) batchSize :: int where "batchSize \<equiv> 100"

text \<open>The closure \<open>flush\<close>: the batches it publishes and what stays pending.\<close>

function flush :: "bool \<Rightarrow> string list \<Rightarrow> string list list \<times> string list" where
  "flush force pending =
     (if int (length pending) \<ge> batchSize \<or> force \<and> pending \<noteq> [] then
        let n = (if int (length pending) < batchSize then length pending else 100);
            batch = take n pending; pending' = drop n pending
        in if \<not> force \<and> int (length pending') < batchSize then ([batch], pending')
           else (case flush force pending' of (bs, r) \<Rightarrow> (batch # bs, r))
      else ([], pending))"
  by pat_completeness auto
termination
  by (relation "measure (\<lambda>(force, pending). length pending)") auto

declare flush.simps [simp del]

text \<open>\<open>appendLine\<close>: batches, the lines pending after it, and how many lines it dropped.\<close>

definition appendLine :: "int \<Rightarrow> string \<Rightarrow> string list \<Rightarrow> string list list \<times> string list \<times> int" where
  "appendLine backlogMax line pending =
     (let pending = pending @ [line];
          dropped = (if int (length pending) > backlogMax then int (length pending) - backlogMax else 0);
          pending = drop (nat dropped) pending
      in if int (length pending) \<ge> batchSize
         then (case flush False pending of (bs, r) \<Rightarrow> (bs, r, dropped))
         else ([], pending, dropped))"

text \<open>What the select statement of \<open>run\<close> may receive, and the loop.\<close>

datatype stream_event = Line string | Tick | ReadErr | Closed | CtxDone

fun run_loop :: "int \<Rightarrow> string list \<Rightarrow> stream_event list \<Rightarrow> string list list \<times> int" where
  "run_loop backlogMax pending [] = ([], 0)"
| "run_loop backlogMax pending (ev # evs) =
     (case ev of
        Line l \<Rightarrow>
          (case appendLine backlogMax l pending of
             (bs, r, n) \<Rightarrow> (case run_loop backlogMax r evs of (bs', n') \<Rightarrow> (bs @ bs', n + n')))
      | Tick \<Rightarrow>
          (case flush True pending of
             (bs, r) \<Rightarrow> (case run_loop backlogMax r evs of (bs', n') \<Rightarrow> (bs @ bs', n')))
      | _ \<Rightarrow> (fst (flush True pending), 0))"

text \<open>The reader goroutine: lines with their end trimmed; the rest without a line end is a line too.\<close>

definition stream_lines :: "string \<Rightarrow> string list" where
  "stream_lines s =
     (let ls = SplitChar (CHR 0x0A) s in map trim_eol (if last ls = [] then butlast ls else ls))"

section \<open>Handlers (internal/handlers/logstream/handler.go)\<close>

definition stream_StartHandler :: "string \<Rightarrow> stream_manager handle" where
  "stream_StartHandler defaultTopic =
     start_handler ParseStreamPayload stream_Start ''StreamStartFailed'' ''LOG_STREAM_START_ERROR''
       (\<lambda>p r. r\<lparr>r_SubscriptionID := lp_SubscriptionID p, r_OutputTopic := stream_OutputTopicOr p defaultTopic\<rparr>)"

definition stream_StopHandler :: "stream_manager handle" where
  "stream_StopHandler = stop_handler ParseStopPayload stream_Stop ''StreamStopFailed'' ''LOG_STREAM_STOP_ERROR''"

interpretation stream_start_h: command_handler "stream_StartHandler dt" for dt
  unfolding stream_StartHandler_def by (rule command_handler_start) simp

interpretation stream_stop_h: command_handler stream_StopHandler
  unfolding stream_StopHandler_def by (rule command_handler_stop)

section \<open>Batching\<close>

lemma flush_spec:
  "case flush force pending of (bs, r) \<Rightarrow>
     concat bs @ r = pending \<and> (\<forall>b \<in> set bs. 1 \<le> length b \<and> length b \<le> 100) \<and> (force \<longrightarrow> r = []) \<and> length r < 100"
proof (induction force pending rule: flush.induct)
  case (1 force pending)
  show ?case
  proof (cases "int (length pending) \<ge> batchSize \<or> force \<and> pending \<noteq> []")
    case False
    then show ?thesis by (subst flush.simps) auto
  next
    case True
    define n where "n = (if int (length pending) < batchSize then length pending else 100)"
    have n: "1 \<le> n" "n \<le> 100" "n \<le> length pending" using True by (auto simp: n_def Suc_le_eq)
    have eq: "flush force pending =
        (if \<not> force \<and> int (length (drop n pending)) < batchSize then ([take n pending], drop n pending)
         else (case flush force (drop n pending) of (bs, r) \<Rightarrow> (take n pending # bs, r)))"
      by (subst flush.simps) (simp only: True if_True Let_def n_def)
    show ?thesis
    proof (cases "\<not> force \<and> int (length (drop n pending)) < batchSize")
      case True
      then show ?thesis unfolding eq if_P [OF True] using n by auto
    next
      case False
      with "1.IH" [OF \<open>int (length pending) \<ge> batchSize \<or> force \<and> pending \<noteq> []\<close> n_def refl refl]
      show ?thesis
        unfolding eq if_not_P [OF False]
        using n by (cases "flush force (drop n pending)") auto
    qed
  qed
qed

lemma flush_parts:
  "concat (fst (flush force pending)) @ snd (flush force pending) = pending"
  "b \<in> set (fst (flush force pending)) \<Longrightarrow> 1 \<le> length b \<and> length b \<le> 100"
  "snd (flush True pending) = []" "length (snd (flush force pending)) < 100"
  using flush_spec [where force = force and pending = pending] flush_spec [where force = True and pending = pending] by (auto split: prod.splits)

lemma flush_forced: "concat (fst (flush True pending)) = pending"
  using flush_parts(1) [where force = True and pending = pending] by (simp add: flush_parts(3))

text \<open>What the loop has received when it returns, and that it returns.\<close>

fun received :: "stream_event list \<Rightarrow> string list" where
  "received (Line l # evs) = l # received evs"
| "received (Tick # evs) = received evs"
| "received _ = []"

fun finishes :: "stream_event list \<Rightarrow> bool" where
  "finishes [] = False"
| "finishes (ev # evs) = (case ev of Line l \<Rightarrow> finishes evs | Tick \<Rightarrow> finishes evs | _ \<Rightarrow> True)"

lemma appendLine_spec:
  assumes "appendLine bm l pending = (bs, r, n)"
  shows "concat bs @ r = drop (nat n) (pending @ [l])" "\<forall>b \<in> set bs. 1 \<le> length b \<and> length b \<le> 100"
    "length r < 100" "n = max 0 (int (length pending) + 1 - bm)"
proof -
  let ?d = "max 0 (int (length pending) + 1 - bm)" and ?p = "drop (nat (max 0 (int (length pending) + 1 - bm))) (pending @ [l])"
  have "(if int (length (pending @ [l])) > bm then int (length (pending @ [l])) - bm else 0) = ?d" by simp
  then have eq: "appendLine bm l pending =
      (if int (length ?p) \<ge> batchSize then (case flush False ?p of (bs, r) \<Rightarrow> (bs, r, ?d)) else ([], ?p, ?d))"
    unfolding appendLine_def Let_def by (simp only:)
  have "n = ?d \<and> concat bs @ r = ?p \<and> (\<forall>b \<in> set bs. 1 \<le> length b \<and> length b \<le> 100) \<and> length r < 100"
  proof (cases "int (length ?p) \<ge> batchSize")
    case True
    show ?thesis
      using assms [unfolded eq if_P [OF True]] flush_parts(1,2,4) [where force = False and pending = ?p]
      by (cases "flush False ?p") auto
  next
    case False
    show ?thesis using assms [unfolded eq if_not_P [OF False]] False by auto
  qed
  then show "concat bs @ r = drop (nat n) (pending @ [l])" "\<forall>b \<in> set bs. 1 \<le> length b \<and> length b \<le> 100"
    "length r < 100" "n = ?d" by blast+
qed

lemma run_loop_spec:
  assumes "finishes evs" and "1 \<le> bm" and "run_loop bm pending evs = (bs, n)"
  shows "subseq (concat bs) (pending @ received evs) \<and> (\<forall>b \<in> set bs. 1 \<le> length b \<and> length b \<le> 100) \<and>
    0 \<le> n \<and> int (length (concat bs)) + n = int (length pending) + int (length (received evs)) \<and>
    (100 \<le> bm \<longrightarrow> length pending < 100 \<longrightarrow> n = 0)"
  using assms
proof (induction evs arbitrary: pending bs n)
  case Nil
  then show ?case by simp
next
  case (Cons ev evs)
  show ?case
  proof (cases ev)
    case (Line l)
    obtain b1 r d where a: "appendLine bm l pending = (b1, r, d)" by (metis prod_cases3)
    obtain b2 d2 where l: "run_loop bm r evs = (b2, d2)" by fastforce
    have eqs: "bs = b1 @ b2" "n = d + d2" using Cons.prems(3) by (simp_all add: Line a l)
    note A = appendLine_spec [OF a]
    have I: "subseq (concat b2) (r @ received evs)" "\<forall>b \<in> set b2. 1 \<le> length b \<and> length b \<le> 100" "0 \<le> d2"
      "int (length (concat b2)) + d2 = int (length r) + int (length (received evs))" "100 \<le> bm \<longrightarrow> d2 = 0"
      using Cons.IH [OF _ Cons.prems(2) l] Cons.prems(1) A(3) by (simp_all add: Line)
    have d: "0 \<le> d" "nat d \<le> length (pending @ [l])" using A(4) Cons.prems(2) by auto
    have "length (concat b1) + length r = Suc (length pending) - nat d"
      using arg_cong [OF A(1), of length] by (simp del: drop_append)
    then have len: "int (length (concat b1)) + int (length r) + d = int (length pending) + 1"
      using d by simp
    have "subseq (concat b1 @ concat b2) (concat b1 @ r @ received evs)"
      using I(1) by (intro list_emb_append_mono) simp_all
    also have "concat b1 @ r @ received evs = drop (nat d) (pending @ [l]) @ received evs"
      using A(1) by (simp flip: append_assoc)
    also have "subseq \<dots> ((pending @ [l]) @ received evs)"
      by (rule list_emb_append_mono) (simp_all only: suffix_imp_subseq suffix_drop subseq_order.order_refl)
    finally have "subseq (concat bs) (pending @ received (ev # evs))" by (simp add: eqs Line)
    moreover have "100 \<le> bm \<longrightarrow> length pending < 100 \<longrightarrow> n = 0" using I(5) A(4) by (auto simp: eqs)
    ultimately show ?thesis using I(2-4) A(2) d(1) len by (auto simp: eqs Line)
  next
    case Tick
    obtain b2 d2 where l: "run_loop bm [] evs = (b2, d2)" by fastforce
    have eqs: "bs = fst (flush True pending) @ b2" "n = d2"
      using Cons.prems(3) by (simp_all add: Tick l flush_parts(3) case_prod_unfold)
    show ?thesis
      using Cons.IH [OF _ Cons.prems(2) l] Cons.prems(1) flush_forced [of pending] flush_parts(2) [where force = True and pending = pending]
      by (auto simp: eqs Tick intro: list_emb_append_mono)
  qed (use Cons.prems flush_forced [of pending] flush_parts(2) [where force = True and pending = pending] in \<open>auto\<close>)
qed




section \<open>The table and the goroutines\<close>

text \<open>
  What can happen to a manager: a command, or the end of a goroutine, which may come at any time (the log
  ends, cannot be opened, or the context is done). With \<open>reuse\<close> false, a start never takes the id of a
  goroutine that has yet to leave.
\<close>

inductive stream_step :: "bool \<Rightarrow> stream_manager \<Rightarrow> stream_manager \<Rightarrow> bool" for reuse where
  stream_step_start:
    "reuse \<or> lp_SubscriptionID p \<notin> (lp_SubscriptionID \<circ> lsub_payload) ` set (lm_running m)
       \<Longrightarrow> stream_Start now m p = (m', r) \<Longrightarrow> stream_step reuse m m'"
| stream_step_stop: "stream_step reuse m (fst (stream_Stop m i))"
| stream_step_stop_all: "stream_step reuse m (stream_StopAll m)"
| stream_step_exit: "sub \<in> set (lm_running m) \<Longrightarrow> stream_step reuse m (run_exit sub m)"

definition stream_reachable :: "bool \<Rightarrow> stream_manager \<Rightarrow> bool" where
  "stream_reachable reuse =
     reachable (\<lambda>m. \<exists>c t e per backlog mt. m = stream_NewManager c t e per backlog mt) (stream_step reuse)"

definition stream_active :: "stream_manager \<Rightarrow> string set" where
  "stream_active m = dom (gm_get (lm_subs m))"

text \<open>A goroutine that nobody has told to leave.\<close>

definition stream_live :: "stream_manager \<Rightarrow> stream_sub \<Rightarrow> bool" where
  "stream_live m sub \<longleftrightarrow> sub \<in> set (lm_running m) \<and> \<not> cancelled (lm_ctxs m) (lsub_ctx sub)"

lemma release_pod_get:
  "i \<noteq> [] \<Longrightarrow> gm_get (release_pod key i ps) k = (if k = key \<and> gm_get ps key = Some i then None else gm_get ps k)"
  by (auto simp: release_pod_def split: option.splits)

lemma release_pod_other: "gm_get ps k = Some j \<Longrightarrow> i \<noteq> j \<Longrightarrow> gm_get (release_pod key i ps) k = Some j"
  by (auto simp: release_pod_def split: option.splits)

lemma stream_Start_cases [consumes 1, case_names refused started]:
  assumes "stream_Start now m p = (m', r)"
  obtains e where "r = Some e" "m' = m"
  | cs sub where "r = None" "AllowNamespace (lm_policy m) (lp_Namespace p) = None"
      "gm_get (lm_subs m) (lp_SubscriptionID p) = None" "gm_get (lm_podSubs m) (pod_key p) = None"
      "subscriptionContext now (lp_TTLSeconds p) (lm_ctxs m) = (cs, length (lm_ctxs m))"
      "sub = \<lparr> lsub_payload = p, lsub_ctx = length (lm_ctxs m), lsub_podKey = pod_key p \<rparr>"
      "m' = m\<lparr>lm_ctxs := cs, lm_subs := gm_put (lp_SubscriptionID p) sub (lm_subs m),
              lm_podSubs := gm_put (pod_key p) (lp_SubscriptionID p) (lm_podSubs m),
              lm_running := lm_running m @ [sub]\<rparr>"
proof (cases "first_error [AllowCommandType (lm_policy m) TypeLogsStreamStart, AllowNamespace (lm_policy m) (lp_Namespace p)]")
  case (Some e)
  have "r \<noteq> None \<and> m' = m" using assms [unfolded stream_Start_def Some] by auto
  then show ?thesis using that(1) by blast
next
  case checked: None
  show ?thesis
  proof (cases "gm_get (lm_subs m) (lp_SubscriptionID p)")
    case (Some s)
    then have "r \<noteq> None \<and> m' = m" using assms checked by (auto simp: stream_Start_def simp del: first_error.simps)
    then show ?thesis using that(1) by blast
  next
    case free: None
    show ?thesis
    proof (cases "gm_get (lm_podSubs m) (pod_key p)")
      case (Some j)
      then have "r \<noteq> None \<and> m' = m" using assms checked free by (auto simp: stream_Start_def simp del: first_error.simps)
      then show ?thesis using that(1) by blast
    next
      case None
      obtain cs where cs: "subscriptionContext now (lp_TTLSeconds p) (lm_ctxs m) = (cs, length (lm_ctxs m))"
        by (simp add: subscriptionContext_def)
      have ns: "AllowNamespace (lm_policy m) (lp_Namespace p) = None" using checked by simp
      show ?thesis
        by (rule that(2) [OF _ ns free None cs refl])
           (use assms [unfolded stream_Start_def checked free None cs Let_def] in simp_all)
    qed
  qed
qed

lemma stream_Start_same [simp]: "lm_policy (fst (stream_Start now m p)) = lm_policy m"
  by (cases "stream_Start now m p", cases rule: stream_Start_cases) auto

interpretation stream_table: subscription_table stream_active lp_SubscriptionID
    "stream_Start now" stream_Stop stream_StopAll for now
proof
  fix m p m' e and i :: string
  show "stream_Start now m p = (m', None) \<Longrightarrow> stream_active m' = insert (lp_SubscriptionID p) (stream_active m)"
    by (erule stream_Start_cases) (auto simp: stream_active_def)
  show "stream_Start now m p = (m', Some e) \<Longrightarrow>
      stream_active m' \<union> {lp_SubscriptionID p} = stream_active m \<union> {lp_SubscriptionID p}"
    by (erule stream_Start_cases) auto
  show "i \<in> stream_active m \<Longrightarrow>
      snd (stream_Stop m i) = None \<and> stream_active (fst (stream_Stop m i)) = stream_active m - {i}"
    by (auto simp: stream_active_def stream_Stop_def split: if_splits)
  show "i \<notin> stream_active m \<Longrightarrow> snd (stream_Stop m i) \<noteq> None \<and> fst (stream_Stop m i) = m"
    by (auto simp: stream_active_def stream_Stop_def domIff)
  show "stream_active (stream_StopAll m) = {}" by (simp add: stream_active_def stream_StopAll_def)
qed


text \<open>
  A table entry is a live goroutine under its own id that owns its pod and whose namespace was allowed;
  no two goroutines share a context.
\<close>

abbreviation (input) sub_id :: "stream_sub \<Rightarrow> string" where
  "sub_id sub \<equiv> lp_SubscriptionID (lsub_payload sub)"

definition entry_ok :: "stream_manager \<Rightarrow> string \<Rightarrow> stream_sub \<Rightarrow> bool" where
  "entry_ok m i sub \<longleftrightarrow>
     sub_id sub = i \<and> stream_live m sub \<and> lsub_podKey sub = pod_key (lsub_payload sub) \<and>
     gm_get (lm_podSubs m) (lsub_podKey sub) = Some i \<and>
     AllowNamespace (lm_policy m) (lp_Namespace (lsub_payload sub)) = None"

definition stream_inv :: "stream_manager \<Rightarrow> bool" where
  "stream_inv m \<longleftrightarrow>
     (\<forall>i sub. gm_get (lm_subs m) i = Some sub \<longrightarrow> entry_ok m i sub) \<and>
     distinct (map lsub_ctx (lm_running m)) \<and>
     (\<forall>sub \<in> set (lm_running m). lsub_ctx sub < length (lm_ctxs m))"

lemma stream_invI:
  assumes "\<And>i sub. gm_get (lm_subs m) i = Some sub \<Longrightarrow> entry_ok m i sub"
    and "distinct (map lsub_ctx (lm_running m))"
    and "\<And>sub. sub \<in> set (lm_running m) \<Longrightarrow> lsub_ctx sub < length (lm_ctxs m)"
  shows "stream_inv m"
  using assms by (simp add: stream_inv_def)

lemma stream_invD:
  assumes "stream_inv m"
  shows "gm_get (lm_subs m) i = Some sub \<Longrightarrow> entry_ok m i sub"
    and "distinct (map lsub_ctx (lm_running m))"
    and "sub \<in> set (lm_running m) \<Longrightarrow> lsub_ctx sub < length (lm_ctxs m)"
    and "a \<in> set (lm_running m) \<Longrightarrow> b \<in> set (lm_running m) \<Longrightarrow> lsub_ctx a = lsub_ctx b \<Longrightarrow> a = b"
  using assms by (auto simp: stream_inv_def distinct_map inj_on_def)

lemma entry_running: "entry_ok m i sub \<Longrightarrow> sub \<in> set (lm_running m) \<and> sub_id sub = i"
  by (simp add: entry_ok_def stream_live_def)

lemma stream_inv_new: "stream_inv (stream_NewManager c t e per backlog mt)"
  by (rule stream_invI) (simp_all add: stream_NewManager_def)

lemma stream_inv_Start:
  assumes "stream_inv m" and "stream_Start now m p = (m', r)"
  shows "stream_inv m'"
  using assms(2)
proof (cases rule: stream_Start_cases)
  case refused
  then show ?thesis using assms(1) by simp
next
  case (started cs sub)
  note inv = stream_invD [OF assms(1)] and new = subscriptionContext_new [OF started(5)]
  show ?thesis
  proof (rule stream_invI)
    fix i s
    assume s: "gm_get (lm_subs m') i = Some s"
    show "entry_ok m' i s"
    proof (cases "i = lp_SubscriptionID p")
      case True
      then show ?thesis using s started(2,6,7) new(3) by (auto simp: entry_ok_def stream_live_def)
    next
      case False
      then have ok: "entry_ok m i s" using s started(7) inv(1) by simp
      then have "lsub_ctx s < length (lm_ctxs m)" using inv(3) entry_running by blast
      moreover have "lsub_podKey s \<noteq> pod_key p" using ok started(4) by (auto simp: entry_ok_def)
      ultimately show ?thesis using ok new(4) by (auto simp: started(7) entry_ok_def stream_live_def)
    qed
  next
    show "distinct (map lsub_ctx (lm_running m'))" using inv(2,3) by (force simp: started(6,7))
  next
    fix s
    assume "s \<in> set (lm_running m')"
    then show "lsub_ctx s < length (lm_ctxs m')" using inv(3) [of s] new(2) by (auto simp: started(6,7))
  qed
qed

text \<open>Both a stop and the end of a goroutine take an id out and cancel the context of a goroutine with it.\<close>

lemma stream_inv_drop:
  assumes "stream_inv m" and "sub \<in> set (lm_running m)" and "rs = lm_running m \<or> rs = remove1 sub (lm_running m)"
  shows "stream_inv (m\<lparr>lm_subs := gm_del (sub_id sub) (lm_subs m),
    lm_podSubs := release_pod (lsub_podKey sub) (sub_id sub) (lm_podSubs m),
    lm_ctxs := cancel (lsub_ctx sub) (lm_ctxs m), lm_running := rs\<rparr>)" (is "stream_inv ?m")
proof (rule stream_invI)
  note inv = stream_invD [OF assms(1)]
  have rs: "set rs \<subseteq> set (lm_running m)" using assms(3) set_remove1_subset [of sub "lm_running m"] by blast
  show "distinct (map lsub_ctx (lm_running ?m))" using assms(3) inv(2) by (auto simp: distinct_map inj_on_def dest: in_set_remove1)
  show "lsub_ctx s < length (lm_ctxs ?m)" if "s \<in> set (lm_running ?m)" for s using that rs inv(3) by auto
  fix i s
  assume s: "gm_get (lm_subs ?m) i = Some s"
  then have ne: "i \<noteq> sub_id sub" and ok: "entry_ok m i s" using inv(1) by (auto split: if_splits)
  have run: "s \<in> set (lm_running m)" "s \<noteq> sub" using entry_running [OF ok] ne by auto
  then have "s \<in> set rs" using assms(3) by auto
  moreover have "lsub_ctx s \<noteq> lsub_ctx sub" using inv(4) [OF run(1) assms(2)] run(2) by blast
  moreover have "gm_get (lm_podSubs ?m) (lsub_podKey s) = Some i"
    using ok ne by (auto simp: entry_ok_def intro: release_pod_other)
  ultimately show "entry_ok ?m i s" using ok by (simp add: entry_ok_def stream_live_def)
qed

lemma stream_inv_exit: "stream_inv m \<Longrightarrow> sub \<in> set (lm_running m) \<Longrightarrow> stream_inv (run_exit sub m)"
  unfolding run_exit_def by (rule stream_inv_drop) simp_all

lemma stream_inv_Stop:
  assumes "stream_inv m"
  shows "stream_inv (fst (stream_Stop m i))"
proof (cases "gm_get (lm_subs m) i")
  case None
  then show ?thesis using assms by (simp add: stream_Stop_def)
next
  case (Some sub)
  have sub: "sub \<in> set (lm_running m)" "sub_id sub = i" using stream_invD(1) [OF assms Some] entry_running by blast+
  show ?thesis using stream_inv_drop [OF assms sub(1), of "lm_running m"] sub(2) by (simp add: stream_Stop_def Some)
qed

lemma stream_inv_StopAll: "stream_inv m \<Longrightarrow> stream_inv (stream_StopAll m)"
  by (rule stream_invI) (auto simp: stream_StopAll_def fold_cancel dest: stream_invD)

lemma stream_inv_step: "stream_inv m \<Longrightarrow> stream_step reuse m m' \<Longrightarrow> stream_inv m'"
  by (erule stream_step.cases) (auto intro: stream_inv_Start stream_inv_Stop stream_inv_StopAll stream_inv_exit)

lemma stream_reachable_inv: "stream_reachable reuse m \<Longrightarrow> stream_inv m"
  unfolding stream_reachable_def
  by (erule reachable_invariant) (auto intro: stream_inv_new stream_inv_step)


text \<open>Without reuse the table knows every live goroutine.\<close>

definition tracked :: "stream_manager \<Rightarrow> bool" where
  "tracked m \<longleftrightarrow>
     distinct (map sub_id (lm_running m)) \<and> (\<forall>sub. stream_live m sub \<longrightarrow> gm_get (lm_subs m) (sub_id sub) = Some sub)"

lemma tracked_drop:
  assumes "tracked m" and "sub \<in> set (lm_running m)" and "lsub_ctx sub < length (lm_ctxs m)"
    and "rs = lm_running m \<or> rs = remove1 sub (lm_running m)"
  shows "tracked (m\<lparr>lm_subs := gm_del (sub_id sub) (lm_subs m), lm_podSubs := ps,
    lm_ctxs := cancel (lsub_ctx sub) (lm_ctxs m), lm_running := rs\<rparr>)" (is "tracked ?m")
proof -
  have dist: "distinct (map sub_id (lm_running m))" using assms(1) by (simp add: tracked_def)
  have rs: "set rs \<subseteq> set (lm_running m)" using assms(4) set_remove1_subset [of sub "lm_running m"] by blast
  have "distinct (map sub_id rs)" using assms(4) dist by (auto simp: distinct_map inj_on_def dest: in_set_remove1)
  moreover have "gm_get (lm_subs ?m) (sub_id s) = Some s" if s: "stream_live ?m s" for s
  proof -
    have live: "stream_live m s" and "s \<noteq> sub" using s rs assms(3) by (auto simp: stream_live_def)
    then have "sub_id s \<noteq> sub_id sub"
      using dist assms(2) by (auto simp: stream_live_def distinct_map inj_on_def)
    then show ?thesis using live assms(1) by (simp add: tracked_def)
  qed
  ultimately show ?thesis by (simp add: tracked_def)
qed

lemma tracked_Stop:
  assumes "stream_inv m" and "tracked m"
  shows "tracked (fst (stream_Stop m i))"
proof (cases "gm_get (lm_subs m) i")
  case None
  then show ?thesis using assms by (simp add: stream_Stop_def)
next
  case (Some sub)
  have sub: "sub \<in> set (lm_running m)" "sub_id sub = i" using stream_invD(1) [OF assms(1) Some] entry_running by blast+
  show ?thesis
    using tracked_drop [OF assms(2) sub(1) stream_invD(3) [OF assms(1) sub(1)], of "lm_running m"] sub(2)
    by (simp add: stream_Stop_def Some)
qed

lemma StopAll_cancelled:
  assumes "stream_inv m" and "gm_get (lm_subs m) i = Some sub"
  shows "cancelled (lm_ctxs (stream_StopAll m)) (lsub_ctx sub)"
proof -
  have "(i, sub) \<in> set (lm_subs m)" using assms(2) by (auto simp: gm_get_def dest: map_of_SomeD)
  then have "lsub_ctx sub \<in> set (map (lsub_ctx \<circ> snd) (lm_subs m))" by force
  moreover have "lsub_ctx sub < length (lm_ctxs m)"
    using stream_invD(1,3) [OF assms(1)] assms(2) entry_running by blast
  ultimately show ?thesis by (simp add: stream_StopAll_def fold_cancel)
qed

lemma stream_live_StopAll: "stream_live (stream_StopAll m) sub \<Longrightarrow> stream_live m sub"
  by (auto simp: stream_live_def stream_StopAll_def fold_cancel)

lemma tracked_StopAll:
  assumes "stream_inv m" and "tracked m"
  shows "\<not> stream_live (stream_StopAll m) sub" "tracked (stream_StopAll m)"
proof -
  show no: "\<not> stream_live (stream_StopAll m) s" for s
    using StopAll_cancelled [OF assms(1)] stream_live_StopAll [of m s] assms(2)
    by (auto simp: tracked_def stream_live_def)
  show "tracked (stream_StopAll m)" using no assms(2) by (simp add: tracked_def stream_StopAll_def)
qed

lemma tracked_Start:
  assumes "stream_inv m" and "tracked m" and "stream_Start now m p = (m', r)"
    and "lp_SubscriptionID p \<notin> (lp_SubscriptionID \<circ> lsub_payload) ` set (lm_running m)"
  shows "tracked m'"
  using assms(3)
proof (cases rule: stream_Start_cases)
  case refused
  then show ?thesis using assms(2) by simp
next
  case (started cs sub)
  note new = subscriptionContext_new [OF started(5)]
  have "gm_get (lm_subs m') (sub_id s) = Some s" if s: "stream_live m' s" for s
  proof (cases "s = sub")
    case True
    then show ?thesis by (simp add: started(6,7))
  next
    case False
    then have run: "s \<in> set (lm_running m)" using s by (simp add: started(7) stream_live_def)
    then have "stream_live m s" using s stream_invD(3) [OF assms(1) run] new(4) by (simp add: started(7) stream_live_def)
    moreover have "sub_id s \<noteq> lp_SubscriptionID p" using assms(4) run by force
    ultimately show ?thesis using assms(2) by (simp add: started(7) tracked_def)
  qed
  moreover have "distinct (map sub_id (lm_running m'))" using assms(2,4) by (auto simp: started(6,7) tracked_def)
  ultimately show ?thesis by (simp add: tracked_def)
qed

lemma tracked_exit: "stream_inv m \<Longrightarrow> tracked m \<Longrightarrow> sub \<in> set (lm_running m) \<Longrightarrow> tracked (run_exit sub m)"
  unfolding run_exit_def by (rule tracked_drop) (simp_all add: stream_invD)

lemma tracked_new: "tracked (stream_NewManager c t e per backlog mt)"
  by (simp add: tracked_def stream_live_def stream_NewManager_def)

lemma stream_reachable_tracked: "stream_reachable False m \<Longrightarrow> stream_inv m \<and> tracked m"
  unfolding stream_reachable_def
proof (erule reachable_invariant)
  fix m m'
  assume "stream_inv m \<and> tracked m" and step: "stream_step False m m'"
  then have inv: "stream_inv m" "tracked m" by blast+
  from step have "tracked m'"
    by cases (use inv in \<open>auto intro: tracked_Start tracked_Stop tracked_StopAll tracked_exit\<close>)
  then show "stream_inv m' \<and> tracked m'" using stream_inv_step [OF inv(1) step] by blast
next
  fix m
  assume "\<exists>c t e per backlog mt. m = stream_NewManager c t e per backlog mt"
  then show "stream_inv m \<and> tracked m"
    using stream_inv_new tracked_new by blast
qed

section \<open>Properties\<close>

text \<open>
  C10: In every state a log stream manager can reach, an entry of the table is a running goroutine that has
  not been cancelled, in a namespace the policy allows, and no other entry streams the same pod.
\<close>

theorem stream_table_sound:
  assumes "stream_reachable True m" and "gm_get (lm_subs m) i = Some a"
  shows "stream_live m a \<and> lp_SubscriptionID (lsub_payload a) = i \<and>
    AllowNamespace (lm_policy m) (lp_Namespace (lsub_payload a)) = None \<and>
    (\<forall>j b. gm_get (lm_subs m) j = Some b \<and> lp_Namespace (lsub_payload b) = lp_Namespace (lsub_payload a) \<and>
       lp_Pod (lsub_payload b) = lp_Pod (lsub_payload a) \<longrightarrow> j = i)"
proof -
  note ok = stream_invD(1) [OF stream_reachable_inv [OF assms(1)]]
  have "j = i"
    if "gm_get (lm_subs m) j = Some b" "lp_Namespace (lsub_payload b) = lp_Namespace (lsub_payload a)"
      "lp_Pod (lsub_payload b) = lp_Pod (lsub_payload a)" for j b
    using ok [OF assms(2)] ok [OF that(1)] that(2,3) by (auto simp: entry_ok_def pod_key_def)
  then show ?thesis using ok [OF assms(2)] by (auto simp: entry_ok_def)
qed

text \<open>
  C12: As long as no start takes the id of a goroutine that has yet to leave, the live goroutines are exactly
  the table, so \<open>StopAll\<close> leaves none of them live and \<open>Stop\<close> ends the one it names.
\<close>

theorem stream_stop_complete:
  assumes "stream_reachable False m"
  shows "(stream_live m sub \<longleftrightarrow> gm_get (lm_subs m) (lp_SubscriptionID (lsub_payload sub)) = Some sub) \<and>
    \<not> stream_live (stream_StopAll m) sub \<and>
    (lp_SubscriptionID (lsub_payload sub) = i \<longrightarrow> \<not> stream_live (fst (stream_Stop m i)) sub)"
proof -
  have inv: "stream_inv m" and tr: "tracked m" using stream_reachable_tracked [OF assms] by blast+
  have iff: "stream_live m sub \<longleftrightarrow> gm_get (lm_subs m) (sub_id sub) = Some sub"
    using stream_invD(1) [OF inv] tr by (auto simp: tracked_def entry_ok_def)
  have "\<not> stream_live (fst (stream_Stop m (sub_id sub))) sub"
  proof (cases "stream_live m sub")
    case True
    then show ?thesis
      using iff stream_invD(3) [OF inv] by (simp add: stream_Stop_def stream_live_def)
  next
    case False
    then show ?thesis by (auto simp: stream_Stop_def stream_live_def split: option.splits)
  qed
  then show ?thesis using iff tracked_StopAll(1) [OF inv tr] by blast
qed

lemma stream_Start_ok:
  assumes "AllowCommandType (lm_policy m) TypeLogsStreamStart = None"
    and "AllowNamespace (lm_policy m) (lp_Namespace p) = None"
    and "gm_get (lm_subs m) (lp_SubscriptionID p) = None" and "gm_get (lm_podSubs m) (pod_key p) = None"
  shows "stream_Start now m p =
    (m\<lparr>lm_ctxs := fst (subscriptionContext now (lp_TTLSeconds p) (lm_ctxs m)),
       lm_subs := gm_put (lp_SubscriptionID p) \<lparr> lsub_payload = p, lsub_ctx = length (lm_ctxs m), lsub_podKey = pod_key p \<rparr> (lm_subs m),
       lm_podSubs := gm_put (pod_key p) (lp_SubscriptionID p) (lm_podSubs m),
       lm_running := lm_running m @ [\<lparr> lsub_payload = p, lsub_ctx = length (lm_ctxs m), lsub_podKey = pod_key p \<rparr>]\<rparr>, None)"
  unfolding stream_Start_def assms by (simp add: subscriptionContext_def Let_def)

text \<open>
  With reuse that fails. A stream is started, stopped, and started again under its id before the first
  goroutine has left (its deferred function deletes the id whoever holds it now): the second stream runs on,
  the table is empty, no \<open>Stop\<close> finds it and \<open>StopAll\<close> does not end it.
\<close>

lemma stream_leak:
  assumes "AllowCommandType e TypeLogsStreamStart = None" and "AllowNamespace e (lp_Namespace p) = None"
  shows "\<exists>m sub. stream_reachable True m \<and> lm_policy m = e \<and> lsub_payload sub = p \<and> stream_live m sub \<and>
    stream_ActiveCount m = 0 \<and> (\<forall>i. snd (stream_Stop m i) \<noteq> None) \<and> stream_live (stream_StopAll m) sub"
proof -
  let ?sub = "\<lambda>n. \<lparr> lsub_payload = p, lsub_ctx = n, lsub_podKey = pod_key p \<rparr>"
  let ?i = "lp_SubscriptionID p"
  define m0 where "m0 = stream_NewManager [] [] e 1 0 False"
  define m1 where "m1 = fst (stream_Start 0 m0 p)"
  define m2 where "m2 = fst (stream_Stop m1 ?i)"
  define m3 where "m3 = fst (stream_Start 0 m2 p)"
  define m4 where "m4 = run_exit (?sub 0) m3"
  have s0: "lm_policy m0 = e" "lm_subs m0 = []" "lm_podSubs m0 = []" "lm_ctxs m0 = []" "lm_running m0 = []"
    by (simp_all add: m0_def stream_NewManager_def)
  have s1: "lm_policy m1 = e" "lm_subs m1 = gm_put ?i (?sub 0) []" "lm_podSubs m1 = gm_put (pod_key p) ?i []"
      "length (lm_ctxs m1) = 1" "lm_running m1 = [?sub 0]"
    using stream_Start_ok [of m0 p 0] assms by (simp_all add: m1_def s0 subscriptionContext_def)
  have s2: "lm_policy m2 = e" "lm_subs m2 = gm_del ?i (gm_put ?i (?sub 0) [])"
      "gm_get (lm_podSubs m2) (pod_key p) = None" "length (lm_ctxs m2) = 1" "lm_running m2 = [?sub 0]"
    using s1 by (simp_all add: m2_def stream_Stop_def release_pod_def)
  have s3: "lm_policy m3 = e" "gm_get (lm_subs m3) = [?i \<mapsto> ?sub 1]" "length (lm_ctxs m3) = 2"
      "\<not> cancelled (lm_ctxs m3) 1" "lm_running m3 = [?sub 0, ?sub 1]" "lm_subs m3 = gm_put ?i (?sub 1) (lm_subs m2)"
    using stream_Start_ok [of m2 p 0] assms s2
    by (auto simp: m3_def subscriptionContext_def cancelled_def nth_append fun_eq_iff)
  have s4: "lm_policy m4 = e" "gm_get (lm_subs m4) = Map.empty" "\<not> cancelled (lm_ctxs m4) 1" "lm_running m4 = [?sub 1]"
    using s3(1-5) by (auto simp: m4_def run_exit_def fun_eq_iff)
  have reach: "stream_reachable True m4"
  proof -
    have "stream_reachable True m0" unfolding stream_reachable_def m0_def by (rule reach_init) blast
    moreover have "stream_step True m0 m1" unfolding m1_def by (rule stream_step_start [OF _ surjective_pairing]) simp
    moreover have "stream_step True m1 m2" unfolding m2_def by (rule stream_step_stop)
    moreover have "stream_step True m2 m3" unfolding m3_def by (rule stream_step_start [OF _ surjective_pairing]) simp
    moreover have "stream_step True m3 m4" unfolding m4_def by (rule stream_step_exit) (simp add: s3)
    ultimately show ?thesis unfolding stream_reachable_def by (blast intro: reach_step)
  qed
  have empty: "lm_subs m4 = []" using s4(2) by (simp only: gm_get_empty)
  show ?thesis
    using reach s4 empty
    by (intro exI [of _ m4] exI [of _ "?sub 1"])
       (simp add: stream_live_def stream_ActiveCount_def stream_Stop_def stream_StopAll_def gm_len_def)
qed

section \<open>Witnesses\<close>

definition stream_policy :: policy_config where
  "stream_policy = shop_policy\<lparr>pc_AllowedCommandTypes := [TypeLogsStreamStart]\<rparr>"

definition stream_engine :: engine where
  "stream_engine = (case NewEngine stream_policy of Inr e \<Rightarrow> e | Inl _ \<Rightarrow> shop_engine)"

definition web_stream :: stream_payload where
  "web_stream =
     \<lparr> lp_SubscriptionID = ''s1'', lp_Namespace = ''shop'', lp_Pod = ''web'', lp_Container = ''app'', lp_Follow = True,
       lp_TailLines = Some 10, lp_SinceSeconds = None, lp_OutputTopic = [], lp_TTLSeconds = 0 \<rparr>"

definition one_stream :: stream_manager where
  "one_stream = fst (stream_Start 0 (stream_NewManager ''c'' ''logs'' stream_engine 1 0 True) web_stream)"

lemma one_stream_reachable: "stream_reachable reuse one_stream"
proof -
  let ?m = "stream_NewManager ''c'' ''logs'' stream_engine 1 0 True"
  have "stream_reachable reuse ?m" unfolding stream_reachable_def by (rule reach_init) blast
  moreover have "stream_step reuse ?m one_stream"
    unfolding one_stream_def
    by (rule stream_step_start [OF _ surjective_pairing]) (simp add: stream_NewManager_def)
  ultimately show ?thesis unfolding stream_reachable_def by (rule reach_step)
qed

lemma one_stream_entry: "\<exists>sub. gm_get (lm_subs one_stream) ''s1'' = Some sub \<and> lsub_payload sub = web_stream"
proof -
  have "map_option lsub_payload (gm_get (lm_subs one_stream) ''s1'') = Some web_stream" by code_simp
  then show ?thesis by auto
qed

theorem stream_table_sound_witness:
  "\<exists>sub. gm_get (lm_subs one_stream) ''s1'' = Some sub \<and> stream_live one_stream sub \<and>
     AllowNamespace (lm_policy one_stream) ''shop'' = None"
proof -
  obtain sub where sub: "gm_get (lm_subs one_stream) ''s1'' = Some sub" "lsub_payload sub = web_stream"
    using one_stream_entry by blast
  show ?thesis using stream_table_sound [OF one_stream_reachable sub(1)] sub by (auto simp: web_stream_def)
qed

theorem stream_stop_complete_witness:
  "\<exists>sub. stream_live one_stream sub \<and> \<not> stream_live (stream_StopAll one_stream) sub \<and>
     \<not> stream_live (fst (stream_Stop one_stream ''s1'')) sub"
proof -
  obtain sub where sub: "gm_get (lm_subs one_stream) ''s1'' = Some sub" "lsub_payload sub = web_stream"
    using one_stream_entry by blast
  show ?thesis
    using stream_stop_complete [OF one_stream_reachable, of sub "''s1''"] sub by (auto simp: web_stream_def)
qed

lemma stream_leak_example:
  "\<exists>m sub. stream_reachable True m \<and> lm_policy m = stream_engine \<and> lsub_payload sub = web_stream \<and> stream_live m sub \<and>
     stream_ActiveCount m = 0 \<and> (\<forall>i. snd (stream_Stop m i) \<noteq> None) \<and> stream_live (stream_StopAll m) sub"
proof -
  have "AllowCommandType stream_engine TypeLogsStreamStart = None"
    "AllowNamespace stream_engine (lp_Namespace web_stream) = None" by code_simp+
  then show ?thesis by (rule stream_leak)
qed


end
