(* ===== verification/Health_Report.thy ===== *)
theory Health_Report
  imports Subscriptions Policy_Engine
begin

text \<open>
  Health reports: \<open>internal/healthreport/manager.go\<close> and \<open>internal/handlers/health\<close>.

  The manager holds the table of its subscriptions, the contexts and the goroutines that run. What one
  round publishes is a function of the pods the cluster lists: a summary over all of them and the pods
  themselves in pages. Lengths and page numbers are Go's \<open>int\<close>, whose sums and products wrap; a slice
  out of range and a ticker without a positive period panic.
\<close>

section \<open>Payload\<close>

record health_payload =
  hp_SubscriptionID :: string
  hp_IntervalSeconds :: int
  hp_Namespaces :: "string list"
  hp_LabelSelector :: string
  hp_IncludeNotReadyOnly :: bool
  hp_OutputTopic :: string
  hp_MaxPodsPerMessage :: int
  hp_TTLSeconds :: int

definition decode_health :: "obj \<Rightarrow> health_payload option" where
  "decode_health kvs =
     do {
       i \<leftarrow> fld_str ''subscription_id'' kvs;
       iv \<leftarrow> fld_int ''interval_seconds'' kvs;
       nss \<leftarrow> fld_strs ''namespaces'' kvs;
       sel \<leftarrow> fld_str ''label_selector'' kvs;
       only \<leftarrow> fld_bool ''include_not_ready_only'' kvs;
       ot \<leftarrow> fld_str ''output_topic'' kvs;
       mx \<leftarrow> fld_int ''max_pods_per_message'' kvs;
       ttl \<leftarrow> fld_int ''ttl_seconds'' kvs;
       Some \<lparr> hp_SubscriptionID = i, hp_IntervalSeconds = iv, hp_Namespaces = nss, hp_LabelSelector = sel,
              hp_IncludeNotReadyOnly = only, hp_OutputTopic = ot, hp_MaxPodsPerMessage = mx, hp_TTLSeconds = ttl \<rparr>
     }"

definition ParseHealthPayload :: "raw \<Rightarrow> go_error + health_payload" where
  "ParseHealthPayload raw =
     sum_bind
       (decode_payload (sum_bind (unmarshal_struct raw) (\<lambda>kvs. or_json_error (decode_health kvs))))
       (\<lambda>p.
          if hp_SubscriptionID p = [] then Inl (Errorf ''subscription_id is required'' [])
          else if hp_IntervalSeconds p < 1 then Inl (Errorf ''interval_seconds must be >= 1'' [])
          else Inr (if hp_MaxPodsPerMessage p < 1 then p\<lparr>hp_MaxPodsPerMessage := 500\<rparr> else p))"

definition health_OutputTopicOr :: "health_payload \<Rightarrow> string \<Rightarrow> string" where
  "health_OutputTopicOr p defaultTopic = (if hp_OutputTopic p \<noteq> [] then hp_OutputTopic p else defaultTopic)"

section \<open>Manager\<close>

record health_sub =
  hsub_payload :: health_payload
  hsub_ctx :: nat

record health_manager =
  hm_clusterID :: string
  hm_defaultTopic :: string
  hm_policy :: engine
  hm_defaultMax :: int
  hm_subs :: "(string, health_sub) gomap"
  hm_ctxs :: ctxs
  hm_running :: "health_sub list"

definition health_NewManager :: "string \<Rightarrow> string \<Rightarrow> engine \<Rightarrow> int \<Rightarrow> health_manager" where
  "health_NewManager clusterID defaultTopic e defaultMax =
     \<lparr> hm_clusterID = clusterID, hm_defaultTopic = defaultTopic, hm_policy = e,
       hm_defaultMax = (if defaultMax < 1 then 500 else defaultMax), hm_subs = [], hm_ctxs = [], hm_running = [] \<rparr>"

definition health_namespaces :: "engine \<Rightarrow> health_payload \<Rightarrow> string list" where
  "health_namespaces e p = (if hp_Namespaces p = [] then AllowedNamespaces e else hp_Namespaces p)"

definition health_Start :: "gtime \<Rightarrow> health_manager \<Rightarrow> health_payload \<Rightarrow> health_manager \<times> go_error option" where
  "health_Start now m p =
     (case AllowCommandType (hm_policy m) TypeHealthReportStart of
        Some err \<Rightarrow> (m, Some err)
      | None \<Rightarrow>
          let namespaces = health_namespaces (hm_policy m) p
          in (case first_error (map (AllowNamespace (hm_policy m)) namespaces) of
                Some err \<Rightarrow> (m, Some err)
              | None \<Rightarrow>
                  (case gm_get (hm_subs m) (hp_SubscriptionID p) of
                     Some _ \<Rightarrow> (m, Some (Errorf ''subscription %q already exists'' [AStr (hp_SubscriptionID p)]))
                   | None \<Rightarrow>
                       (case subscriptionContext now (hp_TTLSeconds p) (hm_ctxs m) of
                          (cs, i) \<Rightarrow>
                            let sub = \<lparr> hsub_payload = p\<lparr>hp_Namespaces := namespaces\<rparr>, hsub_ctx = i \<rparr>
                            in (m\<lparr>hm_ctxs := cs, hm_subs := gm_put (hp_SubscriptionID p) sub (hm_subs m),
                                  hm_running := hm_running m @ [sub]\<rparr>, None)))))"

definition health_Stop :: "health_manager \<Rightarrow> string \<Rightarrow> health_manager \<times> go_error option" where
  "health_Stop m i =
     (case gm_get (hm_subs m) i of
        None \<Rightarrow> (m, Some (Errorf ''subscription %q not found'' [AStr i]))
      | Some sub \<Rightarrow> (m\<lparr>hm_subs := gm_del i (hm_subs m), hm_ctxs := cancel (hsub_ctx sub) (hm_ctxs m)\<rparr>, None))"

definition health_StopAll :: "health_manager \<Rightarrow> health_manager" where
  "health_StopAll m =
     m\<lparr>hm_subs := [], hm_ctxs := fold cancel (map (hsub_ctx \<circ> snd) (hm_subs m)) (hm_ctxs m)\<rparr>"

definition health_ActiveCount :: "health_manager \<Rightarrow> int" where
  "health_ActiveCount m = int (gm_len (hm_subs m))"

text \<open>The deferred function of \<open>run\<close>.\<close>

definition health_exit :: "health_sub \<Rightarrow> health_manager \<Rightarrow> health_manager" where
  "health_exit sub m =
     m\<lparr>hm_subs := gm_del (hp_SubscriptionID (hsub_payload sub)) (hm_subs m),
       hm_ctxs := cancel (hsub_ctx sub) (hm_ctxs m), hm_running := remove1 sub (hm_running m)\<rparr>"

section \<open>The status of a pod\<close>

text \<open>What the code reads of a pod and of its container statuses; a waiting state is a reason and a message.\<close>

record container_status =
  cs_RestartCount :: int
  cs_Ready :: bool
  cs_Waiting :: "(string \<times> string) option"

record kpod =
  kp_Namespace :: string
  kp_Name :: string
  kp_Phase :: string
  kp_Reason :: string
  kp_Message :: string
  kp_ContainerStatuses :: "container_status list"

record pod_status =
  ps_Namespace :: string
  ps_Name :: string
  ps_Phase :: string
  ps_Ready :: bool
  ps_RestartCount :: int
  ps_Reason :: string
  ps_Message :: string

definition add_container :: "container_status \<Rightarrow> bool \<times> int \<times> string \<times> string \<Rightarrow> bool \<times> int \<times> string \<times> string" where
  "add_container cs acc =
     (case acc of (ready, restarts, reason, message) \<Rightarrow>
        let restarts = int32 (restarts + cs_RestartCount cs)
        in if cs_Ready cs then (ready, restarts, reason, message)
           else (case cs_Waiting cs of
                   Some (r, msg) \<Rightarrow> if r \<noteq> [] then (False, restarts, r, msg) else (False, restarts, reason, message)
                 | None \<Rightarrow> (False, restarts, reason, message)))"

definition podStatusFromPod :: "kpod \<Rightarrow> pod_status" where
  "podStatusFromPod pod =
     (case fold add_container (kp_ContainerStatuses pod) (True, 0, kp_Reason pod, kp_Message pod) of
        (ready, restarts, reason, message) \<Rightarrow>
          \<lparr> ps_Namespace = kp_Namespace pod, ps_Name = kp_Name pod, ps_Phase = kp_Phase pod, ps_Ready = ready,
            ps_RestartCount = restarts, ps_Reason = reason, ps_Message = message \<rparr>)"

section \<open>One round\<close>

record summary =
  sm_Total :: int
  sm_Running :: int
  sm_Pending :: int
  sm_Failed :: int
  sm_Succeeded :: int
  sm_Unknown :: int
  sm_NotReady :: int

definition no_summary :: summary where
  "no_summary = \<lparr> sm_Total = 0, sm_Running = 0, sm_Pending = 0, sm_Failed = 0, sm_Succeeded = 0, sm_Unknown = 0,
     sm_NotReady = 0 \<rparr>"

definition count_phase :: "string \<Rightarrow> summary \<Rightarrow> summary" where
  "count_phase phase s =
     (if phase = ''Running'' then s\<lparr>sm_Running := sm_Running s + 1\<rparr>
      else if phase = ''Pending'' then s\<lparr>sm_Pending := sm_Pending s + 1\<rparr>
      else if phase = ''Failed'' then s\<lparr>sm_Failed := sm_Failed s + 1\<rparr>
      else if phase = ''Succeeded'' then s\<lparr>sm_Succeeded := sm_Succeeded s + 1\<rparr>
      else s\<lparr>sm_Unknown := sm_Unknown s + 1\<rparr>)"

text \<open>The body of the loop over the pods of one namespace, and the loop over namespaces.\<close>

definition add_pod :: "bool \<Rightarrow> kpod \<Rightarrow> pod_status list \<times> summary \<Rightarrow> pod_status list \<times> summary" where
  "add_pod notReadyOnly pod acc =
     (case acc of (pods, s) \<Rightarrow>
        let status = podStatusFromPod pod;
            s = count_phase (ps_Phase status) (s\<lparr>sm_Total := sm_Total s + 1\<rparr>);
            s = (if ps_Ready status then s else s\<lparr>sm_NotReady := sm_NotReady s + 1\<rparr>)
        in if notReadyOnly \<and> ps_Ready status then (pods, s) else (pods @ [status], s))"

type_synonym list_pods = "string \<Rightarrow> string \<Rightarrow> go_error + kpod list"

fun collect_from :: "list_pods \<Rightarrow> health_payload \<Rightarrow> string list \<Rightarrow> pod_status list \<times> summary \<Rightarrow> go_error + pod_status list \<times> summary" where
  "collect_from lister p [] acc = Inr acc"
| "collect_from lister p (ns # nss) acc =
     (case lister ns (hp_LabelSelector p) of
        Inl err \<Rightarrow> Inl err
      | Inr items \<Rightarrow> collect_from lister p nss (fold (add_pod (hp_IncludeNotReadyOnly p)) items acc))"

definition collectPods :: "list_pods \<Rightarrow> health_payload \<Rightarrow> go_error + pod_status list \<times> summary" where
  "collectPods lister p = collect_from lister p (hp_Namespaces p) ([], no_summary)"

record report_message =
  rp_Topic :: string
  rp_Key :: string
  rp_SchemaVersion :: string
  rp_SubscriptionID :: string
  rp_Page :: int
  rp_PageCount :: int
  rp_Summary :: summary
  rp_Pods :: "pod_status list"

text \<open>\<open>pods[start:end]\<close>; \<open>None\<close> is the panic of a slice out of range.\<close>

definition go_slice :: "'a list \<Rightarrow> int \<Rightarrow> int \<Rightarrow> 'a list option" where
  "go_slice xs i j =
     (if 0 \<le> i \<and> i \<le> j \<and> j \<le> int (length xs) then Some (take (nat (j - i)) (drop (nat i) xs)) else None)"

definition quot :: "int \<Rightarrow> int \<Rightarrow> int" where
  "quot a b = (if a < 0 then - ((- a) div b) else a div b)"

definition max_per_message :: "health_manager \<Rightarrow> health_payload \<Rightarrow> int" where
  "max_per_message m p = (if hp_MaxPodsPerMessage p < 1 then hm_defaultMax m else hp_MaxPodsPerMessage p)"

definition page_count :: "int \<Rightarrow> int \<Rightarrow> int" where
  "page_count n mx = (if n > 0 then quot (int64 (int64 (n + mx) - 1)) mx else 1)"

definition report_page :: "health_manager \<Rightarrow> health_payload \<Rightarrow> pod_status list \<Rightarrow> summary \<Rightarrow> int \<Rightarrow> report_message option" where
  "report_page m p pods s page =
     (let mx = max_per_message m p; start = int64 (page * mx); e = int64 (start + mx);
          e = (if e > int (length pods) then int (length pods) else e)
      in map_option
           (\<lambda>ps. \<lparr> rp_Topic = health_OutputTopicOr p (hm_defaultTopic m),
                   rp_Key = hm_clusterID m @ ''/health/'' @ hp_SubscriptionID p @ ''/page-'' @ Itoa (page + 1),
                   rp_SchemaVersion = ''v1'', rp_SubscriptionID = hp_SubscriptionID p, rp_Page = page + 1,
                   rp_PageCount = page_count (int (length pods)) mx, rp_Summary = s, rp_Pods = ps \<rparr>)
           (go_slice pods start e))"

function report_pages :: "health_manager \<Rightarrow> health_payload \<Rightarrow> pod_status list \<Rightarrow> summary \<Rightarrow> int \<Rightarrow> report_message list option" where
  "report_pages m p pods s page =
     (if page < page_count (int (length pods)) (max_per_message m p) then
        (case report_page m p pods s page of
           None \<Rightarrow> None
         | Some msg \<Rightarrow> map_option ((#) msg) (report_pages m p pods s (page + 1)))
      else Some [])"
  by pat_completeness auto
termination
  by (relation "measure (\<lambda>(m, p, pods, s, page). nat (page_count (int (length pods)) (max_per_message m p) - page))") auto

declare report_pages.simps [simp del]

definition publishOnce :: "list_pods \<Rightarrow> health_manager \<Rightarrow> health_payload \<Rightarrow> report_message list option" where
  "publishOnce lister m p =
     (case collectPods lister p of
        Inl _ \<Rightarrow> Some []
      | Inr (pods, s) \<Rightarrow> report_pages m p pods s 0)"

text \<open>
  \<open>run\<close> until its context is done: the ticker, a round at once, and one per tick. \<open>worlds\<close> is what the
  cluster lists at each round; \<open>None\<close> is a panic, which ends the agent.
\<close>

fun rounds :: "health_manager \<Rightarrow> health_payload \<Rightarrow> list_pods list \<Rightarrow> report_message list option" where
  "rounds m p [] = Some []"
| "rounds m p (w # ws) =
     (case publishOnce w m p of
        None \<Rightarrow> None
      | Some msgs \<Rightarrow> map_option ((@) msgs) (rounds m p ws))"

definition health_run :: "list_pods list \<Rightarrow> health_manager \<Rightarrow> health_payload \<Rightarrow> report_message list option" where
  "health_run worlds m p =
     (if seconds_duration (hp_IntervalSeconds p) \<le> 0 then None else rounds m p worlds)"

section \<open>Handlers (internal/handlers/health/handler.go)\<close>

definition health_StartHandler :: "string \<Rightarrow> health_manager handle" where
  "health_StartHandler defaultTopic =
     start_handler ParseHealthPayload health_Start ''HealthStartFailed'' ''HEALTH_REPORT_START_ERROR''
       (\<lambda>p r. r\<lparr>r_SubscriptionID := hp_SubscriptionID p, r_OutputTopic := health_OutputTopicOr p defaultTopic,
              r_IntervalSeconds := hp_IntervalSeconds p\<rparr>)"

definition health_StopHandler :: "health_manager handle" where
  "health_StopHandler = stop_handler ParseStopPayload health_Stop ''HealthStopFailed'' ''HEALTH_REPORT_STOP_ERROR''"

interpretation health_start_h: command_handler "health_StartHandler dt" for dt
  unfolding health_StartHandler_def by (rule command_handler_start) simp

interpretation health_stop_h: command_handler health_StopHandler
  unfolding health_StopHandler_def by (rule command_handler_stop)

section \<open>Pages\<close>

lemma int64_sub: "int64 (int64 x - y) = int64 (x - y)"
proof -
  have "(word_of_int (int64 x) :: 64 word) = word_of_int x" by (simp add: int64_def)
  then show ?thesis by (simp add: int64_def)
qed

lemma page_count_exact:
  assumes "0 < n" and "1 \<le> mx" and "n + mx - 1 \<le> max_int"
  shows "page_count n mx = (n + mx - 1) div mx"
proof -
  have "int64 (int64 (n + mx) - 1) = n + mx - 1"
    using assms by (simp add: int64_sub int64_id max_int_def)
  then show ?thesis using assms by (simp add: page_count_def quot_def)
qed

lemma page_count_wrapped:
  assumes "0 < n" and "1 \<le> mx" and "n \<le> max_int" and "mx \<le> max_int" and "max_int < n + mx - 1"
  shows "page_count n mx \<le> 0"
proof -
  have "int64 (int64 (n + mx) - 1) = n + mx - 1 - 2 ^ 64"
    unfolding int64_sub using assms by (intro int64_wrap) (simp_all add: max_int_def)
  moreover have "n + mx - 1 - 2 ^ 64 < 0" using assms by (simp add: max_int_def)
  ultimately show ?thesis using assms by (simp add: page_count_def quot_def pos_imp_zdiv_nonneg_iff)
qed

text \<open>A page before the last is a full slice, the last one what is left.\<close>

lemma page_slice:
  assumes "1 \<le> mx" and "int (length xs) + mx - 1 \<le> max_int" and "0 \<le> page" and "page * mx < int (length xs)"
  shows "go_slice xs (int64 (page * mx))
      (if int64 (int64 (page * mx) + mx) > int (length xs) then int (length xs) else int64 (int64 (page * mx) + mx))
    = Some (take (nat mx) (drop (nat (page * mx)) xs))"
proof -
  have pos: "0 \<le> page * mx" using assms by simp
  have "- (2 ^ 63) \<le> page * mx" by (rule order_trans [OF _ pos]) simp
  moreover have "page * mx < 2 ^ 63" using assms(1,2,4) by (simp add: max_int_def)
  ultimately have s: "int64 (page * mx) = page * mx" by (rule int64_id)
  have "- (2 ^ 63) \<le> page * mx + mx" by (rule order_trans [of _ 0]) (use pos assms(1) in simp_all)
  moreover have "page * mx + mx < 2 ^ 63" using assms(1,2,4) by (simp add: max_int_def)
  ultimately have e: "int64 (page * mx + mx) = page * mx + mx" by (rule int64_id)
  show ?thesis
  proof (cases "int (length xs) < page * mx + mx")
    case True
    have "length (drop (nat (page * mx)) xs) \<le> nat mx" "length (drop (nat (page * mx)) xs) \<le> nat (int (length xs) - page * mx)"
      using True pos by auto
    then show ?thesis unfolding s e go_slice_def using True pos assms(4) by (simp del: length_drop)
  next
    case False
    then show ?thesis unfolding s e go_slice_def using pos assms(1,4) by simp
  qed
qed

lemma page_before_end:
  assumes "(1::int) \<le> mx" and "page < (n + mx - 1) div mx"
  shows "page * mx < n"
proof -
  have "(page + 1) * mx \<le> (n + mx - 1) div mx * mx" using assms by (intro mult_right_mono) simp_all
  also have "\<dots> = n + mx - 1 - (n + mx - 1) mod mx" by (rule minus_mod_eq_div_mult [symmetric])
  also have "\<dots> \<le> n + mx - 1" using pos_mod_sign [of mx "n + mx - 1"] assms(1) by linarith
  finally show ?thesis by (simp add: distrib_right)
qed

lemma page_at_end:
  assumes "(1::int) \<le> mx"
  shows "n \<le> (n + mx - 1) div mx * mx"
proof -
  have "(n + mx - 1) mod mx < mx" using assms by (intro pos_mod_bound) simp
  then show ?thesis by (simp add: minus_mod_eq_div_mult [symmetric])
qed

lemma report_pages_spec:
  assumes "1 \<le> max_per_message m p" and "int (length pods) + max_per_message m p - 1 \<le> max_int" and "0 < length pods"
    and "0 \<le> page" and "page \<le> page_count (int (length pods)) (max_per_message m p)"
  shows "\<exists>msgs. report_pages m p pods s page = Some msgs \<and>
    concat (map rp_Pods msgs) = drop (nat (page * max_per_message m p)) pods \<and>
    (\<forall>msg \<in> set msgs. 0 < length (rp_Pods msg) \<and> int (length (rp_Pods msg)) \<le> max_per_message m p \<and> rp_Summary msg = s \<and>
       rp_PageCount msg = page_count (int (length pods)) (max_per_message m p)) \<and>
    map rp_Page msgs = [page + 1..page_count (int (length pods)) (max_per_message m p)]"
  using assms
proof (induction m p pods s page rule: report_pages.induct)
  case (1 m p pods s page)
  let ?mx = "max_per_message m p" and ?n = "int (length pods)"
  have pc: "page_count ?n ?mx = (?n + ?mx - 1) div ?mx" using "1.prems" by (intro page_count_exact) auto
  show ?case
  proof (cases "page < page_count ?n ?mx")
    case True
    have lt: "page * ?mx < ?n" using page_before_end [of ?mx page ?n] "1.prems"(1) True pc by simp
    obtain msg where msg: "report_page m p pods s page = Some msg"
      and body: "rp_Pods msg = take (nat ?mx) (drop (nat (page * ?mx)) pods)" "rp_Summary msg = s"
        "rp_PageCount msg = page_count ?n ?mx" "rp_Page msg = page + 1"
      using page_slice [OF "1.prems"(1,2,4) lt] by (simp add: report_page_def Let_def)
    obtain msgs where msgs: "report_pages m p pods s (page + 1) = Some msgs"
      "concat (map rp_Pods msgs) = drop (nat ((page + 1) * ?mx)) pods"
      "\<forall>msg \<in> set msgs. 0 < length (rp_Pods msg) \<and> int (length (rp_Pods msg)) \<le> ?mx \<and> rp_Summary msg = s \<and>
         rp_PageCount msg = page_count ?n ?mx"
      "map rp_Page msgs = [page + 1 + 1..page_count ?n ?mx]"
      using "1.IH" [OF True msg] "1.prems" True by auto
    have "take (nat ?mx) (drop (nat (page * ?mx)) pods) @ drop (nat ((page + 1) * ?mx)) pods = drop (nat (page * ?mx)) pods"
    proof -
      have "nat ((page + 1) * ?mx) = nat ?mx + nat (page * ?mx)"
        using "1.prems"(1,4) by (simp add: distrib_right nat_add_distrib)
      then show ?thesis by (metis append_take_drop_id drop_drop)
    qed
    moreover have "0 < length (rp_Pods msg)" "int (length (rp_Pods msg)) \<le> ?mx"
      using body(1) lt "1.prems"(1,4) by (auto simp: nat_less_iff)
    moreover have "[page + 1..page_count ?n ?mx] = (page + 1) # [page + 1 + 1..page_count ?n ?mx]"
      using True by (simp add: upto_rec1)
    ultimately show ?thesis
      using msgs body by (subst report_pages.simps) (simp add: True msg)
  next
    case False
    then have "page = page_count ?n ?mx" using "1.prems"(5) by simp
    moreover have "?n \<le> page_count ?n ?mx * ?mx" using page_at_end [of ?mx ?n] "1.prems"(1) pc by simp
    ultimately show ?thesis by (subst report_pages.simps) auto
  qed
qed


section \<open>Summary\<close>

text \<open>The reference: counts over the statuses of all pods listed.\<close>

definition with_phase :: "string \<Rightarrow> pod_status list \<Rightarrow> int" where
  "with_phase ph sts = int (length (filter (\<lambda>st. ps_Phase st = ph) sts))"

definition count_in :: "pod_status list \<Rightarrow> summary \<Rightarrow> summary" where
  "count_in sts s =
     \<lparr> sm_Total = sm_Total s + int (length sts),
       sm_Running = sm_Running s + with_phase ''Running'' sts, sm_Pending = sm_Pending s + with_phase ''Pending'' sts,
       sm_Failed = sm_Failed s + with_phase ''Failed'' sts, sm_Succeeded = sm_Succeeded s + with_phase ''Succeeded'' sts,
       sm_Unknown = sm_Unknown s +
         int (length (filter (\<lambda>st. ps_Phase st \<notin> {''Running'', ''Pending'', ''Failed'', ''Succeeded''}) sts)),
       sm_NotReady = sm_NotReady s + int (length (filter (\<lambda>st. \<not> ps_Ready st) sts)) \<rparr>"

fun listed :: "list_pods \<Rightarrow> string \<Rightarrow> string list \<Rightarrow> go_error + kpod list" where
  "listed lister sel [] = Inr []"
| "listed lister sel (ns # nss) =
     sum_bind (lister ns sel) (\<lambda>items. sum_bind (listed lister sel nss) (\<lambda>rest. Inr (items @ rest)))"

definition reported :: "health_payload \<Rightarrow> pod_status list \<Rightarrow> pod_status list" where
  "reported p sts = filter (\<lambda>st. \<not> (hp_IncludeNotReadyOnly p \<and> ps_Ready st)) sts"

lemma count_in_Nil: "count_in [] s = s"
  by (simp add: count_in_def with_phase_def)

lemma count_in_append: "count_in (xs @ ys) s = count_in ys (count_in xs s)"
  by (simp add: count_in_def with_phase_def)

lemma add_pod_count:
  "add_pod only pod (pods, s) =
     (pods @ filter (\<lambda>st. \<not> (only \<and> ps_Ready st)) [podStatusFromPod pod], count_in [podStatusFromPod pod] s)"
  by (auto simp: add_pod_def Let_def count_phase_def count_in_def with_phase_def)

lemma fold_add_pod:
  "fold (add_pod only) items (pods, s) =
     (pods @ filter (\<lambda>st. \<not> (only \<and> ps_Ready st)) (map podStatusFromPod items), count_in (map podStatusFromPod items) s)"
proof (induction items arbitrary: pods s)
  case Nil
  then show ?case by (simp add: count_in_Nil)
next
  case (Cons pod items)
  have cons: "map podStatusFromPod (pod # items) = [podStatusFromPod pod] @ map podStatusFromPod items" by simp
  have "fold (add_pod only) (pod # items) (pods, s) = fold (add_pod only) items
      (pods @ filter (\<lambda>st. \<not> (only \<and> ps_Ready st)) [podStatusFromPod pod], count_in [podStatusFromPod pod] s)"
    by (simp only: fold.simps o_apply add_pod_count)
  then show ?case unfolding Cons.IH cons count_in_append filter_append append_assoc .
qed

lemma collect_from_listed:
  "collect_from lister p nss (pods, s) =
     sum_bind (listed lister (hp_LabelSelector p) nss)
       (\<lambda>items. Inr (pods @ reported p (map podStatusFromPod items), count_in (map podStatusFromPod items) s))"
proof (induction nss arbitrary: pods s)
  case Nil
  then show ?case by (simp add: count_in_Nil reported_def)
next
  case (Cons ns nss)
  show ?case
  proof (cases "lister ns (hp_LabelSelector p)")
    case (Inl e)
    then show ?thesis by simp
  next
    case (Inr items)
    then show ?thesis
      by (cases "listed lister (hp_LabelSelector p) nss")
         (simp_all add: Cons.IH fold_add_pod count_in_append reported_def)
  qed
qed

lemma phases_partition:
  "int (length sts) = with_phase ''Running'' sts + with_phase ''Pending'' sts + with_phase ''Failed'' sts +
     with_phase ''Succeeded'' sts +
     int (length (filter (\<lambda>st. ps_Phase st \<notin> {''Running'', ''Pending'', ''Failed'', ''Succeeded''}) sts))"
  by (induction sts) (auto simp: with_phase_def)

lemma fold_containers:
  "fold add_container cs (rd, int32 n, r, msg) = (rd', n', r', msg') \<Longrightarrow>
     rd' = (rd \<and> list_all cs_Ready cs) \<and> n' = int32 (n + sum_list (map cs_RestartCount cs))"
proof (induction cs arbitrary: rd n r msg)
  case (Cons c cs)
  have "\<exists>r2 m2. add_container c (rd, int32 n, r, msg) = (rd \<and> cs_Ready c, int32 (n + cs_RestartCount c), r2, m2)"
    by (cases "cs_Ready c"; cases "cs_Waiting c") (auto simp: add_container_def Let_def int32_add)
  then obtain r2 m2 where "add_container c (rd, int32 n, r, msg) = (rd \<and> cs_Ready c, int32 (n + cs_RestartCount c), r2, m2)"
    by blast
  then show ?case using Cons.IH [of "rd \<and> cs_Ready c" "n + cs_RestartCount c" r2 m2] Cons.prems by (simp add: add.assoc)
qed simp

lemma podStatus_folds:
  "ps_Ready (podStatusFromPod pod) = list_all cs_Ready (kp_ContainerStatuses pod)"
  "ps_RestartCount (podStatusFromPod pod) = int32 (sum_list (map cs_RestartCount (kp_ContainerStatuses pod)))"
proof -
  obtain rd n r msg where f: "fold add_container (kp_ContainerStatuses pod) (True, 0, kp_Reason pod, kp_Message pod) = (rd, n, r, msg)"
    by (metis prod_cases4)
  have "int32 0 = 0" by (simp add: int32_def)
  then have "rd = list_all cs_Ready (kp_ContainerStatuses pod) \<and> n = int32 (sum_list (map cs_RestartCount (kp_ContainerStatuses pod)))"
    using fold_containers [of "kp_ContainerStatuses pod" True 0 "kp_Reason pod" "kp_Message pod" rd n r msg] f by simp
  then show "ps_Ready (podStatusFromPod pod) = list_all cs_Ready (kp_ContainerStatuses pod)"
    "ps_RestartCount (podStatusFromPod pod) = int32 (sum_list (map cs_RestartCount (kp_ContainerStatuses pod)))"
    by (simp_all add: podStatusFromPod_def f)
qed


section \<open>The table\<close>

definition health_active :: "health_manager \<Rightarrow> string set" where
  "health_active m = dom (gm_get (hm_subs m))"

lemma health_Start_cases [consumes 1, case_names refused started]:
  assumes "health_Start now m p = (m', r)"
  obtains "r \<noteq> None" "m' = m"
  | cs sub where "r = None" "\<forall>ns \<in> set (hp_Namespaces (hsub_payload sub)). AllowNamespace (hm_policy m) ns = None"
      "gm_get (hm_subs m) (hp_SubscriptionID p) = None"
      "hsub_payload sub = p\<lparr>hp_Namespaces := health_namespaces (hm_policy m) p\<rparr>"
      "m' = m\<lparr>hm_ctxs := cs, hm_subs := gm_put (hp_SubscriptionID p) sub (hm_subs m), hm_running := hm_running m @ [sub]\<rparr>"
proof (cases "AllowCommandType (hm_policy m) TypeHealthReportStart")
  case (Some e)
  show ?thesis by (rule that(1)) (use assms [unfolded health_Start_def Some] in auto)
next
  case cmd: None
  let ?nss = "health_namespaces (hm_policy m) p"
  show ?thesis
  proof (cases "first_error (map (AllowNamespace (hm_policy m)) ?nss)")
    case (Some e)
    show ?thesis by (rule that(1)) (use assms [unfolded health_Start_def cmd Let_def option.case Some] in auto)
  next
    case ns: None
    show ?thesis
    proof (cases "gm_get (hm_subs m) (hp_SubscriptionID p)")
      case (Some s)
      show ?thesis by (rule that(1)) (use assms [unfolded health_Start_def cmd Let_def option.case ns Some] in auto)
    next
      case None
      obtain cs i where cs: "subscriptionContext now (hp_TTLSeconds p) (hm_ctxs m) = (cs, i)" by fastforce
      show ?thesis
        by (rule that(2) [of "\<lparr> hsub_payload = p\<lparr>hp_Namespaces := ?nss\<rparr>, hsub_ctx = i \<rparr>" cs])
           (use assms [unfolded health_Start_def cmd Let_def option.case ns None cs prod.case] ns None in auto)
    qed
  qed
qed

interpretation health_table: subscription_table health_active hp_SubscriptionID
    "health_Start now" health_Stop health_StopAll for now
proof
  fix m p m' e and i :: string
  show "health_Start now m p = (m', None) \<Longrightarrow> health_active m' = insert (hp_SubscriptionID p) (health_active m)"
    by (erule health_Start_cases) (auto simp: health_active_def)
  show "health_Start now m p = (m', Some e) \<Longrightarrow>
      health_active m' \<union> {hp_SubscriptionID p} = health_active m \<union> {hp_SubscriptionID p}"
    by (erule health_Start_cases) auto
  show "i \<in> health_active m \<Longrightarrow>
      snd (health_Stop m i) = None \<and> health_active (fst (health_Stop m i)) = health_active m - {i}"
    by (auto simp: health_active_def health_Stop_def split: if_splits)
  show "i \<notin> health_active m \<Longrightarrow> snd (health_Stop m i) \<noteq> None \<and> fst (health_Stop m i) = m"
    by (auto simp: health_active_def health_Stop_def domIff)
  show "health_active (health_StopAll m) = {}" by (simp add: health_active_def health_StopAll_def)
qed

inductive health_step :: "health_manager \<Rightarrow> health_manager \<Rightarrow> bool" where
  health_step_start: "health_Start now m p = (m', r) \<Longrightarrow> health_step m m'"
| health_step_stop: "health_step m (fst (health_Stop m i))"
| health_step_stop_all: "health_step m (health_StopAll m)"
| health_step_exit: "sub \<in> set (hm_running m) \<Longrightarrow> health_step m (health_exit sub m)"

definition health_reachable :: "engine \<Rightarrow> health_manager \<Rightarrow> bool" where
  "health_reachable e = reachable (\<lambda>m. \<exists>c t d. m = health_NewManager c t e d) health_step"

definition health_inv :: "engine \<Rightarrow> health_manager \<Rightarrow> bool" where
  "health_inv e m \<longleftrightarrow> hm_policy m = e \<and> 1 \<le> hm_defaultMax m \<and>
     (\<forall>sub \<in> set (hm_running m). \<forall>ns \<in> set (hp_Namespaces (hsub_payload sub)). AllowNamespace e ns = None)"

lemma health_reachable_inv: "health_reachable e m \<Longrightarrow> health_inv e m"
  unfolding health_reachable_def
proof (erule reachable_invariant)
  show "\<exists>c t d. m = health_NewManager c t e d \<Longrightarrow> health_inv e m" for m
    by (auto simp: health_inv_def health_NewManager_def)
  show "health_inv e m'" if inv: "health_inv e m" and "health_step m m'" for m m'
    using that(2)
  proof cases
    case (health_step_start now p r)
    from this show ?thesis
      by (cases rule: health_Start_cases) (use inv in \<open>auto simp: health_inv_def\<close>)
  qed (use inv in \<open>auto simp: health_inv_def health_Stop_def health_StopAll_def health_exit_def
         dest: notin_set_remove1 split: option.splits\<close>)
qed


section \<open>Properties\<close>

lemma dec_int_range:
  "dec_scalar json_int z vs = Some n \<Longrightarrow> min_int \<le> z \<Longrightarrow> z \<le> max_int \<Longrightarrow> min_int \<le> n \<and> n \<le> max_int"
proof (induction vs arbitrary: z)
  case (Cons v vs)
  then show ?case by (cases v) (auto split: if_splits option.splits)
qed simp

lemma ParseHealthPayload_ranges:
  assumes "ParseHealthPayload raw = Inr p"
  shows "1 \<le> hp_IntervalSeconds p" "1 \<le> hp_MaxPodsPerMessage p" "hp_MaxPodsPerMessage p \<le> max_int"
proof -
  obtain kvs q where q: "decode_health kvs = Some q" "1 \<le> hp_IntervalSeconds q"
    "p = (if hp_MaxPodsPerMessage q < 1 then q\<lparr>hp_MaxPodsPerMessage := 500\<rparr> else q)"
    using assms
    by (auto simp: ParseHealthPayload_def decode_payload_def or_json_error_def split: sum.splits option.splits if_splits)
  have "hp_MaxPodsPerMessage q \<le> max_int"
    using q(1) dec_int_range [of 0 _ "hp_MaxPodsPerMessage q"]
    by (auto simp: decode_health_def fld_int_def min_int_def max_int_def split: bind_splits)
  then show "1 \<le> hp_IntervalSeconds p" "1 \<le> hp_MaxPodsPerMessage p" "hp_MaxPodsPerMessage p \<le> max_int"
    using q(2,3) by (auto simp: max_int_def)
qed

lemma report_pages_empty:
  assumes "1 \<le> max_per_message m p" and "max_per_message m p \<le> max_int"
  shows "\<exists>msg. report_pages m p [] s 0 = Some [msg] \<and> rp_Pods msg = [] \<and> rp_Page msg = 1 \<and> rp_PageCount msg = 1 \<and> rp_Summary msg = s"
proof -
  have "int64 (max_per_message m p) = max_per_message m p" using assms by (intro int64_id) (simp_all add: max_int_def)
  moreover have "int64 0 = 0" by (simp add: int64_def)
  ultimately have "\<exists>msg. report_page m p [] s 0 = Some msg \<and> rp_Pods msg = [] \<and> rp_Page msg = 1 \<and> rp_PageCount msg = 1 \<and> rp_Summary msg = s"
    using assms by (simp add: report_page_def Let_def go_slice_def page_count_def)
  then obtain msg where msg: "report_page m p [] s 0 = Some msg" "rp_Pods msg = []" "rp_Page msg = 1" "rp_PageCount msg = 1" "rp_Summary msg = s"
    by blast
  have "report_pages m p [] s 1 = Some []" by (subst report_pages.simps) (simp add: page_count_def)
  then have "report_pages m p [] s 0 = Some [msg]" by (subst report_pages.simps) (simp add: page_count_def msg(1))
  then show ?thesis using msg by blast
qed

lemma report_pages_wrapped:
  assumes "0 < length pods" and "1 \<le> max_per_message m p" and "int (length pods) \<le> max_int"
    and "max_per_message m p \<le> max_int" and "max_int < int (length pods) + max_per_message m p - 1"
  shows "report_pages m p pods s 0 = Some []"
  using page_count_wrapped [of "int (length pods)" "max_per_message m p"] assms
  by (subst report_pages.simps) simp

lemma publishOnce_pages:
  assumes "collectPods lister p = Inr (pods, s)" and "1 \<le> max_per_message m p" and "max_per_message m p \<le> max_int"
    and "int (length pods) \<le> max_int"
  shows "if int (length pods) + max_per_message m p - 1 \<le> max_int \<or> pods = [] then
      \<exists>msgs. publishOnce lister m p = Some msgs \<and> msgs \<noteq> [] \<and> concat (map rp_Pods msgs) = pods \<and>
        map rp_Page msgs = [1..int (length msgs)] \<and>
        list_all (\<lambda>msg. int (length (rp_Pods msg)) \<le> max_per_message m p \<and> rp_Summary msg = s \<and>
          rp_PageCount msg = int (length msgs)) msgs
    else publishOnce lister m p = Some []"
proof -
  have pub: "publishOnce lister m p = report_pages m p pods s 0" by (simp add: publishOnce_def assms(1))
  show ?thesis
  proof (cases "pods = []")
    case True
    obtain msg where "report_pages m p [] s 0 = Some [msg]" "rp_Pods msg = []" "rp_Page msg = 1" "rp_PageCount msg = 1" "rp_Summary msg = s"
      using report_pages_empty [OF assms(2,3)] by blast
    then show ?thesis using assms(2) by (auto simp: pub True)
  next
    case pods: False
    let ?pc = "page_count (int (length pods)) (max_per_message m p)"
    show ?thesis
    proof (cases "int (length pods) + max_per_message m p - 1 \<le> max_int")
      case True
      have "?pc = (int (length pods) + max_per_message m p - 1) div max_per_message m p"
        using pods assms(2) True by (intro page_count_exact) simp_all
      then have "int (length pods) \<le> ?pc * max_per_message m p"
        using page_at_end [OF assms(2), of "int (length pods)"] by simp
      then have "0 < ?pc * max_per_message m p" using pods by (cases pods) auto
      then have pc: "1 \<le> ?pc" using assms(2) by (simp add: zero_less_mult_iff)
      obtain msgs where msgs: "report_pages m p pods s 0 = Some msgs" "concat (map rp_Pods msgs) = pods"
        "\<forall>msg \<in> set msgs. 0 < length (rp_Pods msg) \<and> int (length (rp_Pods msg)) \<le> max_per_message m p \<and>
           rp_Summary msg = s \<and> rp_PageCount msg = ?pc" "map rp_Page msgs = [1..?pc]"
        using report_pages_spec [OF assms(2) True, of 0 s] pods pc by auto
      have "int (length msgs) = ?pc" using arg_cong [OF msgs(4), of length] pc by simp
      then show ?thesis using msgs pods True pub by (auto simp: list_all_iff)
    next
      case False
      then show ?thesis using report_pages_wrapped [of pods m p s] assms(2-4) pods pub by simp
    qed
  qed
qed

lemma health_pages_total:
  assumes "collectPods lister p = Inr (pods, s)" and "1 \<le> max_per_message m p" and "max_per_message m p \<le> max_int"
    and "int (length pods) \<le> max_int"
  shows "publishOnce lister m p \<noteq> None"
  using publishOnce_pages [OF assms] by (auto split: if_splits)

text \<open>
  C24: One round of a health report. When the pods were listed, the messages are the pages \<open>1\<close> to their
  number, all with the same summary and page count; together they carry the reported pods, each once and
  in order, none more than the maximum per message, and when there are no pods it is one empty page. All
  this as long as the sum of the number of pods and the maximum fits 64 bits; when it does not, the sum
  wraps and nothing is published at all.
\<close>

theorem health_pages:
  assumes "collectPods lister p = Inr (pods, s)" and "1 \<le> max_per_message m p" and "max_per_message m p \<le> max_int"
    and "int (length pods) \<le> max_int"
  shows "if int (length pods) + max_per_message m p - 1 \<le> max_int \<or> pods = [] then
      \<exists>msgs. publishOnce lister m p = Some msgs \<and> msgs \<noteq> [] \<and> concat (map rp_Pods msgs) = pods \<and>
        map rp_Page msgs = [1..int (length msgs)] \<and>
        list_all (\<lambda>msg. int (length (rp_Pods msg)) \<le> max_per_message m p \<and> rp_Summary msg = s \<and>
          rp_PageCount msg = int (length msgs)) msgs
    else publishOnce lister m p = Some []"
  using assms by (rule publishOnce_pages)

lemma collectPods_listed:
  "collectPods lister p =
     sum_bind (listed lister (hp_LabelSelector p) (hp_Namespaces p))
       (\<lambda>items. Inr (reported p (map podStatusFromPod items), count_in (map podStatusFromPod items) no_summary))"
  by (simp add: collectPods_def collect_from_listed)

text \<open>
  The loop that collects pods computes its reference. The first namespace that cannot be listed fails
  the round; otherwise the reported pods are the statuses of all pods listed, in order (without the ready
  ones when only the others are asked for), and the summary counts all of them by phase and readiness,
  whose phases add up to the total. A pod is ready when all its containers are, and its restarts are the
  32 bit sum of theirs.
\<close>

lemma health_collect_reference:
  "collectPods lister p =
     (case listed lister (hp_LabelSelector p) (hp_Namespaces p) of
        Inl err \<Rightarrow> Inl err
      | Inr items \<Rightarrow> Inr (reported p (map podStatusFromPod items), count_in (map podStatusFromPod items) no_summary)) \<and>
   (let s = count_in sts no_summary
    in sm_Total s = sm_Running s + sm_Pending s + sm_Failed s + sm_Succeeded s + sm_Unknown s) \<and>
   ps_Ready (podStatusFromPod pod) = list_all cs_Ready (kp_ContainerStatuses pod) \<and>
   ps_RestartCount (podStatusFromPod pod) = int32 (sum_list (map cs_RestartCount (kp_ContainerStatuses pod)))"
  using phases_partition [of sts]
  by (simp add: collectPods_listed podStatus_folds Let_def count_in_def no_summary_def split: sum.split)

lemma listed_cong:
  assumes "\<And>ns. ns \<in> set nss \<Longrightarrow> w ns sel = w' ns sel"
  shows "listed w sel nss = listed w' sel nss"
  using assms by (induction nss) simp_all

text \<open>
  C19: What a health report publishes depends only on the namespaces the policy allows. In every state the
  manager can reach, a running report gives the same messages for two clusters that agree on the pods of
  the allowed namespaces.
\<close>

theorem health_confined:
  assumes "health_reachable e m" and "sub \<in> set (hm_running m)"
    and "\<And>ns sel. AllowNamespace e ns = None \<Longrightarrow> w ns sel = w' ns sel"
  shows "publishOnce w m (hsub_payload sub) = publishOnce w' m (hsub_payload sub)"
proof -
  let ?p = "hsub_payload sub"
  have "AllowNamespace e ns = None" if "ns \<in> set (hp_Namespaces ?p)" for ns
    using health_reachable_inv [OF assms(1)] assms(2) that by (simp add: health_inv_def)
  then have "listed w (hp_LabelSelector ?p) (hp_Namespaces ?p) = listed w' (hp_LabelSelector ?p) (hp_Namespaces ?p)"
    by (intro listed_cong assms(3))
  then show ?thesis by (simp add: publishOnce_def collectPods_listed)
qed

lemma publishOnce_total:
  assumes "1 \<le> max_per_message m p" and "max_per_message m p \<le> max_int"
    and "\<And>pods s. collectPods w p = Inr (pods, s) \<Longrightarrow> int (length pods) \<le> max_int"
  shows "publishOnce w m p \<noteq> None"
proof (cases "collectPods w p")
  case (Inr r)
  then obtain pods s where r: "collectPods w p = Inr (pods, s)" by (cases r) simp
  show ?thesis using health_pages_total [OF r assms(1,2) assms(3) [OF r]] .
qed (simp add: publishOnce_def)

lemma rounds_total: "(\<And>w. w \<in> set ws \<Longrightarrow> publishOnce w m p \<noteq> None) \<Longrightarrow> rounds m p ws \<noteq> None"
  by (induction ws) fastforce+


section \<open>Witnesses\<close>

definition health_policy :: policy_config where
  "health_policy = shop_policy\<lparr>pc_AllowedCommandTypes := [TypeHealthReportStart]\<rparr>"

definition health_engine :: engine where
  "health_engine = (case NewEngine health_policy of Inr e \<Rightarrow> e | Inl _ \<Rightarrow> shop_engine)"

definition shop_report :: "int \<Rightarrow> health_payload" where
  "shop_report mx =
     \<lparr> hp_SubscriptionID = ''h1'', hp_IntervalSeconds = 30, hp_Namespaces = [''shop''], hp_LabelSelector = [],
       hp_IncludeNotReadyOnly = False, hp_OutputTopic = [], hp_MaxPodsPerMessage = mx, hp_TTLSeconds = 0 \<rparr>"

definition shop_pod :: "string \<Rightarrow> kpod" where
  "shop_pod name =
     \<lparr> kp_Namespace = ''shop'', kp_Name = name, kp_Phase = ''Running'', kp_Reason = [], kp_Message = [],
       kp_ContainerStatuses = [\<lparr> cs_RestartCount = 2, cs_Ready = False, cs_Waiting = Some (''CrashLoopBackOff'', ''back-off'') \<rparr>] \<rparr>"

definition shop_cluster :: "string \<Rightarrow> list_pods" where
  "shop_cluster other ns sel = Inr (if ns = ''shop'' then [shop_pod ''a'', shop_pod ''b'', shop_pod ''c''] else [shop_pod other])"

definition new_health :: health_manager where
  "new_health = health_NewManager ''c'' ''health'' health_engine 0"

definition one_report :: health_manager where
  "one_report = fst (health_Start 0 new_health (shop_report 2))"

lemma one_report_reachable: "health_reachable health_engine one_report"
proof -
  have "health_reachable health_engine new_health"
    unfolding health_reachable_def new_health_def by (rule reach_init) blast
  moreover have "health_step new_health one_report"
    unfolding one_report_def by (rule health_step_start [OF surjective_pairing])
  ultimately show ?thesis unfolding health_reachable_def by (rule reach_step)
qed

theorem health_pages_witness:
  "\<exists>msgs. publishOnce (shop_cluster ''x'') new_health (shop_report 2) = Some msgs \<and> length msgs = 2 \<and>
     map rp_Page msgs = [1, 2] \<and> map ps_Name (concat (map rp_Pods msgs)) = [''a'', ''b'', ''c'']"
proof -
  let ?sts = "map (podStatusFromPod \<circ> shop_pod) [''a'', ''b'', ''c'']"
  have mx: "max_per_message new_health (shop_report 2) = 2" by (simp add: max_per_message_def shop_report_def)
  have c: "collectPods (shop_cluster ''x'') (shop_report 2) = Inr (?sts, count_in ?sts no_summary)"
    by (simp add: collectPods_listed shop_report_def shop_cluster_def reported_def)
  have m: "map ps_Name ?sts = [''a'', ''b'', ''c'']" by code_simp
  have "map rp_Page (the (publishOnce (shop_cluster ''x'') new_health (shop_report 2))) = [1, 2]" by code_simp
  then show ?thesis
    using health_pages [OF c, of new_health] m mx by (auto simp: max_int_def dest: map_eq_imp_length_eq)
qed

theorem health_confined_witness:
  "\<exists>sub. sub \<in> set (hm_running one_report) \<and>
     publishOnce (shop_cluster ''x'') one_report (hsub_payload sub) = publishOnce (shop_cluster ''y'') one_report (hsub_payload sub)"
proof -
  have "map (hp_SubscriptionID \<circ> hsub_payload) (hm_running one_report) = [''h1'']" by code_simp
  then obtain sub where sub: "sub \<in> set (hm_running one_report)" by (cases "hm_running one_report") auto
  have ns: "e_ns health_engine = {''shop''}" by code_simp
  have "shop_cluster ''x'' ns sel = shop_cluster ''y'' ns sel" if "AllowNamespace health_engine ns = None" for ns sel
    using that ns by (auto simp: AllowNamespace_def allowNamespace_def shop_cluster_def split: if_splits)
  then have "publishOnce (shop_cluster ''x'') one_report (hsub_payload sub) = publishOnce (shop_cluster ''y'') one_report (hsub_payload sub)"
    by (rule health_confined [OF one_report_reachable sub])
  then show ?thesis using sub by blast
qed

definition huge_interval :: json where
  "huge_interval = JObj [(''subscription_id'', JStr ''h1''), (''interval_seconds'', JInt 9223372037)]"



end
