(* ===== verification/Logs_Collect.thy ===== *)
theory Logs_Collect
  imports Node_Logs "HOL-Library.Multiset"
begin

text \<open>
  Collection of logs: \<open>internal/handlers/logs\<close> (payload, collector, handler with its pool of jobs) and
  \<open>internal/s3/client.go\<close>.

  The collector writes files below a work directory and uploads a zip of them. The files it has created
  are part of its state, by full path, so that two writes to one path and a path that leaves the work
  directory are what they are in the code. The cluster, the node agents, the file system calls that can
  fail, the zip library and the object store are the record \<open>collect_env\<close>.
\<close>

section \<open>Payload (internal/handlers/logs/payload.go)\<close>

record s3_payload =
  sp3_Bucket :: string
  sp3_Key :: string
  sp3_AccessKeyID :: string
  sp3_SecretAccessKey :: string

text \<open>\<open>Containers\<close> is any JSON value; nil when it is absent.\<close>

record collect_payload =
  cp_Namespace :: string
  cp_LabelSelector :: string
  cp_Pods :: "string list"
  cp_Containers :: json
  cp_IncludeCurrent :: bool
  cp_IncludePrevious :: bool
  cp_SinceTime :: "gtime option"
  cp_TailLines :: "int option"
  cp_LimitBytes :: "int option"
  cp_S3 :: s3_payload

definition decode_s3 :: "obj \<Rightarrow> s3_payload option" where
  "decode_s3 kvs =
     do {
       b \<leftarrow> fld_str ''bucket'' kvs;
       k \<leftarrow> fld_str ''key'' kvs;
       a \<leftarrow> fld_str ''access_key_id'' kvs;
       s \<leftarrow> fld_str ''secret_access_key'' kvs;
       Some \<lparr> sp3_Bucket = b, sp3_Key = k, sp3_AccessKeyID = a, sp3_SecretAccessKey = s \<rparr>
     }"

definition decode_collect :: "obj \<Rightarrow> collect_payload option" where
  "decode_collect kvs =
     do {
       ns \<leftarrow> fld_str ''namespace'' kvs;
       sel \<leftarrow> fld_str ''label_selector'' kvs;
       pods \<leftarrow> fld_strs ''pods'' kvs;
       cur \<leftarrow> fld_bool ''include_current'' kvs;
       prev \<leftarrow> fld_bool ''include_previous'' kvs;
       since \<leftarrow> fld_time_ptr ''since_time'' kvs;
       tail \<leftarrow> fld_int_ptr ''tail_lines'' kvs;
       lim \<leftarrow> fld_int_ptr ''limit_bytes'' kvs;
       s3m \<leftarrow> dec_obj [] (members ''s3'' kvs);
       s3 \<leftarrow> decode_s3 s3m;
       Some \<lparr> cp_Namespace = ns, cp_LabelSelector = sel, cp_Pods = pods,
              cp_Containers = (case fld_raw ''containers'' kvs of None \<Rightarrow> JNull | Some v \<Rightarrow> v),
              cp_IncludeCurrent = cur, cp_IncludePrevious = prev, cp_SinceTime = since, cp_TailLines = tail,
              cp_LimitBytes = lim, cp_S3 = s3 \<rparr>
     }"

definition ParseCollectPayload :: "raw \<Rightarrow> go_error + collect_payload" where
  "ParseCollectPayload raw =
     (if raw = None then Inl (Errorf ''payload is required'' [])
      else
        sum_bind
          (decode_payload (sum_bind (unmarshal_struct raw) (\<lambda>kvs. or_json_error (decode_collect kvs))))
          (\<lambda>p.
             if cp_Namespace p = [] then Inl (Errorf ''namespace is required'' [])
             else if sp3_Bucket (cp_S3 p) = [] \<or> sp3_Key (cp_S3 p) = [] then
               Inl (Errorf ''s3.bucket and s3.key are required'' [])
             else if sp3_AccessKeyID (cp_S3 p) = [] \<or> sp3_SecretAccessKey (cp_S3 p) = [] then
               Inl (Errorf ''s3 credentials are required'' [])
             else Inr (if \<not> cp_IncludeCurrent p \<and> \<not> cp_IncludePrevious p
                       then p\<lparr>cp_IncludeCurrent := True\<rparr> else p)))"

text \<open>A value decoded from JSON is never a \<open>[]string\<close>, so that branch of the switch has no case here.\<close>

fun json_names :: "json list \<Rightarrow> string list" where
  "json_names [] = []"
| "json_names (v # vs) = (case v of JStr s \<Rightarrow> if s \<noteq> [] then s # json_names vs else json_names vs | _ \<Rightarrow> json_names vs)"

definition ContainerNames :: "collect_payload \<Rightarrow> string list \<Rightarrow> string list" where
  "ContainerNames p podContainers =
     (case cp_Containers p of
        JStr v \<Rightarrow> if v = [] \<or> v = ''all'' then podContainers else [v]
      | JArr vs \<Rightarrow> if json_names vs = [] then podContainers else json_names vs
      | _ \<Rightarrow> podContainers)"

section \<open>Upload (internal/s3/client.go)\<close>

record upload_input =
  ui_Endpoint :: string
  ui_Region :: string
  ui_ForcePathStyle :: bool
  ui_Bucket :: string
  ui_Key :: string
  ui_AccessKeyID :: string
  ui_SecretAccessKey :: string
  ui_ContentLength :: int
  ui_ContentType :: string

text \<open>What the client hands to the library: configuration, options and the object to put.\<close>

record put_call =
  pu_Region :: string
  pu_AccessKeyID :: string
  pu_SecretAccessKey :: string
  pu_BaseEndpoint :: "string option"
  pu_UsePathStyle :: bool
  pu_Bucket :: "string option"
  pu_Key :: "string option"
  pu_ContentType :: "string option"
  pu_ContentLength :: "int option"

definition awsString :: "string \<Rightarrow> string option" where
  "awsString v = (if v = [] then None else Some v)"

definition put_input :: "s3_config \<Rightarrow> upload_input \<Rightarrow> put_call" where
  "put_input c u =
     (let endpoint = (if ui_Endpoint u = [] then s3_Endpoint c else ui_Endpoint u);
          region = (if ui_Region u = [] then s3_Region c else ui_Region u)
      in \<lparr> pu_Region = region, pu_AccessKeyID = ui_AccessKeyID u, pu_SecretAccessKey = ui_SecretAccessKey u,
           pu_BaseEndpoint = awsString endpoint, pu_UsePathStyle = (ui_ForcePathStyle u \<or> s3_ForcePathStyle c),
           pu_Bucket = awsString (ui_Bucket u), pu_Key = awsString (ui_Key u),
           pu_ContentType = awsString (ui_ContentType u),
           pu_ContentLength = (if ui_ContentLength u > 0 then Some (ui_ContentLength u) else None) \<rparr>)"

text \<open>\<open>load\<close> is the failure of \<open>LoadDefaultConfig\<close>, \<open>put\<close> that of \<open>PutObject\<close>.\<close>

definition Upload :: "go_error option \<Rightarrow> (put_call \<Rightarrow> go_error option) \<Rightarrow> s3_config \<Rightarrow> upload_input \<Rightarrow> go_error option" where
  "Upload load put c u =
     (case load of
        Some err \<Rightarrow> Some (Errorf ''aws config: %w'' [AErr err])
      | None \<Rightarrow>
          (case put (put_input c u) of
             Some err \<Rightarrow> Some (Errorf ''put object: %w'' [AErr err])
           | None \<Rightarrow> None))"

section \<open>Collector (internal/handlers/logs/collector.go)\<close>

text \<open>What the collector reads of a pod, and owner references as kind and name.\<close>

record log_pod =
  lgp_Namespace :: string
  lgp_Name :: string
  lgp_UID :: string
  lgp_NodeName :: string
  lgp_Containers :: "string list"
  lgp_Owners :: "(string \<times> string) list"

record log_options =
  lo_Container :: string
  lo_Previous :: bool
  lo_SinceTime :: "gtime option"
  lo_TailLines :: "int option"
  lo_LimitBytes :: "int option"

text \<open>
  \<open>ce_logs\<close> opens a log at the API server, \<open>ce_fetch\<close> sends a call to a node agent. \<open>ce_copy\<close> is \<open>io.Copy\<close> of
  a stream into a file: what it wrote and its error. \<open>ce_zip\<close> is the size of the archive of the given
  entries.
\<close>

record collect_env =
  ce_mkdirtemp :: "string \<Rightarrow> go_error + string"
  ce_get_pod :: "string \<Rightarrow> string \<Rightarrow> go_error + log_pod"
  ce_list_pods :: "string \<Rightarrow> string \<Rightarrow> go_error + log_pod list"
  ce_replicaset :: "string \<Rightarrow> string \<Rightarrow> go_error + (string \<times> string) list"
  ce_stamp :: string
  ce_mkdirall :: "string \<Rightarrow> go_error option"
  ce_logs :: "string \<Rightarrow> string \<Rightarrow> log_options \<Rightarrow> go_error + string"
  ce_agents :: pod_lister
  ce_fetch :: node_net
  ce_format :: "gtime \<Rightarrow> string"
  ce_create :: "string \<Rightarrow> go_error option"
  ce_copy :: "string \<Rightarrow> string \<Rightarrow> string \<times> go_error option"
  ce_zip :: "(string \<times> string) list \<Rightarrow> go_error + int"
  ce_open :: "string \<Rightarrow> go_error option"
  ce_load :: "go_error option"
  ce_put :: "put_call \<Rightarrow> go_error option"

record collector =
  cl_s3 :: s3_config
  cl_s3Defaults :: s3_config
  cl_maxBytes :: int
  cl_tempRoot :: string
  cl_backend :: string
  cl_nodeClient :: "node_client option"

text \<open>\<open>os.TempDir()\<close> without \<open>TMPDIR\<close> in the environment is \<open>/tmp\<close>.\<close>

definition NewCollector :: "s3_config \<Rightarrow> s3_config \<Rightarrow> int \<Rightarrow> string \<Rightarrow> collector" where
  "NewCollector s3 s3Defaults maxBytes tempRoot =
     \<lparr> cl_s3 = s3, cl_s3Defaults = s3Defaults, cl_maxBytes = maxBytes,
       cl_tempRoot = (if tempRoot = [] then ''/tmp'' else tempRoot), cl_backend = LogsBackendAPI,
       cl_nodeClient = None \<rparr>"

definition collector_WithNodeLocal :: "node_client option \<Rightarrow> collector \<Rightarrow> collector" where
  "collector_WithNodeLocal client c = c\<lparr>cl_backend := LogsBackendNodeLocal, cl_nodeClient := client\<rparr>"

definition sanitizePathPart :: "string \<Rightarrow> string" where
  "sanitizePathPart s =
     (let s = ReplaceAll s ''/'' ''_''; s = ReplaceAll s ''..'' ''_'' in if s = [] then ''unknown'' else s)"

text \<open>The name only: \<open>Run\<close> drops the error.\<close>

definition deploymentName :: "collect_env \<Rightarrow> log_pod \<Rightarrow> string" where
  "deploymentName w pod =
     (case filter (\<lambda>(kind, _). kind = ''ReplicaSet'') (lgp_Owners pod) of
        [] \<Rightarrow> sanitizePathPart (lgp_Name pod)
      | (_, name) # _ \<Rightarrow>
          (case ce_replicaset w (lgp_Namespace pod) name of
             Inl _ \<Rightarrow> sanitizePathPart (lgp_Name pod)
           | Inr refs \<Rightarrow>
               (case filter (\<lambda>(kind, _). kind = ''Deployment'') refs of
                  (_, d) # _ \<Rightarrow> sanitizePathPart d
                | [] \<Rightarrow> sanitizePathPart name)))"

definition logStates :: "collect_payload \<Rightarrow> (string \<times> bool) list" where
  "logStates p =
     (if cp_IncludeCurrent p then [(''current'', False)] else []) @
     (if cp_IncludePrevious p then [(''previous'', True)] else [])"

fun get_pods :: "collect_env \<Rightarrow> string \<Rightarrow> string list \<Rightarrow> go_error + log_pod list" where
  "get_pods w ns [] = Inr []"
| "get_pods w ns (name # names) =
     (case ce_get_pod w ns name of
        Inl err \<Rightarrow> Inl (Errorf ''get pod %s: %w'' [AStr name, AErr err])
      | Inr pod \<Rightarrow> sum_bind (get_pods w ns names) (\<lambda>pods. Inr (pod # pods)))"

definition collect_listPods :: "collect_env \<Rightarrow> collect_payload \<Rightarrow> go_error + log_pod list" where
  "collect_listPods w p =
     (if cp_Pods p \<noteq> [] then get_pods w (cp_Namespace p) (cp_Pods p)
      else sum_bind (ce_list_pods w (cp_Namespace p) (cp_LabelSelector p)) (\<lambda>items.
        if items = [] then Inl (Errorf ''no pods matched in namespace %s'' [AStr (cp_Namespace p)]) else Inr items))"

definition open_logs :: "collect_env \<Rightarrow> collector \<Rightarrow> log_pod \<Rightarrow> string \<Rightarrow> bool \<Rightarrow> collect_payload \<Rightarrow> go_error + string" where
  "open_logs w c pod container previous p =
     (case (if cl_backend c = LogsBackendNodeLocal then cl_nodeClient c else None) of
        Some client \<Rightarrow>
          if lgp_NodeName pod = [] then Inl (Errorf ''pod %s has no nodeName'' [AStr (lgp_Name pod)])
          else Fetch (ce_format w) (ce_agents w) (ce_fetch w) client (lgp_NodeName pod)
                 \<lparr> fr_Namespace = lgp_Namespace pod, fr_Pod = lgp_Name pod, fr_PodUID = lgp_UID pod,
                   fr_Container = container, fr_Previous = previous, fr_SinceTime = cp_SinceTime p,
                   fr_TailLines = cp_TailLines p, fr_LimitBytes = cp_LimitBytes p \<rparr>
      | None \<Rightarrow>
          ce_logs w (lgp_Namespace pod) (lgp_Name pod)
            \<lparr> lo_Container = container, lo_Previous = previous, lo_SinceTime = cp_SinceTime p,
              lo_TailLines = cp_TailLines p, lo_LimitBytes = cp_LimitBytes p \<rparr>)"

text \<open>The files after the call, and the bytes written or the error. A failed copy leaves its file behind.\<close>

definition writePodLogs ::
  "collect_env \<Rightarrow> collector \<Rightarrow> log_pod \<Rightarrow> string \<Rightarrow> bool \<Rightarrow> collect_payload \<Rightarrow> string \<Rightarrow> (string, string) gomap
     \<Rightarrow> (string, string) gomap \<times> (go_error + int)" where
  "writePodLogs w c pod container previous p dest files =
     (case open_logs w c pod container previous p of
        Inl err \<Rightarrow> (files, Inl err)
      | Inr text \<Rightarrow>
          (case ce_create w dest of
             Some err \<Rightarrow> (files, Inl err)
           | None \<Rightarrow>
               (case ce_copy w dest text of
                  (out, None) \<Rightarrow> (gm_put dest out files, Inr (int (length out)))
                | (out, Some err) \<Rightarrow> (gm_put dest out files, Inl err))))"

record collect_state =
  cs_files :: "(string, string) gomap"
  cs_dirs :: "string list"
  cs_partial :: "partial_error list"
  cs_total :: int
  cs_truncated :: bool
  cs_fileCount :: int

definition path_dir :: "string \<Rightarrow> string" where
  "path_dir p = path_clean (rev (dropWhile (\<lambda>c. c \<noteq> CHR ''/'') (rev p)))"

definition log_path :: "collect_env \<Rightarrow> string \<Rightarrow> string \<Rightarrow> log_pod \<Rightarrow> string \<Rightarrow> string \<Rightarrow> string" where
  "log_path w workDir deployName pod container st =
     path_join [workDir, path_join [deployName, lgp_Name pod, container @ ''-'' @ st @ ''-'' @ ce_stamp w @ ''.log'']]"

text \<open>The body of the innermost loop.\<close>

definition collect_one ::
  "collect_env \<Rightarrow> collector \<Rightarrow> collect_payload \<Rightarrow> string \<Rightarrow> string \<Rightarrow> log_pod \<Rightarrow> string \<Rightarrow> string \<times> bool \<Rightarrow> collect_state
     \<Rightarrow> go_error + collect_state" where
  "collect_one w c p workDir deployName pod container st s =
     (let fullPath = log_path w workDir deployName pod container (fst st); dir = path_dir fullPath in
      case ce_mkdirall w dir of
        Some err \<Rightarrow> Inl err
      | None \<Rightarrow>
          (let s = s\<lparr>cs_dirs := cs_dirs s @ [dir]\<rparr> in
           case writePodLogs w c pod container (snd st) p fullPath (cs_files s) of
             (files, Inl err) \<Rightarrow>
               Inr (s\<lparr>cs_files := files,
                      cs_partial := cs_partial s @
                        [\<lparr> pe_Pod = lgp_Name pod, pe_Container = container, pe_Reason = fst st @ ''LogError'', pe_Message = err \<rparr>]\<rparr>)
           | (files, Inr written) \<Rightarrow>
               if written = 0 then Inr (s\<lparr>cs_files := files\<rparr>)
               else
                 let total = int64 (cs_total s + written);
                     s = s\<lparr>cs_files := files, cs_total := total, cs_fileCount := cs_fileCount s + 1\<rparr>
                 in Inr (if total > cl_maxBytes c then
                           s\<lparr>cs_truncated := True,
                             cs_partial := cs_partial s @
                               [\<lparr> pe_Pod = [], pe_Container = [], pe_Reason = ''SizeLimitExceeded'',
                                  pe_Message = Errorf ''Bundle reached %d byte hard limit'' [AInt (cl_maxBytes c)] \<rparr>]\<rparr>
                         else s)))"

text \<open>A loop that stops at the first error and whose iterations start with \<open>if truncated { break }\<close>.\<close>

fun until_truncated :: "('a \<Rightarrow> collect_state \<Rightarrow> go_error + collect_state) \<Rightarrow> 'a list \<Rightarrow> collect_state \<Rightarrow> go_error + collect_state" where
  "until_truncated f [] s = Inr s"
| "until_truncated f (x # xs) s =
     (if cs_truncated s then Inr s else sum_bind (f x s) (until_truncated f xs))"

definition collect_pod :: "collect_env \<Rightarrow> collector \<Rightarrow> collect_payload \<Rightarrow> string \<Rightarrow> log_pod \<Rightarrow> collect_state \<Rightarrow> go_error + collect_state" where
  "collect_pod w c p workDir pod =
     (let deployName = deploymentName w pod in
      until_truncated
        (\<lambda>container. until_truncated (collect_one w c p workDir deployName pod container) (logStates p))
        (ContainerNames p (lgp_Containers pod)))"

definition no_files :: collect_state where
  "no_files = \<lparr> cs_files = [], cs_dirs = [], cs_partial = [], cs_total = 0, cs_truncated = False, cs_fileCount = 0 \<rparr>"

text \<open>
  \<open>zipDir\<close>: the files below the work directory but those with the base name of the archive, by their path in it.
  The walk visits each directory in lexical order, so entries come in the order of their path elements.
\<close>

definition path_base :: "string \<Rightarrow> string" where
  "path_base p = rev (takeWhile (\<lambda>c. c \<noteq> CHR ''/'') (rev p))"

definition zip_entries :: "string \<Rightarrow> string \<Rightarrow> (string, string) gomap \<Rightarrow> (string \<times> string) list" where
  "zip_entries srcDir skipBase files =
     (let dir = path_clean srcDir @ ''/'';
          inside = filter (\<lambda>(path, _). HasPrefix path dir \<and> path_base path \<noteq> skipBase) files
      in sort_key (\<lambda>(path, _). SplitChar (CHR ''/'') path) (map (\<lambda>(path, text). (TrimPrefix path dir, text)) inside))"

record collect_result =
  cr_Bucket :: string
  cr_Key :: string
  cr_ByteSize :: int
  cr_FileCount :: int
  cr_PartialErrors :: "partial_error list"
  cr_Truncated :: bool

definition bundle_input :: "collector \<Rightarrow> collect_payload \<Rightarrow> int \<Rightarrow> upload_input" where
  "bundle_input c p zipSize =
     \<lparr> ui_Endpoint = s3_Endpoint (cl_s3Defaults c), ui_Region = s3_Region (cl_s3Defaults c),
       ui_ForcePathStyle = s3_ForcePathStyle (cl_s3Defaults c), ui_Bucket = sp3_Bucket (cp_S3 p),
       ui_Key = sp3_Key (cp_S3 p), ui_AccessKeyID = sp3_AccessKeyID (cp_S3 p),
       ui_SecretAccessKey = sp3_SecretAccessKey (cp_S3 p), ui_ContentLength = zipSize,
       ui_ContentType = ''application/zip'' \<rparr>"

definition collect_Run :: "collect_env \<Rightarrow> collector \<Rightarrow> collect_payload \<Rightarrow> go_error + collect_result" where
  "collect_Run w c p =
     sum_bind (ce_mkdirtemp w (cl_tempRoot c)) (\<lambda>workDir.
     sum_bind (collect_listPods w p) (\<lambda>pods.
     sum_bind (until_truncated (collect_pod w c p workDir) pods no_files) (\<lambda>s.
       if cs_fileCount s = 0 then Inl (Errorf ''no log files collected'' [])
       else
         sum_bind (ce_zip w (zip_entries workDir ''bundle.zip'' (cs_files s))) (\<lambda>zipSize.
           case ce_open w (path_join [workDir, ''bundle.zip'']) of
             Some err \<Rightarrow> Inl err
           | None \<Rightarrow>
               (case Upload (ce_load w) (ce_put w) (cl_s3 c) (bundle_input c p zipSize) of
                  Some err \<Rightarrow> Inl err
                | None \<Rightarrow>
                    Inr \<lparr> cr_Bucket = sp3_Bucket (cp_S3 p), cr_Key = sp3_Key (cp_S3 p), cr_ByteSize = zipSize,
                          cr_FileCount = cs_fileCount s, cr_PartialErrors = cs_partial s,
                          cr_Truncated = cs_truncated s \<rparr>)))))"

section \<open>Handler (internal/handlers/logs/handler.go)\<close>

record collect_job =
  job_timeout :: int
  job_cmd :: command
  job_meta :: request_meta
  job_payload :: collect_payload
  job_started :: gtime

text \<open>
  \<open>ch_jobs\<close> is the number of elements in the channel, \<open>ch_running\<close> the goroutines, \<open>ch_gauge\<close> the metric
  (nil without metrics) and \<open>ch_replies\<close> what was handed to the publisher.
\<close>

record collect_handler =
  ch_policy :: engine
  ch_cap :: int
  ch_jobs :: int
  ch_running :: "collect_job list"
  ch_gauge :: "int option"
  ch_replies :: "(string \<times> string \<times> response) list"

definition collect_NewHandler :: "engine \<Rightarrow> int \<Rightarrow> collect_handler" where
  "collect_NewHandler e maxJobs =
     \<lparr> ch_policy = e, ch_cap = (if maxJobs < 1 then DefaultLogsCollectMaxJobs else maxJobs), ch_jobs = 0,
       ch_running = [], ch_gauge = None, ch_replies = [] \<rparr>"

definition collect_SetMetrics :: "collect_handler \<Rightarrow> collect_handler" where
  "collect_SetMetrics h = h\<lparr>ch_gauge := Some 0\<rparr>"

definition syncActiveJobs :: "int \<Rightarrow> collect_handler \<Rightarrow> collect_handler" where
  "syncActiveJobs n h = h\<lparr>ch_gauge := map_option (\<lambda>_. n) (ch_gauge h)\<rparr>"

definition collect_Handle :: "(string \<Rightarrow> int option) \<Rightarrow> collect_handler handle" where
  "collect_Handle parse_duration h c m t =
     (let rejected = (\<lambda>rsn code err. (h, Reply (Rejected (c_CommandID c) (m_CorrelationID m) rsn code err (fst t) (snd t))))
      in case AllowCommandType (ch_policy h) TypeLogsCollect of
        Some err \<Rightarrow> rejected ''PolicyDenied'' ''FORBIDDEN_COMMAND'' err
      | None \<Rightarrow>
          (case ParseCollectPayload (c_Payload c) of
             Inl err \<Rightarrow> rejected ''ValidationFailed'' ''INVALID_PAYLOAD'' err
           | Inr payload \<Rightarrow>
               (case AllowNamespace (ch_policy h) (cp_Namespace payload) of
                  Some err \<Rightarrow> rejected ''PolicyDenied'' ''FORBIDDEN_NAMESPACE'' err
                | None \<Rightarrow>
                    if ch_jobs h < ch_cap h then
                      let h = syncActiveJobs (ch_jobs h + 1) (h\<lparr>ch_jobs := ch_jobs h + 1\<rparr>);
                          job = \<lparr> job_timeout = TimeoutDuration parse_duration c (10 * 60 * second), job_cmd = c,
                                  job_meta = m, job_payload = payload, job_started = fst t \<rparr>
                      in (h\<lparr>ch_running := ch_running h @ [job]\<rparr>, Async)
                    else rejected ''TooManyJobs'' ''JOB_POOL_FULL'' (Errorf ''logs.collect job pool is full'' []))))"

definition job_reply :: "go_error + collect_result \<Rightarrow> collect_job \<Rightarrow> gtime \<Rightarrow> response" where
  "job_reply res j finished =
     (case res of
        Inl err \<Rightarrow>
          Failed (c_CommandID (job_cmd j)) (m_CorrelationID (job_meta j)) ''CollectFailed'' ''LOGS_COLLECT_ERROR'' err
            (job_started j) finished
      | Inr r \<Rightarrow>
          let resp = (Completed (c_CommandID (job_cmd j)) (m_CorrelationID (job_meta j)) (job_started j) finished)
                \<lparr>r_S3Bucket := cr_Bucket r, r_S3Key := cr_Key r, r_ByteSize := cr_ByteSize r,
                 r_FileCount := cr_FileCount r, r_PartialErrors := cr_PartialErrors r, r_Truncated := cr_Truncated r\<rparr>
          in if cr_Truncated r then resp\<lparr>r_Reason := ''Truncated''\<rparr> else resp)"

text \<open>The end of \<open>runJob\<close>: the reply goes out, then the slot is free.\<close>

definition runJob :: "collect_env \<Rightarrow> collector \<Rightarrow> gtime \<Rightarrow> collect_job \<Rightarrow> collect_handler \<Rightarrow> collect_handler" where
  "runJob w col finished j h =
     (let h = h\<lparr>ch_replies := ch_replies h @
                 [(m_ReplyTopic (job_meta j), m_CorrelationID (job_meta j),
                   job_reply (collect_Run w col (job_payload j)) j finished)]\<rparr>
      in syncActiveJobs (ch_jobs h - 1) (h\<lparr>ch_jobs := ch_jobs h - 1, ch_running := remove1 j (ch_running h)\<rparr>))"

interpretation collect_h: command_handler "collect_Handle pd" for pd
  by unfold_locales
     (auto simp: collect_Handle_def Let_def split: option.splits sum.splits if_splits)

section \<open>The pool\<close>

text \<open>
  What happens to a handler: a command comes in, or a job ends. With it goes the list of the jobs that
  were accepted.
\<close>

inductive pool_step :: "collect_job list \<times> collect_handler \<Rightarrow> collect_job list \<times> collect_handler \<Rightarrow> bool" where
  pool_accept: "collect_Handle pd h c m t = (h', Async) \<Longrightarrow> pool_step (js, h) (js @ [last (ch_running h')], h')"
| pool_reply: "collect_Handle pd h c m t = (h', Reply r) \<Longrightarrow> pool_step (js, h) (js, h')"
| pool_end: "j \<in> set (ch_running h) \<Longrightarrow> pool_step (js, h) (js, runJob w col finished j h)"

definition pool_init :: "collect_job list \<times> collect_handler \<Rightarrow> bool" where
  "pool_init s \<longleftrightarrow>
     fst s = [] \<and> (\<exists>e n. snd s = collect_NewHandler e n \<or> snd s = collect_SetMetrics (collect_NewHandler e n))"

definition job_address :: "collect_job \<Rightarrow> string \<times> string \<times> string" where
  "job_address j = (m_ReplyTopic (job_meta j), m_CorrelationID (job_meta j), c_CommandID (job_cmd j))"

definition reply_address :: "string \<times> string \<times> response \<Rightarrow> string \<times> string \<times> string" where
  "reply_address r = (fst r, fst (snd r), r_CommandID (snd (snd r)))"

text \<open>What the pool promises: a bounded number of jobs, all checked, and one reply for each.\<close>

definition pool_inv :: "collect_job list \<times> collect_handler \<Rightarrow> bool" where
  "pool_inv s \<longleftrightarrow>
     (case s of (js, h) \<Rightarrow>
        ch_jobs h = int (length (ch_running h)) \<and> ch_jobs h \<le> ch_cap h \<and> ch_gauge h \<in> {None, Some (ch_jobs h)} \<and>
        (\<forall>j \<in> set js. AllowNamespace (ch_policy h) (cp_Namespace (job_payload j)) = None) \<and>
        set (ch_running h) \<subseteq> set js \<and>
        mset (map job_address js) = mset (map job_address (ch_running h)) + mset (map reply_address (ch_replies h)))"

lemma pool_inv_init: "pool_init s \<Longrightarrow> pool_inv s"
  by (cases s) (auto simp: pool_init_def pool_inv_def collect_NewHandler_def collect_SetMetrics_def)

lemma collect_Handle_cases [consumes 1, case_names replied accepted]:
  assumes "collect_Handle pd h c m t = (h', out)"
  obtains r where "out = Reply r" "h' = h"
  | p job where "out = Async" "ch_jobs h < ch_cap h" "ParseCollectPayload (c_Payload c) = Inr p"
      "AllowNamespace (ch_policy h) (cp_Namespace p) = None" "job_cmd job = c" "job_meta job = m" "job_payload job = p"
      "h' = (syncActiveJobs (ch_jobs h + 1) (h\<lparr>ch_jobs := ch_jobs h + 1\<rparr>))\<lparr>ch_running := ch_running h @ [job]\<rparr>"
proof (cases "out = Async")
  case True
  obtain p where "ParseCollectPayload (c_Payload c) = Inr p" "AllowNamespace (ch_policy h) (cp_Namespace p) = None"
      "ch_jobs h < ch_cap h"
    using assms True by (auto simp: collect_Handle_def Let_def split: option.splits sum.splits if_splits)
  moreover have "AllowCommandType (ch_policy h) TypeLogsCollect = None"
    using assms True by (auto simp: collect_Handle_def Let_def split: option.splits)
  ultimately show ?thesis
    using assms True
    by (intro that(2) [of p "\<lparr> job_timeout = TimeoutDuration pd c (10 * 60 * second), job_cmd = c, job_meta = m,
                               job_payload = p, job_started = fst t \<rparr>"])
       (auto simp: collect_Handle_def Let_def syncActiveJobs_def)
next
  case False
  then show ?thesis
    using assms that(1) by (auto simp: collect_Handle_def Let_def split: option.splits sum.splits if_splits)
qed

lemma job_reply_id [simp]: "r_CommandID (job_reply res j t) = c_CommandID (job_cmd j)"
  by (auto simp: job_reply_def response_defs Let_def split: sum.split)

lemma pool_inv_end:
  assumes "pool_inv (js, h)" and "j \<in> set (ch_running h)"
  shows "pool_inv (js, runJob w col finished j h)"
proof -
  have "mset (map job_address (ch_running h)) = {#job_address j#} + mset (map job_address (remove1 j (ch_running h)))"
    using assms(2) by (metis add_mset_add_single image_mset_add_mset mset_map mset_remove1 insert_DiffM set_mset_mset union_commute)
  moreover have "length (ch_running h) = Suc (length (remove1 j (ch_running h)))"
    using assms(2) by (simp add: length_remove1) (metis Suc_pred length_pos_if_in_set)
  moreover have "set (remove1 j (ch_running h)) \<subseteq> set (ch_running h)" by (rule set_remove1_subset)
  ultimately show ?thesis
    using assms(1)
    by (auto simp: pool_inv_def runJob_def Let_def syncActiveJobs_def reply_address_def job_address_def)
qed

lemma pool_inv_step: "pool_inv s \<Longrightarrow> pool_step s s' \<Longrightarrow> pool_inv s'"
proof (erule pool_step.cases, goal_cases)
  case (1 pd h c m t h' js)
  from 1(4) show ?case
    by (cases rule: collect_Handle_cases) (use 1(1,2,3) in \<open>auto simp: pool_inv_def syncActiveJobs_def\<close>)
next
  case (2 pd h c m t h' r js)
  from 2(4) show ?case by (cases rule: collect_Handle_cases) (use 2(1,2,3) in auto)
next
  case (3 j h js w col finished)
  then show ?case by (auto intro: pool_inv_end)
qed



section \<open>What a collection does\<close>

text \<open>The three loops are one loop over all pods, containers and states.\<close>

lemma until_truncated_stop: "cs_truncated s \<Longrightarrow> until_truncated f xs s = Inr s"
  by (cases xs) simp_all

lemma until_truncated_append:
  "until_truncated f (xs @ ys) s = sum_bind (until_truncated f xs s) (until_truncated f ys)"
proof (induction xs arbitrary: s)
  case (Cons x xs)
  then show ?case by (cases "f x s") (simp_all add: until_truncated_stop)
qed simp

lemma until_truncated_map: "until_truncated f (map g xs) = until_truncated (\<lambda>x. f (g x)) xs"
proof
  show "until_truncated f (map g xs) s = until_truncated (\<lambda>x. f (g x)) xs s" for s
  proof (induction xs arbitrary: s)
    case (Cons x xs)
    then show ?case by (cases "f (g x) s") simp_all
  qed simp
qed

lemma until_truncated_nested:
  "until_truncated (\<lambda>x. until_truncated f (g x)) xs s = until_truncated f (concat (map g xs)) s"
proof (induction xs arbitrary: s)
  case (Cons x xs)
  show ?case
  proof (cases "cs_truncated s")
    case False
    then show ?thesis by (cases "until_truncated f (g x) s") (simp_all add: until_truncated_append Cons.IH)
  qed (simp add: until_truncated_stop)
qed simp

type_synonym attempt = "log_pod \<times> string \<times> string \<times> bool"

definition attempts :: "collect_payload \<Rightarrow> log_pod list \<Rightarrow> attempt list" where
  "attempts p pods =
     [(pod, c, st). pod \<leftarrow> pods, c \<leftarrow> ContainerNames p (lgp_Containers pod), st \<leftarrow> logStates p]"

definition collect_attempt :: "collect_env \<Rightarrow> collector \<Rightarrow> collect_payload \<Rightarrow> string \<Rightarrow> attempt \<Rightarrow> collect_state \<Rightarrow> go_error + collect_state" where
  "collect_attempt w c p workDir = (\<lambda>(pod, container, st). collect_one w c p workDir (deploymentName w pod) pod container st)"

lemma collect_flat:
  "until_truncated (collect_pod w c p workDir) pods s = until_truncated (collect_attempt w c p workDir) (attempts p pods) s"
proof -
  let ?f = "collect_attempt w c p workDir"
  have "collect_pod w c p workDir pod = until_truncated ?f
      (concat (map (\<lambda>cn. map (\<lambda>st. (pod, cn, st)) (logStates p)) (ContainerNames p (lgp_Containers pod))))" for pod
    unfolding until_truncated_nested [symmetric] collect_pod_def Let_def fun_eq_iff
    by (simp add: until_truncated_map collect_attempt_def)
  then have "collect_pod w c p workDir = (\<lambda>pod. until_truncated ?f
      (concat (map (\<lambda>cn. map (\<lambda>st. (pod, cn, st)) (logStates p)) (ContainerNames p (lgp_Containers pod)))))" by blast
  then show ?thesis by (simp add: until_truncated_nested attempts_def)
qed

text \<open>The bytes of one attempt, or its error; the reference for the counters.\<close>

definition outcome :: "collect_env \<Rightarrow> collector \<Rightarrow> collect_payload \<Rightarrow> string \<Rightarrow> attempt \<Rightarrow> go_error + int" where
  "outcome w c p workDir a =
     (case a of (pod, container, st) \<Rightarrow>
        snd (writePodLogs w c pod container (snd st) p
          (log_path w workDir (deploymentName w pod) pod container (fst st)) []))"

definition size_of :: "go_error + int \<Rightarrow> int" where
  "size_of r = (case r of Inl _ \<Rightarrow> 0 | Inr n \<Rightarrow> n)"

definition error_of :: "attempt \<Rightarrow> go_error + int \<Rightarrow> partial_error list" where
  "error_of a r =
     (case (a, r) of
        ((pod, container, st), Inl err) \<Rightarrow>
          [\<lparr> pe_Pod = lgp_Name pod, pe_Container = container, pe_Reason = fst st @ ''LogError'', pe_Message = err \<rparr>]
      | _ \<Rightarrow> [])"

definition limit_error :: "collector \<Rightarrow> partial_error" where
  "limit_error c = \<lparr> pe_Pod = [], pe_Container = [], pe_Reason = ''SizeLimitExceeded'',
     pe_Message = Errorf ''Bundle reached %d byte hard limit'' [AInt (cl_maxBytes c)] \<rparr>"

lemma writePodLogs_result: "snd (writePodLogs w c pod cn prev p dest files) = snd (writePodLogs w c pod cn prev p dest [])"
  by (simp add: writePodLogs_def split: sum.split option.split prod.split)

lemma writePodLogs_nonneg: "snd (writePodLogs w c pod cn prev p dest files) = Inr n \<Longrightarrow> 0 \<le> n"
  by (auto simp: writePodLogs_def split: sum.splits option.splits prod.splits)

lemma outcome_nonneg: "0 \<le> size_of (outcome w c p workDir a)"
  by (cases a) (auto simp: outcome_def size_of_def split: sum.split dest: writePodLogs_nonneg)

lemma collect_attempt_effect:
  assumes "collect_attempt w c p workDir a s = Inr s'"
    and "- (2 ^ 63) \<le> cs_total s + size_of (outcome w c p workDir a)" and "cs_total s + size_of (outcome w c p workDir a) < 2 ^ 63"
    and "\<not> cs_truncated s" and "cs_total s \<le> cl_maxBytes c"
  shows "cs_total s' = cs_total s + size_of (outcome w c p workDir a) \<and>
    cs_fileCount s' = cs_fileCount s + (if size_of (outcome w c p workDir a) > 0 then 1 else 0) \<and>
    (cs_truncated s' \<longleftrightarrow> cs_total s' > cl_maxBytes c) \<and>
    cs_partial s' = cs_partial s @ error_of a (outcome w c p workDir a) @ (if cs_truncated s' then [limit_error c] else [])"
proof -
  obtain pod container st where a: "a = (pod, container, st)" by (cases a)
  let ?path = "log_path w workDir (deploymentName w pod) pod container (fst st)"
  have mk: "ce_mkdirall w (path_dir ?path) = None"
    using assms(1) by (auto simp: a collect_attempt_def collect_one_def Let_def split: option.splits)
  obtain files r where wr: "writePodLogs w c pod container (snd st) p ?path (cs_files s) = (files, r)" by fastforce
  then have r: "outcome w c p workDir a = r"
    using writePodLogs_result [of w c pod container "snd st" p ?path "cs_files s"] by (simp add: outcome_def a)
  show ?thesis
  proof (cases r)
    case (Inl e)
    then show ?thesis
      using assms(1,4,5) mk wr r by (auto simp: a collect_attempt_def collect_one_def Let_def size_of_def error_of_def)
  next
    case (Inr n)
    have n: "0 \<le> n" using outcome_nonneg [of w c p workDir a] r Inr by (simp add: size_of_def)
    have i: "int64 (cs_total s + n) = cs_total s + n"
      using assms(2,3) r Inr by (intro int64_id) (simp_all add: size_of_def)
    show ?thesis
      using assms(1,4,5) mk wr r Inr n i
      by (cases "n = 0"; cases "cl_maxBytes c < cs_total s + n") (auto simp: a collect_attempt_def collect_one_def Let_def size_of_def error_of_def limit_error_def)
  qed
qed

text \<open>
  The loop over all attempts: it handles a first part of them, all of them unless the limit was passed,
  and then the last one passed it.
\<close>

definition accounted :: "collector \<Rightarrow> (attempt \<Rightarrow> go_error + int) \<Rightarrow> collect_state \<Rightarrow> attempt list \<Rightarrow> collect_state \<Rightarrow> bool" where
  "accounted c oc s as s' \<longleftrightarrow>
     cs_total s' = cs_total s + sum_list (map (\<lambda>a. size_of (oc a)) as) \<and>
     cs_fileCount s' = cs_fileCount s + int (length (filter (\<lambda>a. size_of (oc a) > 0) as)) \<and>
     cs_partial s' = cs_partial s @ concat (map (\<lambda>a. error_of a (oc a)) as) @ (if cs_truncated s' then [limit_error c] else []) \<and>
     (cs_truncated s' \<longleftrightarrow> cs_total s' > cl_maxBytes c)"

lemma accounted_Cons:
  assumes "accounted c oc s [a] s1" and "\<not> cs_truncated s1" and "accounted c oc s1 as s'"
  shows "accounted c oc s (a # as) s'"
  using assms by (auto simp: accounted_def)

lemma collect_loop:
  assumes "until_truncated (collect_attempt w c p workDir) as s = Inr s'"
    and "\<And>a. a \<in> set as \<Longrightarrow> cl_maxBytes c + size_of (outcome w c p workDir a) \<le> max_int"
    and "\<not> cs_truncated s" and "0 \<le> cs_total s" and "cs_total s \<le> cl_maxBytes c" and "as \<noteq> []"
  shows "\<exists>dn a rest. as = dn @ a # rest \<and> accounted c (outcome w c p workDir) s (dn @ [a]) s' \<and>
    (if cs_truncated s' then cs_total s' - size_of (outcome w c p workDir a) \<le> cl_maxBytes c else rest = [])"
  using assms
proof (induction as arbitrary: s)
  case Nil
  then show ?case by simp
next
  case (Cons a as)
  let ?o = "outcome w c p workDir"
  obtain s1 where s1: "collect_attempt w c p workDir a s = Inr s1"
    and rest: "until_truncated (collect_attempt w c p workDir) as s1 = Inr s'"
    using Cons.prems(1,3) by auto
  have lim: "cl_maxBytes c + size_of (?o a) \<le> max_int" using Cons.prems(2) by simp
  have nn: "0 \<le> size_of (?o a)" by (rule outcome_nonneg)
  have b: "- (2 ^ 63) \<le> cs_total s + size_of (?o a)" "cs_total s + size_of (?o a) < 2 ^ 63"
    using lim nn Cons.prems(4,5) by (simp_all add: max_int_def)
  have e: "accounted c ?o s [a] s1" "cs_total s1 = cs_total s + size_of (?o a)" "cs_truncated s1 \<longleftrightarrow> cs_total s1 > cl_maxBytes c"
    using collect_attempt_effect [OF s1 b Cons.prems(3,5)] by (simp_all add: accounted_def)
  show ?case
  proof (cases "cs_truncated s1 \<or> as = []")
    case True
    then have "s' = s1" using rest by (auto simp: until_truncated_stop)
    then show ?thesis using e True Cons.prems(5) by (intro exI [of _ "[]"] exI [of _ a] exI [of _ as]) auto
  next
    case False
    then have "0 \<le> cs_total s1" "cs_total s1 \<le> cl_maxBytes c" using e nn Cons.prems(4) by auto
    then obtain d x r where ih: "as = d @ x # r" "accounted c ?o s1 (d @ [x]) s'"
      "if cs_truncated s' then cs_total s' - size_of (?o x) \<le> cl_maxBytes c else r = []"
      using Cons.IH [OF rest] Cons.prems(2) False by (meson list.set_intros(2))
    have "accounted c ?o s ((a # d) @ [x]) s'"
      using accounted_Cons [OF e(1) _ ih(2)] False by simp
    then show ?thesis using ih by (intro exI [of _ "a # d"] exI [of _ x] exI [of _ r]) simp
  qed
qed


text \<open>
  What a finished collection reports. The attempts (each state of each container of each pod, in
  order) were made up to one of them, which is the last unless the result is truncated. The file count is
  the number of non-empty logs among them, there is at least one, and the partial errors are those of the
  failed attempts, in order, plus one for the limit when truncated. Truncated means exactly that the
  bytes of all attempts made exceed the limit; all but the last one are within it. The object went to the
  bucket and key of the payload with the credentials of the payload.
\<close>

lemma collect_bundle:
  assumes "collect_Run w c p = Inr r" and "ce_mkdirtemp w (cl_tempRoot c) = Inr workDir" and "collect_listPods w p = Inr pods"
    and "0 \<le> cl_maxBytes c"
    and "\<And>a. a \<in> set (attempts p pods) \<Longrightarrow> cl_maxBytes c + size_of (outcome w c p workDir a) \<le> max_int"
  shows "\<exists>dn a rest. attempts p pods = dn @ a # rest \<and> (rest \<noteq> [] \<longrightarrow> cr_Truncated r) \<and>
    cr_FileCount r = int (length (filter (\<lambda>a. size_of (outcome w c p workDir a) > 0) (dn @ [a]))) \<and> cr_FileCount r > 0 \<and>
    cr_PartialErrors r = concat (map (\<lambda>a. error_of a (outcome w c p workDir a)) (dn @ [a])) @
      (if cr_Truncated r then [limit_error c] else []) \<and>
    (cr_Truncated r \<longleftrightarrow> sum_list (map (\<lambda>a. size_of (outcome w c p workDir a)) (dn @ [a])) > cl_maxBytes c) \<and>
    sum_list (map (\<lambda>a. size_of (outcome w c p workDir a)) dn) \<le> cl_maxBytes c \<and>
    cr_Bucket r = sp3_Bucket (cp_S3 p) \<and> cr_Key r = sp3_Key (cp_S3 p) \<and>
    (\<exists>put. ce_put w put = None \<and> pu_Bucket put = awsString (sp3_Bucket (cp_S3 p)) \<and> pu_Key put = awsString (sp3_Key (cp_S3 p)) \<and>
       pu_AccessKeyID put = sp3_AccessKeyID (cp_S3 p) \<and> pu_SecretAccessKey put = sp3_SecretAccessKey (cp_S3 p))"
proof -
  let ?o = "outcome w c p workDir"
  obtain s zs where loop: "until_truncated (collect_pod w c p workDir) pods no_files = Inr s"
    and cnt: "cs_fileCount s \<noteq> 0" and up: "Upload (ce_load w) (ce_put w) (cl_s3 c) (bundle_input c p zs) = None"
    and r: "r = \<lparr> cr_Bucket = sp3_Bucket (cp_S3 p), cr_Key = sp3_Key (cp_S3 p), cr_ByteSize = zs,
               cr_FileCount = cs_fileCount s, cr_PartialErrors = cs_partial s, cr_Truncated = cs_truncated s \<rparr>"
    using assms(1-3) by (auto simp: collect_Run_def split: if_splits option.splits)
  have flat: "until_truncated (collect_attempt w c p workDir) (attempts p pods) no_files = Inr s"
    using loop by (simp add: collect_flat)
  have ne: "attempts p pods \<noteq> []" using flat cnt by (auto simp: no_files_def)
  have "\<exists>dn a rest. attempts p pods = dn @ a # rest \<and> accounted c ?o no_files (dn @ [a]) s \<and>
      (if cs_truncated s then cs_total s - size_of (?o a) \<le> cl_maxBytes c else rest = [])"
    by (rule collect_loop [OF flat assms(5)]) (simp_all add: no_files_def assms(4) ne)
  then obtain dn a rest where d: "attempts p pods = dn @ a # rest" "accounted c ?o no_files (dn @ [a]) s"
      "if cs_truncated s then cs_total s - size_of (?o a) \<le> cl_maxBytes c else rest = []" by blast
  have total: "cs_total s = sum_list (map (\<lambda>a. size_of (?o a)) dn) + size_of (?o a)"
    using d(2) by (simp add: accounted_def no_files_def)
  have within: "sum_list (map (\<lambda>a. size_of (?o a)) dn) \<le> cl_maxBytes c"
    using d(2,3) total outcome_nonneg [of w c p workDir a] by (cases "cs_truncated s") (auto simp: accounted_def)
  have "ce_put w (put_input (cl_s3 c) (bundle_input c p zs)) = None" using up by (auto simp: Upload_def split: option.splits)
  then have put: "\<exists>put. ce_put w put = None \<and> pu_Bucket put = awsString (sp3_Bucket (cp_S3 p)) \<and> pu_Key put = awsString (sp3_Key (cp_S3 p)) \<and>
       pu_AccessKeyID put = sp3_AccessKeyID (cp_S3 p) \<and> pu_SecretAccessKey put = sp3_SecretAccessKey (cp_S3 p)"
    by (intro exI [of _ "put_input (cl_s3 c) (bundle_input c p zs)"]) (simp add: put_input_def bundle_input_def Let_def)
  show ?thesis
    using d within put cnt total
    by (intro exI [of _ dn] exI [of _ a] exI [of _ rest]) (auto simp: r accounted_def no_files_def)
qed

section \<open>Where the files go\<close>

lemma ReplaceAll_set: "set (ReplaceAll s old new) \<subseteq> set s \<union> set new"
proof (induction s old new rule: ReplaceAll.induct)
  case (1 s old new)
  then show ?case
    using set_drop_subset [of "length old" s]
    by (subst ReplaceAll.simps) (cases s, auto)
qed

lemma ReplaceAll_char: "c \<notin> set new \<Longrightarrow> c \<notin> set (ReplaceAll s [c] new)"
proof (induction s "[c]" new rule: ReplaceAll.induct)
  case (1 s new)
  then show ?case by (subst ReplaceAll.simps) (cases s, auto simp: HasPrefix_def)
qed

lemma ReplaceAll_dots: "ReplaceAll s ''..'' ''_'' \<noteq> ''..''"
proof
  assume a: "ReplaceAll s ''..'' ''_'' = ''..''"
  have first: "ReplaceAll t ''..'' ''_'' = CHR ''.'' # r \<Longrightarrow> \<exists>u. t = CHR ''.'' # u \<and> \<not> HasPrefix t ''..'' \<and> ReplaceAll u ''..'' ''_'' = r" for t r
    by (subst (asm) ReplaceAll.simps) (cases t, auto split: if_splits)
  obtain u where u: "s = CHR ''.'' # u" "\<not> HasPrefix s ''..''" "ReplaceAll u ''..'' ''_'' = ''.''" using first [OF a] by blast
  obtain v where "u = CHR ''.'' # v" using first [OF u(3)] by blast
  then show False using u by (simp add: HasPrefix_def)
qed

lemma sanitizePathPart_ok:
  "sanitizePathPart s \<noteq> []" "CHR ''/'' \<notin> set (sanitizePathPart s)" "sanitizePathPart s \<noteq> ''..''"
proof -
  have "CHR ''/'' \<notin> set (ReplaceAll (ReplaceAll s ''/'' ''_'') ''..'' ''_'')"
    using ReplaceAll_set [of "ReplaceAll s ''/'' ''_''" "''..''" "''_''"] ReplaceAll_char [of "CHR ''/''" "''_''" s] by auto
  then show "sanitizePathPart s \<noteq> []" "CHR ''/'' \<notin> set (sanitizePathPart s)" "sanitizePathPart s \<noteq> ''..''"
    using ReplaceAll_dots by (auto simp: sanitizePathPart_def Let_def)
qed

lemma deploymentName_sanitized: "\<exists>s. deploymentName w pod = sanitizePathPart s"
  by (auto simp: deploymentName_def split: list.split sum.split)

text \<open>Elements without a separator join to a relative path of their cleaned list.\<close>

lemma JoinStr_head:
  assumes "x \<noteq> []" and "CHR ''/'' \<notin> set x"
  shows "JoinStr (x # xs) ''/'' \<noteq> [] \<and> hd (JoinStr (x # xs) ''/'') \<noteq> CHR ''/''"
proof -
  obtain c cs where x: "x = c # cs" using assms(1) by (cases x) auto
  have "JoinStr (x # xs) ''/'' = c # (cs @ (if xs = [] then [] else ''/'' @ JoinStr xs ''/''))"
    by (cases xs) (simp_all add: x)
  then show ?thesis using assms(2) by (auto simp: x)
qed

lemma path_join_rel:
  assumes "e \<noteq> [] \<and> CHR ''/'' \<notin> set e" and "list_all (\<lambda>e. e \<noteq> [] \<and> CHR ''/'' \<notin> set e) es"
    and "clean_parts False [] (e # es) = x # xs" and "x \<noteq> []"
  shows "path_join (e # es) = JoinStr (x # xs) ''/''"
proof -
  have f: "filter (\<lambda>e. e \<noteq> []) (e # es) = e # es" using assms(1,2) by (auto simp: filter_id_conv list_all_iff)
  have h: "JoinStr (e # es) ''/'' \<noteq> []" "hd (JoinStr (e # es) ''/'') \<noteq> CHR ''/''" using JoinStr_head assms(1) by blast+
  have sp: "SplitChar (CHR ''/'') (JoinStr (e # es) ''/'') = e # es"
    using assms(1,2) by (intro Split_Join) (auto simp: list_all_iff)
  have "JoinStr (x # xs) ''/'' \<noteq> []" using assms(4) by (cases xs) auto
  then show ?thesis
    using h by (simp add: path_join_def f Let_def path_clean_def sp assms(3)
        del: clean_parts.simps JoinStr.simps filter.simps)
qed

lemma log_name_ok:
  assumes "CHR ''/'' \<notin> set (c @ st @ stamp)"
  shows "name_ok (c @ ''-'' @ st @ ''-'' @ stamp @ ''.log'')"
proof -
  have "CHR ''-'' \<in> set (c @ ''-'' @ st @ ''-'' @ stamp @ ''.log'')" by simp
  then have "c @ ''-'' @ st @ ''-'' @ stamp @ ''.log'' \<noteq> ''.''" "c @ ''-'' @ st @ ''-'' @ stamp @ ''.log'' \<noteq> ''..''" by auto
  then show ?thesis using assms by (auto simp: name_ok_def)
qed

lemma log_path_inside:
  assumes "ps \<noteq> []" and "list_all name_ok ps" and "name_ok (lgp_Name pod)"
    and "CHR ''/'' \<notin> set (container @ st @ ce_stamp w)"
  shows "\<exists>ds. length ds \<le> 1 \<and> log_path w (path_of ps) (deploymentName w pod) pod container st =
    path_of (ps @ ds @ [lgp_Name pod, container @ ''-'' @ st @ ''-'' @ ce_stamp w @ ''.log''])"
proof -
  let ?f = "container @ ''-'' @ st @ ''-'' @ ce_stamp w @ ''.log''" and ?d = "deploymentName w pod" and ?n = "lgp_Name pod"
  have f: "name_ok ?f" using assms(4) by (rule log_name_ok)
  have d: "?d \<noteq> []" "CHR ''/'' \<notin> set ?d" "?d \<noteq> ''..''"
    using deploymentName_sanitized [of w pod] sanitizePathPart_ok by metis+
  define ds where "ds = (if ?d = ''.'' then [] else [?d])"
  have ds: "list_all name_ok (ds @ [?n, ?f])" using d f assms(3) by (simp add: ds_def name_ok_def)
  have "clean_parts False [] [?d, ?n, ?f] = clean_parts False [] (ds @ [?n, ?f])" using d by (simp add: ds_def)
  also have "\<dots> = ds @ [?n, ?f]" using clean_parts_ok [OF ds, of False "[]"] by simp
  finally have c: "clean_parts False [] [?d, ?n, ?f] = ds @ [?n, ?f]" .
  obtain x xs where x: "ds @ [?n, ?f] = x # xs" "x \<noteq> []" using d assms(3) by (cases ds) (auto simp: ds_def name_ok_def split: if_splits)
  have rel: "path_join [?d, ?n, ?f] = JoinStr (ds @ [?n, ?f]) ''/''"
    unfolding x(1) by (rule path_join_rel) (use d f assms(3) c x in \<open>auto simp: name_ok_def\<close>)
  have sp: "SplitChar (CHR ''/'') (JoinStr (ds @ [?n, ?f]) ''/'') = ds @ [?n, ?f]"
    using ds by (intro Split_Join) (auto simp: list_all_iff name_ok_def)
  have "JoinStr (ds @ [?n, ?f]) ''/'' \<noteq> []" using x by (metis JoinStr.simps(2) SplitChar.simps(1) sp append_is_Nil_conv list.sel(1) not_Cons_self2)
  then have "log_path w (path_of ps) ?d pod container st = path_of (ps @ ds @ [?n, ?f])"
    unfolding log_path_def rel
    using path_join_parts [OF assms(1,2)] sp clean_parts_ok [OF ds, of True "rev ps"] by (simp add: path_of_def)
  then show ?thesis by (intro exI [of _ ds]) (simp add: ds_def)
qed


lemma writePodLogs_files:
  "gm_get (fst (writePodLogs w c pod cn prev p dest files)) path \<noteq> None \<Longrightarrow> path = dest \<or> gm_get files path \<noteq> None"
  by (auto simp: writePodLogs_def split: sum.splits option.splits prod.splits if_splits)

lemma collect_one_files:
  assumes "collect_one w c p workDir d pod container st s = Inr s'" and "gm_get (cs_files s') path \<noteq> None"
  shows "path = log_path w workDir d pod container (fst st) \<or> gm_get (cs_files s) path \<noteq> None"
proof -
  let ?dest = "log_path w workDir d pod container (fst st)"
  obtain files r where wr: "writePodLogs w c pod container (snd st) p ?dest (cs_files s) = (files, r)" by fastforce
  have "cs_files s' = files"
    using assms(1) wr by (cases r) (auto simp: collect_one_def Let_def split: option.splits if_splits)
  then show ?thesis
    using assms(2) wr writePodLogs_files [of w c pod container "snd st" p ?dest "cs_files s" path] by simp
qed

lemma collected_files:
  assumes "until_truncated (collect_attempt w c p workDir) as s = Inr s'" and "gm_get (cs_files s') path \<noteq> None"
  shows "gm_get (cs_files s) path \<noteq> None \<or>
    (\<exists>pod cn st. (pod, cn, st) \<in> set as \<and> path = log_path w workDir (deploymentName w pod) pod cn (fst st))"
  using assms(1)
proof (induction as arbitrary: s)
  case Nil
  then show ?case using assms(2) by simp
next
  case (Cons a as)
  show ?case
  proof (cases "cs_truncated s")
    case True
    then show ?thesis using Cons.prems assms(2) by simp
  next
    case False
    obtain pod cn st where a: "a = (pod, cn, st)" by (cases a)
    obtain s1 where s1: "collect_attempt w c p workDir a s = Inr s1"
      and rest: "until_truncated (collect_attempt w c p workDir) as s1 = Inr s'"
      using Cons.prems False by auto
    have one: "gm_get (cs_files s1) path \<noteq> None \<Longrightarrow>
        path = log_path w workDir (deploymentName w pod) pod cn (fst st) \<or> gm_get (cs_files s) path \<noteq> None"
      using collect_one_files s1 by (simp add: a collect_attempt_def)
    show ?thesis using Cons.IH [OF rest] one unfolding a list.set(2) by blast
  qed
qed

lemma logStates_names: "st \<in> set (logStates p) \<Longrightarrow> CHR ''/'' \<notin> set (fst st)"
  by (auto simp: logStates_def split: if_splits)

text \<open>
  C20: A collection whose pod and container names have no separator writes only below its work directory,
  into a directory of the pod: deployment names from the cluster cannot lead out of it, whatever they are.
\<close>

theorem collect_inside:
  assumes "until_truncated (collect_pod w c p (path_of ps)) pods no_files = Inr s" and "gm_get (cs_files s) path \<noteq> None"
    and "ps \<noteq> []" and "list_all name_ok ps" and "CHR ''/'' \<notin> set (ce_stamp w)"
    and "list_all (\<lambda>pod. name_ok (lgp_Name pod) \<and>
           list_all (\<lambda>cn. CHR ''/'' \<notin> set cn) (ContainerNames p (lgp_Containers pod))) pods"
  shows "\<exists>ds pod file. length ds \<le> 1 \<and> pod \<in> set pods \<and> name_ok file \<and> path = path_of (ps @ ds @ [lgp_Name pod, file])"
proof -
  have flat: "until_truncated (collect_attempt w c p (path_of ps)) (attempts p pods) no_files = Inr s"
    using assms(1) by (simp add: collect_flat)
  obtain pod cn st where a: "(pod, cn, st) \<in> set (attempts p pods)"
    and path: "path = log_path w (path_of ps) (deploymentName w pod) pod cn (fst st)"
    using collected_files [OF flat assms(2)] by (auto simp: no_files_def)
  then have pod: "pod \<in> set pods" "cn \<in> set (ContainerNames p (lgp_Containers pod))" "st \<in> set (logStates p)"
    by (auto simp: attempts_def)
  then have ok: "name_ok (lgp_Name pod)" "CHR ''/'' \<notin> set (cn @ fst st @ ce_stamp w)"
    using assms(5,6) logStates_names by (auto simp: list_all_iff)
  show ?thesis
    using log_path_inside [OF assms(3,4) ok] log_name_ok [OF ok(2)] pod(1) path by blast
qed

text \<open>
  A container name of the payload is not checked. With the node-local backend, a name that starts with
  three steps up makes the collector create its file beside the work directory, with the content the node
  sent: the name goes into the path as it is.
\<close>

lemma collect_escapes:
  assumes "ps \<noteq> []" and "list_all name_ok (ps @ [work])" and "name_ok (lgp_Name pod)" and "deploymentName w pod \<noteq> ''.''"
    and "CHR ''/'' \<notin> set (x @ fst st @ ce_stamp w)" and "container = ''../../../'' @ x"
    and "open_logs w c pod container (snd st) p = Inr log" and "ce_mkdirall w = (\<lambda>_. None)" and "ce_create w = (\<lambda>_. None)"
    and "ce_copy w = (\<lambda>_ text. (text, None))"
  shows "\<exists>s'. collect_one w c p (path_of (ps @ [work])) (deploymentName w pod) pod container st s = Inr s' \<and>
    gm_get (cs_files s') (path_of (ps @ [x @ ''-'' @ fst st @ ''-'' @ ce_stamp w @ ''.log''])) = Some log"
proof -
  let ?f = "x @ ''-'' @ fst st @ ''-'' @ ce_stamp w @ ''.log''" and ?d = "deploymentName w pod" and ?n = "lgp_Name pod"
  have f: "name_ok ?f" using assms(5) by (rule log_name_ok)
  have d: "name_ok ?d"
    using deploymentName_sanitized [of w pod] sanitizePathPart_ok assms(4) unfolding name_ok_def by metis
  have path: "log_path w (path_of (ps @ [work])) ?d pod container (fst st) = path_of (ps @ [?f])"
  proof -
    have j: "JoinStr [?d, ?n, container @ ''-'' @ fst st @ ''-'' @ ce_stamp w @ ''.log''] ''/'' =
        JoinStr [?d, ?n, ''..'', ''..'', ''..'', ?f] ''/''" by (simp add: assms(6))
    have sp: "SplitChar (CHR ''/'') (JoinStr [?d, ?n, ''..'', ''..'', ''..'', ?f] ''/'') = [?d, ?n, ''..'', ''..'', ''..'', ?f]"
      using d f assms(3) by (intro Split_Join) (auto simp: name_ok_def)
    have hd: "JoinStr [?d, ?n, ''..'', ''..'', ''..'', ?f] ''/'' \<noteq> []"
      "hd (JoinStr [?d, ?n, ''..'', ''..'', ''..'', ?f] ''/'') \<noteq> CHR ''/''"
      using JoinStr_head [of ?d] d unfolding name_ok_def by blast+
    have cl: "clean_parts False [] [?d, ?n, ''..'', ''..'', ''..'', ?f] = [''..'', ?f]"
      using d f assms(3) by (simp add: name_ok_def)
    have ne: "filter (\<lambda>e. e \<noteq> []) [?d, ?n, container @ ''-'' @ fst st @ ''-'' @ ce_stamp w @ ''.log''] =
        [?d, ?n, container @ ''-'' @ fst st @ ''-'' @ ce_stamp w @ ''.log'']"
      using d assms(3) by (simp add: name_ok_def)
    have rel: "path_join [?d, ?n, container @ ''-'' @ fst st @ ''-'' @ ce_stamp w @ ''.log''] = ''../'' @ ?f"
      using hd by (simp add: path_join_def ne Let_def path_clean_def j sp cl del: clean_parts.simps JoinStr.simps filter.simps append.simps)
         simp
    have "SplitChar (CHR ''/'') (''../'' @ ?f) = [''..'', ?f]"
      using f SplitChar_seg [of "CHR ''/''" "''..''" ?f] SplitChar_no_sep [of "CHR ''/''" ?f] by (simp add: name_ok_def del: SplitChar.simps)
    moreover have "clean_parts True (work # rev ps) [''..'', ?f] = ps @ [?f]"
      using f assms(2) by (simp add: name_ok_def)
    ultimately show ?thesis
      unfolding log_path_def rel
      using path_join_parts [of "ps @ [work]" "''../'' @ ?f"] assms(2)
      by (simp add: path_of_def del: clean_parts.simps SplitChar.simps)
  qed
  show ?thesis
    using assms(7-10) by (auto simp: collect_one_def path Let_def writePodLogs_def)
qed


section \<open>Witnesses\<close>

definition shop_s3 :: s3_config where
  "shop_s3 = \<lparr> s3_Endpoint = ''https://s3'', s3_Region = ''r1'', s3_ForcePathStyle = True \<rparr>"

definition shop_logs :: "string \<Rightarrow> collect_payload" where
  "shop_logs container =
     \<lparr> cp_Namespace = ''shop'', cp_LabelSelector = [], cp_Pods = [''web''], cp_Containers = JArr [JStr container],
       cp_IncludeCurrent = True, cp_IncludePrevious = True, cp_SinceTime = None, cp_TailLines = None, cp_LimitBytes = None,
       cp_S3 = \<lparr> sp3_Bucket = ''b'', sp3_Key = ''k'', sp3_AccessKeyID = ''id'', sp3_SecretAccessKey = ''sec'' \<rparr> \<rparr>"

definition web_log_pod :: log_pod where
  "web_log_pod =
     \<lparr> lgp_Namespace = ''shop'', lgp_Name = ''web'', lgp_UID = ''u'', lgp_NodeName = ''n1'', lgp_Containers = [''app''],
       lgp_Owners = [(''ReplicaSet'', ''web-1'')] \<rparr>"

text \<open>A cluster with one pod, which has a log of three bytes and none of a previous container.\<close>

definition shop_env :: collect_env where
  "shop_env =
     \<lparr> ce_mkdirtemp = (\<lambda>root. Inr (root @ ''/w'')), ce_get_pod = (\<lambda>_ _. Inr web_log_pod), ce_list_pods = (\<lambda>_ _. Inr [web_log_pod]),
       ce_replicaset = (\<lambda>_ _. Inr [(''Deployment'', ''web'')]), ce_stamp = ''T'', ce_mkdirall = (\<lambda>_. None),
       ce_logs = (\<lambda>_ _ o'. if lo_Previous o' then Inl (LibErr ''none'') else Inr ''abc''),
       ce_agents = (\<lambda>_ _ _. Inr [\<lparr> ap_PodIP = ''10.0.0.1'', ap_Phase = ''Running'' \<rparr>]), ce_fetch = (\<lambda>_. Inr (200, ''abc'')),
       ce_format = (\<lambda>_. []), ce_create = (\<lambda>_. None), ce_copy = (\<lambda>_ text. (text, None)), ce_zip = (\<lambda>es. Inr (int (length es))),
       ce_open = (\<lambda>_. None), ce_load = None, ce_put = (\<lambda>_. None) \<rparr>"

definition shop_collector :: collector where
  "shop_collector = NewCollector shop_s3 shop_s3 2 []"

lemma shop_loop:
  "until_truncated (collect_pod shop_env shop_collector (shop_logs ''app'') (path_of [''tmp'', ''w''])) [web_log_pod] no_files =
     Inr \<lparr> cs_files = [(''/tmp/w/web/web/app-current-T.log'', ''abc'')], cs_dirs = [''/tmp/w/web/web''],
           cs_partial = [limit_error shop_collector], cs_total = 3, cs_truncated = True, cs_fileCount = 1 \<rparr>"
  by code_simp

lemma collect_bundle_example:
  "\<exists>r dn a rest. collect_Run shop_env shop_collector (shop_logs ''app'') = Inr r \<and> cr_Truncated r \<and>
     attempts (shop_logs ''app'') [web_log_pod] = dn @ a # rest \<and> rest \<noteq> []"
proof -
  let ?p = "shop_logs ''app''"
  have at: "attempts ?p [web_log_pod] = [(web_log_pod, ''app'', ''current'', False), (web_log_pod, ''app'', ''previous'', True)]"
    by code_simp
  have o: "map (\<lambda>a. size_of (outcome shop_env shop_collector ?p ''/tmp/w'' a)) (attempts ?p [web_log_pod]) = [3, 0]" by code_simp
  have lim: "cl_maxBytes shop_collector + size_of (outcome shop_env shop_collector ?p ''/tmp/w'' a) \<le> max_int"
    if "a \<in> set (attempts ?p [web_log_pod])" for a
    using that o by (auto simp: at shop_collector_def NewCollector_def max_int_def)
  have run: "map_sum (\<lambda>_. ()) cr_Truncated (collect_Run shop_env shop_collector ?p) = Inr True" by code_simp
  then obtain r where r: "collect_Run shop_env shop_collector ?p = Inr r" "cr_Truncated r"
    by (cases "collect_Run shop_env shop_collector ?p") auto
  have mk: "ce_mkdirtemp shop_env (cl_tempRoot shop_collector) = Inr ''/tmp/w''" by code_simp
  have ls: "collect_listPods shop_env ?p = Inr [web_log_pod]" by code_simp
  have mx: "0 \<le> cl_maxBytes shop_collector" by code_simp
  obtain dn a rest where d: "attempts ?p [web_log_pod] = dn @ a # rest"
    "sum_list (map (\<lambda>a. size_of (outcome shop_env shop_collector ?p ''/tmp/w'' a)) dn) \<le> cl_maxBytes shop_collector"
    using collect_bundle [OF r(1) mk ls mx lim] by blast
  have "dn = []"
  proof (rule ccontr)
    assume "dn \<noteq> []"
    then have "dn = [(web_log_pod, ''app'', ''current'', False)]" using d(1) unfolding at by (cases dn; cases "tl dn") auto
    then show False using d(2) o by (simp add: at shop_collector_def NewCollector_def)
  qed
  then have "rest \<noteq> []" using d(1) unfolding at by auto
  then show ?thesis using r d(1) by blast
qed

theorem collect_inside_witness:
  "\<exists>ds pod file. pod = web_log_pod \<and> name_ok file \<and>
     ''/tmp/w/web/web/app-current-T.log'' = path_of ([''tmp'', ''w''] @ ds @ [lgp_Name pod, file])"
proof -
  have pods: "list_all (\<lambda>pod. name_ok (lgp_Name pod) \<and>
      list_all (\<lambda>cn. CHR ''/'' \<notin> set cn) (ContainerNames (shop_logs ''app'') (lgp_Containers pod))) [web_log_pod]" by code_simp
  have ps: "list_all name_ok [''tmp'', ''w'']" and stamp: "CHR ''/'' \<notin> set (ce_stamp shop_env)" by code_simp+
  have "\<exists>ds pod file. length ds \<le> 1 \<and> pod \<in> set [web_log_pod] \<and> name_ok file \<and>
      ''/tmp/w/web/web/app-current-T.log'' = path_of ([''tmp'', ''w''] @ ds @ [lgp_Name pod, file])"
    by (rule collect_inside [OF shop_loop _ _ ps stamp pods]) (simp_all add: gm_get_def)
  then show ?thesis by auto
qed

definition node_collector :: collector where
  "node_collector = collector_WithNodeLocal
     (Some \<lparr> nc_Namespace = ''sys'', nc_Selector = ''app=logs'', nc_Port = 8080, nc_Token = ''t'' \<rparr>) shop_collector"

lemma collect_escapes_example:
  "\<exists>s'. collect_one shop_env node_collector (shop_logs ''../../../evil'') (path_of [''tmp'', ''w''])
          (deploymentName shop_env web_log_pod) web_log_pod ''../../../evil'' (''current'', False) no_files = Inr s' \<and>
     gm_get (cs_files s') ''/tmp/evil-current-T.log'' = Some ''abc''"
proof -
  have ps: "list_all name_ok ([''tmp''] @ [''w''])" "name_ok (lgp_Name web_log_pod)" "deploymentName shop_env web_log_pod \<noteq> ''.''"
    "CHR ''/'' \<notin> set (''evil'' @ fst (''current'', False) @ ce_stamp shop_env)" by code_simp+
  have log: "open_logs shop_env node_collector web_log_pod ''../../../evil'' (snd (''current'', False)) (shop_logs ''../../../evil'') = Inr ''abc''"
    by code_simp
  have fs: "ce_mkdirall shop_env = (\<lambda>_. None)" "ce_create shop_env = (\<lambda>_. None)" "ce_copy shop_env = (\<lambda>_ text. (text, None))"
    "ce_stamp shop_env = ''T''"
    by (simp_all add: shop_env_def)
  show ?thesis
    using collect_escapes [OF _ ps(1-4) _ log fs(1-3), of no_files] by (simp add: path_of_def fs(4))
qed

definition collect_engine :: engine where
  "collect_engine = (case NewEngine (shop_policy\<lparr>pc_AllowedCommandTypes := [TypeLogsCollect]\<rparr>) of Inr e \<Rightarrow> e | Inl _ \<Rightarrow> shop_engine)"

definition collect_command :: command where
  "collect_command = pods_command\<lparr>c_Payload := Some (JObj [(''namespace'', JStr ''shop''),
     (''s3'', JObj [(''bucket'', JStr ''b''), (''key'', JStr ''k''), (''access_key_id'', JStr ''i''), (''secret_access_key'', JStr ''s'')])])\<rparr>"

definition one_job :: collect_handler where
  "one_job = fst (collect_Handle (\<lambda>_. None) (collect_NewHandler collect_engine 1) collect_command pods_meta (0, 0))"


end
