(* ===== verification/Transport.thy ===== *)
theory Transport
  imports Command_Router Config
begin

text \<open>
  Kafka messages and their routing: \<open>internal/protoheaders/headers.go\<close> (the header record of the
  protobuf wire format and its map form), \<open>internal/protodispatch/dispatcher.go\<close> (protobuf handlers
  by message type) and \<open>internal/transport/transport.go\<close>, \<open>dual.go\<close> (the adapter that sends a message
  to the pending requests, to the JSON executor or to the protobuf dispatcher).

  The bytes of a message are an \<open>http_body\<close>: a JSON document or bytes that are not one. \<open>handled\<close> is
  the pair the adapter returns: \<open>Async\<close> is \<open>(nil, nil)\<close>.
\<close>

record kmsg =
  km_Topic :: string
  km_Key :: string
  km_Value :: http_body
  km_Headers :: "(string \<times> string) list"
  km_Partition :: int
  km_Offset :: int

section \<open>Headers of the protobuf wire format\<close>

record proto_headers =
  ph_MessageID :: string
  ph_CorrelationID :: string
  ph_Topic :: string
  ph_TopicForResponse :: string
  ph_Direction :: string
  ph_Addressee :: string
  ph_Sender :: string
  ph_MessageType :: string
  ph_RequestType :: string
  ph_Timestamp :: string
  ph_Zipped :: bool

abbreviation (input) KeyMessageID :: string where "KeyMessageID \<equiv> ''messageId''"
abbreviation (input) KeyCorrelationID :: string where "KeyCorrelationID \<equiv> ''correlationId''"
abbreviation (input) KeyTopic :: string where "KeyTopic \<equiv> ''topic''"
abbreviation (input) KeyTopicForResponse :: string where "KeyTopicForResponse \<equiv> ''topicForResponse''"
abbreviation (input) KeyDirection :: string where "KeyDirection \<equiv> ''direction''"
abbreviation (input) KeyAddressee :: string where "KeyAddressee \<equiv> ''addressee''"
abbreviation (input) KeySender :: string where "KeySender \<equiv> ''sender''"
abbreviation (input) KeyMessageType :: string where "KeyMessageType \<equiv> ''messageType''"
abbreviation (input) KeyRequestType :: string where "KeyRequestType \<equiv> ''requestType''"
abbreviation (input) KeyTimestamp :: string where "KeyTimestamp \<equiv> ''timestamp''"
abbreviation (input) KeyZipped :: string where "KeyZipped \<equiv> ''zipped''"
abbreviation (input) DirectionRequest :: string where "DirectionRequest \<equiv> ''REQUEST''"
abbreviation (input) DirectionResponse :: string where "DirectionResponse \<equiv> ''RESPONSE''"
abbreviation (input) AddresseeCore :: string where "AddresseeCore \<equiv> ''uamc-core''"

definition ToMap :: "proto_headers \<Rightarrow> (string, string) gomap" where
  "ToMap h =
     (let m = [(KeyMessageID, ph_MessageID h), (KeyCorrelationID, ph_CorrelationID h),
               (KeyTopic, ph_Topic h), (KeyTopicForResponse, ph_TopicForResponse h),
               (KeyDirection, ph_Direction h), (KeyAddressee, ph_Addressee h),
               (KeySender, ph_Sender h), (KeyMessageType, ph_MessageType h),
               (KeyRequestType, ph_RequestType h), (KeyTimestamp, ph_Timestamp h)]
      in gm_put KeyZipped (if ph_Zipped h then ''true'' else ''false'') m)"

text \<open>The closure \<open>get\<close>: per key the exact entry, else the first one equal up to case.\<close>

fun get_header :: "(string, string) gomap \<Rightarrow> string list \<Rightarrow> string" where
  "get_header m [] = []"
| "get_header m (k # ks) =
     (case gm_get m k of
        Some v \<Rightarrow> v
      | None \<Rightarrow> (case find (\<lambda>(mk, mv). EqualFold mk k) m of
                  Some (mk, mv) \<Rightarrow> mv
                | None \<Rightarrow> get_header m ks))"

definition FromMap :: "(string, string) gomap \<Rightarrow> proto_headers" where
  "FromMap m =
     \<lparr> ph_MessageID = get_header m [KeyMessageID, ''message_id''],
       ph_CorrelationID = get_header m [KeyCorrelationID, ''correlation_id'', ''correlationId''],
       ph_Topic = get_header m [KeyTopic],
       ph_TopicForResponse = get_header m [KeyTopicForResponse, ''topic_for_response''],
       ph_Direction = get_header m [KeyDirection],
       ph_Addressee = get_header m [KeyAddressee],
       ph_Sender = get_header m [KeySender],
       ph_MessageType = get_header m [KeyMessageType, ''message_type''],
       ph_RequestType = get_header m [KeyRequestType, ''request_type''],
       ph_Timestamp = get_header m [KeyTimestamp],
       ph_Zipped = EqualFold (get_header m [KeyZipped, ''zipped'']) ''true'' \<rparr>"

text \<open>\<open>strconv.FormatInt(n, 36)\<close>\<close>

definition digit36 :: "int \<Rightarrow> char" where
  "digit36 d = char_of (if d < 10 then 48 + d else 87 + d)"

function nat36 :: "int \<Rightarrow> string" where
  "nat36 n = (if n < 36 then [digit36 n] else nat36 (n div 36) @ [digit36 (n mod 36)])"
  by pat_completeness auto
termination
  by (relation "measure nat") auto

declare nat36.simps [simp del]

definition FormatInt36 :: "int \<Rightarrow> string" where
  "FormatInt36 n = (if n < 0 then CHR ''-'' # nat36 (- n) else nat36 n)"

text \<open>\<open>t1\<close> and \<open>t2\<close> are the two readings of \<open>time.Now().UnixNano()\<close>.\<close>

definition newUUID :: "int \<Rightarrow> int \<Rightarrow> string" where
  "newUUID t1 t2 =
     FormatInt36 t1 @ ''-'' @ FormatInt36 (sint (xor (word_of_int t2) (0x5deece66d :: 64 word)))"

text \<open>The four readings for the two ids, and the current time in RFC 3339 form.\<close>

definition NewRequest ::
  "int \<times> int \<Rightarrow> int \<times> int \<Rightarrow> string \<Rightarrow> string \<Rightarrow> string \<Rightarrow> string \<Rightarrow> string \<Rightarrow> string \<Rightarrow> proto_headers" where
  "NewRequest t u now sender messageType requestType topic topicForResponse =
     \<lparr> ph_MessageID = newUUID (fst t) (snd t), ph_CorrelationID = newUUID (fst u) (snd u),
       ph_Topic = topic, ph_TopicForResponse = topicForResponse, ph_Direction = DirectionRequest,
       ph_Addressee = AddresseeCore, ph_Sender = sender, ph_MessageType = messageType,
       ph_RequestType = requestType, ph_Timestamp = now, ph_Zipped = False \<rparr>"

section \<open>Dispatch of protobuf messages\<close>

type_synonym 's proto_handler = "'s \<Rightarrow> proto_headers \<Rightarrow> http_body \<Rightarrow> 's \<times> go_error option"
type_synonym 's dispatcher = "(string, 's proto_handler) gomap"

definition dispatcher_Register :: "string \<Rightarrow> 's proto_handler \<Rightarrow> 's dispatcher \<Rightarrow> 's dispatcher" where
  "dispatcher_Register messageType h d = gm_put messageType h d"

definition HandleProto ::
  "'s dispatcher \<Rightarrow> 's \<Rightarrow> (string, string) gomap \<Rightarrow> http_body \<Rightarrow> 's \<times> go_error option" where
  "HandleProto d s headers body =
     (let h = FromMap headers
      in case gm_get d (ph_MessageType h) of
           None \<Rightarrow> (s, Some (Errorf ''unknown messageType %q'' [AStr (ph_MessageType h)]))
         | Some fn \<Rightarrow> fn s h body)"

section \<open>The dual adapter\<close>

abbreviation (input) ModeJSON :: string where "ModeJSON \<equiv> ''json''"
abbreviation (input) ModeProtobuf :: string where "ModeProtobuf \<equiv> ''protobuf''"
abbreviation (input) ModeDual :: string where "ModeDual \<equiv> ''dual''"

type_synonym 's executor = "'s \<Rightarrow> command \<Rightarrow> request_meta \<Rightarrow> clock \<Rightarrow> 's \<times> handled"

record 's dual_adapter =
  d_mode :: string
  d_executor :: "'s executor option"
  d_proto :: "('s \<Rightarrow> (string, string) gomap \<Rightarrow> http_body \<Rightarrow> 's \<times> go_error option) option"
  d_responses :: "('s \<Rightarrow> (string, string) gomap \<Rightarrow> http_body \<Rightarrow> 's \<times> bool) option"

definition DetectModeFromConfig :: "kafka_config \<Rightarrow> string" where
  "DetectModeFromConfig cfg =
     (if ToLower (k_Mode cfg) = ModeProtobuf then ModeProtobuf
      else if ToLower (k_Mode cfg) = ModeDual then ModeDual else ModeJSON)"

definition RequestTopicForMode :: "kafka_config \<Rightarrow> string \<Rightarrow> string" where
  "RequestTopicForMode cfg clusterID =
     (if DetectModeFromConfig cfg = ModeProtobuf
      then ResolveTopic (k_InRequestTopicTemplate cfg) clusterID
      else k_RequestTopic cfg)"

definition ProtobufRequestTopic :: "kafka_config \<Rightarrow> string \<Rightarrow> string" where
  "ProtobufRequestTopic cfg clusterID = ResolveTopic (k_InRequestTopicTemplate cfg) clusterID"

definition headerMap :: "(string \<times> string) list \<Rightarrow> (string, string) gomap" where
  "headerMap hs = fold (\<lambda>(k, v) m. gm_put k v m) hs []"

fun headerValue :: "(string \<times> string) list \<Rightarrow> string \<Rightarrow> string" where
  "headerValue [] key = []"
| "headerValue ((k, v) # hs) key = (if k = key then v else headerValue hs key)"

definition probe :: "http_body \<Rightarrow> obj option" where
  "probe body =
     (case body of
        BodyRaw _ \<Rightarrow> None
      | BodyJson j \<Rightarrow> (case unmarshal_struct (Some j) of Inl _ \<Rightarrow> None | Inr kvs \<Rightarrow> Some kvs))"

definition looksLikeJSONCommand :: "http_body \<Rightarrow> (string, string) gomap \<Rightarrow> bool" where
  "looksLikeJSONCommand body headers =
     (case probe body of
        None \<Rightarrow> False
      | Some kvs \<Rightarrow>
          (if gm_get headers ''correlation_id'' \<noteq> None \<and> gm_get headers ''reply_topic'' \<noteq> None \<and>
              (case fld_str ''type'' kvs of None \<Rightarrow> False | Some ty \<Rightarrow> ty \<noteq> [])
           then True
           else case (fld_str ''schema_version'' kvs, fld_str ''type'' kvs) of
                  (Some sv, Some ty) \<Rightarrow> ty \<noteq> [] \<or> sv \<noteq> []
                | _ \<Rightarrow> False))"

definition msg_meta :: "kmsg \<Rightarrow> request_meta" where
  "msg_meta msg =
     \<lparr> m_CorrelationID = headerValue (km_Headers msg) ''correlation_id'',
       m_ReplyTopic = headerValue (km_Headers msg) ''reply_topic'',
       m_Partition = km_Partition msg, m_Offset = km_Offset msg \<rparr>"

definition unmarshal_command :: "http_body \<Rightarrow> go_error + command" where
  "unmarshal_command body =
     (case body of
        BodyRaw _ \<Rightarrow> Inl json_error
      | BodyJson j \<Rightarrow> sum_bind (unmarshal_struct (Some j)) (\<lambda>kvs. or_json_error (decode_command kvs)))"

definition dual_handleJSON :: "'s dual_adapter \<Rightarrow> 's \<Rightarrow> kmsg \<Rightarrow> clock \<Rightarrow> 's \<times> handled" where
  "dual_handleJSON d s msg t =
     (case d_executor d of
        None \<Rightarrow> (s, Async)
      | Some ex \<Rightarrow>
          (case unmarshal_command (km_Value msg) of
             Inl e \<Rightarrow> (s, Fail e)
           | Inr cmd \<Rightarrow> ex s cmd (msg_meta msg) t))"

definition dual_handleProto ::
  "'s dual_adapter \<Rightarrow> 's \<Rightarrow> (string, string) gomap \<Rightarrow> http_body \<Rightarrow> 's \<times> handled" where
  "dual_handleProto d s headers body =
     (case d_proto d of
        None \<Rightarrow> (s, Async)
      | Some p \<Rightarrow>
          (case p s headers body of
             (s', None) \<Rightarrow> (s', Async)
           | (s', Some e) \<Rightarrow> (s', Fail e)))"

definition dual_route :: "'s dual_adapter \<Rightarrow> 's \<Rightarrow> kmsg \<Rightarrow> clock \<Rightarrow> 's \<times> handled" where
  "dual_route d s msg t =
     (let headers = headerMap (km_Headers msg)
      in if d_mode d = ModeJSON then dual_handleJSON d s msg t
         else if d_mode d = ModeProtobuf then dual_handleProto d s headers (km_Value msg)
         else if looksLikeJSONCommand (km_Value msg) headers then dual_handleJSON d s msg t
         else if ph_MessageType (FromMap headers) \<noteq> [] \<or> ph_Direction (FromMap headers) \<noteq> []
         then dual_handleProto d s headers (km_Value msg)
         else dual_handleJSON d s msg t)"

definition dual_HandleMessage :: "'s dual_adapter \<Rightarrow> 's \<Rightarrow> kmsg \<Rightarrow> clock \<Rightarrow> 's \<times> handled" where
  "dual_HandleMessage d s msg t =
     (let headers = headerMap (km_Headers msg)
      in case d_responses d of
           Some sink \<Rightarrow>
             if ph_Direction (FromMap headers) = DirectionResponse then
               (case sink s headers (km_Value msg) of
                  (s', True) \<Rightarrow> (s', Async)
                | (s', False) \<Rightarrow> dual_route d s' msg t)
             else dual_route d s msg t
         | None \<Rightarrow> dual_route d s msg t)"

section \<open>Properties\<close>

lemma get_header_exact: "gm_get m k = Some v \<Longrightarrow> get_header m (k # ks) = v"
  by simp

lemma gm_get_ToMap:
  "gm_get (ToMap h) KeyMessageID = Some (ph_MessageID h)"
  "gm_get (ToMap h) KeyCorrelationID = Some (ph_CorrelationID h)"
  "gm_get (ToMap h) KeyTopic = Some (ph_Topic h)"
  "gm_get (ToMap h) KeyTopicForResponse = Some (ph_TopicForResponse h)"
  "gm_get (ToMap h) KeyDirection = Some (ph_Direction h)"
  "gm_get (ToMap h) KeyAddressee = Some (ph_Addressee h)"
  "gm_get (ToMap h) KeySender = Some (ph_Sender h)"
  "gm_get (ToMap h) KeyMessageType = Some (ph_MessageType h)"
  "gm_get (ToMap h) KeyRequestType = Some (ph_RequestType h)"
  "gm_get (ToMap h) KeyTimestamp = Some (ph_Timestamp h)"
  "gm_get (ToMap h) KeyZipped = Some (if ph_Zipped h then ''true'' else ''false'')"
  by (simp_all add: ToMap_def Let_def gm_get_Cons)

lemma gm_ok_ToMap: "gm_ok (ToMap h)"
  unfolding ToMap_def Let_def by (rule gm.ok_put) (simp add: gm_ok_def)

lemma EqualFold_bool: "EqualFold (if b then ''true'' else ''false'') ''true'' = b"
  by (cases b) (simp_all add: EqualFold_def ToLower_def)

text \<open>
  C38: the headers of the protobuf wire format survive the trip through a Kafka header map, in
  whatever order the map is iterated and whatever other entries it has gained on the way.
\<close>

theorem FromMap_ToMap:
  assumes "\<And>k v. gm_get (ToMap h) k = Some v \<Longrightarrow> gm_get m k = Some v"
  shows "FromMap m = h"
  using gm_get_ToMap [of h, THEN assms]
  by (simp add: FromMap_def EqualFold_bool)

definition demo_headers :: proto_headers where
  "demo_headers = NewRequest (1, 2) (3, 4) ''2026-01-01T00:00:00Z'' ''agent'' ''Ping'' ''ping'' ''out'' ''in''"

theorem FromMap_ToMap_witness:
  "FromMap ((''traceId'', ''42'') # rev (ToMap demo_headers)) = demo_headers"
proof (rule FromMap_ToMap)
  fix k v assume "gm_get (ToMap demo_headers) k = Some v"
  moreover have "gm_ok (ToMap demo_headers)" and "gm_get (ToMap demo_headers) ''traceId'' = None"
    by (rule gm_ok_ToMap) (simp add: ToMap_def Let_def gm_get_Cons)
  ultimately show "gm_get ((''traceId'', ''42'') # rev (ToMap demo_headers)) k = Some v"
    by (auto simp: gm_get_Cons gm_get_rev)
qed

lemma decode_command_type: "decode_command kvs = Some c \<Longrightarrow>
    fld_str ''type'' kvs = Some (c_Type c) \<and> fld_str ''schema_version'' kvs = Some (c_SchemaVersion c)"
  by (auto simp: decode_command_def bind_eq_Some_conv)

lemma unmarshal_command_looks:
  assumes "unmarshal_command body = Inr c" and "c_Type c \<noteq> []"
  shows "looksLikeJSONCommand body headers"
proof (cases body)
  case (BodyJson j)
  then obtain kvs where "unmarshal_struct (Some j) = Inr kvs" and "decode_command kvs = Some c"
    using assms(1) by (auto simp: unmarshal_command_def)
  then show ?thesis using assms(2) BodyJson decode_command_type [of kvs c]
    by (simp add: looksLikeJSONCommand_def probe_def)
qed (use assms in \<open>simp add: unmarshal_command_def\<close>)

text \<open>
  routing of the dual mode. A message that decodes to a command with a type reaches the JSON
  executor, with the ids of its headers, whatever protobuf headers it carries; a message whose
  bytes are not JSON and that names a message type or a direction reaches the protobuf dispatcher.
  Neither is offered to the pending requests unless its direction is a response.
\<close>

lemma dual_routing:
  assumes "d_mode d = ModeDual"
    and "ph_Direction (FromMap (headerMap (km_Headers msg))) \<noteq> DirectionResponse"
  shows "(unmarshal_command (km_Value msg) = Inr c \<and> c_Type c \<noteq> [] \<and> d_executor d = Some ex \<longrightarrow>
            dual_HandleMessage d s msg t = ex s c (msg_meta msg) t) \<and>
         (km_Value msg = BodyRaw bs \<and>
            ph_MessageType (FromMap (headerMap (km_Headers msg))) \<noteq> [] \<and> d_proto d = Some p \<longrightarrow>
            dual_HandleMessage d s msg t =
              map_prod id (\<lambda>e. case e of None \<Rightarrow> Async | Some e \<Rightarrow> Fail e)
                (p s (headerMap (km_Headers msg)) (km_Value msg)))"
proof -
  have r: "dual_HandleMessage d s msg t = dual_route d s msg t"
    using assms(2) by (simp add: dual_HandleMessage_def Let_def split: option.split)
  have "dual_route d s msg t = ex s c (msg_meta msg) t"
    if "unmarshal_command (km_Value msg) = Inr c" "c_Type c \<noteq> []" "d_executor d = Some ex"
    using assms(1) that unmarshal_command_looks [OF that(1,2)]
    by (simp add: dual_route_def Let_def dual_handleJSON_def)
  moreover have "\<not> looksLikeJSONCommand (BodyRaw bs) hs" for hs
    by (simp add: looksLikeJSONCommand_def probe_def)
  ultimately show ?thesis using assms(1)
    by (simp add: r dual_route_def Let_def dual_handleProto_def split: prod.split option.split)
qed

definition demo_msg :: kmsg where
  "demo_msg =
     \<lparr> km_Topic = ''in'', km_Key = [],
       km_Value = BodyJson (JObj [(''schema_version'', JStr ''v1''), (''command_id'', JStr ''c1''),
         (''type'', JStr ''cache.put''), (''issuer'', JStr ''core''), (''idempotency_key'', JStr ''k1''),
         (''issued_at'', JStr ''2026-01-01T00:00:00Z'')]),
       km_Headers = [(''correlation_id'', ''42''), (''reply_topic'', ''core.replies'')],
       km_Partition = 0, km_Offset = 7 \<rparr>"

definition demo_adapter :: "nat dual_adapter" where
  "demo_adapter =
     \<lparr> d_mode = ModeDual, d_executor = Some (\<lambda>n c m t. (Suc n, Async)), d_proto = None,
       d_responses = None \<rparr>"

lemma dual_routing_example: "dual_HandleMessage demo_adapter 0 demo_msg (0, 0) = (Suc 0, Async)"
proof -
  have m: "d_mode demo_adapter = ModeDual"
    and e: "d_executor demo_adapter = Some (\<lambda>n c m t. (Suc n, Async))"
    by (simp_all add: demo_adapter_def)
  have h: "ph_Direction (FromMap (headerMap (km_Headers demo_msg))) \<noteq> DirectionResponse"
    by code_simp
  have "case unmarshal_command (km_Value demo_msg) of Inl _ \<Rightarrow> False | Inr c \<Rightarrow> c_Type c \<noteq> []"
    by code_simp
  then obtain c where "unmarshal_command (km_Value demo_msg) = Inr c" and "c_Type c \<noteq> []"
    by (auto split: sum.splits)
  then show ?thesis using dual_routing [OF m h, of c _ 0 "(0, 0)"] e by blast
qed

end
