(* ===== verification/Core_Client.thy ===== *)
theory Core_Client
  imports Transport
begin

text \<open>
  Requests of the agent to the core: \<open>internal/coreclient/client.go\<close> (request and response over Kafka, matched
  by correlation id), \<open>internal/batcher/batcher.go\<close>, \<open>internal/keyedlock/synchronizer.go\<close>,
  \<open>internal/lifecycle/publisher.go\<close> and the publishing of a raw message by \<open>internal/kafka/client.go\<close>.

  \<open>gz\<close> and \<open>ungz\<close> are gzip compression of a body, which does not fail in memory, and its inverse, which does
  for bytes that are not compressed. A channel of capacity one is an optional value.
\<close>

section \<open>Raw messages (internal/kafka/client.go)\<close>

record raw_msg =
  rw_Topic :: string
  rw_Key :: string
  rw_Headers :: "(string, string) gomap"
  rw_Value :: http_body

definition PublishRaw :: "string \<Rightarrow> string \<Rightarrow> (string, string) gomap \<Rightarrow> http_body \<Rightarrow> raw_msg" where
  "PublishRaw topic key headers v = \<lparr> rw_Topic = topic, rw_Key = key, rw_Headers = headers, rw_Value = v \<rparr>"

section \<open>The client (internal/coreclient/client.go)\<close>

record pending_result =
  pr_headers :: "(string, string) gomap"
  pr_body :: http_body

record core_client =
  cc_responseTimeout :: gtime
  cc_outRequestTopic :: string
  cc_sender :: string
  cc_pending :: "(string, nat) gomap"
  cc_chans :: "pending_result option list"

definition core_New :: "string \<Rightarrow> string \<Rightarrow> gtime \<Rightarrow> core_client" where
  "core_New sender outRequestTopic responseTimeout =
     \<lparr> cc_responseTimeout = (if responseTimeout \<le> 0 then 10 * second else responseTimeout),
       cc_outRequestTopic = outRequestTopic, cc_sender = sender, cc_pending = [], cc_chans = [] \<rparr>"

definition HandleInboundResponse ::
  "core_client \<Rightarrow> (string, string) gomap \<Rightarrow> http_body \<Rightarrow> core_client \<times> bool" where
  "HandleInboundResponse c headers body =
     (let h = FromMap headers
      in if ph_Direction h \<noteq> DirectionResponse \<or> ph_CorrelationID h = [] then (c, False)
         else case gm_get (cc_pending c) (ph_CorrelationID h) of
                None \<Rightarrow> (c, False)
              | Some ch \<Rightarrow>
                  (case cc_chans c ! ch of
                     None \<Rightarrow> (c\<lparr> cc_chans := (cc_chans c)[ch := Some \<lparr> pr_headers = headers, pr_body = body \<rparr>] \<rparr>, True)
                   | Some _ \<Rightarrow> (c, True)))"

definition SendRequestVoid ::
  "(http_body \<Rightarrow> http_body) \<Rightarrow> core_client \<Rightarrow> (string, string) gomap \<Rightarrow> http_body \<Rightarrow> raw_msg" where
  "SendRequestVoid gz c headers body =
     (let h = FromMap headers;
          topic = (if ph_Topic h = [] then cc_outRequestTopic c else ph_Topic h);
          key = (if ph_CorrelationID h = [] then ph_MessageID h else ph_CorrelationID h)
      in if ph_Zipped h
         then PublishRaw topic key (gm_put KeyZipped ''true'' (ToMap (FromMap headers))) (gz body)
         else PublishRaw topic key headers body)"

text \<open>
  \<open>SendRequest\<close> up to its wait, the three ways its wait ends (receiving blocks on an empty channel), and
  the deferred removal of its entry.
\<close>

definition SendRequest_open ::
  "(http_body \<Rightarrow> http_body) \<Rightarrow> core_client \<Rightarrow> (string, string) gomap \<Rightarrow> http_body \<Rightarrow> go_error + core_client \<times> raw_msg" where
  "SendRequest_open gz c headers body =
     (let h = FromMap headers
      in if ph_CorrelationID h = [] then Inl (Errorf ''correlationId required'' [])
         else Inr (c\<lparr> cc_pending := gm_put (ph_CorrelationID h) (length (cc_chans c)) (cc_pending c),
                      cc_chans := cc_chans c @ [None] \<rparr>,
                   SendRequestVoid gz c headers body))"

datatype wake = CtxDone go_error | TimerFired | Received

definition unzip_result ::
  "(http_body \<Rightarrow> go_error + http_body) \<Rightarrow> pending_result \<Rightarrow> go_error + http_body \<times> (string, string) gomap" where
  "unzip_result ungz res =
     (if ph_Zipped (FromMap (pr_headers res))
      then sum_bind (ungz (pr_body res)) (\<lambda>b. Inr (b, pr_headers res))
      else Inr (pr_body res, pr_headers res))"

definition SendRequest_wake ::
  "(http_body \<Rightarrow> go_error + http_body) \<Rightarrow> core_client \<Rightarrow> string \<Rightarrow> nat \<Rightarrow> wake
     \<Rightarrow> (core_client \<times> (go_error + http_body \<times> (string, string) gomap)) option" where
  "SendRequest_wake ungz c corr ch w =
     (case w of
        CtxDone e \<Rightarrow> Some (c, Inl e)
      | TimerFired \<Rightarrow>
          Some (c, Inl (Errorf ''coreclient: response timeout after %s correlationId=%s''
                          [AInt (cc_responseTimeout c), AStr corr]))
      | Received \<Rightarrow>
          (case cc_chans c ! ch of
             None \<Rightarrow> None
           | Some res \<Rightarrow> Some (c\<lparr> cc_chans := (cc_chans c)[ch := None] \<rparr>, unzip_result ungz res)))"

definition SendRequest_leave :: "core_client \<Rightarrow> string \<Rightarrow> core_client" where
  "SendRequest_leave c corr = c\<lparr> cc_pending := gm_del corr (cc_pending c) \<rparr>"

section \<open>Concurrent requests\<close>

text \<open>
  A goroutine in \<open>SendRequest\<close>: its headers, its outcome, and whether it has left. Its number is that of its
  channel. \<open>cs_in\<close> and \<open>cs_sent\<close> are what came in and what was published.
\<close>

record core_request =
  rq_headers :: "(string, string) gomap"
  rq_out :: "(go_error + http_body \<times> (string, string) gomap) option"
  rq_left :: bool

definition rq_corr :: "core_request \<Rightarrow> string" where
  "rq_corr r = ph_CorrelationID (FromMap (rq_headers r))"

record core_system =
  cs_client :: core_client
  cs_reqs :: "core_request list"
  cs_in :: "((string, string) gomap \<times> http_body) list"
  cs_sent :: "raw_msg list"

definition core_init :: "core_system \<Rightarrow> bool" where
  "core_init s \<longleftrightarrow> (\<exists>sender topic timeout. s =
     \<lparr> cs_client = core_New sender topic timeout, cs_reqs = [], cs_in = [], cs_sent = [] \<rparr>)"

definition in_use :: "core_request list \<Rightarrow> string \<Rightarrow> bool" where
  "in_use rs corr = list_ex (\<lambda>r. \<not> rq_left r \<and> rq_corr r = corr) rs"

text \<open>With \<open>reuse\<close> a request may take the correlation id of one that has not left.\<close>

inductive core_step ::
  "(http_body \<Rightarrow> http_body) \<Rightarrow> (http_body \<Rightarrow> go_error + http_body) \<Rightarrow> bool \<Rightarrow> core_system \<Rightarrow> core_system \<Rightarrow> bool"
  for gz ungz reuse where
  core_sent: "core_step gz ungz reuse s
      (s\<lparr> cs_client := c, cs_sent := cs_sent s @ [msg],
          cs_reqs := cs_reqs s @ [\<lparr> rq_headers = headers, rq_out = None, rq_left = False \<rparr>] \<rparr>)"
    if "SendRequest_open gz (cs_client s) headers body = Inr (c, msg)"
      "reuse \<or> \<not> in_use (cs_reqs s) (ph_CorrelationID (FromMap headers))"
| core_unsent: "core_step gz ungz reuse s
      (s\<lparr> cs_client := c,
          cs_reqs := cs_reqs s @ [\<lparr> rq_headers = headers, rq_out = Some (Inl e), rq_left = False \<rparr>] \<rparr>)"
    if "SendRequest_open gz (cs_client s) headers body = Inr (c, msg)"
      "reuse \<or> \<not> in_use (cs_reqs s) (ph_CorrelationID (FromMap headers))"
| core_inbound: "core_step gz ungz reuse s (s\<lparr> cs_client := c, cs_in := cs_in s @ [(headers, body)] \<rparr>)"
    if "HandleInboundResponse (cs_client s) headers body = (c, ok)"
| core_woken: "core_step gz ungz reuse s
      (s\<lparr> cs_client := c, cs_reqs := (cs_reqs s)[i := (cs_reqs s ! i)\<lparr> rq_out := Some res \<rparr>] \<rparr>)"
    if "i < length (cs_reqs s)" "rq_out (cs_reqs s ! i) = None"
      "SendRequest_wake ungz (cs_client s) (rq_corr (cs_reqs s ! i)) i w = Some (c, res)"
| core_left: "core_step gz ungz reuse s
      (s\<lparr> cs_client := SendRequest_leave (cs_client s) (rq_corr (cs_reqs s ! i)),
          cs_reqs := (cs_reqs s)[i := (cs_reqs s ! i)\<lparr> rq_left := True \<rparr>] \<rparr>)"
    if "i < length (cs_reqs s)" "rq_out (cs_reqs s ! i) \<noteq> None" "\<not> rq_left (cs_reqs s ! i)"

section \<open>Batches (internal/batcher/batcher.go)\<close>

text \<open>
  \<open>bt_flushed\<close> are the batches handed to their goroutines, in the order of the hand over. A timer that was
  stopped too late still fires.
\<close>

record 'a batcher =
  bt_maxSize :: int
  bt_timeout :: gtime
  bt_buf :: "'a list"
  bt_timer :: bool
  bt_closed :: bool
  bt_flushed :: "'a list list"

definition batcher_New :: "int \<Rightarrow> gtime \<Rightarrow> 'a batcher" where
  "batcher_New maxSize timeout =
     \<lparr> bt_maxSize = (if maxSize < 1 then 1 else maxSize), bt_timeout = timeout, bt_buf = [], bt_timer = False,
       bt_closed = False, bt_flushed = [] \<rparr>"

definition flushLocked :: "'a batcher \<Rightarrow> 'a batcher" where
  "flushLocked b =
     (if bt_buf b = [] then b
      else b\<lparr> bt_flushed := bt_flushed b @ [bt_buf b], bt_buf := [], bt_timer := False \<rparr>)"

definition resetTimerLocked :: "'a batcher \<Rightarrow> 'a batcher" where
  "resetTimerLocked b = b\<lparr> bt_timer := True \<rparr>"

definition batcher_fired :: "'a batcher \<Rightarrow> 'a batcher" where
  "batcher_fired b = (if bt_closed b \<or> bt_buf b = [] then b else flushLocked b)"

definition batcher_Add :: "'a \<Rightarrow> 'a batcher \<Rightarrow> 'a batcher \<times> go_error option" where
  "batcher_Add item b =
     (if bt_closed b then (b, Some (LibErr ''context canceled''))
      else let b = b\<lparr> bt_buf := bt_buf b @ [item] \<rparr>;
               b = (if length (bt_buf b) = 1 \<and> bt_timeout b > 0 then resetTimerLocked b else b)
           in if int (length (bt_buf b)) \<ge> bt_maxSize b then (flushLocked b, None) else (b, None))"

definition batcher_Flush :: "'a batcher \<Rightarrow> 'a batcher" where
  "batcher_Flush b = flushLocked b"

definition batcher_Close :: "'a batcher \<Rightarrow> 'a batcher" where
  "batcher_Close b = flushLocked (b\<lparr> bt_closed := True, bt_timer := False \<rparr>)"

datatype 'a batcher_call = BAdd 'a | BFlush | BFire | BClose

fun batcher_op :: "'a batcher_call \<Rightarrow> 'a batcher \<Rightarrow> 'a batcher" where
  "batcher_op (BAdd x) b = fst (batcher_Add x b)"
| "batcher_op BFlush b = batcher_Flush b"
| "batcher_op BFire b = batcher_fired b"
| "batcher_op BClose b = batcher_Close b"

text \<open>The items added before the batcher was closed.\<close>

fun accepted :: "'a batcher_call list \<Rightarrow> 'a list" where
  "accepted [] = []"
| "accepted (BAdd x # ops) = x # accepted ops"
| "accepted (BClose # ops) = []"
| "accepted (BFlush # ops) = accepted ops"
| "accepted (BFire # ops) = accepted ops"

section \<open>Locks by key (internal/keyedlock/synchronizer.go)\<close>

text \<open>A mutex is its number; taking a held one blocks.\<close>

record synchronizer =
  sy_locks :: "(string, nat) gomap"
  sy_held :: "nat list"

definition sync_New :: synchronizer where
  "sync_New = \<lparr> sy_locks = [], sy_held = [] \<rparr>"

definition lockFor :: "string \<Rightarrow> synchronizer \<Rightarrow> synchronizer \<times> nat" where
  "lockFor key s =
     (case gm_get (sy_locks s) key of
        Some m \<Rightarrow> (s, m)
      | None \<Rightarrow> let m = length (sy_locks s) in (s\<lparr> sy_locks := gm_put key m (sy_locks s) \<rparr>, m))"

definition sync_Lock :: "string \<Rightarrow> synchronizer \<Rightarrow> synchronizer option" where
  "sync_Lock key s =
     (case lockFor key s of
        (s, m) \<Rightarrow> if m \<in> set (sy_held s) then None else Some (s\<lparr> sy_held := m # sy_held s \<rparr>))"

definition sync_Unlock :: "string \<Rightarrow> synchronizer \<Rightarrow> synchronizer option" where
  "sync_Unlock key s =
     (case lockFor key s of
        (s, m) \<Rightarrow> if m \<in> set (sy_held s) then Some (s\<lparr> sy_held := removeAll m (sy_held s) \<rparr>) else None)"

definition sync_Do :: "string \<Rightarrow> ('s \<Rightarrow> 's \<times> go_error option) \<Rightarrow> synchronizer \<times> 's \<Rightarrow> ((synchronizer \<times> 's) \<times> go_error option) option" where
  "sync_Do key f p =
     (case sync_Lock key (fst p) of
        None \<Rightarrow> None
      | Some s \<Rightarrow>
          (case f (snd p) of
             (x, e) \<Rightarrow> (case sync_Unlock key s of None \<Rightarrow> None | Some s \<Rightarrow> Some ((s, x), e))))"

section \<open>Lifecycle events (internal/lifecycle/publisher.go)\<close>

record lifecycle_event =
  le_SchemaVersion :: string
  le_EventType :: string
  le_ClusterID :: string
  le_AgentInstanceID :: string
  le_AgentImplementation :: string
  le_LogsBackend :: string
  le_Leader :: bool
  le_ObservedAt :: gtime

text \<open>What goes out: the topic, the key and the document.\<close>

type_synonym lifecycle_msg = "string \<times> string \<times> lifecycle_event"

definition publishEvent ::
  "string \<Rightarrow> gtime \<Rightarrow> string \<Rightarrow> string \<Rightarrow> string \<Rightarrow> string \<Rightarrow> string \<Rightarrow> bool \<Rightarrow> lifecycle_msg" where
  "publishEvent topic now eventType clusterID instanceID implementation logsBackend leader =
     (topic, clusterID,
      \<lparr> le_SchemaVersion = ''v1'', le_EventType = eventType, le_ClusterID = clusterID,
        le_AgentInstanceID = instanceID, le_AgentImplementation = implementation, le_LogsBackend = logsBackend,
        le_Leader = leader, le_ObservedAt = now \<rparr>)"

definition PublishStarted ::
  "string \<Rightarrow> gtime \<Rightarrow> string \<Rightarrow> string \<Rightarrow> string \<Rightarrow> string \<Rightarrow> bool \<Rightarrow> lifecycle_msg" where
  "PublishStarted topic now clusterID instanceID implementation logsBackend leader =
     publishEvent topic now ''agent.started'' clusterID instanceID implementation logsBackend leader"

definition PublishLeaderLost :: "string \<Rightarrow> gtime \<Rightarrow> string \<Rightarrow> string \<Rightarrow> string \<Rightarrow> string \<Rightarrow> lifecycle_msg" where
  "PublishLeaderLost topic now clusterID instanceID implementation logsBackend =
     publishEvent topic now ''agent.leader.changed'' clusterID instanceID implementation logsBackend False"

section \<open>Batches keep every item\<close>

lemma flushLocked_parts [simp]:
  "bt_buf (flushLocked b) = []" "concat (bt_flushed (flushLocked b)) = concat (bt_flushed b) @ bt_buf b"
  "bt_maxSize (flushLocked b) = bt_maxSize b" "bt_timeout (flushLocked b) = bt_timeout b"
  "bt_closed (flushLocked b) = bt_closed b"
  "set (bt_flushed (flushLocked b)) = set (bt_flushed b) \<union> (if bt_buf b = [] then {} else {bt_buf b})"
  by (auto simp: flushLocked_def)

definition batcher_ok :: "'a batcher \<Rightarrow> bool" where
  "batcher_ok b \<longleftrightarrow>
     1 \<le> bt_maxSize b \<and> int (length (bt_buf b)) < bt_maxSize b \<and>
     (\<forall>x \<in> set (bt_flushed b). x \<noteq> [] \<and> int (length x) \<le> bt_maxSize b) \<and>
     (bt_buf b \<noteq> [] \<longrightarrow> \<not> bt_closed b \<and> (0 < bt_timeout b \<longrightarrow> bt_timer b))"

lemma batcher_ok_op: "batcher_ok b \<Longrightarrow> batcher_ok (batcher_op x b)"
  by (cases x)
     (auto simp: batcher_ok_def batcher_Add_def batcher_Flush_def batcher_Close_def batcher_fired_def resetTimerLocked_def Let_def)

lemma batcher_op_same [simp]:
  "bt_maxSize (batcher_op x b) = bt_maxSize b" "bt_timeout (batcher_op x b) = bt_timeout b"
  by (cases x; simp add: batcher_Add_def batcher_Flush_def batcher_Close_def batcher_fired_def resetTimerLocked_def Let_def)+

lemma batcher_kept:
  "concat (bt_flushed (fold batcher_op ops b)) @ bt_buf (fold batcher_op ops b) =
     concat (bt_flushed b) @ bt_buf b @ (if bt_closed b then [] else accepted ops)"
proof (induction ops arbitrary: b)
  case (Cons x ops)
  then show ?case
    by (cases x)
       (auto simp: batcher_Add_def batcher_Flush_def batcher_Close_def batcher_fired_def resetTimerLocked_def Let_def)
qed simp


text \<open>
  C22: A batcher loses nothing and reorders nothing. After any sequence of adds, flushes, timer firings and
  closings of a new batcher, the batches handed over followed by the buffer are the items added before it
  was closed, in order; each batch has between one item and the maximum (one, if the maximum is below it);
  what is buffered is less than a batch, belongs to a batcher that is open and, with a time out, whose timer
  is armed, so a closed batcher has handed over everything.
\<close>

theorem batcher_keeps_all:
  "let b = fold batcher_op ops (batcher_New n timeout)
   in concat (bt_flushed b) @ bt_buf b = accepted ops \<and>
      list_all (\<lambda>x. x \<noteq> [] \<and> int (length x) \<le> max 1 n) (bt_flushed b) \<and> int (length (bt_buf b)) < max 1 n \<and>
      (if bt_buf b = [] then True else \<not> bt_closed b \<and> (timeout \<le> 0 \<or> bt_timer b))"
proof -
  let ?b = "fold batcher_op ops (batcher_New n timeout)"
  have same: "bt_maxSize (fold batcher_op ops b) = bt_maxSize b" "bt_timeout (fold batcher_op ops b) = bt_timeout b"
    "batcher_ok b \<Longrightarrow> batcher_ok (fold batcher_op ops b)"
    for b :: "'a batcher" by (induction ops arbitrary: b) (simp_all add: batcher_ok_op)
  have n: "bt_maxSize ?b = max 1 n" "bt_timeout ?b = timeout"
    by (simp_all add: same batcher_New_def)
  have "batcher_ok ?b" by (rule same) (simp add: batcher_ok_def batcher_New_def)
  moreover have "concat (bt_flushed ?b) @ bt_buf ?b = accepted ops"
    unfolding batcher_kept by (simp add: batcher_New_def)
  ultimately show ?thesis
    unfolding batcher_ok_def n Let_def list_all_iff by (auto simp: not_less)
qed

section \<open>Responses find their request\<close>

definition delivered :: "((string, string) gomap \<times> http_body) list \<Rightarrow> string \<Rightarrow> pending_result \<Rightarrow> bool" where
  "delivered ins corr pr \<longleftrightarrow>
     (pr_headers pr, pr_body pr) \<in> set ins \<and> ph_Direction (FromMap (pr_headers pr)) = DirectionResponse \<and>
     ph_CorrelationID (FromMap (pr_headers pr)) = corr"

definition req_inv ::
  "(http_body \<Rightarrow> go_error + http_body) \<Rightarrow> ((string, string) gomap \<times> http_body) list \<Rightarrow> core_request
     \<Rightarrow> pending_result option \<Rightarrow> bool" where
  "req_inv ungz ins r ch \<longleftrightarrow>
     rq_corr r \<noteq> [] \<and> (rq_left r \<longrightarrow> rq_out r \<noteq> None) \<and>
     (\<forall>pr. ch = Some pr \<longrightarrow> delivered ins (rq_corr r) pr) \<and>
     (\<forall>x. rq_out r = Some (Inr x) \<longrightarrow> (\<exists>pr. delivered ins (rq_corr r) pr \<and> unzip_result ungz pr = Inr x))"

definition entry_of :: "core_request list \<Rightarrow> string \<Rightarrow> nat \<Rightarrow> bool" where
  "entry_of rs k ch \<longleftrightarrow> ch < length rs \<and> rq_corr (rs ! ch) = k \<and> \<not> rq_left (rs ! ch)"

definition table_sound :: "(string, nat) gomap \<Rightarrow> core_request list \<Rightarrow> bool" where
  "table_sound p rs \<longleftrightarrow> (\<forall>k ch. gm_get p k = Some ch \<longrightarrow> entry_of rs k ch)"

definition table_complete :: "(string, nat) gomap \<Rightarrow> core_request list \<Rightarrow> bool" where
  "table_complete p rs \<longleftrightarrow> (\<forall>k ch. entry_of rs k ch \<longrightarrow> gm_get p k = Some ch)"

definition core_inv :: "(http_body \<Rightarrow> go_error + http_body) \<Rightarrow> bool \<Rightarrow> core_system \<Rightarrow> bool" where
  "core_inv ungz reuse s \<longleftrightarrow>
     list_all2 (req_inv ungz (cs_in s)) (cs_reqs s) (cc_chans (cs_client s)) \<and>
     table_sound (cc_pending (cs_client s)) (cs_reqs s) \<and>
     (\<not> reuse \<longrightarrow> table_complete (cc_pending (cs_client s)) (cs_reqs s))"

lemma in_use_iff: "in_use rs k \<longleftrightarrow> (\<exists>i. entry_of rs k i)"
  unfolding in_use_def list_ex_length entry_of_def by blast

lemma entry_of_append: "entry_of (rs @ [r]) k ch \<longleftrightarrow>
    entry_of rs k ch \<or> ch = length rs \<and> rq_corr r = k \<and> \<not> rq_left r"
  by (auto simp: entry_of_def nth_append)

lemma entry_of_update:
  assumes "i < length rs" and "rq_corr r = rq_corr (rs ! i)"
  shows "entry_of (rs[i := r]) k ch \<longleftrightarrow>
    (if ch = i then rq_corr r = k \<and> \<not> rq_left r else entry_of rs k ch)"
  using assms by (auto simp: entry_of_def)

lemma rq_corr_parts [simp]:
  "rq_corr (r\<lparr> rq_out := x \<rparr>) = rq_corr r" "rq_corr (r\<lparr> rq_left := b \<rparr>) = rq_corr r"
  "rq_corr \<lparr> rq_headers = h, rq_out = x, rq_left = b \<rparr> = ph_CorrelationID (FromMap h)"
  by (simp_all add: rq_corr_def)

lemma core_inv_open:
  assumes "core_inv ungz reuse s" and "SendRequest_open gz (cs_client s) headers body = Inr (c, msg)"
    and "reuse \<or> \<not> in_use (cs_reqs s) (ph_CorrelationID (FromMap headers))"
    and "\<And>r. out \<noteq> Some (Inr r)"
  shows "core_inv ungz reuse
    (s\<lparr> cs_client := c, cs_sent := sent, cs_reqs := cs_reqs s @ [\<lparr> rq_headers = headers, rq_out = out, rq_left = False \<rparr>] \<rparr>)"
proof -
  let ?k = "ph_CorrelationID (FromMap headers)" and ?r = "\<lparr> rq_headers = headers, rq_out = out, rq_left = False \<rparr>"
  have len: "length (cc_chans (cs_client s)) = length (cs_reqs s)"
    using assms(1) list_all2_lengthD unfolding core_inv_def by metis
  have c: "?k \<noteq> []" "cc_pending c = gm_put ?k (length (cs_reqs s)) (cc_pending (cs_client s))"
    "cc_chans c = cc_chans (cs_client s) @ [None]"
    using assms(2) len by (auto simp: SendRequest_open_def Let_def split: if_splits)
  have "req_inv ungz (cs_in s) ?r None" using c(1) assms(4) by (simp add: req_inv_def)
  then have "list_all2 (req_inv ungz (cs_in s)) (cs_reqs s @ [?r]) (cc_chans c)"
    using assms(1) unfolding core_inv_def c by (intro list_all2_appendI) simp_all
  moreover have "table_sound (cc_pending c) (cs_reqs s @ [?r])"
    using assms(1) unfolding core_inv_def table_sound_def by (simp add: c entry_of_append)
  moreover have "\<not> reuse \<Longrightarrow> table_complete (cc_pending c) (cs_reqs s @ [?r])"
    using assms(1,3) unfolding core_inv_def in_use_iff table_complete_def by (simp add: c entry_of_append)
  ultimately show ?thesis by (simp add: core_inv_def)
qed

lemma delivered_mono: "delivered ins k pr \<Longrightarrow> delivered (ins @ new) k pr"
  by (simp add: delivered_def)

lemma req_inv_mono: "req_inv ungz ins r ch \<Longrightarrow> req_inv ungz (ins @ new) r ch"
  using delivered_mono [of ins _ _ new] unfolding req_inv_def by blast

lemma inbound_cases:
  assumes "HandleInboundResponse c headers body = (c', ok)"
  obtains "c' = c"
  | ch where "c' = c\<lparr> cc_chans := (cc_chans c)[ch := Some \<lparr> pr_headers = headers, pr_body = body \<rparr>] \<rparr>"
      "gm_get (cc_pending c) (ph_CorrelationID (FromMap headers)) = Some ch" "ph_Direction (FromMap headers) = DirectionResponse"
proof (cases "ph_Direction (FromMap headers) = DirectionResponse \<and> ph_CorrelationID (FromMap headers) \<noteq> []")
  case True
  show thesis
  proof (cases "gm_get (cc_pending c) (ph_CorrelationID (FromMap headers))")
    case None
    then show thesis using assms True that(1) by (simp add: HandleInboundResponse_def)
  next
    case (Some ch)
    show thesis
    proof (cases "cc_chans c ! ch")
      case None
      with Some assms True show thesis by (intro that(2) [of ch]) (simp_all add: HandleInboundResponse_def)
    qed (use Some assms True that(1) in \<open>simp add: HandleInboundResponse_def\<close>)
  qed
next
  case False
  then show thesis using assms that(1) by (auto simp: HandleInboundResponse_def Let_def)
qed

lemma core_inv_inbound:
  assumes "core_inv ungz reuse s" and "HandleInboundResponse (cs_client s) headers body = (c, ok)"
  shows "core_inv ungz reuse (s\<lparr> cs_client := c, cs_in := cs_in s @ [(headers, body)] \<rparr>)"
proof -
  let ?ins = "cs_in s @ [(headers, body)]" and ?pr = "\<lparr> pr_headers = headers, pr_body = body \<rparr>"
  have all: "list_all2 (req_inv ungz ?ins) (cs_reqs s) (cc_chans (cs_client s))"
    using assms(1) [unfolded core_inv_def, THEN conjunct1] by (rule list_all2_mono) (rule req_inv_mono)
  from assms(2) show ?thesis
  proof (cases rule: inbound_cases)
    case 1
    then show ?thesis using assms(1) all by (simp add: core_inv_def)
  next
    case (2 ch)
    then have e: "entry_of (cs_reqs s) (ph_CorrelationID (FromMap headers)) ch"
      using assms(1) unfolding core_inv_def table_sound_def by blast
    have "req_inv ungz ?ins (cs_reqs s ! ch) (Some ?pr)"
      using list_all2_nthD [OF all, of ch] e 2(3) by (simp add: entry_of_def req_inv_def delivered_def)
    then have "list_all2 (req_inv ungz ?ins) ((cs_reqs s)[ch := cs_reqs s ! ch]) ((cc_chans (cs_client s))[ch := Some ?pr])"
      using all by (rule list_all2_update_cong [rotated])
    then show ?thesis using assms(1) 2(1) by (simp add: core_inv_def)
  qed
qed

lemma req_inv_failed: "req_inv ungz ins r ch \<Longrightarrow> req_inv ungz ins (r\<lparr> rq_out := Some (Inl e) \<rparr>) ch"
  by (simp add: req_inv_def)

lemma req_inv_received:
  "req_inv ungz ins r (Some pr) \<Longrightarrow> req_inv ungz ins (r\<lparr> rq_out := Some (unzip_result ungz pr) \<rparr>) None"
  unfolding req_inv_def by auto

lemma wake_cases:
  assumes "SendRequest_wake ungz c k i w = Some (c', res)"
  obtains (failed) e where "c' = c" "res = Inl e"
  | (received) pr where "cc_chans c ! i = Some pr" "c' = c\<lparr> cc_chans := (cc_chans c)[i := None] \<rparr>" "res = unzip_result ungz pr"
  using assms by (cases w; cases "cc_chans c ! i") (auto simp: SendRequest_wake_def)

lemma core_inv_woken:
  assumes "core_inv ungz reuse s" and "i < length (cs_reqs s)"
    and "SendRequest_wake ungz (cs_client s) (rq_corr (cs_reqs s ! i)) i w = Some (c, res)"
  shows "core_inv ungz reuse
    (s\<lparr> cs_client := c, cs_reqs := (cs_reqs s)[i := (cs_reqs s ! i)\<lparr> rq_out := Some res \<rparr>] \<rparr>)"
proof -
  let ?chans = "cc_chans (cs_client s)"
  have all: "list_all2 (req_inv ungz (cs_in s)) (cs_reqs s) ?chans" using assms(1) by (simp add: core_inv_def)
  note i = list_all2_nthD [OF all assms(2)]
  obtain x where x: "cc_chans c = ?chans[i := x]" "cc_pending c = cc_pending (cs_client s)"
    "req_inv ungz (cs_in s) ((cs_reqs s ! i)\<lparr> rq_out := Some res \<rparr>) x"
    using assms(3)
  proof (cases rule: wake_cases)
    case (failed e)
    then show thesis using req_inv_failed [OF i] by (intro that [of "?chans ! i"]) simp_all
  next
    case (received pr)
    then show thesis using req_inv_received [OF i [unfolded received(1)]] by (intro that [of None]) simp_all
  qed
  have "entry_of ((cs_reqs s)[i := (cs_reqs s ! i)\<lparr> rq_out := Some res \<rparr>]) = entry_of (cs_reqs s)"
    using assms(2) by (auto simp: fun_eq_iff entry_of_def nth_list_update)
  then have "table_sound p ((cs_reqs s)[i := (cs_reqs s ! i)\<lparr> rq_out := Some res \<rparr>]) = table_sound p (cs_reqs s)"
    "table_complete p ((cs_reqs s)[i := (cs_reqs s ! i)\<lparr> rq_out := Some res \<rparr>]) = table_complete p (cs_reqs s)" for p
    unfolding table_sound_def table_complete_def by simp_all
  then show ?thesis
    using assms(1) list_all2_update_cong [OF all x(3), of i] x(1,2) by (simp add: core_inv_def)
qed

lemma core_inv_left:
  assumes "core_inv ungz reuse s" and "i < length (cs_reqs s)" "rq_out (cs_reqs s ! i) \<noteq> None" "\<not> rq_left (cs_reqs s ! i)"
  shows "core_inv ungz reuse
      (s\<lparr> cs_client := SendRequest_leave (cs_client s) (rq_corr (cs_reqs s ! i)),
          cs_reqs := (cs_reqs s)[i := (cs_reqs s ! i)\<lparr> rq_left := True \<rparr>] \<rparr>)"
proof -
  let ?chans = "cc_chans (cs_client s)" and ?r = "(cs_reqs s ! i)\<lparr> rq_left := True \<rparr>"
  have all: "list_all2 (req_inv ungz (cs_in s)) (cs_reqs s) ?chans" using assms(1) by (simp add: core_inv_def)
  then have "req_inv ungz (cs_in s) ?r (?chans ! i)"
    using list_all2_nthD [OF all, of i] assms(2,3) by (auto simp: req_inv_def)
  from list_all2_update_cong [OF all this, of i]
  have "list_all2 (req_inv ungz (cs_in s)) ((cs_reqs s)[i := ?r]) ?chans" by simp
  moreover have e: "entry_of ((cs_reqs s)[i := ?r]) k ch \<longleftrightarrow> ch \<noteq> i \<and> entry_of (cs_reqs s) k ch" for k ch
    using assms(2) by (simp add: entry_of_update)
  have "table_sound (gm_del (rq_corr (cs_reqs s ! i)) (cc_pending (cs_client s))) ((cs_reqs s)[i := ?r])"
    using assms(1) unfolding core_inv_def table_sound_def e by (auto simp: entry_of_def)
  moreover have "table_complete (gm_del (rq_corr (cs_reqs s ! i)) (cc_pending (cs_client s))) ((cs_reqs s)[i := ?r])"
    if "\<not> reuse"
  proof -
    have t: "entry_of (cs_reqs s) k ch \<Longrightarrow> gm_get (cc_pending (cs_client s)) k = Some ch" for k ch
      using assms(1) that unfolding core_inv_def table_complete_def by blast
    have "entry_of (cs_reqs s) (rq_corr (cs_reqs s ! i)) i" using assms by (simp add: entry_of_def)
    from t [OF this] show ?thesis unfolding table_complete_def e by (auto dest: t)
  qed
  ultimately show ?thesis by (simp add: core_inv_def SendRequest_leave_def)
qed

lemma core_reachable_inv: "reachable core_init (core_step gz ungz reuse) s \<Longrightarrow> core_inv ungz reuse s"
proof (erule reachable_invariant)
  show "core_init s \<Longrightarrow> core_inv ungz reuse s" for s
    by (auto simp: core_init_def core_inv_def core_New_def table_sound_def table_complete_def entry_of_def)
  show "core_inv ungz reuse s'" if "core_inv ungz reuse s" "core_step gz ungz reuse s s'" for s s'
    using that(2,1)
  proof cases
    case (core_sent headers body c msg)
    then show ?thesis using core_inv_open [OF that(1) core_sent(2,3), of None] by simp
  next
    case (core_unsent headers body c msg e)
    then show ?thesis using core_inv_open [OF that(1) core_unsent(2,3), of "Some (Inl e)" "cs_sent s"] by simp
  qed (blast intro: core_inv_inbound core_inv_woken core_inv_left)+
qed

lemma response_delivered:
  assumes "core_inv ungz False s" and "i < length (cs_reqs s)" and "rq_out (cs_reqs s ! i) = None"
    and "cc_chans (cs_client s) ! i = None" and "ph_Direction (FromMap h) = DirectionResponse"
    and "ph_CorrelationID (FromMap h) = rq_corr (cs_reqs s ! i)"
  shows "\<exists>c. HandleInboundResponse (cs_client s) h b = (c, True) \<and>
    SendRequest_wake ungz c (rq_corr (cs_reqs s ! i)) i Received =
      Some (cs_client s, unzip_result ungz \<lparr> pr_headers = h, pr_body = b \<rparr>)"
proof -
  let ?chans = "cc_chans (cs_client s)"
  have all: "list_all2 (req_inv ungz (cs_in s)) (cs_reqs s) ?chans" using assms(1) by (simp add: core_inv_def)
  note i = list_all2_nthD [OF all assms(2)]
  have len: "i < length ?chans" using list_all2_lengthD [OF all] assms(2) by simp
  have "entry_of (cs_reqs s) (rq_corr (cs_reqs s ! i)) i" "rq_corr (cs_reqs s ! i) \<noteq> []"
    using i assms(2,3) by (auto simp: req_inv_def entry_of_def)
  then have "gm_get (cc_pending (cs_client s)) (rq_corr (cs_reqs s ! i)) = Some i"
    using assms(1) unfolding core_inv_def table_complete_def by blast
  moreover have "?chans[i := None] = ?chans" using assms(4) list_update_id [of ?chans i] by simp
  ultimately show ?thesis
    using assms(4-6) len \<open>rq_corr (cs_reqs s ! i) \<noteq> []\<close>
    by (simp add: HandleInboundResponse_def SendRequest_wake_def)
qed


definition core_demo :: core_system where
  "core_demo =
     \<lparr> cs_client = (core_New ''c1'' ''core.in'' 0)\<lparr> cc_pending := [(''x'', 0)], cc_chans := [None] \<rparr>,
       cs_reqs = [\<lparr> rq_headers = [(''correlationId'', ''x'')], rq_out = None, rq_left = False \<rparr>],
       cs_in = [], cs_sent = [PublishRaw ''core.in'' ''x'' [(''correlationId'', ''x'')] (BodyRaw [])] \<rparr>"

lemma core_demo_reachable: "reachable core_init (core_step (\<lambda>b. b) Inr False) core_demo"
proof -
  let ?s = "\<lparr> cs_client = core_New ''c1'' ''core.in'' 0, cs_reqs = [], cs_in = [], cs_sent = [] \<rparr>"
  let ?h = "[(''correlationId'', ''x'')]"
  have "SendRequest_open (\<lambda>b. b) (cs_client ?s) ?h (BodyRaw []) =
      Inr ((core_New ''c1'' ''core.in'' 0)\<lparr> cc_pending := [(''x'', 0)], cc_chans := [None] \<rparr>,
           PublishRaw ''core.in'' ''x'' ?h (BodyRaw []))" by code_simp
  from core_step.core_sent [of "\<lambda>b. b" ?s, OF this, of False Inr]
  have "core_step (\<lambda>b. b) Inr False ?s core_demo" by (simp add: core_demo_def in_use_def)
  moreover have "reachable core_init (core_step (\<lambda>b. b) Inr False) ?s"
    by (rule reach_init) (auto simp: core_init_def)
  ultimately show ?thesis by (rule reach_step [rotated])
qed


end
