(* ===== verification/Kafka.thy ===== *)
theory Kafka
  imports Transport Policy_Engine "HOL-Library.Sublist"
begin

text \<open>
  The Kafka side of the agent: \<open>internal/kafka/tls.go\<close> (security modes), \<open>client.go\<close> (decoding of a
  request, publication of a reply), \<open>guard.go\<close> (policy check of a request) and \<open>processor.go\<close> (the loop
  that consumes, executes, publishes and commits).

  The broker is the parameter \<open>io\<close>: the result of writing a message and of committing one while one
  request is processed. What the processor does is the list of its effects, in order. \<open>tp\<close> holds
  the two instants the processor reads, \<open>te\<close> those of the executor.
\<close>

section \<open>Security modes (internal/kafka/tls.go)\<close>

abbreviation (input) SecurityPlaintext :: string where "SecurityPlaintext \<equiv> ''plaintext''"
abbreviation (input) SecurityTLS :: string where "SecurityTLS \<equiv> ''tls''"
abbreviation (input) SecurityMTLS :: string where "SecurityMTLS \<equiv> ''mtls''"

definition ResolveSecurityMode :: "kafka_config \<Rightarrow> string" where
  "ResolveSecurityMode cfg =
     (if k_SecurityMode cfg \<noteq> [] then k_SecurityMode cfg
      else if \<not> t_Enabled (k_TLS cfg) then SecurityPlaintext
      else if t_CertFile (k_TLS cfg) \<noteq> [] \<and> t_KeyFile (k_TLS cfg) \<noteq> [] then SecurityMTLS
      else SecurityTLS)"

text \<open>
  The TLS settings: the lowest version, the PEM text of the trusted roots and the client
  certificates. \<open>pem_ok\<close> is \<open>AppendCertsFromPEM\<close>, \<open>load_pair\<close> is \<open>tls.LoadX509KeyPair\<close>.
\<close>

record tls_settings =
  tc_MinVersion :: int
  tc_RootCAs :: string
  tc_Certificates :: "string list"

definition BuildTLSConfig ::
  "(string \<Rightarrow> file_read) \<Rightarrow> (string \<Rightarrow> bool) \<Rightarrow> (string \<Rightarrow> string \<Rightarrow> go_error + string)
     \<Rightarrow> string \<Rightarrow> tls_config \<Rightarrow> go_error + tls_settings" where
  "BuildTLSConfig read pem_ok load_pair mode cfg =
     (if \<not> t_Enabled cfg \<and> mode \<noteq> SecurityPlaintext
      then Inl (Errorf ''kafka TLS is not enabled'' [])
      else if t_CAFile cfg = []
      then Inl (Errorf ''KAFKA_TLS_CA_FILE is required for %s'' [AStr mode])
      else case read_file read (t_CAFile cfg) of
        Inl e \<Rightarrow> Inl (Errorf ''read KAFKA_TLS_CA_FILE: %w'' [AErr e])
      | Inr caPEM \<Rightarrow>
          if \<not> pem_ok caPEM
          then Inl (Errorf ''KAFKA_TLS_CA_FILE does not contain valid PEM certificates'' [])
          else
            let tlsConfig = \<lparr> tc_MinVersion = 0x0303, tc_RootCAs = caPEM, tc_Certificates = [] \<rparr>
            in if mode = SecurityMTLS then
                 (if t_CertFile cfg = [] \<or> t_KeyFile cfg = []
                  then Inl (Errorf ''KAFKA_TLS_CERT_FILE and KAFKA_TLS_KEY_FILE are required for mtls'' [])
                  else case load_pair (t_CertFile cfg) (t_KeyFile cfg) of
                    Inl e \<Rightarrow> Inl (Errorf ''load client certificate: %w'' [AErr e])
                  | Inr cert \<Rightarrow> Inr (tlsConfig\<lparr>tc_Certificates := [cert]\<rparr>))
               else Inr tlsConfig)"

definition ValidateSecurityConfig ::
  "(string \<Rightarrow> file_read) \<Rightarrow> (string \<Rightarrow> bool) \<Rightarrow> (string \<Rightarrow> string \<Rightarrow> go_error + string)
     \<Rightarrow> kafka_config \<Rightarrow> go_error option" where
  "ValidateSecurityConfig read pem_ok load_pair cfg =
     (let mode = ResolveSecurityMode cfg
      in if mode = SecurityPlaintext then
           (if k_TLSRequired cfg
            then Some (Errorf ''KAFKA_TLS_REQUIRED is set but security mode is plaintext'' [])
            else None)
         else if mode = SecurityTLS \<or> mode = SecurityMTLS then
           (case BuildTLSConfig read pem_ok load_pair mode (k_TLS cfg) of Inl e \<Rightarrow> Some e | Inr _ \<Rightarrow> None)
         else Some (Errorf ''unsupported KAFKA_SECURITY_MODE %q (use plaintext, tls, or mtls)'' [AStr mode]))"

text \<open>The TLS part of \<open>newDialer\<close> and \<open>newTransport\<close>: \<open>None\<close> is a plaintext connection.\<close>

definition newDialer ::
  "(string \<Rightarrow> file_read) \<Rightarrow> (string \<Rightarrow> bool) \<Rightarrow> (string \<Rightarrow> string \<Rightarrow> go_error + string)
     \<Rightarrow> kafka_config \<Rightarrow> go_error + tls_settings option" where
  "newDialer read pem_ok load_pair cfg =
     (let mode = ResolveSecurityMode cfg
      in if mode = SecurityPlaintext then Inr None
         else sum_bind (BuildTLSConfig read pem_ok load_pair mode (k_TLS cfg)) (\<lambda>c. Inr (Some c)))"

definition newTransport ::
  "(string \<Rightarrow> file_read) \<Rightarrow> (string \<Rightarrow> bool) \<Rightarrow> (string \<Rightarrow> string \<Rightarrow> go_error + string)
     \<Rightarrow> kafka_config \<Rightarrow> go_error + tls_settings option" where
  "newTransport read pem_ok load_pair cfg =
     (let mode = ResolveSecurityMode cfg
      in if mode = SecurityPlaintext then Inr None
         else sum_bind (BuildTLSConfig read pem_ok load_pair mode (k_TLS cfg)) (\<lambda>c. Inr (Some c)))"

section \<open>Publisher and consumer (internal/kafka/client.go)\<close>

abbreviation (input) headerCorrelationID :: string where "headerCorrelationID \<equiv> ''correlation_id''"
abbreviation (input) headerReplyTopic :: string where "headerReplyTopic \<equiv> ''reply_topic''"

record publisher =
  pub_Addr :: "string list"
  pub_RequiredAcks :: int
  pub_TLS :: "tls_settings option"

definition NewPublisher ::
  "(string \<Rightarrow> file_read) \<Rightarrow> (string \<Rightarrow> bool) \<Rightarrow> (string \<Rightarrow> string \<Rightarrow> go_error + string)
     \<Rightarrow> kafka_config \<Rightarrow> go_error + publisher" where
  "NewPublisher read pem_ok load_pair cfg =
     (case ValidateSecurityConfig read pem_ok load_pair cfg of
        Some e \<Rightarrow> Inl (Errorf ''kafka publisher: %w'' [AErr e])
      | None \<Rightarrow> sum_bind (newTransport read pem_ok load_pair cfg) (\<lambda>t.
          Inr \<lparr> pub_Addr = k_Brokers cfg, pub_RequiredAcks = -1, pub_TLS = t \<rparr>))"

record consumer =
  con_Brokers :: "string list"
  con_GroupID :: string
  con_Topic :: string
  con_MaxBytes :: int
  con_TLS :: "tls_settings option"

definition NewConsumer ::
  "(string \<Rightarrow> file_read) \<Rightarrow> (string \<Rightarrow> bool) \<Rightarrow> (string \<Rightarrow> string \<Rightarrow> go_error + string)
     \<Rightarrow> kafka_config \<Rightarrow> go_error + consumer" where
  "NewConsumer read pem_ok load_pair cfg =
     (case ValidateSecurityConfig read pem_ok load_pair cfg of
        Some e \<Rightarrow> Inl (Errorf ''kafka consumer: %w'' [AErr e])
      | None \<Rightarrow> sum_bind (newDialer read pem_ok load_pair cfg) (\<lambda>d.
          Inr \<lparr> con_Brokers = k_Brokers cfg,
                con_GroupID = (if k_ShadowConsumerGroup cfg \<noteq> [] then k_ShadowConsumerGroup cfg
                               else k_ConsumerGroup cfg),
                con_Topic = k_RequestTopic cfg, con_MaxBytes = 10 * 1048576, con_TLS = d \<rparr>))"

definition ParseCommand :: "kmsg \<Rightarrow> go_error + (command \<times> request_meta)" where
  "ParseCommand msg =
     (case unmarshal_command (km_Value msg) of
        Inl e \<Rightarrow> Inl (Errorf ''decode command: %w'' [AErr e])
      | Inr cmd \<Rightarrow>
          let meta = \<lparr> m_CorrelationID = headerValue (km_Headers msg) headerCorrelationID,
                       m_ReplyTopic = headerValue (km_Headers msg) headerReplyTopic,
                       m_Partition = km_Partition msg, m_Offset = km_Offset msg \<rparr>
          in if m_CorrelationID meta = [] \<or> m_ReplyTopic meta = []
             then Inl (Errorf ''missing required headers correlation_id and reply_topic'' [])
             else Inr (cmd, meta))"

text \<open>
  \<open>json.Marshal\<close> of a reply fails exactly when its raw body is not empty and not JSON.
\<close>

definition marshal_response :: "response \<Rightarrow> go_error option" where
  "marshal_response resp =
     (case r_HTTPBody resp of BodyRaw (c # cs) \<Rightarrow> Some json_error | _ \<Rightarrow> None)"

text \<open>A reply on the wire: topic, key, headers and the document.\<close>

record reply_msg =
  rm_Topic :: string
  rm_Key :: string
  rm_Headers :: "(string \<times> string) list"
  rm_Value :: response

datatype pevent = EvPublish reply_msg | EvCommit kmsg | EvExec command request_meta
  | EvMetric string string

record kafka_io =
  io_write :: "reply_msg \<Rightarrow> go_error option"
  io_commit :: "kmsg \<Rightarrow> go_error option"

definition PublishResponse ::
  "kafka_io \<Rightarrow> string \<Rightarrow> string \<Rightarrow> response \<Rightarrow> pevent list \<times> go_error option" where
  "PublishResponse io replyTopic correlationID resp =
     (case marshal_response resp of
        Some e \<Rightarrow> ([], Some e)
      | None \<Rightarrow>
          let msg = \<lparr> rm_Topic = replyTopic, rm_Key = correlationID,
                      rm_Headers = [(headerCorrelationID, correlationID)], rm_Value = resp \<rparr>
          in case io_write io msg of
               Some e \<Rightarrow> ([], Some e)
             | None \<Rightarrow> ([EvPublish msg], None))"

definition CommitMessage :: "kafka_io \<Rightarrow> kmsg \<Rightarrow> pevent list \<times> go_error option" where
  "CommitMessage io msg =
     (case io_commit io msg of Some e \<Rightarrow> ([], Some e) | None \<Rightarrow> ([EvCommit msg], None))"

section \<open>Guard (internal/kafka/guard.go)\<close>

text \<open>The outer option is the guard pointer, the inner one its engine.\<close>

type_synonym command_guard = "engine option option"

definition guard_Validate :: "command_guard \<Rightarrow> command option \<Rightarrow> request_meta \<Rightarrow> go_error option" where
  "guard_Validate g cmd meta =
     (case g of
        Some (Some e) \<Rightarrow>
          (case cmd of
             None \<Rightarrow> Validate cmd
           | Some c \<Rightarrow>
               first_error [Validate cmd, AllowCommandType e (c_Type c), AllowIssuer e (c_Issuer c),
                            AllowReplyTopic e (m_ReplyTopic meta)])
      | _ \<Rightarrow> Some (Errorf ''command guard is not configured'' []))"

definition CanPublishReply :: "command_guard \<Rightarrow> string \<Rightarrow> bool" where
  "CanPublishReply g topic =
     (case g of Some (Some e) \<Rightarrow> AllowReplyTopic e topic = None | _ \<Rightarrow> False)"

section \<open>Processor (internal/kafka/processor.go)\<close>

record 's processor =
  pr_executor :: "'s executor"
  pr_guard :: command_guard
  pr_commitFirst :: bool
  pr_metrics :: bool
  pr_dual :: "'s dual_adapter option"

definition NewProcessor :: "'s executor \<Rightarrow> command_guard \<Rightarrow> bool \<Rightarrow> bool \<Rightarrow> 's processor" where
  "NewProcessor ex guard commitOnReceive metrics =
     \<lparr> pr_executor = ex, pr_guard = guard, pr_commitFirst = commitOnReceive, pr_metrics = metrics,
       pr_dual = None \<rparr>"

definition SetDualAdapter :: "'s dual_adapter option \<Rightarrow> 's processor \<Rightarrow> 's processor" where
  "SetDualAdapter d p = p\<lparr>pr_dual := d\<rparr>"

datatype outcome = Returned "go_error option" | Crashed

definition p_commit :: "'s processor \<Rightarrow> kafka_io \<Rightarrow> kmsg \<Rightarrow> pevent list \<times> go_error option" where
  "p_commit p io msg = (if pr_commitFirst p then ([], None) else CommitMessage io msg)"

definition recordCommand :: "'s processor \<Rightarrow> string \<Rightarrow> string \<Rightarrow> pevent list" where
  "recordCommand p commandType status = (if pr_metrics p then [EvMetric commandType status] else [])"

text \<open>The commit that follows effects, as the last call of a handler.\<close>

definition then_commit ::
  "'s processor \<Rightarrow> kafka_io \<Rightarrow> kmsg \<Rightarrow> 's \<Rightarrow> pevent list \<Rightarrow> 's \<times> pevent list \<times> outcome" where
  "then_commit p io msg s evs =
     (case p_commit p io msg of (ev, r) \<Rightarrow> (s, evs @ ev, Returned r))"

text \<open>The part of \<open>handleJSON\<close> from the call of the executor on.\<close>

definition execute_reply ::
  "'s processor \<Rightarrow> kafka_io \<Rightarrow> 's \<Rightarrow> kmsg \<Rightarrow> command \<Rightarrow> request_meta \<Rightarrow> clock \<Rightarrow> clock
     \<Rightarrow> 's \<times> pevent list \<times> outcome" where
  "execute_reply p io s msg cmd meta tp te =
     (case pr_executor p s cmd meta te of
        (s', Crash) \<Rightarrow> (s', [EvExec cmd meta], Crashed)
      | (s', Fail err) \<Rightarrow>
          let failed = Failed (c_CommandID cmd) (m_CorrelationID meta) ''ExecuteFailed''
                         ''AGENT_EXECUTE_ERROR'' err (fst tp) (snd tp)
          in (case PublishResponse io (m_ReplyTopic meta) (m_CorrelationID meta) failed of
                (ev, Some pubErr) \<Rightarrow>
                  (s', EvExec cmd meta # ev,
                   Returned (Some (Errorf ''execute: %w; publish failed reply: %v'' [AErr err, AErr pubErr])))
              | (ev, None) \<Rightarrow>
                  (case p_commit p io msg of
                     (ev', Some commitErr) \<Rightarrow>
                       (s', EvExec cmd meta # ev @ recordCommand p (c_Type cmd) (r_Status failed) @ ev',
                        Returned (Some (Errorf ''execute: %w; commit: %v'' [AErr err, AErr commitErr])))
                   | (ev', None) \<Rightarrow>
                       (s', EvExec cmd meta # ev @ recordCommand p (c_Type cmd) (r_Status failed) @ ev',
                        Returned (Some err))))
      | (s', Async) \<Rightarrow>
          then_commit p io msg s' (EvExec cmd meta # recordCommand p (c_Type cmd) ''async'')
      | (s', Reply resp) \<Rightarrow>
          (case PublishResponse io (m_ReplyTopic meta) (m_CorrelationID meta) resp of
             (ev, Some e) \<Rightarrow> (s', EvExec cmd meta # ev, Returned (Some e))
           | (ev, None) \<Rightarrow>
               then_commit p io msg s'
                 (EvExec cmd meta # ev @ recordCommand p (c_Type cmd) (r_Status resp))))"

definition guard_check :: "'s processor \<Rightarrow> command \<Rightarrow> request_meta \<Rightarrow> go_error option" where
  "guard_check p cmd meta =
     (case pr_guard p of None \<Rightarrow> None | Some g \<Rightarrow> guard_Validate (Some g) (Some cmd) meta)"

definition reject_reply ::
  "'s processor \<Rightarrow> kafka_io \<Rightarrow> 's \<Rightarrow> kmsg \<Rightarrow> command \<Rightarrow> request_meta \<Rightarrow> go_error \<Rightarrow> clock
     \<Rightarrow> 's \<times> pevent list \<times> outcome" where
  "reject_reply p io s msg cmd meta err tp =
     (if CanPublishReply (pr_guard p) (m_ReplyTopic meta) then
        let resp = Rejected (c_CommandID cmd) (m_CorrelationID meta) ''PolicyDenied'' ''KAFKA_GUARD''
                     err (fst tp) (snd tp)
        in (case PublishResponse io (m_ReplyTopic meta) (m_CorrelationID meta) resp of
              (ev, Some pubErr) \<Rightarrow> (s, ev, Returned (Some pubErr))
            | (ev, None) \<Rightarrow> then_commit p io msg s ev)
      else then_commit p io msg s [])"

definition handleJSON ::
  "'s processor \<Rightarrow> kafka_io \<Rightarrow> 's \<Rightarrow> kmsg \<Rightarrow> clock \<Rightarrow> clock \<Rightarrow> 's \<times> pevent list \<times> outcome" where
  "handleJSON p io s msg tp te =
     (case ParseCommand msg of
        Inl e \<Rightarrow> then_commit p io msg s []
      | Inr (cmd, meta) \<Rightarrow>
          (case guard_check p cmd meta of
             Some err \<Rightarrow> reject_reply p io s msg cmd meta err tp
           | None \<Rightarrow>
               if pr_commitFirst p then
                 (case CommitMessage io msg of
                    (ev, Some e) \<Rightarrow> (s, ev, Returned (Some e))
                  | (ev, None) \<Rightarrow>
                      (case execute_reply p io s msg cmd meta tp te of
                         (s', ev', r) \<Rightarrow> (s', ev @ ev', r)))
               else execute_reply p io s msg cmd meta tp te))"

text \<open>The part of \<open>handleDual\<close> after the first commit. It sees no guard.\<close>

definition dual_reply ::
  "'s processor \<Rightarrow> kafka_io \<Rightarrow> 's dual_adapter \<Rightarrow> 's \<Rightarrow> kmsg \<Rightarrow> clock \<Rightarrow> 's \<times> pevent list \<times> outcome" where
  "dual_reply p io d s msg te =
     (case dual_HandleMessage d s msg te of
        (s', Crash) \<Rightarrow> (s', [], Crashed)
      | (s', Fail err) \<Rightarrow>
          if \<not> pr_commitFirst p then (s', fst (p_commit p io msg), Returned (Some err))
          else (s', [], Returned (Some err))
      | (s', Async) \<Rightarrow> then_commit p io msg s' []
      | (s', Reply resp) \<Rightarrow>
          let reply = headerValue (km_Headers msg) headerReplyTopic;
              corr = headerValue (km_Headers msg) headerCorrelationID
          in if reply \<noteq> [] \<and> corr \<noteq> [] then
               (case PublishResponse io reply corr resp of
                  (ev, Some e) \<Rightarrow> (s', ev, Returned (Some e))
                | (ev, None) \<Rightarrow> then_commit p io msg s' (ev @ recordCommand p ''dual'' (r_Status resp)))
             else then_commit p io msg s' (recordCommand p ''dual'' (r_Status resp)))"

definition handleDual ::
  "'s processor \<Rightarrow> kafka_io \<Rightarrow> 's dual_adapter \<Rightarrow> 's \<Rightarrow> kmsg \<Rightarrow> clock \<Rightarrow> 's \<times> pevent list \<times> outcome" where
  "handleDual p io d s msg te =
     (if pr_commitFirst p then
        (case CommitMessage io msg of
           (ev, Some e) \<Rightarrow> (s, ev, Returned (Some e))
         | (ev, None) \<Rightarrow> (case dual_reply p io d s msg te of (s', ev', r) \<Rightarrow> (s', ev @ ev', r)))
      else dual_reply p io d s msg te)"

definition handleMessage ::
  "'s processor \<Rightarrow> kafka_io \<Rightarrow> 's \<Rightarrow> kmsg \<Rightarrow> clock \<Rightarrow> clock \<Rightarrow> 's \<times> pevent list \<times> outcome" where
  "handleMessage p io s msg tp te =
     (case pr_dual p of
        Some d \<Rightarrow> handleDual p io d s msg te
      | None \<Rightarrow> handleJSON p io s msg tp te)"

text \<open>
  \<open>Run\<close> over the messages that are fetched before a fetch fails; each comes with the broker and the
  clocks it meets. Errors of a message are logged; a panic ends the process.
\<close>

fun Run ::
  "'s processor \<Rightarrow> 's \<Rightarrow> (kmsg \<times> kafka_io \<times> clock \<times> clock) list \<Rightarrow> 's \<times> pevent list \<times> bool" where
  "Run p s [] = (s, [], True)"
| "Run p s ((msg, io, tp, te) # fetched) =
     (case handleMessage p io s msg tp te of
        (s', ev, Crashed) \<Rightarrow> (s', ev, False)
      | (s', ev, Returned _) \<Rightarrow> (case Run p s' fetched of (s'', ev', ok) \<Rightarrow> (s'', ev @ ev', ok)))"

definition HandleOnce :: "'s processor \<Rightarrow> 's \<Rightarrow> kmsg \<Rightarrow> clock \<Rightarrow> 's \<times> handled" where
  "HandleOnce p s msg te =
     (case ParseCommand msg of
        Inl e \<Rightarrow> (s, Fail e)
      | Inr (cmd, meta) \<Rightarrow> pr_executor p s cmd meta te)"

section \<open>Properties\<close>

text \<open>The effects without the metrics.\<close>

fun is_metric :: "pevent \<Rightarrow> bool" where
  "is_metric (EvMetric _ _) = True"
| "is_metric _ = False"

definition effects :: "pevent list \<Rightarrow> pevent list" where
  "effects evs = filter (\<lambda>e. \<not> is_metric e) evs"

lemma effects_simps [simp]:
  "effects [] = []" "effects (EvPublish rm # evs) = EvPublish rm # effects evs"
  "effects (EvCommit k # evs) = EvCommit k # effects evs"
  "effects (EvExec c m # evs) = EvExec c m # effects evs"
  "effects (EvMetric a b # evs) = effects evs" "effects (evs @ evs') = effects evs @ effects evs'"
  "effects (recordCommand p ty st) = []"
  by (simp_all add: effects_def recordCommand_def)

definition reply_of :: "string \<Rightarrow> string \<Rightarrow> response \<Rightarrow> reply_msg" where
  "reply_of topic corr resp =
     \<lparr> rm_Topic = topic, rm_Key = corr, rm_Headers = [(headerCorrelationID, corr)], rm_Value = resp \<rparr>"

lemma reply_of_sel [simp]:
  "rm_Topic (reply_of t c r) = t" "rm_Key (reply_of t c r) = c" "rm_Value (reply_of t c r) = r"
  by (simp_all add: reply_of_def)

lemma PublishResponse_cases:
  obtains (failed) e where "PublishResponse io t c r = ([], Some e)"
  | (sent) "PublishResponse io t c r = ([EvPublish (reply_of t c r)], None)" "marshal_response r = None"
  by (cases "marshal_response r"; cases "io_write io (reply_of t c r)")
     (auto simp: PublishResponse_def reply_of_def)

lemma CommitMessage_cases:
  obtains (failed) e where "CommitMessage io msg = ([], Some e)"
  | (committed) "CommitMessage io msg = ([EvCommit msg], None)"
  by (cases "io_commit io msg") (auto simp: CommitMessage_def)

lemma p_commit_cases:
  obtains (failed) e where "p_commit p io msg = ([], Some e)" "\<not> pr_commitFirst p"
  | (committed) "p_commit p io msg = ([EvCommit msg], None)" "\<not> pr_commitFirst p"
  | (skipped) "p_commit p io msg = ([], None)" "pr_commitFirst p"
  by (cases "pr_commitFirst p"; cases rule: CommitMessage_cases [of io msg]) (auto simp: p_commit_def)

lemma then_commit_effects:
  assumes "then_commit p io msg s evs = (s', evs', r)"
  shows "s' = s" and "evs' = evs \<or> evs' = evs @ [EvCommit msg] \<and> \<not> pr_commitFirst p"
    and "r = Returned None \<Longrightarrow> \<not> pr_commitFirst p \<Longrightarrow> evs' = evs @ [EvCommit msg]"
    and "r \<noteq> Crashed"
  using assms by (cases rule: p_commit_cases [of p io msg]; auto simp: then_commit_def)+

text \<open>
  What one call of the executor leads to: the call, at most one reply to the topic and correlation
  id of the request, and at most one commit, which comes last and is not missing from a call that
  returns without error, unless the message was committed before the call (\<open>cf\<close>).
\<close>

inductive exec_shape :: "bool \<Rightarrow> kmsg \<Rightarrow> command \<Rightarrow> request_meta \<Rightarrow> outcome \<Rightarrow> pevent list \<Rightarrow> bool"
  for cf msg c m r where
  silent: "cf \<or> r \<noteq> Returned None \<Longrightarrow> exec_shape cf msg c m r [EvExec c m]"
| replied: "cf \<or> r \<noteq> Returned None \<Longrightarrow>
    exec_shape cf msg c m r
      [EvExec c m, EvPublish (reply_of (m_ReplyTopic m) (m_CorrelationID m) resp)]"
| silent_commit: "\<not> cf \<Longrightarrow> exec_shape cf msg c m r [EvExec c m, EvCommit msg]"
| replied_commit: "\<not> cf \<Longrightarrow>
    exec_shape cf msg c m r
      [EvExec c m, EvPublish (reply_of (m_ReplyTopic m) (m_CorrelationID m) resp), EvCommit msg]"

lemma execute_reply_shape:
  assumes "execute_reply p io s msg c m tp te = (s', evs, r)"
  shows "exec_shape (pr_commitFirst p) msg c m r (effects evs)"
proof -
  obtain s1 h where x: "pr_executor p s c m te = (s1, h)" by (cases "pr_executor p s c m te") auto
  show ?thesis
  proof (cases h)
    case (Reply resp)
    then show ?thesis using assms x
      by (cases rule: PublishResponse_cases [of io "m_ReplyTopic m" "m_CorrelationID m" resp];
          cases rule: p_commit_cases [of p io msg])
         (auto simp: execute_reply_def then_commit_def intro: exec_shape.intros)
  next
    case Async
    then show ?thesis using assms x
      by (cases rule: p_commit_cases [of p io msg])
         (auto simp: execute_reply_def then_commit_def intro: exec_shape.intros)
  next
    case (Fail err)
    let ?f = "Failed (c_CommandID c) (m_CorrelationID m) ''ExecuteFailed'' ''AGENT_EXECUTE_ERROR'' err
                (fst tp) (snd tp)"
    show ?thesis using assms x Fail
      by (cases rule: PublishResponse_cases [of io "m_ReplyTopic m" "m_CorrelationID m" ?f];
          cases rule: p_commit_cases [of p io msg])
         (auto simp: execute_reply_def Let_def intro: exec_shape.intros)
  next
    case Crash
    then show ?thesis using assms x by (auto simp: execute_reply_def intro: exec_shape.intros)
  qed
qed

lemma then_commit_shape:
  assumes "then_commit p io msg s evs = (s', evs', r)"
  shows "s' = s \<and> (effects evs' = effects evs \<and> (pr_commitFirst p \<or> r \<noteq> Returned None) \<or>
           effects evs' = effects evs @ [EvCommit msg] \<and> \<not> pr_commitFirst p)"
  using assms by (cases rule: p_commit_cases [of p io msg]) (auto simp: then_commit_def)

definition guard_reply :: "command \<Rightarrow> request_meta \<Rightarrow> go_error \<Rightarrow> clock \<Rightarrow> reply_msg" where
  "guard_reply c m err tp =
     reply_of (m_ReplyTopic m) (m_CorrelationID m)
       (Rejected (c_CommandID c) (m_CorrelationID m) ''PolicyDenied'' ''KAFKA_GUARD'' err (fst tp) (snd tp))"

lemma reject_reply_shape:
  assumes "reject_reply p io s msg c m err tp = (s', evs, r)"
  obtains out where "s' = s"
    and "out = [] \<or> CanPublishReply (pr_guard p) (m_ReplyTopic m) \<and> out = [EvPublish (guard_reply c m err tp)]"
    and "effects evs = out \<and> (pr_commitFirst p \<or> r \<noteq> Returned None) \<or>
         effects evs = out @ [EvCommit msg] \<and> \<not> pr_commitFirst p"
proof (cases "CanPublishReply (pr_guard p) (m_ReplyTopic m)")
  case True
  let ?resp = "rm_Value (guard_reply c m err tp)"
  show thesis
  proof (cases rule: PublishResponse_cases [of io "m_ReplyTopic m" "m_CorrelationID m" ?resp])
    case (failed e)
    then show thesis using assms True that [of "[]"] by (auto simp: reject_reply_def guard_reply_def)
  next
    case sent
    then have "then_commit p io msg s [EvPublish (guard_reply c m err tp)] = (s', evs, r)"
      using assms True by (simp add: reject_reply_def guard_reply_def)
    from then_commit_shape [OF this] show thesis
      using True that [of "[EvPublish (guard_reply c m err tp)]"] by auto
  qed
next
  case False
  then have "then_commit p io msg s [] = (s', evs, r)" using assms by (simp add: reject_reply_def)
  from then_commit_shape [OF this] show thesis using that [of "[]"] by auto
qed

text \<open>The four ways the processor deals with a message of the JSON path.\<close>

lemma handleJSON_cases:
  assumes "handleJSON p io s msg tp te = (s', evs, r)"
  obtains (undecoded) e where "ParseCommand msg = Inl e" and "s' = s"
    and "effects evs = [] \<and> (pr_commitFirst p \<or> r \<noteq> Returned None) \<or>
         effects evs = [EvCommit msg] \<and> \<not> pr_commitFirst p"
  | (rejected) c m err out where "ParseCommand msg = Inr (c, m)" and "guard_check p c m = Some err"
    and "s' = s"
    and "out = [] \<or> CanPublishReply (pr_guard p) (m_ReplyTopic m) \<and> out = [EvPublish (guard_reply c m err tp)]"
    and "effects evs = out \<and> (pr_commitFirst p \<or> r \<noteq> Returned None) \<or>
         effects evs = out @ [EvCommit msg] \<and> \<not> pr_commitFirst p"
  | (uncommitted) c m where "ParseCommand msg = Inr (c, m)" and "guard_check p c m = None"
    and "pr_commitFirst p" and "effects evs = []" and "r \<noteq> Returned None" and "s' = s"
  | (executed) c m es where "ParseCommand msg = Inr (c, m)" and "guard_check p c m = None"
    and "exec_shape (pr_commitFirst p) msg c m r es"
    and "effects evs = (if pr_commitFirst p then EvCommit msg # es else es)"
proof (cases "ParseCommand msg")
  case (Inl e)
  then have "then_commit p io msg s [] = (s', evs, r)" using assms by (simp add: handleJSON_def)
  from then_commit_shape [OF this] show thesis using undecoded [OF Inl] by auto
next
  case (Inr cm)
  then obtain c m where P: "ParseCommand msg = Inr (c, m)" by (cases cm) auto
  show thesis
  proof (cases "guard_check p c m")
    case (Some err)
    then have "reject_reply p io s msg c m err tp = (s', evs, r)"
      using assms P by (simp add: handleJSON_def)
    then show thesis by (rule reject_reply_shape) (rule rejected [OF P Some])
  next
    case None
    obtain s1 ev r1 where x: "execute_reply p io s msg c m tp te = (s1, ev, r1)"
      by (cases "execute_reply p io s msg c m tp te") auto
    note shape = execute_reply_shape [OF x]
    show thesis
    proof (cases "pr_commitFirst p")
      case True
      then show thesis using assms P None x shape executed [OF P None, of "effects ev"]
        by (cases rule: CommitMessage_cases [of io msg]) (auto simp: handleJSON_def intro: uncommitted)
    next
      case False
      then show thesis using assms P None x shape executed [OF P None, of "effects evs"]
        by (auto simp: handleJSON_def)
    qed
  qed
qed

lemma effects_mem: "x \<in> set evs \<Longrightarrow> \<not> is_metric x \<Longrightarrow> x \<in> set (effects evs)"
  by (simp add: effects_def)

fun publishes :: "pevent list \<Rightarrow> reply_msg list" where
  "publishes [] = []"
| "publishes (EvPublish rm # evs) = rm # publishes evs"
| "publishes (_ # evs) = publishes evs"

lemma publishes_effects: "publishes (effects evs) = publishes evs"
  by (induction evs rule: publishes.induct) simp_all

lemma publishes_mem: "rm \<in> set (publishes evs) \<longleftrightarrow> EvPublish rm \<in> set evs"
  by (induction evs rule: publishes.induct) auto

lemma guard_check_None:
  assumes "pr_guard p = Some (Some e)" and "guard_check p c m = None"
  shows "Validate (Some c) = None \<and> AllowCommandType e (c_Type c) = None \<and>
         AllowIssuer e (c_Issuer c) = None \<and> AllowReplyTopic e (m_ReplyTopic m) = None"
  using assms by (simp add: guard_check_def guard_Validate_def)

lemma ParseCommand_meta:
  "ParseCommand msg = Inr (c, m) \<Longrightarrow>
     unmarshal_command (km_Value msg) = Inr c \<and>
     m_CorrelationID m = headerValue (km_Headers msg) headerCorrelationID \<and> m_CorrelationID m \<noteq> [] \<and>
     m_ReplyTopic m = headerValue (km_Headers msg) headerReplyTopic \<and> m_ReplyTopic m \<noteq> []"
  by (auto simp: ParseCommand_def Let_def split: sum.splits if_splits)

lemma handleJSON_idle_or_checked:
  assumes "handleJSON p io s msg tp te = (s', evs, r)"
  shows "s' = s \<and> \<not> (\<exists>c m. EvExec c m \<in> set evs) \<or>
         (\<exists>c m. ParseCommand msg = Inr (c, m) \<and> guard_check p c m = None)"
proof -
  have idle: "EvExec c m \<notin> set evs" if "EvExec c m \<notin> set (effects evs)" for c m
    using that effects_mem [of "EvExec c m" evs] by auto
  show ?thesis using assms
  proof (cases rule: handleJSON_cases)
    case (rejected c m err out)
    then have "EvExec c' m' \<notin> set (effects evs)" for c' m' by auto
    then show ?thesis using rejected(3) idle by blast
  next
    case (undecoded e)
    then have "EvExec c' m' \<notin> set (effects evs)" for c' m' by auto
    then show ?thesis using undecoded(2) idle by blast
  qed blast+
qed

text \<open>
  C3: nothing runs unchecked. On the JSON path with a guard, a message leaves the state of the agent
  alone and reaches no handler, unless it decodes to a valid envelope whose type and issuer are on
  the lists of the policy and whose reply topic the policy allows.
\<close>

theorem processor_guarded:
  assumes "NewEngine cfg = Inr e" and "pr_guard p = Some (Some e)" and "pr_dual p = None"
    and "handleMessage p io s msg tp te = (s', evs, r)"
  shows "s' = s \<and> \<not> (\<exists>c m. EvExec c m \<in> set evs) \<or>
    (\<exists>c m. ParseCommand msg = Inr (c, m) \<and> Validate (Some c) = None \<and>
       c_Type c \<in> set (if pc_AllowedCommandTypes cfg = [] then [''k8s.api''] else pc_AllowedCommandTypes cfg) \<and>
       (TrimSpace ` set (pc_AllowedIssuers cfg) \<subseteq> {[]} \<or>
        TrimSpace (c_Issuer c) \<in> TrimSpace ` set (pc_AllowedIssuers cfg)) \<and>
       AllowReplyTopic e (m_ReplyTopic m) = None)"
proof -
  have "handleJSON p io s msg tp te = (s', evs, r)" using assms by (simp add: handleMessage_def)
  from handleJSON_idle_or_checked [OF this] show ?thesis
  proof (elim disjE exE conjE)
    fix c m assume P: "ParseCommand msg = Inr (c, m)" and g: "guard_check p c m = None"
    note ok = guard_check_None [OF assms(2) g]
    have "c_Type c \<in> e_cmd e"
      using ok by (simp add: AllowCommandType_def split: if_splits)
    then have "c_Type c \<in> set (if pc_AllowedCommandTypes cfg = [] then [''k8s.api'']
                               else pc_AllowedCommandTypes cfg)"
      by (simp add: NewEngine_Inr(4) [OF assms(1)] split: if_splits)
    moreover have "e_issuer e = {} \<or> TrimSpace (c_Issuer c) \<in> e_issuer e"
      using ok by (simp add: AllowIssuer_def Let_def split: if_splits)
    then have "TrimSpace ` set (pc_AllowedIssuers cfg) \<subseteq> {[]} \<or>
        TrimSpace (c_Issuer c) \<in> TrimSpace ` set (pc_AllowedIssuers cfg)"
      unfolding NewEngine_Inr(5) [OF assms(1)] by blast
    ultimately show ?thesis using P ok by blast
  qed blast
qed


lemma dual_reply_shape:
  assumes "dual_reply p io d s msg te = (s', evs, r)"
  shows "\<exists>rm. effects evs \<in> {[], [EvPublish rm]} \<or>
      \<not> pr_commitFirst p \<and> effects evs \<in> {[EvCommit msg], [EvPublish rm, EvCommit msg]}"
proof -
  let ?t = "headerValue (km_Headers msg) headerReplyTopic"
  let ?c = "headerValue (km_Headers msg) headerCorrelationID"
  obtain s1 h where x: "dual_HandleMessage d s msg te = (s1, h)"
    by (cases "dual_HandleMessage d s msg te") auto
  show ?thesis
  proof (cases h)
    case (Reply resp)
    then show ?thesis using assms x
      by (cases rule: PublishResponse_cases [of io ?t ?c resp]; cases rule: p_commit_cases [of p io msg])
         (auto simp: dual_reply_def Let_def then_commit_def split: if_splits)
  next
    case (Fail e)
    then show ?thesis using assms x
      by (cases rule: p_commit_cases [of p io msg]) (auto simp: dual_reply_def)
  next
    case Async
    then show ?thesis using assms x
      by (cases rule: p_commit_cases [of p io msg]) (auto simp: dual_reply_def then_commit_def)
  qed (use assms x in \<open>auto simp: dual_reply_def\<close>)
qed


text \<open>
  C5: no reply is lost by a commit. By default a message of the JSON path that is handled without
  error is committed, and when the executor answered it, the commit implies that this answer was
  published: a failed publication leaves the message uncommitted, to be delivered again.
\<close>

theorem commit_after_reply:
  assumes "pr_dual p = None" and "\<not> pr_commitFirst p"
    and "handleMessage p io s msg tp te = (s', evs, r)"
  shows "(r = Returned None \<longrightarrow> EvCommit msg \<in> set evs) \<and>
    (EvCommit msg \<in> set evs \<and> ParseCommand msg = Inr (c, m) \<and> guard_check p c m = None \<and>
       pr_executor p s c m te = (s1, Reply resp) \<longrightarrow>
       publishes evs = [reply_of (m_ReplyTopic m) (m_CorrelationID m) resp])"
proof
  have J: "handleJSON p io s msg tp te = (s', evs, r)" using assms by (simp add: handleMessage_def)
  have mem: "EvCommit msg \<in> set evs" if "EvCommit msg \<in> set (effects evs)"
    using that by (auto simp: effects_def)
  show "r = Returned None \<longrightarrow> EvCommit msg \<in> set evs"
  proof
    assume ok: "r = Returned None"
    show "EvCommit msg \<in> set evs" using J
    proof (cases rule: handleJSON_cases)
      case (executed c m es)
      from executed(3) have "EvCommit msg \<in> set es" using ok assms(2) by cases auto
      then show ?thesis using executed(4) assms(2) mem by simp
    qed (use ok assms(2) mem in auto)
  qed
  show "EvCommit msg \<in> set evs \<and> ParseCommand msg = Inr (c, m) \<and> guard_check p c m = None \<and>
       pr_executor p s c m te = (s1, Reply resp) \<longrightarrow>
       publishes evs = [reply_of (m_ReplyTopic m) (m_CorrelationID m) resp]"
  proof (intro impI)
    assume "EvCommit msg \<in> set evs \<and> ParseCommand msg = Inr (c, m) \<and> guard_check p c m = None \<and>
      pr_executor p s c m te = (s1, Reply resp)"
    then have c: "EvCommit msg \<in> set evs" and h: "ParseCommand msg = Inr (c, m)"
      "guard_check p c m = None" "pr_executor p s c m te = (s1, Reply resp)" by blast+
    then have "execute_reply p io s msg c m tp te = (s', evs, r)"
      using J assms(2) by (simp add: handleJSON_def)
    then show "publishes evs = [reply_of (m_ReplyTopic m) (m_CorrelationID m) resp]"
      using c h(3)
      by (cases rule: PublishResponse_cases [of io "m_ReplyTopic m" "m_CorrelationID m" resp];
          cases rule: p_commit_cases [of p io msg])
         (auto simp: execute_reply_def then_commit_def recordCommand_def split: if_splits)
  qed
qed


section \<open>Replies of a well behaved executor\<close>

text \<open>
  The processor as a client of the handler contract: every reply it publishes answers the command
  of the message it handles.
\<close>

definition reply_ids :: "command \<Rightarrow> request_meta \<Rightarrow> response \<Rightarrow> bool" where
  "reply_ids c m r \<longleftrightarrow> r_CommandID r = c_CommandID c \<and> r_CorrelationID r = m_CorrelationID m \<and>
     r_Status r \<in> {StatusCompleted, StatusFailed, StatusRejected}"

lemma publishes_append: "publishes (xs @ ys) = publishes xs @ publishes ys"
  by (induction xs rule: publishes.induct) simp_all

lemma publishes_recordCommand: "publishes (recordCommand p ty st) = []"
  by (simp add: recordCommand_def)

context command_handler
begin

lemma execute_reply_answers:
  assumes "pr_executor p = handle" and "execute_reply p io s msg c m tp te = (s', evs, r)"
    and "rm \<in> set (publishes evs)"
  shows "rm_Key rm = m_CorrelationID m \<and> reply_ids c m (rm_Value rm)"
proof -
  obtain s1 h where x: "handle s c m te = (s1, h)" by (cases "handle s c m te") auto
  note defs = execute_reply_def Let_def then_commit_def publishes_append publishes_recordCommand
  show ?thesis
  proof (cases h)
    case (Reply resp)
    then have "reply_ids c m resp" using replies x by (auto simp: reply_ok_def reply_ids_def)
    then show ?thesis using assms x Reply
      by (cases rule: PublishResponse_cases [of io "m_ReplyTopic m" "m_CorrelationID m" resp];
          cases rule: p_commit_cases [of p io msg]) (auto simp: defs)
  next
    case (Fail err)
    let ?f = "Failed (c_CommandID c) (m_CorrelationID m) ''ExecuteFailed'' ''AGENT_EXECUTE_ERROR'' err
                (fst tp) (snd tp)"
    have "reply_ids c m ?f" by (simp add: reply_ids_def response_defs)
    then show ?thesis using assms x Fail
      by (cases rule: PublishResponse_cases [of io "m_ReplyTopic m" "m_CorrelationID m" ?f];
          cases rule: p_commit_cases [of p io msg]) (auto simp: defs)
  next
    case Async
    then show ?thesis using assms x by (cases rule: p_commit_cases [of p io msg]) (auto simp: defs)
  qed (use assms x in \<open>auto simp: defs\<close>)
qed

lemma published_reply_answers:
  assumes "pr_executor p = handle" and "handleJSON p io s msg tp te = (s', evs, r)"
    and "rm \<in> set (publishes evs)"
  shows "\<exists>c m. ParseCommand msg = Inr (c, m) \<and> r_CommandID (rm_Value rm) = c_CommandID c \<and>
           r_CorrelationID (rm_Value rm) = rm_Key rm \<and>
           r_Status (rm_Value rm) \<in> {StatusCompleted, StatusFailed, StatusRejected}"
  using assms(2)
proof (cases rule: handleJSON_cases)
  case (rejected c m err out)
  then have "rm = guard_reply c m err tp"
    using assms(3) unfolding publishes_effects [of evs, symmetric] by auto
  then show ?thesis using rejected(1) by (simp add: guard_reply_def response_defs)
next
  case (executed c m es)
  obtain s1 ev r1 where x: "execute_reply p io s msg c m tp te = (s1, ev, r1)"
    by (cases "execute_reply p io s msg c m tp te") auto
  have "set (publishes evs) \<subseteq> set (publishes ev)"
    using assms(2) executed(1,2) x
    by (cases rule: CommitMessage_cases [of io msg]) (auto simp: handleJSON_def split: if_splits)
  then have "rm \<in> set (publishes ev)" using assms(3) by blast
  then have "rm_Key rm = m_CorrelationID m \<and> reply_ids c m (rm_Value rm)"
    by (rule execute_reply_answers [OF assms(1) x])
  then show ?thesis using executed(1) by (simp add: reply_ids_def)
qed (use assms(3) publishes_effects [of evs, symmetric] in auto)

end

section \<open>Witnesses\<close>

definition demo_policy :: policy_config where
  "demo_policy = shop_policy\<lparr>pc_AllowedCommandTypes := [''cache.put'']\<rparr>"

definition demo_engine :: engine where
  "demo_engine = (case NewEngine demo_policy of Inr e \<Rightarrow> e | Inl _ \<Rightarrow> shop_engine)"

lemma demo_engine: "NewEngine demo_policy = Inr demo_engine"
proof -
  have "\<not> isl (NewEngine demo_policy)" by code_simp
  then show ?thesis by (cases "NewEngine demo_policy") (simp_all add: demo_engine_def)
qed

definition count_exec :: "int executor" where
  "count_exec n c m t = (n + 1, Reply (Completed (c_CommandID c) (m_CorrelationID m) (fst t) (snd t)))"

definition demo_processor :: "engine \<Rightarrow> bool \<Rightarrow> int processor" where
  "demo_processor e cf = NewProcessor count_exec (Some (Some e)) cf True"

definition demo_io :: kafka_io where
  "demo_io = \<lparr> io_write = (\<lambda>_. None), io_commit = (\<lambda>_. None) \<rparr>"

lemma demo_processor_sel [simp]:
  "pr_guard (demo_processor e cf) = Some (Some e)" "pr_dual (demo_processor e cf) = None"
  "pr_commitFirst (demo_processor e cf) = cf"
  by (simp_all add: demo_processor_def NewProcessor_def)

text \<open>The request is executed, answered and committed.\<close>

definition demo_run :: "int \<times> pevent list \<times> outcome" where
  "demo_run = handleMessage (demo_processor demo_engine False) demo_io 0 demo_msg (1, 2) (3, 4)"

lemma demo_run_split:
  "handleMessage (demo_processor demo_engine False) demo_io 0 demo_msg (1, 2) (3, 4)
     = (fst demo_run, fst (snd demo_run), snd (snd demo_run))"
  by (simp add: demo_run_def)

theorem processor_guarded_witness:
  "fst demo_run = 1 \<and> (\<exists>c m. ParseCommand demo_msg = Inr (c, m) \<and> c_Type c = ''cache.put'')"
proof -
  have "fst demo_run = 1" by code_simp
  then show ?thesis
    using processor_guarded [OF demo_engine demo_processor_sel(1,2) demo_run_split]
    by (auto simp: demo_policy_def)
qed



theorem commit_after_reply_witness: "EvCommit demo_msg \<in> set (fst (snd demo_run))"
proof -
  have "case snd (snd demo_run) of Returned None \<Rightarrow> True | _ \<Rightarrow> False" by code_simp
  then have "snd (snd demo_run) = Returned None" by (auto split: outcome.splits option.splits)
  then show ?thesis using commit_after_reply [OF demo_processor_sel(2) _ demo_run_split] by simp
qed


end
