(* ===== verification/Cache.thy ===== *)
theory Cache
  imports Policy_Engine
begin

text \<open>
  The key-value cache of the leader: \<open>internal/cache/store.go\<close> (entries with an optional expiry) and
  \<open>internal/handlers/cache\<close> (the payloads and the commands \<open>cache.put\<close>, \<open>cache.delete\<close> and
  \<open>cache.clear\<close>).

  Every operation that reads the clock takes the instant it reads. A time to live is a Go \<open>int\<close>, its
  product with \<open>time.Second\<close> wraps around at 64 bits.
\<close>

section \<open>Store (internal/cache/store.go)\<close>

record cache_entry =
  ce_Key :: string
  ce_Value :: string
  ce_UpdatedAt :: gtime
  ce_ExpiresAt :: "gtime option"

type_synonym store = "(string, cache_entry) gomap"

definition NewStore :: store where
  "NewStore = []"

definition store_Put :: "gtime \<Rightarrow> string \<Rightarrow> string \<Rightarrow> int \<Rightarrow> store \<Rightarrow> store" where
  "store_Put now key v ttlSeconds s =
     gm_put key
       \<lparr> ce_Key = key, ce_Value = v, ce_UpdatedAt = now,
         ce_ExpiresAt = (if ttlSeconds > 0 then Some (now + seconds_duration ttlSeconds) else None) \<rparr> s"

fun store_Delete :: "string list \<Rightarrow> store \<Rightarrow> store \<times> int" where
  "store_Delete [] s = (s, 0)"
| "store_Delete (key # keys) s =
     (case gm_get s key of
        None \<Rightarrow> store_Delete keys s
      | Some _ \<Rightarrow> (case store_Delete keys (gm_del key s) of (s', deleted) \<Rightarrow> (s', deleted + 1)))"

definition expired :: "gtime \<Rightarrow> cache_entry \<Rightarrow> bool" where
  "expired now e = (case ce_ExpiresAt e of None \<Rightarrow> False | Some x \<Rightarrow> now > x)"

definition store_Get :: "gtime \<Rightarrow> string \<Rightarrow> store \<Rightarrow> store \<times> cache_entry option" where
  "store_Get now key s =
     (case gm_get s key of
        None \<Rightarrow> (s, None)
      | Some entry \<Rightarrow> if expired now entry then (gm_del key s, None) else (s, Some entry))"

definition ListByPrefix :: "gtime \<Rightarrow> string \<Rightarrow> store \<Rightarrow> cache_entry list" where
  "ListByPrefix now prefix s =
     map snd (filter (\<lambda>(key, entry). (prefix = [] \<or> HasPrefix key prefix) \<and> \<not> expired now entry) s)"

definition store_Clear :: "store \<Rightarrow> store" where
  "store_Clear s = []"

text \<open>The loop over the keys of the map; deleting a key while ranging over a Go map is safe.\<close>

fun clear_keys :: "string \<Rightarrow> string list \<Rightarrow> store \<Rightarrow> store \<times> int" where
  "clear_keys prefix [] s = (s, 0)"
| "clear_keys prefix (key # keys) s =
     (if prefix = [] \<or> HasPrefix key prefix
      then (case clear_keys prefix keys (gm_del key s) of (s', removed) \<Rightarrow> (s', removed + 1))
      else clear_keys prefix keys s)"

definition ClearPrefix :: "string \<Rightarrow> store \<Rightarrow> store \<times> int" where
  "ClearPrefix prefix s = clear_keys prefix (gm_keys s) s"

definition store_Len :: "store \<Rightarrow> int" where
  "store_Len s = int (gm_len s)"

record cache_http =
  ch_Key :: string
  ch_Value :: string
  ch_UpdatedAt :: gtime
  ch_ExpiresAt :: "gtime option"

definition ToHTTPResponse :: "cache_entry \<Rightarrow> cache_http" where
  "ToHTTPResponse e =
     \<lparr> ch_Key = ce_Key e, ch_Value = ce_Value e, ch_UpdatedAt = ce_UpdatedAt e,
       ch_ExpiresAt = ce_ExpiresAt e \<rparr>"

section \<open>Payloads (internal/handlers/cache/payload.go)\<close>

record put_entry =
  pe_Key :: string
  pe_Value :: string
  pe_TTLSeconds :: int

definition decode_put_entry :: "json \<Rightarrow> put_entry option" where
  "decode_put_entry j =
     do {
       kvs \<leftarrow> json_obj j;
       k \<leftarrow> fld_str ''key'' kvs;
       v \<leftarrow> fld_str ''value'' kvs;
       ttl \<leftarrow> fld_int ''ttl_seconds'' kvs;
       Some \<lparr> pe_Key = k, pe_Value = v, pe_TTLSeconds = ttl \<rparr>
     }"

fun check_entries :: "int \<Rightarrow> put_entry list \<Rightarrow> go_error option" where
  "check_entries i [] = None"
| "check_entries i (e # es) =
     (if pe_Key e = [] then Some (Errorf ''entries[%d].key is required'' [AInt i])
      else check_entries (i + 1) es)"

definition ParsePutPayload :: "raw \<Rightarrow> go_error + put_entry list" where
  "ParsePutPayload raw =
     sum_bind
       (decode_payload (sum_bind (unmarshal_struct raw) (\<lambda>kvs.
          or_json_error (fld_list ''entries'' \<lparr> pe_Key = [], pe_Value = [], pe_TTLSeconds = 0 \<rparr>
            decode_put_entry kvs))))
       (\<lambda>entries.
          if entries = [] then Inl (Errorf ''entries must not be empty'' [])
          else case check_entries 0 entries of Some e \<Rightarrow> Inl e | None \<Rightarrow> Inr entries)"

definition ParseDeletePayload :: "raw \<Rightarrow> go_error + string list" where
  "ParseDeletePayload raw =
     sum_bind
       (decode_payload (sum_bind (unmarshal_struct raw) (\<lambda>kvs. or_json_error (fld_strs ''keys'' kvs))))
       (\<lambda>keys. if keys = [] then Inl (Errorf ''keys must not be empty'' []) else Inr keys)"

definition ParseClearPayload :: "raw \<Rightarrow> go_error + string" where
  "ParseClearPayload raw =
     decode_payload (sum_bind (unmarshal_struct raw) (\<lambda>kvs. or_json_error (fld_str ''prefix'' kvs)))"

section \<open>Handlers (internal/handlers/cache/handler.go)\<close>

text \<open>
  The store and the gauge \<open>CacheEntries\<close>; \<open>metrics\<close> tells whether metrics are configured. \<open>tick t i\<close> is
  the instant the \<open>i\<close>-th \<open>Put\<close> of one command reads.
\<close>

record cache_state =
  cs_store :: store
  cs_gauge :: int

definition syncCacheEntries :: "bool \<Rightarrow> cache_state \<Rightarrow> cache_state" where
  "syncCacheEntries metrics s = (if metrics then s\<lparr>cs_gauge := store_Len (cs_store s)\<rparr> else s)"

text \<open>The two rejections every cache handler starts with.\<close>

definition checked ::
  "engine \<Rightarrow> string \<Rightarrow> (raw \<Rightarrow> go_error + 'p) \<Rightarrow> ('p \<Rightarrow> 's handle) \<Rightarrow> 's handle" where
  "checked e ty parse run s c m t =
     (case AllowCommandType e ty of
        Some err \<Rightarrow> (s, Reply (Rejected (c_CommandID c) (m_CorrelationID m) ''PolicyDenied''
                              ''FORBIDDEN_COMMAND'' err (fst t) (snd t)))
      | None \<Rightarrow>
          (case parse (c_Payload c) of
             Inl err \<Rightarrow> (s, Reply (Rejected (c_CommandID c) (m_CorrelationID m) ''ValidationFailed''
                                   ''INVALID_PAYLOAD'' err (fst t) (snd t)))
           | Inr payload \<Rightarrow> run payload s c m t))"

fun put_entries :: "(nat \<Rightarrow> gtime) \<Rightarrow> nat \<Rightarrow> put_entry list \<Rightarrow> store \<Rightarrow> store" where
  "put_entries tick i [] s = s"
| "put_entries tick i (e # es) s =
     put_entries tick (Suc i) es (store_Put (tick i) (pe_Key e) (pe_Value e) (pe_TTLSeconds e) s)"

definition PutHandler_Handle :: "(clock \<Rightarrow> nat \<Rightarrow> gtime) \<Rightarrow> bool \<Rightarrow> engine \<Rightarrow> cache_state handle" where
  "PutHandler_Handle tick metrics e =
     checked e TypeCachePut ParsePutPayload (\<lambda>entries s c m t.
       let s = syncCacheEntries metrics (s\<lparr>cs_store := put_entries (tick t) 0 entries (cs_store s)\<rparr>)
       in (s, Reply ((Completed (c_CommandID c) (m_CorrelationID m) (fst t) (snd t))
                     \<lparr>r_KeysWritten := int (length entries)\<rparr>)))"

definition DeleteHandler_Handle :: "bool \<Rightarrow> engine \<Rightarrow> cache_state handle" where
  "DeleteHandler_Handle metrics e =
     checked e TypeCacheDelete ParseDeletePayload (\<lambda>keys s c m t.
       case store_Delete keys (cs_store s) of
         (store, deleted) \<Rightarrow>
           (syncCacheEntries metrics (s\<lparr>cs_store := store\<rparr>),
            Reply ((Completed (c_CommandID c) (m_CorrelationID m) (fst t) (snd t))\<lparr>r_KeysDeleted := deleted\<rparr>)))"

definition ClearHandler_Handle :: "bool \<Rightarrow> engine \<Rightarrow> cache_state handle" where
  "ClearHandler_Handle metrics e =
     checked e TypeCacheClear ParseClearPayload (\<lambda>prefix s c m t.
       case (if prefix = [] then (store_Clear (cs_store s), store_Len (cs_store s))
             else ClearPrefix prefix (cs_store s)) of
         (store, cleared) \<Rightarrow>
           (syncCacheEntries metrics (s\<lparr>cs_store := store\<rparr>),
            Reply ((Completed (c_CommandID c) (m_CorrelationID m) (fst t) (snd t))\<lparr>r_KeysCleared := cleared\<rparr>)))"

section \<open>The store as a map with expiry\<close>

text \<open>
  What a cache promises its clients: at each instant it is a map from keys to values; \<open>put\<close> sets one
  key until its deadline, \<open>del\<close> removes keys, \<open>get\<close> reads the map and does not change what can be read
  now or later.
\<close>

definition live :: "gtime \<Rightarrow> int \<Rightarrow> gtime \<Rightarrow> bool" where
  "live now ttl t \<longleftrightarrow> ttl \<le> 0 \<or> t \<le> now + seconds_duration ttl"

locale ttl_cache =
  fixes inv :: "'s \<Rightarrow> bool"
    and view :: "gtime \<Rightarrow> 's \<Rightarrow> string \<Rightarrow> string option"
    and put :: "gtime \<Rightarrow> string \<Rightarrow> string \<Rightarrow> int \<Rightarrow> 's \<Rightarrow> 's"
    and del :: "string list \<Rightarrow> 's \<Rightarrow> 's \<times> int"
    and get :: "gtime \<Rightarrow> string \<Rightarrow> 's \<Rightarrow> 's \<times> string option"
  assumes inv_put: "inv s \<Longrightarrow> inv (put now k v ttl s)"
    and inv_del: "inv s \<Longrightarrow> inv (fst (del ks s))"
    and inv_get: "inv s \<Longrightarrow> inv (fst (get now k s))"
    and view_put: "inv s \<Longrightarrow>
      view t (put now k v ttl s) = (view t s)(k := (if live now ttl t then Some v else None))"
    and view_del: "inv s \<Longrightarrow> view t (fst (del ks s)) = (view t s) |` (- set ks)"
    and get_view: "inv s \<Longrightarrow> snd (get now k s) = view now s k"
    and view_get: "inv s \<Longrightarrow> now \<le> t \<Longrightarrow> view t (fst (get now k s)) = view t s"
begin

lemma put_get: "inv s \<Longrightarrow> live now ttl t \<Longrightarrow> snd (get t k (put now k v ttl s)) = Some v"
  by (simp add: get_view inv_put view_put)

lemma put_get_expired: "inv s \<Longrightarrow> \<not> live now ttl t \<Longrightarrow> snd (get t k (put now k v ttl s)) = None"
  by (simp add: get_view inv_put view_put)

lemma put_get_other: "inv s \<Longrightarrow> k' \<noteq> k \<Longrightarrow> snd (get t k' (put now k v ttl s)) = snd (get t k' s)"
  by (simp add: get_view inv_put view_put)

lemma del_get: "inv s \<Longrightarrow> k \<in> set ks \<Longrightarrow> snd (get t k (fst (del ks s))) = None"
  by (simp add: get_view inv_del view_del)

lemma get_get: "inv s \<Longrightarrow> now \<le> t \<Longrightarrow> snd (get t k (fst (get now k' s))) = snd (get t k s)"
  by (simp add: get_view inv_get view_get)

end

definition store_ok :: "store \<Rightarrow> bool" where
  "store_ok s \<longleftrightarrow> gm_ok s \<and> list_all (\<lambda>(k, e). ce_Key e = k) s"

definition store_view :: "gtime \<Rightarrow> store \<Rightarrow> string \<Rightarrow> string option" where
  "store_view now s k =
     (case gm_get s k of None \<Rightarrow> None | Some e \<Rightarrow> if expired now e then None else Some (ce_Value e))"

definition get_value :: "gtime \<Rightarrow> string \<Rightarrow> store \<Rightarrow> store \<times> string option" where
  "get_value now key s = (case store_Get now key s of (s', e) \<Rightarrow> (s', map_option ce_Value e))"

lemma store_ok_iff: "store_ok s \<longleftrightarrow> gm_ok s \<and> (\<forall>k e. gm_get s k = Some e \<longrightarrow> ce_Key e = k)"
  by (auto simp: store_ok_def list_all_iff gm_get_mem [symmetric])

lemma store_ok_put: "store_ok s \<Longrightarrow> ce_Key e = k \<Longrightarrow> store_ok (gm_put k e s)"
  by (simp add: store_ok_iff)

lemma store_ok_del: "store_ok s \<Longrightarrow> store_ok (gm_del k s)"
  by (simp add: store_ok_iff)

lemma store_ok_Put: "store_ok s \<Longrightarrow> store_ok (store_Put now k v ttl s)"
  by (simp add: store_Put_def store_ok_put)

lemma store_Delete_get:
  "store_ok s \<Longrightarrow> store_ok (fst (store_Delete ks s)) \<and>
     gm_get (fst (store_Delete ks s)) = (gm_get s) |` (- set ks)"
proof (induction ks s rule: store_Delete.induct)
  case (2 key keys s)
  show ?case
  proof (cases "gm_get s key")
    case None
    then show ?thesis using 2 by (auto simp: restrict_map_def fun_eq_iff)
  next
    case (Some e)
    then show ?thesis using 2 store_ok_del [OF 2(3)]
      by (auto simp: restrict_map_def fun_eq_iff split: prod.splits)
  qed
qed (simp add: restrict_map_def fun_eq_iff)

lemma expired_later: "expired now e \<Longrightarrow> now \<le> t \<Longrightarrow> expired t e"
  by (auto simp: expired_def split: option.splits)

interpretation kv: ttl_cache store_ok store_view store_Put store_Delete get_value
proof unfold_locales
  fix s k v ttl now t ks
  assume ok: "store_ok s"
  show "store_ok (store_Put now k v ttl s)" using ok by (rule store_ok_Put)
  show "store_ok (fst (store_Delete ks s))" using ok by (simp add: store_Delete_get)
  show "store_ok (fst (get_value now k s))"
    using ok by (auto simp: get_value_def store_Get_def store_ok_del split: option.splits)
  show "store_view t (store_Put now k v ttl s) =
      (store_view t s)(k := (if live now ttl t then Some v else None))"
    by (auto simp: store_view_def store_Put_def expired_def live_def fun_eq_iff)
  show "store_view t (fst (store_Delete ks s)) = store_view t s |` (- set ks)"
    using ok by (auto simp: store_view_def store_Delete_get restrict_map_def fun_eq_iff)
  show "snd (get_value now k s) = store_view now s k"
    by (simp add: get_value_def store_Get_def store_view_def split: option.splits)
next
  fix s :: store and k and now t :: gtime
  assume "store_ok s" and "now \<le> t"
  then show "store_view t (fst (get_value now k s)) = store_view t s"
    by (auto simp: get_value_def store_Get_def store_view_def fun_eq_iff expired_later
        split: option.splits)
qed

section \<open>Properties of the commands\<close>

lemma command_handler_checked:
  assumes "\<And>p. command_handler (run p)"
  shows "command_handler (checked e ty parse run)"
  using assms
  by unfold_locales (auto simp: checked_def split: option.splits sum.splits dest: command_handler.replies)

lemma command_handler_run:
  assumes "\<And>s c m t. \<exists>s' r. run s c m t = (s', Reply r) \<and> reply_ok c m t r"
  shows "command_handler run"
  by unfold_locales (metis assms handled.inject(1) prod.inject)

interpretation put_h: command_handler "PutHandler_Handle tick metrics e" for tick metrics e
  unfolding PutHandler_Handle_def
  by (intro command_handler_checked command_handler_run) (simp add: Let_def)

interpretation del_h: command_handler "DeleteHandler_Handle metrics e" for metrics e
  unfolding DeleteHandler_Handle_def
  by (intro command_handler_checked command_handler_run) (auto split: prod.split)

interpretation clear_h: command_handler "ClearHandler_Handle metrics e" for metrics e
  unfolding ClearHandler_Handle_def
  by (intro command_handler_checked command_handler_run) (auto split: prod.split)

lemma checked_completed:
  assumes "checked e ty parse run s c m t = (s', Reply r)" and "r_Status r = StatusCompleted"
  obtains p where "parse (c_Payload c) = Inr p" and "run p s c m t = (s', Reply r)"
    and "AllowCommandType e ty = None"
  using assms by (auto simp: checked_def response_defs split: option.splits sum.splits)

lemma put_entries_append:
  "put_entries tick i (es @ es') s = put_entries tick (i + length es) es' (put_entries tick i es s)"
  by (induction es arbitrary: i s) simp_all

lemma put_entries_ok: "store_ok s \<Longrightarrow> store_ok (put_entries tick i es s)"
  by (induction es arbitrary: i s) (simp_all add: store_ok_Put)

lemma put_entries_other:
  "store_ok s \<Longrightarrow> k \<notin> pe_Key ` set es \<Longrightarrow> store_view t (put_entries tick i es s) k = store_view t s k"
  by (induction es arbitrary: i s) (simp_all add: store_ok_Put kv.view_put)

lemma put_entries_last:
  assumes "store_ok s" and "pe_Key en \<notin> pe_Key ` set es'"
  shows "store_view t (put_entries tick i (es @ en # es') s) (pe_Key en) =
           (if live (tick (i + length es)) (pe_TTLSeconds en) t then Some (pe_Value en) else None)"
  using assms put_entries_ok [OF assms(1)]
  by (simp add: put_entries_append put_entries_other store_ok_Put kv.view_put)

text \<open>
  C39: what is put can be read. After a completed \<open>cache.put\<close>, a key of the payload reads as the value
  of its last entry, from the moment it was written until its time to live is over; every other key
  reads as before; the reply counts the entries.
\<close>

theorem cache_put_get:
  assumes "store_ok (cs_store s)"
    and "PutHandler_Handle tick metrics e s c m t = (s', Reply r)" and "r_Status r = StatusCompleted"
    and "ParsePutPayload (c_Payload c) = Inr (es @ en # es')" and "pe_Key en \<notin> pe_Key ` set es'"
  shows "snd (get_value now (pe_Key en) (cs_store s')) =
           (if live (tick t (length es)) (pe_TTLSeconds en) now then Some (pe_Value en) else None) \<and>
         (k \<notin> pe_Key ` set (es @ en # es') \<longrightarrow>
           snd (get_value now k (cs_store s')) = snd (get_value now k (cs_store s))) \<and>
         r_KeysWritten r = int (length (es @ en # es'))"
proof -
  let ?new = "put_entries (tick t) 0 (es @ en # es') (cs_store s)"
  have r: "cs_store s' = ?new" "r_KeysWritten r = int (length (es @ en # es'))"
    using assms(2) unfolding PutHandler_Handle_def
    by (auto elim!: checked_completed [OF _ assms(3)] simp: assms(4) Let_def syncCacheEntries_def)
  have "store_ok ?new" using assms(1) by (rule put_entries_ok)
  then show ?thesis
    unfolding r kv.get_view [OF \<open>store_ok ?new\<close>] kv.get_view [OF assms(1)]
    using put_entries_last [OF assms(1,5)] put_entries_other [OF assms(1)] r(2) by simp
qed

text \<open>
  time to live at its limits. Up to 9223372036 seconds a positive time to live lets the entry be
  read exactly until that many seconds have passed, a value that is not positive lets it be read for
  ever, and from 9223372037 to 18446744073 seconds the duration wraps around to a negative one: the
  entry is gone at the instant it is written.
\<close>

lemma cache_ttl_limits:
  assumes "store_ok s"
  shows "(ttl \<le> 0 \<longrightarrow> snd (get_value t k (store_Put now k v ttl s)) = Some v) \<and>
         (0 < ttl \<and> ttl \<le> 9223372036 \<longrightarrow>
            snd (get_value t k (store_Put now k v ttl s)) =
              (if t \<le> now + ttl * 1000000000 then Some v else None)) \<and>
         (9223372037 \<le> ttl \<and> ttl \<le> 18446744073 \<and> now \<le> t \<longrightarrow>
            snd (get_value t k (store_Put now k v ttl s)) = None)"
  using seconds_duration_pos [of ttl] seconds_duration_wrap [of ttl]
    kv.put_get [OF assms, of now ttl t k v] kv.put_get_expired [OF assms, of now ttl t k v]
  by (auto simp: live_def second_def)

lemma store_Delete_count:
  "store_ok s \<Longrightarrow> snd (store_Delete ks s) = int (card (set ks \<inter> dom (gm_get s)))"
proof (induction ks s rule: store_Delete.induct)
  case (2 key keys s)
  show ?case
  proof (cases "gm_get s key")
    case None
    then have "set (key # keys) \<inter> dom (gm_get s) = set keys \<inter> dom (gm_get s)" by auto
    then show ?thesis using 2 None by simp
  next
    case (Some e)
    then have "set (key # keys) \<inter> dom (gm_get s) =
        insert key (set keys \<inter> dom (gm_get (gm_del key s)))" by auto
    moreover have "key \<notin> set keys \<inter> dom (gm_get (gm_del key s))" by simp
    ultimately have "card (set (key # keys) \<inter> dom (gm_get s)) =
        Suc (card (set keys \<inter> dom (gm_get (gm_del key s))))"
      by (metis card_insert_disjoint finite_Int List.finite_set)
    moreover have "snd (store_Delete keys (gm_del key s)) =
        int (card (set keys \<inter> dom (gm_get (gm_del key s))))"
      using 2(2) [OF Some store_ok_del [OF 2(3)]] .
    moreover have "snd (store_Delete (key # keys) s) = snd (store_Delete keys (gm_del key s)) + 1"
      using Some by (simp split: prod.split)
    ultimately show ?thesis by (simp only: of_nat_Suc)
  qed
qed simp

lemma clear_keys_get:
  "store_ok s \<Longrightarrow> distinct keys \<Longrightarrow>
     store_ok (fst (clear_keys prefix keys s)) \<and>
     gm_get (fst (clear_keys prefix keys s)) = (gm_get s) |` (- {k \<in> set keys. HasPrefix k prefix}) \<and>
     snd (clear_keys prefix keys s) = int (length (filter (\<lambda>k. HasPrefix k prefix) keys))"
proof (induction prefix keys s rule: clear_keys.induct)
  case (2 prefix key keys s)
  then show ?case using store_ok_del [OF 2(3)]
    by (auto simp: restrict_map_def fun_eq_iff split: prod.splits)
qed (simp add: restrict_map_def fun_eq_iff)

lemma ClearPrefix_get:
  assumes "store_ok s"
  shows "gm_get (fst (ClearPrefix prefix s)) k = (if HasPrefix k prefix then None else gm_get s k)"
    and "snd (ClearPrefix prefix s) = int (card {k \<in> dom (gm_get s). HasPrefix k prefix})"
proof -
  have d: "distinct (gm_keys s)" using assms by (simp add: store_ok_def gm_ok_def gm_keys_def)
  have dom: "set (gm_keys s) = dom (gm_get s)" using gm_keys_iff [of _ s] by blast
  show "gm_get (fst (ClearPrefix prefix s)) k = (if HasPrefix k prefix then None else gm_get s k)"
    using clear_keys_get [OF assms d] dom
    by (auto simp: ClearPrefix_def restrict_map_def)
  have "length (filter (\<lambda>k. HasPrefix k prefix) (gm_keys s)) = card {k \<in> dom (gm_get s). HasPrefix k prefix}"
    using distinct_card [OF distinct_filter [OF d]] dom by simp
  then show "snd (ClearPrefix prefix s) = int (card {k \<in> dom (gm_get s). HasPrefix k prefix})"
    using clear_keys_get [OF assms d] by (simp add: ClearPrefix_def)
qed

text \<open>
  removal does what its reply says. A completed \<open>cache.delete\<close> removes exactly the listed keys and
  counts those that were there, each once; a completed \<open>cache.clear\<close> removes exactly the keys with the
  prefix (all of them for the empty prefix) and counts them; with metrics the gauge is the number of
  entries left.
\<close>

lemma cache_removal:
  assumes "store_ok (cs_store s)"
  shows "(DeleteHandler_Handle metrics e s c m t = (s', Reply r) \<and> r_Status r = StatusCompleted \<and>
            ParseDeletePayload (c_Payload c) = Inr keys \<longrightarrow>
            gm_get (cs_store s') = (gm_get (cs_store s)) |` (- set keys) \<and>
            r_KeysDeleted r = int (card (set keys \<inter> dom (gm_get (cs_store s)))) \<and>
            (metrics \<longrightarrow> cs_gauge s' = store_Len (cs_store s'))) \<and>
         (ClearHandler_Handle metrics e s c m t = (s', Reply r) \<and> r_Status r = StatusCompleted \<and>
            ParseClearPayload (c_Payload c) = Inr prefix \<longrightarrow>
            gm_get (cs_store s') = (gm_get (cs_store s)) |` {k. \<not> HasPrefix k prefix} \<and>
            r_KeysCleared r = int (card {k \<in> dom (gm_get (cs_store s)). HasPrefix k prefix}) \<and>
            (metrics \<longrightarrow> cs_gauge s' = store_Len (cs_store s')))"
proof (intro conjI impI; elim conjE)
  assume h: "DeleteHandler_Handle metrics e s c m t = (s', Reply r)" "r_Status r = StatusCompleted"
    "ParseDeletePayload (c_Payload c) = Inr keys"
  then have "cs_store s' = fst (store_Delete keys (cs_store s))"
    "r_KeysDeleted r = snd (store_Delete keys (cs_store s))"
    "metrics \<longrightarrow> cs_gauge s' = store_Len (cs_store s')"
    unfolding DeleteHandler_Handle_def
    by (auto elim!: checked_completed [OF _ h(2)] simp: syncCacheEntries_def split: prod.splits)
  then show "gm_get (cs_store s') = (gm_get (cs_store s)) |` (- set keys)"
    and "r_KeysDeleted r = int (card (set keys \<inter> dom (gm_get (cs_store s))))"
    and "metrics \<Longrightarrow> cs_gauge s' = store_Len (cs_store s')"
    using store_Delete_get [OF assms] store_Delete_count [OF assms] by simp_all
next
  assume h: "ClearHandler_Handle metrics e s c m t = (s', Reply r)" "r_Status r = StatusCompleted"
    "ParseClearPayload (c_Payload c) = Inr prefix"
  let ?res = "if prefix = [] then (store_Clear (cs_store s), store_Len (cs_store s))
              else ClearPrefix prefix (cs_store s)"
  from h have x: "cs_store s' = fst ?res" "r_KeysCleared r = snd ?res"
    "metrics \<longrightarrow> cs_gauge s' = store_Len (cs_store s')"
    unfolding ClearHandler_Handle_def
    by (auto elim!: checked_completed [OF _ h(2)] simp: syncCacheEntries_def split: prod.splits if_splits)
  have len: "store_Len (cs_store s) = int (card (dom (gm_get (cs_store s))))"
    using assms by (auto simp: store_Len_def store_ok_def gm.len_card)
  show "gm_get (cs_store s') = (gm_get (cs_store s)) |` {k. \<not> HasPrefix k prefix}"
    and "r_KeysCleared r = int (card {k \<in> dom (gm_get (cs_store s)). HasPrefix k prefix})"
    and "metrics \<Longrightarrow> cs_gauge s' = store_Len (cs_store s')"
    using x len ClearPrefix_get [OF assms, of prefix]
    by (auto simp: store_Clear_def restrict_map_def fun_eq_iff)
qed

section \<open>Witnesses\<close>

definition cache_policy :: policy_config where
  "cache_policy = shop_policy\<lparr>pc_AllowedCommandTypes := [''cache.put'', ''cache.delete'', ''cache.clear'']\<rparr>"

definition cache_engine :: engine where
  "cache_engine = (case NewEngine cache_policy of Inr e \<Rightarrow> e | Inl _ \<Rightarrow> shop_engine)"

definition cache_cmd :: "string \<Rightarrow> json \<Rightarrow> command" where
  "cache_cmd ty payload =
     \<lparr> c_SchemaVersion = ''v1'', c_CommandID = ''c1'', c_Type = ty, c_Issuer = ''core'',
       c_IdempotencyKey = ''k'', c_Timeout = [], c_IssuedAt = 1, c_HTTP = None, c_Payload = Some payload \<rparr>"

definition cache_meta :: request_meta where
  "cache_meta = \<lparr> m_CorrelationID = ''42'', m_ReplyTopic = ''core.r'', m_Partition = 0, m_Offset = 0 \<rparr>"

definition ab_payload :: json where
  "ab_payload = JObj [(''entries'', JArr
     [JObj [(''key'', JStr ''a''), (''value'', JStr ''1'')],
      JObj [(''key'', JStr ''a''), (''value'', JStr ''2''), (''ttl_seconds'', JInt 10)],
      JObj [(''key'', JStr ''b''), (''value'', JStr ''3'')]])]"

definition empty_cache :: cache_state where
  "empty_cache = \<lparr> cs_store = NewStore, cs_gauge = 0 \<rparr>"

definition ab_put :: "cache_state \<times> handled" where
  "ab_put = PutHandler_Handle (\<lambda>t i. fst t) True cache_engine empty_cache
              (cache_cmd ''cache.put'' ab_payload) cache_meta (1000, 2000)"

lemma store_ok_Nil [simp]: "store_ok NewStore"
  by (simp add: NewStore_def store_ok_def)

theorem cache_put_get_witness:
  "\<exists>s' r. ab_put = (s', Reply r) \<and> snd (get_value 5000 ''a'' (cs_store s')) = Some ''2'' \<and>
     snd (get_value 20000000000 ''a'' (cs_store s')) = None"
proof -
  let ?e1 = "\<lparr> pe_Key = ''a'', pe_Value = ''1'', pe_TTLSeconds = 0 \<rparr>"
  let ?e2 = "\<lparr> pe_Key = ''a'', pe_Value = ''2'', pe_TTLSeconds = 10 \<rparr>"
  let ?e3 = "\<lparr> pe_Key = ''b'', pe_Value = ''3'', pe_TTLSeconds = 0 \<rparr>"
  have "case ab_put of (s', Reply r) \<Rightarrow> r_Status r = StatusCompleted | _ \<Rightarrow> False" by code_simp
  then obtain s' r where h: "ab_put = (s', Reply r)" "r_Status r = StatusCompleted"
    by (auto split: prod.splits handled.splits)
  have p: "ParsePutPayload (c_Payload (cache_cmd ''cache.put'' ab_payload)) = Inr ([?e1] @ ?e2 # [?e3])"
    by code_simp
  have "live 1000 10 5000" and "\<not> live 1000 10 20000000000" by code_simp+
  then have "snd (get_value 5000 ''a'' (cs_store s')) = Some ''2''"
    and "snd (get_value 20000000000 ''a'' (cs_store s')) = None"
    using cache_put_get [OF _ h(1) [unfolded ab_put_def] h(2) p, of 5000]
      cache_put_get [OF _ h(1) [unfolded ab_put_def] h(2) p, of 20000000000]
    by (simp_all add: empty_cache_def)
  then show ?thesis using h(1) by blast
qed

lemma cache_ttl_limits_example:
  "snd (get_value 7 ''a'' (store_Put 5 ''a'' ''1'' 9223372036 NewStore)) = Some ''1'' \<and>
   snd (get_value 5 ''a'' (store_Put 5 ''a'' ''1'' 9223372037 NewStore)) = None"
  using cache_ttl_limits [OF store_ok_Nil, of 9223372036 7 "''a''" 5 "''1''"]
    cache_ttl_limits [OF store_ok_Nil, of 9223372037 5 "''a''" 5 "''1''"] by simp

definition ab_delete :: "cache_state \<times> handled" where
  "ab_delete = DeleteHandler_Handle True cache_engine (fst ab_put)
     (cache_cmd ''cache.delete'' (JObj [(''keys'', JArr [JStr ''a'', JStr ''z'', JStr ''a''])])) cache_meta (1, 2)"

lemma cache_removal_example:
  "\<exists>s' r. ab_delete = (s', Reply r) \<and> gm_get (cs_store s') ''a'' = None \<and> cs_gauge s' = store_Len (cs_store s')"
proof -
  let ?c = "cache_cmd ''cache.delete'' (JObj [(''keys'', JArr [JStr ''a'', JStr ''z'', JStr ''a''])])"
  have ok: "store_ok (cs_store (fst ab_put))" by code_simp
  have "case ab_delete of (s', Reply r) \<Rightarrow> r_Status r = StatusCompleted | _ \<Rightarrow> False" by code_simp
  then obtain s' r where h: "ab_delete = (s', Reply r)" "r_Status r = StatusCompleted"
    by (auto split: prod.splits handled.splits)
  have p: "ParseDeletePayload (c_Payload ?c) = Inr [''a'', ''z'', ''a'']" by code_simp
  show ?thesis
    using cache_removal [OF ok, of True cache_engine ?c cache_meta "(1, 2)" s' r "[''a'', ''z'', ''a'']"]
      h p by (simp add: ab_delete_def)
qed

end
