(* ===== verification/Http_Api.thy ===== *)
theory Http_Api
  imports Kafka Cache Node_Logs
begin

text \<open>
  The HTTP side of the agent: \<open>internal/observability/state.go\<close>, \<open>internal/httpapi\<close> (probes, cache reads, the
  internal command endpoint, the ingress gateway) and \<open>internal/bridge\<close> (the executor of the egress
  component, which forwards commands to that endpoint).

  What a handler writes is kept as the Go value it encodes, not as its JSON text; a reply with a body that
  is not JSON cannot be encoded, and then the status line goes out with an empty body. The state \<open>'s\<close> is
  that of the command router; \<open>sel\<close> and \<open>upd\<close> read and replace the cache store in it. Requests are those
  whose path has no percent escapes.
\<close>

section \<open>Runtime state (internal/observability/state.go, metrics.go)\<close>

record runtime_state =
  rs_kafkaConnected :: bool
  rs_isLeader :: bool
  rs_apiserverOK :: bool

definition NewRuntimeState :: runtime_state where
  "NewRuntimeState = \<lparr> rs_kafkaConnected = False, rs_isLeader = False, rs_apiserverOK = False \<rparr>"

definition SetKafkaConnected :: "bool \<Rightarrow> runtime_state \<Rightarrow> runtime_state" where
  "SetKafkaConnected v s = s\<lparr> rs_kafkaConnected := v \<rparr>"

definition SetLeader :: "bool \<Rightarrow> runtime_state \<Rightarrow> runtime_state" where
  "SetLeader v s = s\<lparr> rs_isLeader := v \<rparr>"

definition SetAPIServerOK :: "bool \<Rightarrow> runtime_state \<Rightarrow> runtime_state" where
  "SetAPIServerOK v s = s\<lparr> rs_apiserverOK := v \<rparr>"

definition state_Ready :: "runtime_state \<Rightarrow> bool" where
  "state_Ready s = (if \<not> rs_kafkaConnected s then False else if \<not> rs_apiserverOK s then False else True)"

record state_gauges =
  sg_Leader :: int
  sg_KafkaConnected :: int
  sg_APIServerOK :: int

definition SyncFromState :: "runtime_state \<Rightarrow> state_gauges" where
  "SyncFromState s =
     \<lparr> sg_Leader = (if rs_isLeader s then 1 else 0), sg_KafkaConnected = (if rs_kafkaConnected s then 1 else 0),
       sg_APIServerOK = (if rs_apiserverOK s then 1 else 0) \<rparr>"

section \<open>Requests and answers\<close>

text \<open>The body of an internal command: unreadable, not a JSON request, or a request.\<close>

record exec_request =
  er_Command :: "command option"
  er_Meta :: request_meta

datatype exec_body = ReadFailed | NotJson | Exec exec_request

record http_in =
  hi_Method :: string
  hi_Path :: string
  hi_Prefix :: string
  hi_Auth :: string
  hi_Body :: exec_body

datatype out_body =
    OutMap "(string \<times> json) list"
  | OutEntry cache_http
  | OutEntries "cache_http list"
  | OutResponse response
  | OutMetrics
  | OutNothing

datatype http_out = Answer int out_body | Redirect string | Forward http_in | Aborted

abbreviation (input) err_body :: "string \<Rightarrow> out_body" where
  "err_body msg \<equiv> OutMap [(''error'', JStr msg)]"

text \<open>\<open>writeJSON\<close>: the header is out before the body is encoded, and the error of the encoder is dropped.\<close>

definition writeJSON :: "int \<Rightarrow> out_body \<Rightarrow> http_out" where
  "writeJSON status body =
     Answer status (case body of
                      OutResponse r \<Rightarrow> if marshal_response r = None then body else OutNothing
                    | _ \<Rightarrow> body)"

section \<open>Authorisation (internal/httpapi/auth.go)\<close>

definition authorizeBearer :: "http_in \<Rightarrow> string \<Rightarrow> http_out option" where
  "authorizeBearer r expectedToken =
     (if expectedToken = [] then Some (writeJSON 401 (err_body ''internal API is disabled''))
      else if \<not> HasPrefix (hi_Auth r) ''Bearer '' \<or> TrimPrefix (hi_Auth r) ''Bearer '' \<noteq> expectedToken
      then Some (writeJSON 401 (err_body ''unauthorized''))
      else None)"

definition ingressProxyAllowed :: "string \<Rightarrow> bool" where
  "ingressProxyAllowed path =
     (if HasPrefix path ''/internal/'' then False
      else if path = ''/metrics'' then True
      else if path = ''/v1/cache'' then True
      else if HasPrefix path ''/v1/cache/'' then True
      else False)"

section \<open>Server (internal/httpapi/server.go)\<close>

definition handleHealthz :: http_out where
  "handleHealthz = writeJSON 200 (OutMap [(''status'', JStr ''ok'')])"

definition handleReadyz :: "runtime_state \<Rightarrow> http_out" where
  "handleReadyz s =
     writeJSON (if \<not> state_Ready s then 503 else 200)
       (OutMap [(''kafka'', JBool (rs_kafkaConnected s)), (''apiserver'', JBool (rs_apiserverOK s)),
                (''leader'', JBool (rs_isLeader s)), (''ready'', JBool (state_Ready s))])"

definition authorizeCache :: "http_config \<Rightarrow> runtime_state \<Rightarrow> http_in \<Rightarrow> http_out option" where
  "authorizeCache cfg st r =
     (if h_BearerToken cfg \<noteq> [] \<and>
         (\<not> HasPrefix (hi_Auth r) ''Bearer '' \<or> TrimPrefix (hi_Auth r) ''Bearer '' \<noteq> h_BearerToken cfg)
      then Some (writeJSON 401 (err_body ''unauthorized''))
      else if \<not> rs_isLeader st then Some (writeJSON 503 (err_body ''not leader''))
      else None)"

definition handleCacheGet :: "http_config \<Rightarrow> runtime_state \<Rightarrow> gtime \<Rightarrow> http_in \<Rightarrow> store \<Rightarrow> store \<times> http_out" where
  "handleCacheGet cfg st now r s =
     (if hi_Method r \<noteq> ''GET'' then (s, writeJSON 405 (err_body ''method not allowed''))
      else case authorizeCache cfg st r of
        Some out \<Rightarrow> (s, out)
      | None \<Rightarrow>
          let key = TrimChar (TrimPrefix (hi_Path r) ''/v1/cache/'') (CHR ''/'')
          in if key = [] then (s, writeJSON 400 (err_body ''key is required''))
             else (case store_Get now key s of
                     (s', None) \<Rightarrow> (s', writeJSON 404 (err_body ''not found''))
                   | (s', Some e) \<Rightarrow> (s', writeJSON 200 (OutEntry (ToHTTPResponse e)))))"

definition handleCacheList :: "http_config \<Rightarrow> runtime_state \<Rightarrow> gtime \<Rightarrow> http_in \<Rightarrow> store \<Rightarrow> http_out" where
  "handleCacheList cfg st now r s =
     (if hi_Method r \<noteq> ''GET'' then writeJSON 405 (err_body ''method not allowed'')
      else case authorizeCache cfg st r of
        Some out \<Rightarrow> out
      | None \<Rightarrow> writeJSON 200 (OutEntries (map ToHTTPResponse (ListByPrefix now (hi_Prefix r) s))))"

section \<open>Internal commands (internal/httpapi/internal.go)\<close>

text \<open>\<open>err_text\<close> is \<open>err.Error()\<close>. A panic of a handler aborts the request.\<close>

definition handleInternalCommand ::
  "(go_error \<Rightarrow> string) \<Rightarrow> 's executor \<Rightarrow> runtime_state \<Rightarrow> string \<Rightarrow> clock \<Rightarrow> http_in \<Rightarrow> 's \<Rightarrow> 's \<times> http_out" where
  "handleInternalCommand err_text router st internalToken t r s =
     (if hi_Method r \<noteq> ''POST'' then (s, writeJSON 405 (err_body ''method not allowed''))
      else case authorizeBearer r internalToken of
        Some out \<Rightarrow> (s, out)
      | None \<Rightarrow>
          if \<not> rs_isLeader st then (s, writeJSON 503 (err_body ''not leader''))
          else (case hi_Body r of
                  ReadFailed \<Rightarrow> (s, writeJSON 400 (err_body ''read body failed''))
                | NotJson \<Rightarrow> (s, writeJSON 400 (err_body ''invalid JSON''))
                | Exec req \<Rightarrow>
                    (case er_Command req of
                       None \<Rightarrow> (s, writeJSON 400 (err_body ''command is required''))
                     | Some c \<Rightarrow>
                         (case router s c (er_Meta req) t of
                            (s', Fail err) \<Rightarrow> (s', writeJSON 500 (err_body (err_text err)))
                          | (s', Async) \<Rightarrow> (s', writeJSON 202 (OutMap [(''status'', JStr ''executing'')]))
                          | (s', Reply resp) \<Rightarrow> (s', writeJSON 200 (OutResponse resp))
                          | (s', Crash) \<Rightarrow> (s', Aborted)))))"

section \<open>Routing (net/http.ServeMux)\<close>

text \<open>A path that is not clean is redirected to its clean form, which keeps a slash at the end.\<close>

definition mux_clean :: "string \<Rightarrow> string" where
  "mux_clean p =
     (if p = [] then ''/''
      else let p = (if hd p = CHR ''/'' then p else ''/'' @ p); np = path_clean p
           in if last p = CHR ''/'' \<and> np \<noteq> ''/'' then np @ ''/'' else np)"

definition through_mux :: "http_in \<Rightarrow> (http_in \<Rightarrow> 's \<Rightarrow> 's \<times> http_out) \<Rightarrow> 's \<Rightarrow> 's \<times> http_out" where
  "through_mux r serve s =
     (if hi_Method r \<noteq> ''CONNECT'' \<and> mux_clean (hi_Path r) \<noteq> hi_Path r then (s, Redirect (mux_clean (hi_Path r)))
      else serve r s)"

text \<open>The routes of \<open>NewServer\<close>; \<open>router\<close> is nil but for the agent service.\<close>

definition server_routes ::
  "(go_error \<Rightarrow> string) \<Rightarrow> http_config \<Rightarrow> runtime_state \<Rightarrow> 's executor option \<Rightarrow> ('s \<Rightarrow> store) \<Rightarrow> (store \<Rightarrow> 's \<Rightarrow> 's) \<Rightarrow> clock
     \<Rightarrow> http_in \<Rightarrow> 's \<Rightarrow> 's \<times> http_out" where
  "server_routes err_text cfg st router sel upd t r s =
     (let path = hi_Path r in
      if path = ''/healthz'' then (s, handleHealthz)
      else if path = ''/readyz'' then (s, handleReadyz st)
      else if path = ''/metrics'' then (s, Answer 200 OutMetrics)
      else if HasPrefix path ''/v1/cache/'' then
        (case handleCacheGet cfg st (fst t) r (sel s) of (c, out) \<Rightarrow> (upd c s, out))
      else if path = ''/v1/cache'' then (s, handleCacheList cfg st (fst t) r (sel s))
      else if path = ''/internal/v1/commands'' then
        (case router of
           None \<Rightarrow> (s, Answer 404 OutNothing)
         | Some ex \<Rightarrow> handleInternalCommand err_text ex st (h_InternalBearerToken cfg) t r s)
      else (s, Answer 404 OutNothing))"

definition server_serve ::
  "(go_error \<Rightarrow> string) \<Rightarrow> http_config \<Rightarrow> runtime_state \<Rightarrow> 's executor option \<Rightarrow> ('s \<Rightarrow> store) \<Rightarrow> (store \<Rightarrow> 's \<Rightarrow> 's) \<Rightarrow> clock
     \<Rightarrow> http_in \<Rightarrow> 's \<Rightarrow> 's \<times> http_out" where
  "server_serve err_text cfg st router sel upd t r s =
     through_mux r (server_routes err_text cfg st router sel upd t) s"

section \<open>Ingress (internal/httpapi/proxy.go)\<close>

definition proxy_routes :: "http_in \<Rightarrow> http_out" where
  "proxy_routes r =
     (if hi_Path r = ''/healthz'' then writeJSON 200 (OutMap [(''status'', JStr ''ok'')])
      else if hi_Path r = ''/readyz'' then writeJSON 200 (OutMap [(''status'', JStr ''ok'')])
      else if \<not> ingressProxyAllowed (hi_Path r) then writeJSON 404 (err_body ''not found'')
      else Forward r)"

definition proxy_serve :: "http_in \<Rightarrow> http_out" where
  "proxy_serve r = snd (through_mux r (\<lambda>r _. ((), proxy_routes r)) ())"

section \<open>Remote execution (internal/bridge/client.go)\<close>

record remote_executor =
  re_baseURL :: string
  re_internalToken :: string

definition remote_request :: "remote_executor \<Rightarrow> command \<Rightarrow> request_meta \<Rightarrow> http_in" where
  "remote_request x c m =
     \<lparr> hi_Method = ''POST'', hi_Path = ''/internal/v1/commands'', hi_Prefix = [],
       hi_Auth = (if re_internalToken x \<noteq> [] then ''Bearer '' @ re_internalToken x else []),
       hi_Body = Exec \<lparr> er_Command = Some c, er_Meta = m \<rparr> \<rparr>"

text \<open>
  \<open>net\<close> is the agent service behind the network: its new state and a transport error, or the status and
  the body. \<open>text\<close> is a body as text. Decoding a reply that was encoded gives it back, an empty body is
  an error; \<open>other\<close> is the decoding of any other body.
\<close>

definition decode_response :: "(out_body \<Rightarrow> go_error + response) \<Rightarrow> out_body \<Rightarrow> go_error + response" where
  "decode_response other body =
     (case body of OutResponse r \<Rightarrow> Inr r | OutNothing \<Rightarrow> Inl json_error | _ \<Rightarrow> other body)"

type_synonym 's service = "string \<Rightarrow> http_in \<Rightarrow> clock \<Rightarrow> 's \<Rightarrow> 's \<times> (go_error + int \<times> out_body)"

definition RemoteExecutor_Handle ::
  "(out_body \<Rightarrow> string) \<Rightarrow> (out_body \<Rightarrow> go_error + response) \<Rightarrow> 's service \<Rightarrow> remote_executor \<Rightarrow> 's executor" where
  "RemoteExecutor_Handle text other net x s c m t =
     (case net (re_baseURL x) (remote_request x c m) t s of
        (s', Inl err) \<Rightarrow> (s', Fail (Errorf ''agent-service request: %w'' [AErr err]))
      | (s', Inr (status, body)) \<Rightarrow>
          if status = 202 then (s', Async)
          else if status \<noteq> 200 then (s', Fail (Errorf ''agent-service returned %d: %s'' [AInt status, AStr (text body)]))
          else (case decode_response other body of
                  Inr r \<Rightarrow> (s', Reply r)
                | Inl err \<Rightarrow> (s', Fail (Errorf ''decode agent-service response: %w'' [AErr err]))))"

section \<open>Who gets what\<close>

lemma bearer_iff: "HasPrefix auth ''Bearer '' \<and> TrimPrefix auth ''Bearer '' = tok \<longleftrightarrow> auth = ''Bearer '' @ tok"
  using TrimPrefix_append [of "''Bearer ''"] HasPrefix_append [of "''Bearer ''" tok] by (auto simp: HasPrefix_iff simp del: HasPrefix_append HasPrefix_Cons TrimPrefix_append)

text \<open>Answers that carry what the server guards.\<close>

definition discloses :: "http_out \<Rightarrow> bool" where
  "discloses out \<longleftrightarrow>
     (case out of Answer st (OutEntry _) \<Rightarrow> True | Answer st (OutEntries _) \<Rightarrow> True | Answer st (OutResponse _) \<Rightarrow> True
      | Answer st _ \<Rightarrow> st = 202 | Aborted \<Rightarrow> True | _ \<Rightarrow> False)"

lemma cache_refused:
  assumes "\<not> rs_isLeader st \<or> h_BearerToken cfg \<noteq> [] \<and> hi_Auth r \<noteq> ''Bearer '' @ h_BearerToken cfg"
  shows "fst (handleCacheGet cfg st now r s) = s" "\<not> discloses (snd (handleCacheGet cfg st now r s))"
    "\<not> discloses (handleCacheList cfg st now r s)"
proof -
  have "authorizeCache cfg st r = Some (Answer 401 (err_body ''unauthorized'')) \<or>
      authorizeCache cfg st r = Some (Answer 503 (err_body ''not leader''))"
    using assms unfolding bearer_iff [symmetric] by (auto simp: authorizeCache_def writeJSON_def)
  then obtain out where "authorizeCache cfg st r = Some out" "\<not> discloses out"
    by (auto simp: discloses_def)
  then show "fst (handleCacheGet cfg st now r s) = s" "\<not> discloses (snd (handleCacheGet cfg st now r s))"
    "\<not> discloses (handleCacheList cfg st now r s)"
    by (simp_all add: handleCacheGet_def handleCacheList_def discloses_def writeJSON_def)
qed

lemma command_refused:
  assumes "\<not> rs_isLeader st \<or> tok = [] \<or> hi_Auth r \<noteq> ''Bearer '' @ tok"
  shows "fst (handleInternalCommand et ex st tok t r s) = s" "\<not> discloses (snd (handleInternalCommand et ex st tok t r s))"
  using assms unfolding bearer_iff [symmetric]
  by (auto simp: handleInternalCommand_def authorizeBearer_def discloses_def writeJSON_def)

lemma server_cases:
  assumes "server_serve et cfg st router sel upd t r s = (s', out)" and "\<And>s. upd (sel s) s = s"
  obtains "s' = s" "\<not> discloses out"
  | "HasPrefix (hi_Path r) ''/v1/cache/''" "s' = upd (fst (handleCacheGet cfg st (fst t) r (sel s))) s"
      "out = snd (handleCacheGet cfg st (fst t) r (sel s))"
  | "hi_Path r = ''/v1/cache''" "s' = s" "out = handleCacheList cfg st (fst t) r (sel s)"
  | ex where "hi_Path r = ''/internal/v1/commands''" "router = Some ex"
      "(s', out) = handleInternalCommand et ex st (h_InternalBearerToken cfg) t r s"
  using assms(1)
  by (auto simp: server_serve_def through_mux_def server_routes_def Let_def discloses_def writeJSON_def
      handleHealthz_def handleReadyz_def split: if_splits prod.splits option.splits)



section \<open>The bridge\<close>

text \<open>The agent service as the bridge reaches it; an aborted request is a transport error.\<close>

definition agent_service ::
  "(go_error \<Rightarrow> string) \<Rightarrow> http_config \<Rightarrow> runtime_state \<Rightarrow> 's executor \<Rightarrow> ('s \<Rightarrow> store) \<Rightarrow> (store \<Rightarrow> 's \<Rightarrow> 's) \<Rightarrow> 's service" where
  "agent_service et cfg st ex sel upd url r t s =
     (case server_serve et cfg st (Some ex) sel upd t r s of
        (s', Answer status body) \<Rightarrow> (s', Inr (status, body))
      | (s', _) \<Rightarrow> (s', Inl (LibErr ''EOF'')))"

lemma service_at_commands:
  "agent_service et cfg st ex sel upd url (remote_request x c m) t s =
     (case handleInternalCommand et ex st (h_InternalBearerToken cfg) t (remote_request x c m) s of
        (s', Answer status body) \<Rightarrow> (s', Inr (status, body))
      | (s', _) \<Rightarrow> (s', Inl (LibErr ''EOF'')))"
proof -
  have "mux_clean ''/internal/v1/commands'' = ''/internal/v1/commands''" by code_simp
  then show ?thesis
    by (simp add: agent_service_def server_serve_def through_mux_def server_routes_def remote_request_def Let_def HasPrefix_def)
qed

text \<open>
  C18: The egress component executes a command as the agent service itself does. With the same token, not
  empty, and the service leading, forwarding a command changes its state as executing it there, a reply
  comes back as it is and an asynchronous command stays one; an error or a panic becomes an error, and so
  does a reply whose body is not JSON. Without the token or the lead, the command is not executed and
  fails.
\<close>

theorem bridge_transparent:
  "RemoteExecutor_Handle text other (agent_service et cfg st ex sel upd) x s c m t =
     (if \<not> (h_InternalBearerToken cfg \<noteq> [] \<and> re_internalToken x = h_InternalBearerToken cfg) then
        (s, Fail (Errorf ''agent-service returned %d: %s'' [AInt 401,
           AStr (text (err_body (if h_InternalBearerToken cfg = [] then ''internal API is disabled'' else ''unauthorized'')))]))
      else if \<not> rs_isLeader st then
        (s, Fail (Errorf ''agent-service returned %d: %s'' [AInt 503, AStr (text (err_body ''not leader''))]))
      else (case ex s c m t of
              (s', Reply r) \<Rightarrow>
                (s', if marshal_response r = None then Reply r
                     else Fail (Errorf ''decode agent-service response: %w'' [AErr json_error]))
            | (s', Async) \<Rightarrow> (s', Async)
            | (s', Fail err) \<Rightarrow>
                (s', Fail (Errorf ''agent-service returned %d: %s'' [AInt 500, AStr (text (err_body (et err)))]))
            | (s', Crash) \<Rightarrow> (s', Fail (Errorf ''agent-service request: %w'' [AErr (LibErr ''EOF'')]))))"
proof -
  let ?r = "remote_request x c m" and ?tok = "h_InternalBearerToken cfg"
  have r: "hi_Method ?r = ''POST''" "hi_Body ?r = Exec \<lparr> er_Command = Some c, er_Meta = m \<rparr>"
    by (simp_all add: remote_request_def)
  have auth: "?tok \<noteq> [] \<Longrightarrow> hi_Auth ?r = ''Bearer '' @ ?tok \<longleftrightarrow> re_internalToken x = ?tok"
    by (auto simp: remote_request_def)
  have a: "authorizeBearer ?r ?tok =
      (if ?tok = [] then Some (Answer 401 (err_body ''internal API is disabled''))
       else if re_internalToken x \<noteq> ?tok then Some (Answer 401 (err_body ''unauthorized'')) else None)"
    using bearer_iff [of "hi_Auth ?r" ?tok] auth by (auto simp: authorizeBearer_def writeJSON_def)
  show ?thesis
    unfolding RemoteExecutor_Handle_def service_at_commands handleInternalCommand_def r a
    by (simp add: writeJSON_def decode_response_def split: prod.split handled.split)
qed

end
