(* ===== verification/Watch.thy ===== *)
theory Watch
  imports Subscriptions K8s_Api
begin

text \<open>
  Watch subscriptions: \<open>internal/watch\<close> (payload, scope, manager) and \<open>internal/handlers/watch\<close>.

  The manager holds the subscriptions, the shared informers with the event handlers added to them,
  and the contexts. Outside the source are the REST mapper (\<open>rm\<close>), the informers (\<open>sync_ok\<close>: whether
  an informer is or becomes synced within the time out), the objects they deliver, the Kafka client
  (\<open>send\<close>) and the truncation of a \<open>float64\<close> or \<open>float32\<close> to \<open>int32\<close> (\<open>trunc\<close>). An object is what the
  accessors of package \<open>unstructured\<close> return for it; a tombstone wraps the last known object.
\<close>

section \<open>Payload and scope (payload.go, scope.go)\<close>

abbreviation (input) EventAdded :: string where "EventAdded \<equiv> ''ADDED''"
abbreviation (input) EventModified :: string where "EventModified \<equiv> ''MODIFIED''"
abbreviation (input) EventDeleted :: string where "EventDeleted \<equiv> ''DELETED''"
abbreviation (input) EventRestart :: string where "EventRestart \<equiv> ''RESTART''"
abbreviation (input) EventK8sEvent :: string where "EventK8sEvent \<equiv> ''K8S_EVENT''"

record subscribe_payload =
  sp_SubscriptionID :: string
  sp_GVK :: gvk
  sp_Namespace :: string
  sp_LabelSelector :: string
  sp_FieldSelector :: string
  sp_EventFilter :: "string list"
  sp_OutputTopic :: string
  sp_TTLSeconds :: int

text \<open>
  The values an \<open>interface{}\<close> holds here. A floating point number is its text.
\<close>

datatype iface =
    INil
  | IStr string
  | IInt32 int
  | IInt64 int
  | IInt int
  | IFloat64 string
  | IFloat32 string
  | INumber string
  | IMap "(string \<times> iface) list"
  | ISlice "iface list"
  | IOther

record cluster_event =
  ev_SchemaVersion :: string
  ev_SubscriptionID :: string
  ev_EventType :: string
  ev_Resource :: resource_ref
  ev_ObservedAt :: gtime
  ev_Details :: "(string, iface) gomap"

definition ClusterScopedKind :: "string \<Rightarrow> bool" where
  "ClusterScopedKind kind \<longleftrightarrow>
     TrimSpace kind \<in> set [''Namespace'', ''Node'', ''PersistentVolume'', ''StorageClass'', ''ClusterRole'',
                         ''ClusterRoleBinding'']"

definition InformerNamespace :: "string \<Rightarrow> string \<Rightarrow> string" where
  "InformerNamespace kind payloadNamespace =
     (if ClusterScopedKind kind then [] else payloadNamespace)"

definition decode_gvk :: "obj \<Rightarrow> gvk option" where
  "decode_gvk kvs =
     do {
       g \<leftarrow> fld_str ''group'' kvs;
       v \<leftarrow> fld_str ''version'' kvs;
       k \<leftarrow> fld_str ''kind'' kvs;
       Some \<lparr> g_Group = g, g_Version = v, g_Kind = k \<rparr>
     }"

definition decode_subscribe :: "obj \<Rightarrow> subscribe_payload option" where
  "decode_subscribe kvs =
     do {
       i \<leftarrow> fld_str ''subscription_id'' kvs;
       gm \<leftarrow> dec_obj [] (members ''gvk'' kvs);
       g \<leftarrow> decode_gvk gm;
       ns \<leftarrow> fld_str ''namespace'' kvs;
       ls \<leftarrow> fld_str ''label_selector'' kvs;
       fs \<leftarrow> fld_str ''field_selector'' kvs;
       ef \<leftarrow> fld_strs ''event_filter'' kvs;
       ot \<leftarrow> fld_str ''output_topic'' kvs;
       ttl \<leftarrow> fld_int ''ttl_seconds'' kvs;
       Some \<lparr> sp_SubscriptionID = i, sp_GVK = g, sp_Namespace = ns, sp_LabelSelector = ls,
              sp_FieldSelector = fs, sp_EventFilter = ef, sp_OutputTopic = ot, sp_TTLSeconds = ttl \<rparr>
     }"

definition ParseSubscribePayload :: "raw \<Rightarrow> go_error + subscribe_payload" where
  "ParseSubscribePayload raw =
     sum_bind
       (decode_payload (sum_bind (unmarshal_struct raw) (\<lambda>kvs. or_json_error (decode_subscribe kvs))))
       (\<lambda>p.
          if sp_SubscriptionID p = [] then Inl (Errorf ''subscription_id is required'' [])
          else if g_Kind (sp_GVK p) = [] \<or> g_Version (sp_GVK p) = [] then
            Inl (Errorf ''gvk.kind and gvk.version are required'' [])
          else if \<not> ClusterScopedKind (g_Kind (sp_GVK p)) \<and> TrimSpace (sp_Namespace p) = [] then
            Inl (Errorf ''namespace is required for %q watch'' [AStr (g_Kind (sp_GVK p))])
          else Inr (if sp_EventFilter p = []
                    then p\<lparr>sp_EventFilter := [EventAdded, EventModified, EventDeleted]\<rparr> else p))"

definition Allows :: "subscribe_payload \<Rightarrow> string \<Rightarrow> bool" where
  "Allows p eventType \<longleftrightarrow> list_ex (\<lambda>f. EqualFold f eventType) (sp_EventFilter p)"

definition watch_OutputTopicOr :: "subscribe_payload \<Rightarrow> string \<Rightarrow> string" where
  "watch_OutputTopicOr p defaultTopic =
     (if sp_OutputTopic p \<noteq> [] then sp_OutputTopic p else defaultTopic)"

section \<open>Manager (manager.go)\<close>

record informer_key =
  ik_gvk :: gvk
  ik_namespace :: string
  ik_labelSelector :: string
  ik_fieldSelector :: string

record watch_sub =
  wsub_payload :: subscribe_payload
  wsub_ctx :: nat

text \<open>An informer is the list of handlers added to it, each a subscription and its context.\<close>

record watch_manager =
  wm_clusterID :: string
  wm_defaultTopic :: string
  wm_policy :: engine
  wm_subs :: "(string, watch_sub) gomap"
  wm_informers :: "(informer_key, watch_sub list) gomap"
  wm_ctxs :: ctxs

definition watch_NewManager :: "string \<Rightarrow> string \<Rightarrow> engine \<Rightarrow> watch_manager" where
  "watch_NewManager clusterID defaultTopic e =
     \<lparr> wm_clusterID = clusterID, wm_defaultTopic = defaultTopic, wm_policy = e, wm_subs = [],
       wm_informers = [], wm_ctxs = [] \<rparr>"

definition informer_key_of :: "subscribe_payload \<Rightarrow> informer_key" where
  "informer_key_of p =
     \<lparr> ik_gvk = sp_GVK p, ik_namespace = InformerNamespace (g_Kind (sp_GVK p)) (sp_Namespace p),
       ik_labelSelector = sp_LabelSelector p, ik_fieldSelector = sp_FieldSelector p \<rparr>"

definition getOrCreateInformer :: "informer_key \<Rightarrow> watch_manager \<Rightarrow> watch_manager" where
  "getOrCreateInformer key m =
     (case gm_get (wm_informers m) key of
        Some _ \<Rightarrow> m
      | None \<Rightarrow> m\<lparr>wm_informers := gm_put key [] (wm_informers m)\<rparr>)"

definition AddEventHandler :: "informer_key \<Rightarrow> watch_sub \<Rightarrow> watch_manager \<Rightarrow> watch_manager" where
  "AddEventHandler key h m =
     (case gm_get (wm_informers m) key of
        Some hs \<Rightarrow> m\<lparr>wm_informers := gm_put key (hs @ [h]) (wm_informers m)\<rparr>
      | None \<Rightarrow> m)"

text \<open>The checks that come before the lock.\<close>

type_synonym mapper = "(gvk \<Rightarrow> go_error + string \<times> string \<times> string) option"

definition subscribe_checks :: "mapper \<Rightarrow> engine \<Rightarrow> subscribe_payload \<Rightarrow> go_error option" where
  "subscribe_checks rm e p =
     first_error
       [AllowCommandType e TypeWatchSubscribe, AllowGVK e (sp_GVK p),
        (if \<not> ClusterScopedKind (g_Kind (sp_GVK p)) then AllowNamespace e (sp_Namespace p) else None),
        (case GVRForGVK rm (GVKFromParts (g_Group (sp_GVK p)) (g_Version (sp_GVK p)) (g_Kind (sp_GVK p))) of
           Inl err \<Rightarrow> Some (Errorf ''resolve gvr: %w'' [AErr err]) | Inr _ \<Rightarrow> None)]"

text \<open>An existing subscription with the same id is cancelled and dropped.\<close>

definition drop_existing :: "string \<Rightarrow> watch_manager \<Rightarrow> watch_manager" where
  "drop_existing i m =
     (case gm_get (wm_subs m) i of
        None \<Rightarrow> m
      | Some existing \<Rightarrow>
          m\<lparr>wm_ctxs := cancel (wsub_ctx existing) (wm_ctxs m), wm_subs := gm_del i (wm_subs m)\<rparr>)"

definition Subscribe ::
  "mapper \<Rightarrow> (informer_key \<Rightarrow> bool) \<Rightarrow> gtime \<Rightarrow> watch_manager \<Rightarrow> subscribe_payload
     \<Rightarrow> watch_manager \<times> go_error option" where
  "Subscribe rm sync_ok now m p =
     (case subscribe_checks rm (wm_policy m) p of
        Some err \<Rightarrow> (m, Some err)
      | None \<Rightarrow>
          let key = informer_key_of p;
              m = drop_existing (sp_SubscriptionID p) m
          in case subscriptionContext now (sp_TTLSeconds p) (wm_ctxs m) of
               (cs, i) \<Rightarrow>
                 let m = getOrCreateInformer key (m\<lparr>wm_ctxs := cs\<rparr>)
                 in if \<not> sync_ok key then
                      (m\<lparr>wm_ctxs := cancel i (wm_ctxs m)\<rparr>,
                       Some (Errorf ''informer sync timeout for %s'' [AStr (g_Kind (sp_GVK p))]))
                    else
                      let sub = \<lparr> wsub_payload = p, wsub_ctx = i \<rparr>;
                          m = AddEventHandler key sub m
                      in (m\<lparr>wm_subs := gm_put (sp_SubscriptionID p) sub (wm_subs m)\<rparr>, None))"

definition Unsubscribe :: "watch_manager \<Rightarrow> string \<Rightarrow> watch_manager \<times> go_error option" where
  "Unsubscribe m i =
     (case gm_get (wm_subs m) i of
        None \<Rightarrow> (m, Some (Errorf ''subscription %q not found'' [AStr i]))
      | Some sub \<Rightarrow>
          (m\<lparr>wm_ctxs := cancel (wsub_ctx sub) (wm_ctxs m), wm_subs := gm_del i (wm_subs m)\<rparr>, None))"

definition watch_StopAll :: "watch_manager \<Rightarrow> watch_manager" where
  "watch_StopAll m =
     m\<lparr>wm_ctxs := fold cancel (map (wsub_ctx \<circ> snd) (wm_subs m)) (wm_ctxs m), wm_subs := [],
       wm_informers := []\<rparr>"

definition watch_ActiveCount :: "watch_manager \<Rightarrow> int" where
  "watch_ActiveCount m = int (gm_len (wm_subs m))"

section \<open>Events\<close>

text \<open>
  \<open>u_Spec\<close>, \<open>u_Status\<close> and \<open>u_Phase\<close> are \<open>None\<close> when the field is missing or of another type;
  \<open>u_ContainerStatuses\<close> is empty then.
\<close>

record unstructured =
  u_Name :: string
  u_Namespace :: string
  u_ResourceVersion :: string
  u_Generation :: int
  u_Labels :: "(string, string) gomap"
  u_Phase :: "string option"
  u_Spec :: "(string \<times> iface) list option"
  u_Status :: "(string \<times> iface) list option"
  u_ContainerStatuses :: "iface list"
  u_Object :: "(string, iface) gomap"

datatype kobj = KNil | KUnstructured unstructured | KTombstone kobj | KOther

fun toUnstructured :: "kobj \<Rightarrow> unstructured option" where
  "toUnstructured KNil = None"
| "toUnstructured (KUnstructured u) = Some u"
| "toUnstructured (KTombstone k) = toUnstructured k"
| "toUnstructured KOther = None"

definition compactObject :: "unstructured \<Rightarrow> (string, iface) gomap" where
  "compactObject u =
     [(''metadata'', IMap [(''name'', IStr (u_Name u)), (''namespace'', IStr (u_Namespace u)),
                         (''resourceVersion'', IStr (u_ResourceVersion u)),
                         (''generation'', IInt64 (u_Generation u))])]
     @ (case u_Spec u of None \<Rightarrow> [] | Some spec \<Rightarrow> [(''spec'', IMap spec)])
     @ (case u_Status u of None \<Rightarrow> [] | Some status \<Rightarrow> [(''status'', IMap status)])"

fun as_string :: "iface option \<Rightarrow> string" where
  "as_string (Some (IStr s)) = s"
| "as_string _ = []"

definition nestedString :: "(string, iface) gomap \<Rightarrow> string \<Rightarrow> string" where
  "nestedString obj key = as_string (gm_get obj key)"

fun asInt32 :: "(string \<Rightarrow> int) \<Rightarrow> iface option \<Rightarrow> int option" where
  "asInt32 trunc (Some (IInt32 n)) = Some n"
| "asInt32 trunc (Some (IInt64 n)) = Some (int32 n)"
| "asInt32 trunc (Some (IInt n)) = Some (int32 n)"
| "asInt32 trunc (Some (IFloat64 n)) = Some (trunc n)"
| "asInt32 trunc (Some (IFloat32 n)) = Some (trunc n)"
| "asInt32 trunc (Some (INumber n)) = map_option int32 (Atoi n)"
| "asInt32 trunc _ = None"

text \<open>The body of the loop over the container statuses.\<close>

fun put_restarts :: "(string \<Rightarrow> int) \<Rightarrow> iface \<Rightarrow> (string, int) gomap \<Rightarrow> (string, int) gomap" where
  "put_restarts trunc (IMap m) out =
     (let name = as_string (gm_get m ''name'')
      in if name = [] then out
         else case asInt32 trunc (gm_get m ''restartCount'') of
                Some rc \<Rightarrow> gm_put name rc out
              | None \<Rightarrow> out)"
| "put_restarts trunc _ out = out"

definition containerRestartMap :: "(string \<Rightarrow> int) \<Rightarrow> iface list \<Rightarrow> (string, int) gomap" where
  "containerRestartMap trunc statuses = fold (put_restarts trunc) statuses []"

definition detectRestarts :: "(string \<Rightarrow> int) \<Rightarrow> unstructured \<Rightarrow> unstructured \<Rightarrow> (string, int) gomap" where
  "detectRestarts trunc oldPod newPod =
     (let oldMap = containerRestartMap trunc (u_ContainerStatuses oldPod);
          newMap = containerRestartMap trunc (u_ContainerStatuses newPod)
      in filter (\<lambda>(name, newCount).
           newCount > (case gm_get oldMap name of None \<Rightarrow> 0 | Some c \<Rightarrow> c)) newMap)"

text \<open>
  A message to the events topic. \<open>publish\<close> hands it to the Kafka client together with the context of
  the subscription; an error is logged, so what it yields is the messages that went out. \<open>send\<close> is the
  client: whether the context is done, and the message.
\<close>

record watch_msg =
  wg_Topic :: string
  wg_Key :: string
  wg_Event :: cluster_event

type_synonym watch_send = "bool \<Rightarrow> watch_msg \<Rightarrow> go_error option"

definition publish ::
  "watch_send \<Rightarrow> watch_manager \<Rightarrow> gtime \<Rightarrow> watch_sub \<Rightarrow> cluster_event \<Rightarrow> watch_msg list" where
  "publish send m now sub ev =
     (let r = ev_Resource ev;
          msg = \<lparr> wg_Topic = watch_OutputTopicOr (wsub_payload sub) (wm_defaultTopic m),
                  wg_Key = EventResourceKey (wm_clusterID m) (rr_Namespace r) (rr_Group r) (rr_Version r)
                             (rr_Kind r) (rr_Name r),
                  wg_Event = ev \<rparr>
      in case send (ctx_done now (wm_ctxs m) (wsub_ctx sub)) msg of Some _ \<Rightarrow> [] | None \<Rightarrow> [msg])"

definition resource_of :: "gvk \<Rightarrow> unstructured \<Rightarrow> resource_ref" where
  "resource_of g u =
     \<lparr> rr_Group = g_Group g, rr_Version = g_Version g, rr_Kind = g_Kind g, rr_Namespace = u_Namespace u,
       rr_Name = u_Name u \<rparr>"

definition event_details ::
  "gvk \<Rightarrow> string \<Rightarrow> string \<Rightarrow> kobj \<Rightarrow> unstructured \<Rightarrow> (string, iface) gomap" where
  "event_details g eventType effectiveType oldObj u =
     (let d = (case toUnstructured oldObj of
                 Some oldU \<Rightarrow>
                   if eventType = EventModified
                   then [(''diff'', IMap [(''old'', IMap (compactObject oldU)), (''new'', IMap (compactObject u))])]
                   else []
               | None \<Rightarrow> []);
          d = (if effectiveType = EventK8sEvent
               then gm_put ''reason'' (IStr (nestedString (u_Object u) ''reason''))
                      (gm_put ''message'' (IStr (nestedString (u_Object u) ''message'')) d)
               else d)
      in if g_Kind g = ''Namespace'' then
           let d = (if u_Labels u \<noteq> []
                    then gm_put ''labels'' (IMap (map (\<lambda>(k, v). (k, IStr v)) (u_Labels u))) d else d)
           in case u_Phase u of
                Some phase \<Rightarrow> if phase \<noteq> [] then gm_put ''phase'' (IStr phase) d else d
              | None \<Rightarrow> d
         else d)"

definition handleObject ::
  "watch_send \<Rightarrow> watch_manager \<Rightarrow> gtime \<Rightarrow> watch_sub \<Rightarrow> string \<Rightarrow> kobj \<Rightarrow> kobj \<Rightarrow> watch_msg list" where
  "handleObject send m now sub eventType oldObj newObj =
     (let payload = wsub_payload sub; g = sp_GVK payload
      in if ctx_done now (wm_ctxs m) (wsub_ctx sub) then []
         else
           let k8s = (g_Kind g = ''Event'' \<and> Allows payload EventK8sEvent);
               effectiveType = (if k8s then EventK8sEvent else eventType)
           in if \<not> k8s \<and> \<not> Allows payload eventType then []
              else case toUnstructured newObj of
                     None \<Rightarrow> []
                   | Some u \<Rightarrow>
                       publish send m now sub
                         \<lparr> ev_SchemaVersion = ''v1'', ev_SubscriptionID = sp_SubscriptionID payload,
                           ev_EventType = effectiveType, ev_Resource = resource_of g u, ev_ObservedAt = now,
                           ev_Details = event_details g eventType effectiveType oldObj u \<rparr>)"

definition handlePodRestart ::
  "(string \<Rightarrow> int) \<Rightarrow> watch_send \<Rightarrow> watch_manager \<Rightarrow> gtime \<Rightarrow> watch_sub \<Rightarrow> kobj \<Rightarrow> kobj \<Rightarrow> watch_msg list" where
  "handlePodRestart trunc send m now sub oldObj newObj =
     (let payload = wsub_payload sub; g = sp_GVK payload
      in if \<not> Allows payload EventRestart then []
         else case (toUnstructured oldObj, toUnstructured newObj) of
                (Some oldPod, Some newPod) \<Rightarrow>
                  concat (map (\<lambda>(container, count).
                    publish send m now sub
                      \<lparr> ev_SchemaVersion = ''v1'', ev_SubscriptionID = sp_SubscriptionID payload,
                        ev_EventType = EventRestart, ev_Resource = resource_of g newPod, ev_ObservedAt = now,
                        ev_Details = [(''container'', IStr container), (''restart_count'', IInt32 count)] \<rparr>)
                    (detectRestarts trunc oldPod newPod))
              | _ \<Rightarrow> [])"

text \<open>What an informer tells a handler: the three functions \<open>Subscribe\<close> adds.\<close>

datatype notification = Added kobj | Updated kobj kobj | Deleted kobj

fun notify :: "(string \<Rightarrow> int) \<Rightarrow> watch_send \<Rightarrow> watch_manager \<Rightarrow> gtime \<Rightarrow> notification \<Rightarrow> watch_sub \<Rightarrow> watch_msg list" where
  "notify trunc send m now (Added obj) sub = handleObject send m now sub EventAdded KNil obj"
| "notify trunc send m now (Updated oldObj newObj) sub =
     handleObject send m now sub EventModified oldObj newObj @
     (if g_Kind (sp_GVK (wsub_payload sub)) = ''Pod''
      then handlePodRestart trunc send m now sub oldObj newObj else [])"
| "notify trunc send m now (Deleted obj) sub = handleObject send m now sub EventDeleted KNil obj"

text \<open>A notification of the informer with a key, to each of its handlers in turn.\<close>

definition deliver ::
  "(string \<Rightarrow> int) \<Rightarrow> watch_send \<Rightarrow> watch_manager \<Rightarrow> gtime \<Rightarrow> informer_key \<Rightarrow> notification \<Rightarrow> watch_msg list" where
  "deliver trunc send m now key n =
     (case gm_get (wm_informers m) key of
        None \<Rightarrow> []
      | Some hs \<Rightarrow> concat (map (notify trunc send m now n) hs))"

section \<open>Handlers (internal/handlers/watch/handler.go)\<close>

definition SubscribeHandler_Handle ::
  "mapper \<Rightarrow> (informer_key \<Rightarrow> bool) \<Rightarrow> string \<Rightarrow> watch_manager handle" where
  "SubscribeHandler_Handle rm sync_ok defaultTopic =
     start_handler ParseSubscribePayload (Subscribe rm sync_ok) ''SubscribeFailed'' ''WATCH_SUBSCRIBE_ERROR''
       (\<lambda>p r. r\<lparr>r_SubscriptionID := sp_SubscriptionID p, r_OutputTopic := watch_OutputTopicOr p defaultTopic\<rparr>)"

definition UnsubscribeHandler_Handle :: "watch_manager handle" where
  "UnsubscribeHandler_Handle =
     stop_handler ParseStopPayload Unsubscribe ''UnsubscribeFailed'' ''WATCH_UNSUBSCRIBE_ERROR''"

interpretation watch_start_h: command_handler "SubscribeHandler_Handle rm sync_ok dt" for rm sync_ok dt
  unfolding SubscribeHandler_Handle_def by (rule command_handler_start) simp

interpretation watch_stop_h: command_handler UnsubscribeHandler_Handle
  unfolding UnsubscribeHandler_Handle_def by (rule command_handler_stop)

section \<open>The table and its contract\<close>

definition watch_active :: "watch_manager \<Rightarrow> string set" where
  "watch_active m = dom (gm_get (wm_subs m))"

lemma wm_subs_drop [simp]: "wm_subs (drop_existing i m) = gm_del i (wm_subs m) \<or> gm_get (wm_subs m) i = None"
  by (auto simp: drop_existing_def split: option.split)

lemma get_drop_existing [simp]: "gm_get (wm_subs (drop_existing i m)) = (gm_get (wm_subs m))(i := None)"
  by (auto simp: drop_existing_def split: option.split)

lemma drop_existing_sel [simp]:
  "wm_informers (drop_existing i m) = wm_informers m" "length (wm_ctxs (drop_existing i m)) = length (wm_ctxs m)"
  "wm_policy (drop_existing i m) = wm_policy m"
  by (auto simp: drop_existing_def split: option.split)

lemma getOrCreateInformer_sel [simp]:
  "wm_subs (getOrCreateInformer key m) = wm_subs m" "wm_ctxs (getOrCreateInformer key m) = wm_ctxs m"
  "wm_policy (getOrCreateInformer key m) = wm_policy m"
  by (auto simp: getOrCreateInformer_def split: option.split)

lemma AddEventHandler_sel [simp]:
  "wm_subs (AddEventHandler key h m) = wm_subs m" "wm_ctxs (AddEventHandler key h m) = wm_ctxs m"
  "wm_policy (AddEventHandler key h m) = wm_policy m"
  by (auto simp: AddEventHandler_def split: option.split)

text \<open>The three ways \<open>Subscribe\<close> ends.\<close>

lemma Subscribe_cases:
  assumes "Subscribe rm sync_ok now m p = (m', r)"
  obtains (denied) err where "subscribe_checks rm (wm_policy m) p = Some err" "m' = m" "r = Some err"
  | (unsynced) cs i where "subscribe_checks rm (wm_policy m) p = None"
      "subscriptionContext now (sp_TTLSeconds p) (wm_ctxs (drop_existing (sp_SubscriptionID p) m)) = (cs, i)"
      "m' = (getOrCreateInformer (informer_key_of p)
               ((drop_existing (sp_SubscriptionID p) m)\<lparr>wm_ctxs := cs\<rparr>))\<lparr>wm_ctxs := cancel i cs\<rparr>"
      "\<not> sync_ok (informer_key_of p)"
      "r = Some (Errorf ''informer sync timeout for %s'' [AStr (g_Kind (sp_GVK p))])"
  | (subscribed) cs i where "subscribe_checks rm (wm_policy m) p = None"
      "subscriptionContext now (sp_TTLSeconds p) (wm_ctxs (drop_existing (sp_SubscriptionID p) m)) = (cs, i)"
      "m' = (let sub = \<lparr> wsub_payload = p, wsub_ctx = i \<rparr>;
                 m1 = AddEventHandler (informer_key_of p) sub
                        (getOrCreateInformer (informer_key_of p)
                          ((drop_existing (sp_SubscriptionID p) m)\<lparr>wm_ctxs := cs\<rparr>))
             in m1\<lparr>wm_subs := gm_put (sp_SubscriptionID p) sub (wm_subs m1)\<rparr>)"
      "sync_ok (informer_key_of p)" "r = None"
proof (cases "subscribe_checks rm (wm_policy m) p")
  case (Some err)
  show thesis by (rule denied [OF Some]) (use assms Some in \<open>simp_all add: Subscribe_def\<close>)
next
  case None
  obtain cs i where c: "subscriptionContext now (sp_TTLSeconds p) (wm_ctxs (drop_existing (sp_SubscriptionID p) m)) = (cs, i)"
    by fastforce
  show thesis
  proof (cases "sync_ok (informer_key_of p)")
    case True
    show thesis by (rule subscribed [OF None c _ True]) (use assms None c True in \<open>simp_all add: Subscribe_def Let_def\<close>)
  next
    case False
    show thesis by (rule unsynced [OF None c _ False]) (use assms None c False in \<open>simp_all add: Subscribe_def Let_def\<close>)
  qed
qed

interpretation watch_table: subscription_table watch_active sp_SubscriptionID
    "Subscribe rm sync_ok now" Unsubscribe watch_StopAll for rm sync_ok now
proof
  fix m p m' e and i :: string
  show "Subscribe rm sync_ok now m p = (m', None) \<Longrightarrow> watch_active m' = insert (sp_SubscriptionID p) (watch_active m)"
    by (erule Subscribe_cases) (auto simp: watch_active_def Let_def)
  show "Subscribe rm sync_ok now m p = (m', Some e) \<Longrightarrow>
      watch_active m' \<union> {sp_SubscriptionID p} = watch_active m \<union> {sp_SubscriptionID p}"
    by (erule Subscribe_cases) (auto simp: watch_active_def split: if_splits)
  show "i \<in> watch_active m \<Longrightarrow>
      snd (Unsubscribe m i) = None \<and> watch_active (fst (Unsubscribe m i)) = watch_active m - {i}"
    by (auto simp: watch_active_def Unsubscribe_def split: if_splits)
  show "i \<notin> watch_active m \<Longrightarrow> snd (Unsubscribe m i) \<noteq> None \<and> fst (Unsubscribe m i) = m"
    by (auto simp: watch_active_def Unsubscribe_def domIff)
  show "watch_active (watch_StopAll m) = {}"
    by (simp add: watch_active_def watch_StopAll_def)
qed

section \<open>Only live subscriptions speak\<close>

text \<open>
  The handlers of the informers outlive their subscriptions: an unsubscribed handler stays where it
  is and is silenced by its context. The invariant: contexts of the table are not cancelled and not
  shared, and every handler whose context is not cancelled belongs to the table.
\<close>

definition watch_inv :: "watch_manager \<Rightarrow> bool" where
  "watch_inv m \<longleftrightarrow>
     gm_ok (wm_subs m) \<and>
     (\<forall>i sub. gm_get (wm_subs m) i = Some sub \<longrightarrow>
        sp_SubscriptionID (wsub_payload sub) = i \<and> wsub_ctx sub < length (wm_ctxs m) \<and>
        \<not> cancelled (wm_ctxs m) (wsub_ctx sub)) \<and>
     (\<forall>i j a b. gm_get (wm_subs m) i = Some a \<longrightarrow> gm_get (wm_subs m) j = Some b \<longrightarrow>
        wsub_ctx a = wsub_ctx b \<longrightarrow> i = j) \<and>
     (\<forall>key hs h. gm_get (wm_informers m) key = Some hs \<longrightarrow> h \<in> set hs \<longrightarrow>
        wsub_ctx h < length (wm_ctxs m) \<and>
        (cancelled (wm_ctxs m) (wsub_ctx h) \<or>
         gm_get (wm_subs m) (sp_SubscriptionID (wsub_payload h)) = Some h))"

lemma watch_invI:
  assumes "gm_ok (wm_subs m)"
    and "\<And>i sub. gm_get (wm_subs m) i = Some sub \<Longrightarrow> sp_SubscriptionID (wsub_payload sub) = i \<and>
      wsub_ctx sub < length (wm_ctxs m) \<and> \<not> cancelled (wm_ctxs m) (wsub_ctx sub)"
    and "\<And>i j a b. gm_get (wm_subs m) i = Some a \<Longrightarrow> gm_get (wm_subs m) j = Some b \<Longrightarrow>
      wsub_ctx a = wsub_ctx b \<Longrightarrow> i = j"
    and "\<And>key hs h. gm_get (wm_informers m) key = Some hs \<Longrightarrow> h \<in> set hs \<Longrightarrow>
      wsub_ctx h < length (wm_ctxs m) \<and> (cancelled (wm_ctxs m) (wsub_ctx h) \<or>
        gm_get (wm_subs m) (sp_SubscriptionID (wsub_payload h)) = Some h)"
  shows "watch_inv m"
  unfolding watch_inv_def using assms by blast

lemma watch_invD:
  assumes "watch_inv m"
  shows "gm_ok (wm_subs m)"
    and "gm_get (wm_subs m) i = Some sub \<Longrightarrow> sp_SubscriptionID (wsub_payload sub) = i \<and>
      wsub_ctx sub < length (wm_ctxs m) \<and> \<not> cancelled (wm_ctxs m) (wsub_ctx sub)"
    and "gm_get (wm_subs m) i = Some a \<Longrightarrow> gm_get (wm_subs m) j = Some b \<Longrightarrow>
      wsub_ctx a = wsub_ctx b \<Longrightarrow> i = j"
    and "gm_get (wm_informers m) key = Some hs \<Longrightarrow> h \<in> set hs \<Longrightarrow>
      wsub_ctx h < length (wm_ctxs m) \<and> (cancelled (wm_ctxs m) (wsub_ctx h) \<or>
        gm_get (wm_subs m) (sp_SubscriptionID (wsub_payload h)) = Some h)"
  using assms unfolding watch_inv_def by blast+

lemma watch_inv_new: "watch_inv (watch_NewManager c d e)"
  by (rule watch_invI) (simp_all add: watch_NewManager_def)

lemma watch_inv_drop: "watch_inv m \<Longrightarrow> watch_inv (drop_existing i m)"
proof (cases "gm_get (wm_subs m) i")
  case None
  then show "watch_inv m \<Longrightarrow> ?thesis" by (simp add: drop_existing_def)
next
  case (Some e)
  assume inv: "watch_inv m"
  let ?m = "drop_existing i m"
  have ctx: "cancelled (wm_ctxs ?m) j \<longleftrightarrow> cancelled (wm_ctxs m) j \<or> j = wsub_ctx e" for j
    using Some watch_invD(2) [OF inv Some] by (auto simp: drop_existing_def)
  show ?thesis
  proof (rule watch_invI)
    show "gm_ok (wm_subs ?m)" using Some watch_invD(1) [OF inv] by (simp add: drop_existing_def)
  next
    fix j sub assume "gm_get (wm_subs ?m) j = Some sub"
    then have "j \<noteq> i" "gm_get (wm_subs m) j = Some sub" by (auto split: if_splits)
    then show "sp_SubscriptionID (wsub_payload sub) = j \<and> wsub_ctx sub < length (wm_ctxs ?m) \<and>
      \<not> cancelled (wm_ctxs ?m) (wsub_ctx sub)"
      using watch_invD(2) [OF inv, of j sub] watch_invD(3) [OF inv Some, of j sub] ctx by auto
  next
    fix j k a b
    assume "gm_get (wm_subs ?m) j = Some a" "gm_get (wm_subs ?m) k = Some b" "wsub_ctx a = wsub_ctx b"
    then show "j = k" using watch_invD(3) [OF inv, of j a k b] by (simp split: if_splits)
  next
    fix key hs h assume "gm_get (wm_informers ?m) key = Some hs" "h \<in> set hs"
    then show "wsub_ctx h < length (wm_ctxs ?m) \<and> (cancelled (wm_ctxs ?m) (wsub_ctx h) \<or>
        gm_get (wm_subs ?m) (sp_SubscriptionID (wsub_payload h)) = Some h)"
      using watch_invD(4) [OF inv, of key hs h] Some
      by (cases "sp_SubscriptionID (wsub_payload h) = i") (simp_all add: ctx, blast+)
  qed
qed

lemma watch_inv_ctx:
  assumes inv: "watch_inv m" and "subscriptionContext now ttl (wm_ctxs m) = (cs, i)"
  shows "watch_inv (m\<lparr>wm_ctxs := cs\<rparr>)"
proof -
  note new = subscriptionContext_new(2,4) [OF assms(2)]
  show ?thesis
  proof (rule watch_invI)
    show "gm_ok (wm_subs (m\<lparr>wm_ctxs := cs\<rparr>))" using watch_invD(1) [OF inv] by simp
  next
    fix j sub assume "gm_get (wm_subs (m\<lparr>wm_ctxs := cs\<rparr>)) j = Some sub"
    then show "sp_SubscriptionID (wsub_payload sub) = j \<and> wsub_ctx sub < length (wm_ctxs (m\<lparr>wm_ctxs := cs\<rparr>)) \<and>
      \<not> cancelled (wm_ctxs (m\<lparr>wm_ctxs := cs\<rparr>)) (wsub_ctx sub)"
      using watch_invD(2) [OF inv, of j sub] new by simp
  next
    fix j k a b
    assume "gm_get (wm_subs (m\<lparr>wm_ctxs := cs\<rparr>)) j = Some a" "gm_get (wm_subs (m\<lparr>wm_ctxs := cs\<rparr>)) k = Some b"
      "wsub_ctx a = wsub_ctx b"
    then show "j = k" using watch_invD(3) [OF inv, of j a k b] by simp
  next
    fix key hs h assume "gm_get (wm_informers (m\<lparr>wm_ctxs := cs\<rparr>)) key = Some hs" "h \<in> set hs"
    then show "wsub_ctx h < length (wm_ctxs (m\<lparr>wm_ctxs := cs\<rparr>)) \<and>
      (cancelled (wm_ctxs (m\<lparr>wm_ctxs := cs\<rparr>)) (wsub_ctx h) \<or>
        gm_get (wm_subs (m\<lparr>wm_ctxs := cs\<rparr>)) (sp_SubscriptionID (wsub_payload h)) = Some h)"
      using watch_invD(4) [OF inv, of key hs h] new by auto
  qed
qed

lemma getOrCreateInformer_get:
  "gm_get (wm_informers (getOrCreateInformer key m)) k =
     (if k = key \<and> gm_get (wm_informers m) key = None then Some [] else gm_get (wm_informers m) k)"
  by (auto simp: getOrCreateInformer_def split: option.split)

lemma watch_inv_informer: "watch_inv m \<Longrightarrow> watch_inv (getOrCreateInformer key m)"
  by (rule watch_invI) (auto simp: getOrCreateInformer_get dest: watch_invD split: if_splits)

text \<open>A context that neither a subscription nor a handler has can be cancelled.\<close>

lemma watch_inv_cancel:
  assumes inv: "watch_inv m" and "\<And>i sub. gm_get (wm_subs m) i = Some sub \<Longrightarrow> wsub_ctx sub \<noteq> c"
  shows "watch_inv (m\<lparr>wm_ctxs := cancel c (wm_ctxs m)\<rparr>)" (is "watch_inv ?m")
proof (rule watch_invI)
  show "gm_ok (wm_subs ?m)" using watch_invD(1) [OF inv] by simp
next
  fix j s assume "gm_get (wm_subs ?m) j = Some s"
  then show "sp_SubscriptionID (wsub_payload s) = j \<and> wsub_ctx s < length (wm_ctxs ?m) \<and>
      \<not> cancelled (wm_ctxs ?m) (wsub_ctx s)"
    using watch_invD(2) [OF inv, of j s] assms(2) [of j s] by auto
next
  fix j k a b assume "gm_get (wm_subs ?m) j = Some a" "gm_get (wm_subs ?m) k = Some b" "wsub_ctx a = wsub_ctx b"
  then show "j = k" using watch_invD(3) [OF inv, of j a k b] by simp
next
  fix k hs h assume "gm_get (wm_informers ?m) k = Some hs" "h \<in> set hs"
  then show "wsub_ctx h < length (wm_ctxs ?m) \<and> (cancelled (wm_ctxs ?m) (wsub_ctx h) \<or>
      gm_get (wm_subs ?m) (sp_SubscriptionID (wsub_payload h)) = Some h)"
    using watch_invD(4) [OF inv, of k hs h] by auto
qed

lemma watch_inv_add:
  assumes inv: "watch_inv m" and free: "gm_get (wm_subs m) (sp_SubscriptionID p) = None"
    and c: "c < length (wm_ctxs m)" "\<not> cancelled (wm_ctxs m) c"
    and new: "\<And>i sub. gm_get (wm_subs m) i = Some sub \<Longrightarrow> wsub_ctx sub \<noteq> c"
  defines "sub \<equiv> \<lparr> wsub_payload = p, wsub_ctx = c \<rparr>"
  shows "watch_inv ((AddEventHandler key sub m)\<lparr>wm_subs := gm_put (sp_SubscriptionID p) sub (wm_subs m)\<rparr>)"
    (is "watch_inv ?m")
proof (rule watch_invI)
  show "gm_ok (wm_subs ?m)" using watch_invD(1) [OF inv] by simp
next
  fix j s assume "gm_get (wm_subs ?m) j = Some s"
  then show "sp_SubscriptionID (wsub_payload s) = j \<and> wsub_ctx s < length (wm_ctxs ?m) \<and>
      \<not> cancelled (wm_ctxs ?m) (wsub_ctx s)"
    using watch_invD(2) [OF inv, of j s] c by (auto simp: sub_def split: if_splits)
next
  fix j k a b assume "gm_get (wm_subs ?m) j = Some a" "gm_get (wm_subs ?m) k = Some b" "wsub_ctx a = wsub_ctx b"
  then show "j = k"
    using watch_invD(3) [OF inv, of j a k b] new [of j a] new [of k b] by (auto simp: sub_def split: if_splits)
next
  fix k hs h assume get: "gm_get (wm_informers ?m) k = Some hs" and h: "h \<in> set hs"
  have "h = sub \<or> (\<exists>hs'. gm_get (wm_informers m) k = Some hs' \<and> h \<in> set hs')"
    using get h by (auto simp: AddEventHandler_def split: option.splits if_splits)
  then show "wsub_ctx h < length (wm_ctxs ?m) \<and> (cancelled (wm_ctxs ?m) (wsub_ctx h) \<or>
      gm_get (wm_subs ?m) (sp_SubscriptionID (wsub_payload h)) = Some h)"
    using watch_invD(4) [OF inv, of k _ h] free c by (auto simp: sub_def)
qed

lemma watch_inv_Subscribe:
  assumes inv: "watch_inv m" and "Subscribe rm sync_ok now m p = (m', r)"
  shows "watch_inv m'"
  using assms(2)
proof (cases rule: Subscribe_cases)
  case denied
  then show ?thesis using inv by simp
next
  case (unsynced cs i)
  let ?m = "getOrCreateInformer (informer_key_of p) ((drop_existing (sp_SubscriptionID p) m)\<lparr>wm_ctxs := cs\<rparr>)"
  have "watch_inv ?m" using inv unsynced(2) by (intro watch_inv_informer watch_inv_ctx watch_inv_drop)
  moreover have "wsub_ctx sub \<noteq> i" if "gm_get (wm_subs ?m) j = Some sub" for j sub
    using watch_invD(2) [OF watch_inv_drop [OF inv], of "sp_SubscriptionID p" j sub] that
      subscriptionContext_new(1) [OF unsynced(2)] by (auto split: if_splits)
  ultimately have "watch_inv (?m\<lparr>wm_ctxs := cancel i (wm_ctxs ?m)\<rparr>)" by (rule watch_inv_cancel)
  then show ?thesis using unsynced(3) by simp
next
  case (subscribed cs i)
  let ?m = "getOrCreateInformer (informer_key_of p) ((drop_existing (sp_SubscriptionID p) m)\<lparr>wm_ctxs := cs\<rparr>)"
  have "watch_inv ?m" using inv subscribed(2) by (intro watch_inv_informer watch_inv_ctx watch_inv_drop)
  moreover have "wsub_ctx sub \<noteq> i" if "gm_get (wm_subs ?m) j = Some sub" for j sub
    using watch_invD(2) [OF watch_inv_drop [OF inv], of "sp_SubscriptionID p" j sub] that
      subscriptionContext_new(1) [OF subscribed(2)] by (auto split: if_splits)
  ultimately have "watch_inv ((AddEventHandler (informer_key_of p) \<lparr> wsub_payload = p, wsub_ctx = i \<rparr> ?m)
      \<lparr>wm_subs := gm_put (sp_SubscriptionID p) \<lparr> wsub_payload = p, wsub_ctx = i \<rparr> (wm_subs ?m)\<rparr>)"
    using subscriptionContext_new(1,2,3) [OF subscribed(2)]
    by (intro watch_inv_add) auto
  then show ?thesis using subscribed(3) by (simp add: Let_def)
qed

lemma watch_inv_Unsubscribe: "watch_inv m \<Longrightarrow> watch_inv (fst (Unsubscribe m i))"
  using watch_inv_drop [of m i] by (auto simp: Unsubscribe_def drop_existing_def split: option.split)

lemma watch_inv_StopAll: "watch_inv (watch_StopAll m)"
  by (rule watch_invI) (simp_all add: watch_StopAll_def)

text \<open>The operations of the manager, in any order.\<close>

inductive watch_step :: "watch_manager \<Rightarrow> watch_manager \<Rightarrow> bool" where
  step_subscribe: "Subscribe rm sync_ok now m p = (m', r) \<Longrightarrow> watch_step m m'"
| step_unsubscribe: "watch_step m (fst (Unsubscribe m i))"
| step_stop_all: "watch_step m (watch_StopAll m)"

definition watch_reachable :: "watch_manager \<Rightarrow> bool" where
  "watch_reachable = reachable (\<lambda>m. \<exists>c d e. m = watch_NewManager c d e) watch_step"

lemma watch_reachable_inv: "watch_reachable m \<Longrightarrow> watch_inv m"
  unfolding watch_reachable_def
  by (erule reachable_invariant)
     (auto intro: watch_inv_new watch_inv_Unsubscribe watch_inv_StopAll watch_inv_Subscribe elim!: watch_step.cases)

text \<open>What the table and the handlers hold was checked, and a handler sits at the informer of its payload.\<close>

definition handler_ok :: "engine \<Rightarrow> informer_key \<Rightarrow> watch_sub \<Rightarrow> bool" where
  "handler_ok e key h \<longleftrightarrow>
     key = informer_key_of (wsub_payload h) \<and> AllowGVK e (sp_GVK (wsub_payload h)) = None \<and>
     (ClusterScopedKind (g_Kind (sp_GVK (wsub_payload h))) \<or> AllowNamespace e (sp_Namespace (wsub_payload h)) = None)"

definition watch_checked :: "watch_manager \<Rightarrow> bool" where
  "watch_checked m \<longleftrightarrow>
     (\<forall>key hs h. gm_get (wm_informers m) key = Some hs \<longrightarrow> h \<in> set hs \<longrightarrow> handler_ok (wm_policy m) key h)"

lemma AddEventHandler_get:
  "gm_get (wm_informers (AddEventHandler key h m)) k =
     (if k = key then map_option (\<lambda>hs. hs @ [h]) (gm_get (wm_informers m) key) else gm_get (wm_informers m) k)"
  by (auto simp: AddEventHandler_def split: option.split)

lemma watch_checked_Subscribe:
  assumes chk: "watch_checked m" and "Subscribe rm sync_ok now m p = (m', r)"
  shows "watch_checked m'"
  using assms(2)
proof (cases rule: Subscribe_cases)
  case (unsynced cs i)
  then show ?thesis using chk
    by (auto simp: watch_checked_def getOrCreateInformer_get split: if_splits)
next
  case (subscribed cs i)
  have "handler_ok (wm_policy m) (informer_key_of p) \<lparr> wsub_payload = p, wsub_ctx = i \<rparr>"
    using subscribed(1) by (auto simp: handler_ok_def subscribe_checks_def split: if_splits)
  then show ?thesis using chk subscribed(3)
    by (auto simp: watch_checked_def getOrCreateInformer_get AddEventHandler_get Let_def split: if_splits)
qed (use chk in simp)

lemma watch_reachable_checked: "watch_reachable m \<Longrightarrow> watch_checked m"
  unfolding watch_reachable_def
proof (erule reachable_invariant)
  fix m m' assume "watch_checked m" and "watch_step m m'"
  from this(2,1) show "watch_checked m'"
  proof cases
    case step_subscribe
    then show ?thesis using \<open>watch_checked m\<close> watch_checked_Subscribe by blast
  qed (auto simp: Unsubscribe_def watch_StopAll_def watch_checked_def split: option.split)
qed (auto simp: watch_checked_def watch_NewManager_def)

text \<open>The messages of a handler: they are addressed by its payload, and its context is not done.\<close>

definition refuses_done :: "watch_send \<Rightarrow> bool" where
  "refuses_done send \<longleftrightarrow> (\<forall>msg. send True msg \<noteq> None)"

lemma publish_mem:
  assumes "msg \<in> set (publish send m now sub ev)" and "refuses_done send"
  shows "\<not> ctx_done now (wm_ctxs m) (wsub_ctx sub)" "wg_Event msg = ev"
    "wg_Topic msg = watch_OutputTopicOr (wsub_payload sub) (wm_defaultTopic m)"
proof -
  show "\<not> ctx_done now (wm_ctxs m) (wsub_ctx sub)"
  proof
    assume "ctx_done now (wm_ctxs m) (wsub_ctx sub)"
    then have "publish send m now sub ev = []"
      using assms(2) by (simp add: publish_def Let_def refuses_done_def split: option.split)
    then show False using assms(1) by simp
  qed
qed (use assms in \<open>auto simp: publish_def Let_def split: option.splits\<close>)

definition event_of :: "watch_sub \<Rightarrow> cluster_event \<Rightarrow> bool" where
  "event_of sub ev \<longleftrightarrow>
     ev_SubscriptionID ev = sp_SubscriptionID (wsub_payload sub) \<and>
     Allows (wsub_payload sub) (ev_EventType ev) \<and>
     \<lparr> g_Group = rr_Group (ev_Resource ev), g_Version = rr_Version (ev_Resource ev),
       g_Kind = rr_Kind (ev_Resource ev) \<rparr> = sp_GVK (wsub_payload sub)"

lemma resource_of_gvk [simp]:
  "\<lparr> g_Group = rr_Group (resource_of g u), g_Version = rr_Version (resource_of g u),
     g_Kind = rr_Kind (resource_of g u) \<rparr> = g"
  by (simp add: resource_of_def)

definition speaks :: "watch_manager \<Rightarrow> gtime \<Rightarrow> watch_sub \<Rightarrow> watch_msg \<Rightarrow> bool" where
  "speaks m now sub msg \<longleftrightarrow>
     \<not> ctx_done now (wm_ctxs m) (wsub_ctx sub) \<and> event_of sub (wg_Event msg) \<and>
    wg_Topic msg = watch_OutputTopicOr (wsub_payload sub) (wm_defaultTopic m)"

lemma publish_speaks:
  "msg \<in> set (publish send m now sub ev) \<Longrightarrow> refuses_done send \<Longrightarrow> event_of sub ev \<Longrightarrow> speaks m now sub msg"
  using publish_mem [of msg send m now sub ev] by (simp add: speaks_def)

lemma handleObject_mem:
  assumes "msg \<in> set (handleObject send m now sub ty oldObj newObj)" and "refuses_done send"
  shows "speaks m now sub msg"
  using assms
  by (auto simp: handleObject_def Let_def event_of_def intro: publish_speaks split: option.splits if_splits)

lemma handlePodRestart_mem:
  assumes "msg \<in> set (handlePodRestart trunc send m now sub oldObj newObj)" and "refuses_done send"
  shows "speaks m now sub msg"
  using assms
  by (auto simp: handlePodRestart_def Let_def event_of_def intro: publish_speaks split: option.splits if_splits)

lemma notify_mem:
  assumes "msg \<in> set (notify trunc send m now n sub)" and "refuses_done send"
  shows "speaks m now sub msg"
  using assms by (cases n) (auto split: if_splits dest: handleObject_mem handlePodRestart_mem)

lemma notify_cancelled:
  "refuses_done send \<Longrightarrow> cancelled (wm_ctxs m) (wsub_ctx sub) \<Longrightarrow> notify trunc send m now n sub = []"
  using notify_mem [of _ trunc send m now n sub] ctx_done_cancelled
  by (cases "notify trunc send m now n sub") (auto simp: speaks_def)


definition watch_policy :: policy_config where
  "watch_policy = shop_policy\<lparr>pc_AllowedCommandTypes := [TypeWatchSubscribe]\<rparr>"

definition watch_engine :: engine where
  "watch_engine = (case NewEngine watch_policy of Inr e \<Rightarrow> e | Inl _ \<Rightarrow> undefined)"

definition pods_payload :: subscribe_payload where
  "pods_payload =
     \<lparr> sp_SubscriptionID = ''w1'', sp_GVK = \<lparr> g_Group = [], g_Version = ''v1'', g_Kind = ''Pod'' \<rparr>,
       sp_Namespace = ''shop'', sp_LabelSelector = [], sp_FieldSelector = [],
       sp_EventFilter = [''added'', ''RESTART''], sp_OutputTopic = [], sp_TTLSeconds = 60 \<rparr>"

definition demo_mapper :: mapper where
  "demo_mapper = Some (\<lambda>g. Inr ([], ''v1'', ''pods''))"

definition new_watch :: watch_manager where
  "new_watch = watch_NewManager ''c'' ''cluster.events'' watch_engine"

definition one_watch :: watch_manager where
  "one_watch = fst (Subscribe demo_mapper (\<lambda>_. True) 0 new_watch pods_payload)"

definition web_pod :: "int \<Rightarrow> unstructured" where
  "web_pod restarts =
     \<lparr> u_Name = ''web'', u_Namespace = ''shop'', u_ResourceVersion = ''1'', u_Generation = 1, u_Labels = [],
       u_Phase = None, u_Spec = None, u_Status = None,
       u_ContainerStatuses = [IMap [(''name'', IStr ''app''), (''restartCount'', IInt64 restarts)]], u_Object = [] \<rparr>"

definition demo_send :: watch_send where
  "demo_send ctx_is_done msg = (if ctx_is_done then Some (LibErr ''context done'') else None)"

lemma one_watch_reachable: "watch_reachable one_watch"
proof -
  have "watch_reachable new_watch"
    unfolding watch_reachable_def new_watch_def by (rule reach_init) blast
  moreover have "watch_step new_watch one_watch"
    unfolding one_watch_def by (rule step_subscribe [OF surjective_pairing])
  ultimately show ?thesis unfolding watch_reachable_def by (rule reach_step)
qed




section \<open>Restarts\<close>

text \<open>The restart count of a container: that of its last status with a name and a number.\<close>

fun restart_entry :: "(string \<Rightarrow> int) \<Rightarrow> iface \<Rightarrow> (string \<times> int) option" where
  "restart_entry trunc (IMap m) =
     (if as_string (gm_get m ''name'') = [] then None
      else map_option (Pair (as_string (gm_get m ''name''))) (asInt32 trunc (gm_get m ''restartCount'')))"
| "restart_entry trunc _ = None"

definition restart_count :: "(string \<Rightarrow> int) \<Rightarrow> unstructured \<Rightarrow> string \<Rightarrow> int option" where
  "restart_count trunc pod c = map_of (rev (List.map_filter (restart_entry trunc) (u_ContainerStatuses pod))) c"

lemma put_restarts_entry:
  "put_restarts trunc item out = (case restart_entry trunc item of None \<Rightarrow> out | Some (n, rc) \<Rightarrow> gm_put n rc out)"
  by (cases item) (auto simp: Let_def split: option.split)

lemma map_filter_Cons:
  "List.map_filter f (x # xs) = (case f x of None \<Rightarrow> List.map_filter f xs | Some y \<Rightarrow> y # List.map_filter f xs)"
  by (simp add: List.map_filter_def split: option.split)

lemma fold_put_restarts:
  "gm_get (fold (put_restarts trunc) sts out) c =
     (case map_of (rev (List.map_filter (restart_entry trunc) sts)) c of None \<Rightarrow> gm_get out c | Some k \<Rightarrow> Some k)"
proof (induction sts arbitrary: out)
  case (Cons item sts)
  then show ?case
    by (cases "restart_entry trunc item")
       (auto simp: put_restarts_entry map_filter_Cons map_add_def split: option.split)
qed (simp add: List.map_filter_def)

lemma gm_get_containerRestartMap:
  "gm_get (containerRestartMap trunc (u_ContainerStatuses pod)) c = restart_count trunc pod c"
  by (simp add: containerRestartMap_def restart_count_def fold_put_restarts split: option.split)

lemma gm_ok_containerRestartMap: "gm_ok (containerRestartMap trunc sts)"
proof -
  have "gm_ok out \<Longrightarrow> gm_ok (fold (put_restarts trunc) sts out)" for out
    by (induction sts arbitrary: out) (auto simp: put_restarts_entry split: option.split)
  then show ?thesis by (simp add: containerRestartMap_def)
qed

lemma gm_ok_filter: "gm_ok m \<Longrightarrow> gm_ok (filter P m)"
  by (simp add: gm_ok_def distinct_map_filter)

lemma gm_get_filter: "gm_ok m \<Longrightarrow> gm_get (filter P m) k = Some v \<longleftrightarrow> gm_get m k = Some v \<and> P (k, v)"
  using gm_get_mem [of "filter P m" k v] gm_get_mem [of m k v] gm_ok_filter [of m P] by auto

text \<open>
  a restart is reported exactly when a restart count goes up. Of an update of a pod, a container is
  reported, once and with its new count, exactly when that count is larger than the old one, a
  container without a count before counting as zero.
\<close>

lemma restarts_detected:
  "gm_ok (detectRestarts trunc oldPod newPod) \<and>
   (gm_get (detectRestarts trunc oldPod newPod) c = Some k \<longleftrightarrow>
      restart_count trunc newPod c = Some k \<and>
      k > (case restart_count trunc oldPod c of None \<Rightarrow> 0 | Some j \<Rightarrow> j))"
  by (simp add: detectRestarts_def Let_def gm_get_filter gm_ok_filter gm_ok_containerRestartMap
      gm_get_containerRestartMap)

section \<open>Replacing a subscription\<close>

text \<open>
  a failed replacement loses the old subscription. When a subscription is subscribed again with a
  payload that passes the checks but whose informer does not sync, the reply is an error, yet the old
  subscription is gone: its id, and no other, has left the table.
\<close>

lemma failed_resubscribe_drops:
  assumes "sp_SubscriptionID p \<in> watch_active m"
    and "subscribe_checks rm (wm_policy m) p = None" and "\<not> sync_ok (informer_key_of p)"
    and "Subscribe rm sync_ok now m p = (m', r)"
  shows "r \<noteq> None \<and> watch_active m' = watch_active m - {sp_SubscriptionID p}"
  using assms(4)
  by (cases rule: Subscribe_cases) (use assms(2,3) in \<open>auto simp: watch_active_def split: if_splits\<close>)

lemma failed_resubscribe_drops_example:
  "snd (Subscribe demo_mapper (\<lambda>_. False) 1 one_watch pods_payload) \<noteq> None \<and>
   watch_active (fst (Subscribe demo_mapper (\<lambda>_. False) 1 one_watch pods_payload)) = watch_active one_watch - {''w1''}"
proof -
  have "gm_get (wm_subs one_watch) ''w1'' \<noteq> None" by code_simp
  then have "sp_SubscriptionID pods_payload \<in> watch_active one_watch"
    by (auto simp: watch_active_def pods_payload_def)
  moreover have "subscribe_checks demo_mapper (wm_policy one_watch) pods_payload = None" by code_simp
  ultimately show ?thesis
    using failed_resubscribe_drops [of pods_payload one_watch demo_mapper "\<lambda>_. False" 1,
        OF _ _ _ surjective_pairing]
    by (simp add: pods_payload_def)
qed

end
