(* ===== verification/Modules.thy ===== *)
theory Modules
  imports Core_Client Http_Api Watch
begin

text \<open>
  The modules that have no commands: \<open>internal/modules/ottlogstrue\<close> (access logs of sidecars),
  \<open>internal/modules/loglevel\<close>, \<open>internal/modules/metricswatcher\<close>, \<open>internal/modules/eventswatcher\<close>,
  \<open>internal/modules/kubeapi\<close> and \<open>internal/registration\<close>, with the message types of \<open>api/gen\<close>.

  A module talks to the core through the client of \<open>Core_Client\<close>; what it publishes is the message it hands
  to it. A \<open>stamp\<close> holds the readings of the clock that make the ids and the time of new headers.
\<close>

type_synonym stamp = "(int \<times> int) \<times> (int \<times> int) \<times> string"

definition stamped :: "stamp \<Rightarrow> string \<Rightarrow> string \<Rightarrow> string \<Rightarrow> string \<Rightarrow> string \<Rightarrow> proto_headers" where
  "stamped st = (case st of (t, u, now) \<Rightarrow> NewRequest t u now)"

definition legacy_mode :: "config \<Rightarrow> bool" where
  "legacy_mode cfg \<longleftrightarrow> k_Mode (cfg_Kafka cfg) = KafkaModeProtobuf \<or> k_Mode (cfg_Kafka cfg) = KafkaModeDual"

section \<open>Parser (internal/modules/ottlogstrue/parser.go)\<close>

text \<open>
  The expressions with a group are sequences of literals, skipped classes and one captured class. No class
  contains the first byte of what follows it, so the greedy choice is the only one; a search takes the
  leftmost match.
\<close>

datatype re_atom = ReLit string | ReSkip "char \<Rightarrow> bool" | ReCap "char \<Rightarrow> bool" | ReCap1 "char \<Rightarrow> bool"

fun match_here :: "re_atom list \<Rightarrow> string \<Rightarrow> string option" where
  "match_here [] s = Some []"
| "match_here (ReLit p # re) s = (if HasPrefix s p then match_here re (drop (length p) s) else None)"
| "match_here (ReSkip c # re) s = match_here re (dropWhile c s)"
| "match_here (ReCap c # re) s =
     (case match_here re (dropWhile c s) of None \<Rightarrow> None | Some _ \<Rightarrow> Some (takeWhile c s))"
| "match_here (ReCap1 c # re) s =
     (if takeWhile c s = [] then None
      else case match_here re (dropWhile c s) of None \<Rightarrow> None | Some _ \<Rightarrow> Some (takeWhile c s))"

fun FindSubmatch :: "re_atom list \<Rightarrow> string \<Rightarrow> string option" where
  "FindSubmatch re [] = match_here re []"
| "FindSubmatch re (x # xs) = (case match_here re (x # xs) of None \<Rightarrow> FindSubmatch re xs | Some g \<Rightarrow> Some g)"

definition re_space :: "char \<Rightarrow> bool" where
  "re_space c \<longleftrightarrow> of_char c \<in> {9, 10, 12, 13, 32 :: int}"

definition re_word :: "char \<Rightarrow> bool" where
  "re_word c \<longleftrightarrow> (let n = (of_char c :: int)
                 in 48 \<le> n \<and> n \<le> 57 \<or> 65 \<le> n \<and> n \<le> 90 \<or> 97 \<le> n \<and> n \<le> 122 \<or> n = 95)"

definition re_upper :: "char \<Rightarrow> bool" where
  "re_upper c \<longleftrightarrow> (let n = (of_char c :: int) in 65 \<le> n \<and> n \<le> 90)"

abbreviation (input) quote :: char where "quote \<equiv> CHR 0x27"

definition reModID :: "re_atom list" where
  "reModID = [ReLit ''module_id:'', ReSkip re_space, ReLit [quote], ReCap (\<lambda>c. c \<noteq> quote), ReLit [quote]]"

definition reHost :: "re_atom list" where
  "reHost = [ReLit ''host:'', ReSkip re_space, ReLit [quote], ReCap (\<lambda>c. c \<noteq> quote), ReLit [quote]]"

definition rePath :: "re_atom list" where
  "rePath = [ReLit ''api:interface:resource{'', ReCap (\<lambda>c. c \<noteq> CHR ''}''), ReLit ''}'']"

definition reMethod :: "re_atom list" where
  "reMethod = [ReLit ''names:http:method'', ReSkip (\<lambda>c. \<not> re_word c), ReCap1 re_upper]"

definition reCons :: "re_atom list" where
  "reCons = [ReLit ''access-subject{[['', ReCap (\<lambda>c. c \<noteq> CHR '']''), ReLit '']]}'']"

definition reProv :: "re_atom list" where
  "reProv = [ReLit ''recipient-subject{[['', ReCap (\<lambda>c. c \<noteq> CHR '']''), ReLit '']]}'']"

definition rePermit :: "string \<Rightarrow> bool" where
  "rePermit s \<longleftrightarrow> Contains s (''Result: '' @ [quote] @ ''Result('') \<or> Contains s ''Decision=Permit''"

definition reDeny :: "string \<Rightarrow> bool" where
  "reDeny s \<longleftrightarrow> Contains s (''Result: '' @ [quote] @ ''Deny'' @ [quote]) \<or> Contains s ([quote] @ ''Deny'' @ [quote]) \<or>
     Contains s ''Decision=Deny''"

record ott_record =
  or_RequestResult :: string
  or_RequestPath :: string
  or_RequestMethod :: string
  or_ModuleIDProvider :: string
  or_ModuleIDConsumer :: string
  or_Host :: string
  or_Healthcheck :: bool
  or_Received :: int

abbreviation (input) ResultPermit :: string where "ResultPermit \<equiv> ''PERMIT''"
abbreviation (input) ResultDeny :: string where "ResultDeny \<equiv> ''DENY''"
abbreviation (input) ResultUnknown :: string where "ResultUnknown \<equiv> ''UNKNOWN''"
abbreviation (input) xacmlCategory :: string where
  "xacmlCategory \<equiv> ''Category=urn:oasis:names:tc:xacml:1.0:subject-category:access-subject''"

definition empty_record :: ott_record where
  "empty_record =
     \<lparr> or_RequestResult = [], or_RequestPath = [], or_RequestMethod = [], or_ModuleIDProvider = [],
       or_ModuleIDConsumer = [], or_Host = [], or_Healthcheck = False, or_Received = 0 \<rparr>"

definition submatch_or :: "re_atom list \<Rightarrow> string \<Rightarrow> string \<Rightarrow> string" where
  "submatch_or re s d = (case FindSubmatch re s of None \<Rightarrow> d | Some g \<Rightarrow> g)"

definition ott_Parse :: "string list \<Rightarrow> bool \<Rightarrow> ott_record" where
  "ott_Parse lines healthcheck =
     (if healthcheck then empty_record\<lparr> or_RequestResult := ResultUnknown, or_Healthcheck := True \<rparr>
      else let joined = JoinStr lines '' ''
           in if \<not> Contains joined xacmlCategory then empty_record\<lparr> or_RequestResult := ResultUnknown \<rparr>
              else let prov = submatch_or reModID joined []
                   in empty_record
                      \<lparr> or_RequestResult := (if rePermit joined then ResultPermit
                                            else if reDeny joined then ResultDeny else ResultUnknown),
                        or_ModuleIDProvider := (if prov = [] then submatch_or reProv joined [] else prov),
                        or_Host := submatch_or reHost joined [],
                        or_ModuleIDConsumer := submatch_or reCons joined [],
                        or_RequestPath := submatch_or rePath joined [],
                        or_RequestMethod := submatch_or reMethod joined [] \<rparr>)"

definition ShouldSend :: "ott_record \<Rightarrow> bool" where
  "ShouldSend r =
     (if or_Healthcheck r then True
      else or_ModuleIDProvider r \<noteq> [] \<and> or_RequestMethod r \<noteq> [] \<and> or_ModuleIDConsumer r \<noteq> [] \<and> or_RequestPath r \<noteq> [])"

section \<open>Bucketizer (internal/modules/ottlogstrue/bucketizer.go)\<close>

text \<open>\<open>compile\<close> is \<open>regexp.Compile\<close>; a compiled expression is the set of lines it matches.\<close>

record bucketizer =
  bz_size :: int
  bz_re :: "string \<Rightarrow> bool"
  bz_buf :: "string list"
  bz_open :: bool

definition NewBucketizer :: "(string \<Rightarrow> go_error + (string \<Rightarrow> bool)) \<Rightarrow> int \<Rightarrow> string \<Rightarrow> go_error + bucketizer" where
  "NewBucketizer compile sz loggerRegex =
     sum_bind (compile loggerRegex)
       (\<lambda>re. Inr \<lparr> bz_size = (if sz < 1 then 2 else sz), bz_re = re, bz_buf = [], bz_open = False \<rparr>)"

definition bucketizer_Add :: "string \<Rightarrow> bucketizer \<Rightarrow> bucketizer \<times> string list \<times> bool" where
  "bucketizer_Add line b =
     (if bz_re b line then
        (if bz_open b \<and> bz_buf b \<noteq> [] then (b\<lparr> bz_buf := [line], bz_open := True \<rparr>, bz_buf b, True)
         else (b\<lparr> bz_buf := [line], bz_open := True \<rparr>, [], False))
      else if \<not> bz_open b then (b, [], False)
      else let buf = bz_buf b @ [line]
           in if int (length buf) \<ge> bz_size b then (b\<lparr> bz_buf := [], bz_open := False \<rparr>, buf, True)
              else (b\<lparr> bz_buf := buf \<rparr>, [], False))"

definition bucketizer_Flush :: "bucketizer \<Rightarrow> bucketizer \<times> string list" where
  "bucketizer_Flush b = (if bz_buf b = [] then (b, []) else (b\<lparr> bz_buf := [], bz_open := False \<rparr>, bz_buf b))"

text \<open>All lines of a log, then a flush: the buckets that were closed and the rest, if any.\<close>

fun buckets :: "bucketizer \<Rightarrow> string list \<Rightarrow> string list list" where
  "buckets b [] = (case bucketizer_Flush b of (_, []) \<Rightarrow> [] | (_, rest) \<Rightarrow> [rest])"
| "buckets b (l # ls) =
     (case bucketizer_Add l b of (b', out, closed) \<Rightarrow> (if closed then [out] else []) @ buckets b' ls)"

section \<open>Messages, sender and module (api/gen/ottlogstrue, sender.go, module.go)\<close>

record ott_config =
  oc_NamespacesOfCluster :: "string list"
  oc_ScanPeriod :: int
  oc_SidecarMask :: string
  oc_ReplyTopicEvents :: string
  oc_HealthcheckPeriod :: int
  oc_ScanPeriodFromStartPodSeconds :: int
  oc_ResyncMs :: int
  oc_CheckLoggerNameRegex :: string

definition ott_config_Unmarshal :: "http_body \<Rightarrow> go_error + ott_config" where
  "ott_config_Unmarshal body =
     (case body of
        BodyRaw _ \<Rightarrow> Inl json_error
      | BodyJson j \<Rightarrow>
          sum_bind (unmarshal_struct (Some j)) (\<lambda>kvs. or_json_error (do {
            ns \<leftarrow> fld_strs ''namespaces_of_cluster'' kvs;
            sp \<leftarrow> fld_int ''scan_period'' kvs;
            sm \<leftarrow> fld_str ''sidecar_mask'' kvs;
            rt \<leftarrow> fld_str ''reply_topic_events'' kvs;
            hp \<leftarrow> fld_int ''healthcheck_period'' kvs;
            ss \<leftarrow> fld_int ''scan_period_from_start_pod_seconds'' kvs;
            rs \<leftarrow> fld_int ''resync_ms'' kvs;
            rx \<leftarrow> fld_str ''check_logger_name_regex'' kvs;
            Some \<lparr> oc_NamespacesOfCluster = ns, oc_ScanPeriod = sp, oc_SidecarMask = sm, oc_ReplyTopicEvents = rt,
                   oc_HealthcheckPeriod = hp, oc_ScanPeriodFromStartPodSeconds = ss, oc_ResyncMs = rs,
                   oc_CheckLoggerNameRegex = rx \<rparr> })))"

record ott_event =
  oe_RequestResult :: string
  oe_RequestPath :: string
  oe_RequestMethod :: string
  oe_ModuleIDProvider :: string
  oe_ModuleIDConsumer :: string
  oe_Host :: string
  oe_HealthcheckRecord :: bool
  oe_Received :: int
  oe_DeploymentUnitKind :: string
  oe_DeploymentUnitName :: string
  oe_Namespace :: string
  oe_PodName :: string
  oe_SidecarName :: string

definition ott_event_json :: "ott_event \<Rightarrow> json" where
  "ott_event_json e = JObj
     [(''request_result'', JStr (oe_RequestResult e)), (''request_path'', JStr (oe_RequestPath e)),
      (''request_method'', JStr (oe_RequestMethod e)), (''module_id_provider'', JStr (oe_ModuleIDProvider e)),
      (''module_id_consumer'', JStr (oe_ModuleIDConsumer e)), (''host'', JStr (oe_Host e)),
      (''healthcheck_record'', JBool (oe_HealthcheckRecord e)), (''received'', JInt (oe_Received e)),
      (''deployment_unit_kind'', JStr (oe_DeploymentUnitKind e)),
      (''deployment_unit_name'', JStr (oe_DeploymentUnitName e)), (''namespace'', JStr (oe_Namespace e)),
      (''pod_name'', JStr (oe_PodName e)), (''sidecar_name'', JStr (oe_SidecarName e))]"

record ott_bucket =
  ob_Events :: "ott_event list"
  ob_Namespace :: string
  ob_PodName :: string
  ob_SidecarName :: string

definition ott_bucket_Marshal :: "ott_bucket \<Rightarrow> http_body" where
  "ott_bucket_Marshal b = BodyJson (JObj
     [(''events'', JArr (map ott_event_json (ob_Events b))), (''namespace'', JStr (ob_Namespace b)),
      (''pod_name'', JStr (ob_PodName b)), (''sidecar_name'', JStr (ob_SidecarName b))])"

record ott_sender =
  os_topic :: string
  os_senderID :: string
  os_batcher :: "ott_event batcher"
  os_namespace :: string
  os_pod :: string
  os_sidecar :: string

definition NewSender :: "string \<Rightarrow> string \<Rightarrow> string \<Rightarrow> string \<Rightarrow> string \<Rightarrow> ott_sender" where
  "NewSender topic senderID ns pod sidecar =
     \<lparr> os_topic = topic, os_senderID = senderID, os_batcher = batcher_New 30 (30 * second), os_namespace = ns,
       os_pod = pod, os_sidecar = sidecar \<rparr>"

definition sender_Add :: "ott_event \<Rightarrow> ott_sender \<Rightarrow> ott_sender" where
  "sender_Add ev s = s\<lparr> os_batcher := fst (batcher_Add ev (os_batcher s)) \<rparr>"

definition sender_Close :: "ott_sender \<Rightarrow> ott_sender" where
  "sender_Close s = s\<lparr> os_batcher := batcher_Close (os_batcher s) \<rparr>"

definition sender_flush ::
  "(http_body \<Rightarrow> http_body) \<Rightarrow> core_client option \<Rightarrow> stamp \<Rightarrow> ott_sender \<Rightarrow> ott_event list \<Rightarrow> raw_msg option" where
  "sender_flush gz client st s items =
     (case client of
        None \<Rightarrow> None
      | Some c \<Rightarrow>
          if items = [] then None
          else let body = ott_bucket_Marshal \<lparr> ob_Events = items, ob_Namespace = os_namespace s, ob_PodName = os_pod s,
                                              ob_SidecarName = os_sidecar s \<rparr>;
                   h = (stamped st (os_senderID s) ''OttLogTrueSidecarBucket'' ''OTT_LOG_TRUE_BUCKET'' (os_topic s) [])
                         \<lparr> ph_Addressee := ''uamc-ottlogstrue-consumer'', ph_Zipped := True \<rparr>
               in Some (SendRequestVoid gz c (ToMap h) body))"

definition refreshConfig_request :: "config \<Rightarrow> stamp \<Rightarrow> (string, string) gomap \<times> http_body" where
  "refreshConfig_request cfg st =
     (let respTopic = ResolveTopic (k_OutResponseTopicTemplate (cfg_Kafka cfg)) (cfg_ClusterID cfg)
      in (ToMap (stamped st (cfg_ClusterID cfg) ''OttLogTrueConfigRequest'' ''OTT_LOG_TRUE_CONFIG''
                   (k_OutRequestTopic (cfg_Kafka cfg)) respTopic),
          BodyJson (JObj [(''cluster_id'', JStr (cfg_ClusterID cfg))])))"

text \<open>The new configuration of the module, from what \<open>SendRequest\<close> returned.\<close>

definition refreshConfig ::
  "(go_error + http_body \<times> (string, string) gomap) \<Rightarrow> ott_config option \<Rightarrow> ott_config option" where
  "refreshConfig reply old =
     (case reply of
        Inl _ \<Rightarrow> old
      | Inr (body, _) \<Rightarrow> (case ott_config_Unmarshal body of Inl _ \<Rightarrow> old | Inr rsp \<Rightarrow> Some rsp))"

definition emitHealthchecks ::
  "(http_body \<Rightarrow> http_body) \<Rightarrow> core_client option \<Rightarrow> config \<Rightarrow> stamp \<Rightarrow> int \<Rightarrow> ott_config option \<Rightarrow> raw_msg list" where
  "emitHealthchecks gz client cfg st now_ms cfgRsp =
     (case cfgRsp of
        None \<Rightarrow> []
      | Some rsp \<Rightarrow>
          if oc_ReplyTopicEvents rsp = [] \<or> client = None then []
          else let rec = (ott_Parse [] True)\<lparr> or_Received := now_ms \<rparr>;
                   ev = \<lparr> oe_RequestResult = or_RequestResult rec, oe_RequestPath = [], oe_RequestMethod = [],
                          oe_ModuleIDProvider = [], oe_ModuleIDConsumer = [], oe_Host = [], oe_HealthcheckRecord = True,
                          oe_Received = or_Received rec, oe_DeploymentUnitKind = [], oe_DeploymentUnitName = [],
                          oe_Namespace = [], oe_PodName = [], oe_SidecarName = [] \<rparr>;
                   s = sender_Close (sender_Add ev (NewSender (oc_ReplyTopicEvents rsp) (cfg_ClusterID cfg) ''_health'' ''_'' ''_''))
               in List.map_filter (sender_flush gz client st s) (bt_flushed (os_batcher s)))"

text \<open>
  The scheduler up to the end of its context: the reply to the request at its start, and per tick of five
  minutes the reply to the request of that tick, the stamp and the clock. Result: the configuration it is left
  with and what it published.
\<close>

fun ott_ticks ::
  "(http_body \<Rightarrow> http_body) \<Rightarrow> core_client option \<Rightarrow> config
     \<Rightarrow> ((go_error + http_body \<times> (string, string) gomap) \<times> stamp \<times> int) list \<Rightarrow> ott_config option
     \<Rightarrow> ott_config option \<times> raw_msg list" where
  "ott_ticks gz client cfg [] rsp = (rsp, [])"
| "ott_ticks gz client cfg ((reply, st, now) # ticks) rsp =
     (let rsp = (if client = None then rsp else refreshConfig reply rsp);
          out = emitHealthchecks gz client cfg st now rsp
      in case ott_ticks gz client cfg ticks rsp of (rsp', outs) \<Rightarrow> (rsp', out @ outs))"

definition ott_scheduler ::
  "(http_body \<Rightarrow> http_body) \<Rightarrow> core_client option \<Rightarrow> config \<Rightarrow> (go_error + http_body \<times> (string, string) gomap)
     \<Rightarrow> ((go_error + http_body \<times> (string, string) gomap) \<times> stamp \<times> int) list \<Rightarrow> ott_config option \<times> raw_msg list" where
  "ott_scheduler gz client cfg reply ticks =
     ott_ticks gz client cfg ticks (if client = None then None else refreshConfig reply None)"

section \<open>Log levels (internal/modules/loglevel/module.go)\<close>

record level_entry =
  lv_level :: string
  lv_expiresAt :: gtime

record ll_cache =
  ll_entries :: "(string, level_entry) gomap"
  ll_ttl :: gtime

definition NewLLCache :: "gtime \<Rightarrow> ll_cache" where
  "NewLLCache ttl = \<lparr> ll_entries = [], ll_ttl = (if ttl \<le> 0 then 300 * second else ttl) \<rparr>"

definition UpdateNewRequest :: "gtime \<Rightarrow> string \<Rightarrow> string \<Rightarrow> ll_cache \<Rightarrow> ll_cache \<times> bool" where
  "UpdateNewRequest now key level c =
     (let fresh = c\<lparr> ll_entries := gm_put key \<lparr> lv_level = level, lv_expiresAt = now + ll_ttl c \<rparr> (ll_entries c) \<rparr>
      in case gm_get (ll_entries c) key of
           Some e \<Rightarrow> if lv_level e = level \<and> now < lv_expiresAt e then (c, False) else (fresh, True)
         | None \<Rightarrow> (fresh, True))"

definition ll_Put :: "gtime \<Rightarrow> string \<Rightarrow> string \<Rightarrow> ll_cache \<Rightarrow> ll_cache" where
  "ll_Put now key level c =
     c\<lparr> ll_entries := gm_put key \<lparr> lv_level = level, lv_expiresAt = now + ll_ttl c \<rparr> (ll_entries c) \<rparr>"

definition ll_Get :: "gtime \<Rightarrow> string \<Rightarrow> ll_cache \<Rightarrow> string option" where
  "ll_Get now key c =
     (case gm_get (ll_entries c) key of
        None \<Rightarrow> None
      | Some e \<Rightarrow> if now > lv_expiresAt e then None else Some (lv_level e))"

record set_level =
  sl_Cluster :: string
  sl_Namespace :: string
  sl_Object :: string
  sl_Level :: string

definition decode_set_level :: "http_body \<Rightarrow> go_error + set_level" where
  "decode_set_level body =
     (case body of
        BodyRaw _ \<Rightarrow> Inl json_error
      | BodyJson j \<Rightarrow>
          sum_bind (unmarshal_struct (Some j)) (\<lambda>kvs. or_json_error (do {
            c \<leftarrow> fld_str ''cluster'' kvs;
            n \<leftarrow> fld_str ''namespace'' kvs;
            ob \<leftarrow> fld_str ''object'' kvs;
            l \<leftarrow> fld_str ''level'' kvs;
            Some \<lparr> sl_Cluster = c, sl_Namespace = n, sl_Object = ob, sl_Level = l \<rparr> })))"

definition level_key :: "set_level \<Rightarrow> string" where
  "level_key p = sl_Cluster p @ ''/'' @ sl_Namespace p @ ''/'' @ sl_Object p"

record loglevel_module =
  ml_cache :: ll_cache
  ml_locks :: synchronizer

definition loglevel_New :: loglevel_module where
  "loglevel_New = \<lparr> ml_cache = NewLLCache (300 * second), ml_locks = sync_New \<rparr>"

definition handleUpdateCache :: "gtime \<Rightarrow> loglevel_module proto_handler" where
  "handleUpdateCache now m h body =
     (case decode_set_level body of
        Inl e \<Rightarrow> (m, Some e)
      | Inr p \<Rightarrow> (m\<lparr> ml_cache := ll_Put now (level_key p) (sl_Level p) (ml_cache m) \<rparr>, None))"

text \<open>The work under the lock of the key; \<open>now\<close> and \<open>now'\<close> are its two readings of the clock.\<close>

definition set_level_locked :: "gtime \<Rightarrow> gtime \<Rightarrow> string \<Rightarrow> string \<Rightarrow> ll_cache \<Rightarrow> ll_cache \<times> go_error option" where
  "set_level_locked now now' key level c =
     (case UpdateNewRequest now key level c of
        (c, False) \<Rightarrow> (c, None)
      | (c, True) \<Rightarrow> (ll_Put now' key level c, None))"

text \<open>\<open>None\<close> while another goroutine holds the lock of the key.\<close>

definition handleSetLevel ::
  "gtime \<Rightarrow> gtime \<Rightarrow> loglevel_module \<Rightarrow> proto_headers \<Rightarrow> http_body \<Rightarrow> (loglevel_module \<times> go_error option) option" where
  "handleSetLevel now now' m h body =
     (case decode_set_level body of
        Inl e \<Rightarrow> Some (m, Some e)
      | Inr p \<Rightarrow>
          map_option (\<lambda>((locks, c), e). (m\<lparr> ml_cache := c, ml_locks := locks \<rparr>, e))
            (sync_Do (level_key p) (set_level_locked now now' (level_key p) (sl_Level p)) (ml_locks m, ml_cache m)))"

section \<open>Cluster metrics (internal/modules/metricswatcher/module.go)\<close>

text \<open>
  \<open>nodes\<close> and \<open>pods\<close> are the numbers of items the API server returned for the two lists, \<open>observed\<close> the time in
  RFC 3339 form. An error of a list or of the publisher ends the round.
\<close>

definition scrape ::
  "(http_body \<Rightarrow> http_body) \<Rightarrow> config \<Rightarrow> core_client option \<Rightarrow> stamp \<Rightarrow> (go_error + nat) \<Rightarrow> (go_error + nat) \<Rightarrow> string \<Rightarrow> raw_msg option" where
  "scrape gz cfg client st nodes pods observed =
     (case client of
        None \<Rightarrow> None
      | Some c \<Rightarrow>
          (case (nodes, pods) of
             (Inr n, Inr p) \<Rightarrow>
               let body = BodyJson (JObj [(''cluster_id'', JStr (cfg_ClusterID cfg)), (''nodes'', JInt (int n)),
                                          (''pods'', JInt (int p)), (''observed_at'', JStr observed)]);
                   h = (stamped st (cfg_ClusterID cfg) ''ClusterMetricsSnapshot'' ''METRICS_SNAPSHOT''
                          (k_MetricsWatcherTopic (cfg_Kafka cfg)) [])\<lparr> ph_Addressee := ''uamc-metrics-watcher'' \<rparr>
               in Some (SendRequestVoid gz c (ToMap h) body)
           | _ \<Rightarrow> None))"

text \<open>The rounds up to the end of the context: one at the start and one per minute.\<close>

definition metrics_loop ::
  "(http_body \<Rightarrow> http_body) \<Rightarrow> config \<Rightarrow> core_client option \<Rightarrow> (stamp \<times> (go_error + nat) \<times> (go_error + nat) \<times> string) list \<Rightarrow> raw_msg list" where
  "metrics_loop gz cfg client rounds = List.map_filter (\<lambda>(st, n, p, observed). scrape gz cfg client st n p observed) rounds"

section \<open>Cluster events (internal/modules/eventswatcher/bridge.go)\<close>

text \<open>\<open>encode\<close> is the JSON document of an event.\<close>

definition eventswatcher_Enabled :: "config \<Rightarrow> feat_registry option \<Rightarrow> bool" where
  "eventswatcher_Enabled cfg feat =
     (if \<not> legacy_mode cfg then False
      else if feat \<noteq> None \<and> \<not> feat_Enabled feat ''watch_events'' \<and> \<not> CommandEnabled feat ''watch.subscribe'' then False
      else True)"

definition bridge_PublishEvent ::
  "(cluster_event \<Rightarrow> json) \<Rightarrow> (http_body \<Rightarrow> http_body) \<Rightarrow> config \<Rightarrow> core_client option \<Rightarrow> stamp \<Rightarrow> cluster_event option
     \<Rightarrow> raw_msg option" where
  "bridge_PublishEvent encode gz cfg client st ev =
     (case (client, ev) of
        (Some c, Some e) \<Rightarrow>
          let h = (stamped st (cfg_ClusterID cfg) ''ClusterEvent'' ''CLUSTER_EVENT''
                     (k_EventsWatcherTopic (cfg_Kafka cfg)) [])\<lparr> ph_Addressee := ''uamc-events-watcher'' \<rparr>
          in Some (SendRequestVoid gz c (ToMap h) (BodyJson (encode e)))
      | _ \<Rightarrow> None)"

section \<open>Registration (internal/registration/module.go, api/gen/registration)\<close>

definition registration_Enabled :: "config \<Rightarrow> bool" where
  "registration_Enabled cfg \<longleftrightarrow> a_RegistrationEnabled (cfg_Agent cfg) \<and> legacy_mode cfg"

record registration_request =
  rg_ClusterID :: string
  rg_AgentInstanceID :: string
  rg_ClusterName :: string
  rg_Modules :: "string list"
  rg_AgentImplementation :: string
  rg_LogsBackend :: string

definition omitempty :: "string \<Rightarrow> string \<Rightarrow> (string \<times> json) list" where
  "omitempty k v = (if v = [] then [] else [(k, JStr v)])"

definition registration_Marshal :: "registration_request \<Rightarrow> http_body" where
  "registration_Marshal r = BodyJson (JObj
     ([(''cluster_id'', JStr (rg_ClusterID r)), (''agent_instance_id'', JStr (rg_AgentInstanceID r)),
       (''cluster_name'', JStr (rg_ClusterName r)), (''modules'', JArr (map JStr (rg_Modules r)))] @
      omitempty ''agent_implementation'' (rg_AgentImplementation r) @ omitempty ''logs_backend'' (rg_LogsBackend r)))"

definition registration_message :: "config \<Rightarrow> string list \<Rightarrow> stamp \<Rightarrow> (string, string) gomap \<times> http_body" where
  "registration_message cfg names st =
     (let req = \<lparr> rg_ClusterID = cfg_ClusterID cfg, rg_AgentInstanceID = a_InstanceID (cfg_Agent cfg),
                  rg_ClusterName = cfg_ClusterID cfg, rg_Modules = names,
                  rg_AgentImplementation = a_Implementation (cfg_Agent cfg), rg_LogsBackend = l_Backend (cfg_Logs cfg) \<rparr>;
          respTopic = ResolveTopic (k_OutResponseTopicTemplate (cfg_Kafka cfg)) (cfg_ClusterID cfg)
      in (ToMap (stamped st (cfg_ClusterID cfg) ''AgentRegistrationRequest'' ''REGISTER''
                   (k_OutRequestTopic (cfg_Kafka cfg)) respTopic), registration_Marshal req))"

text \<open>
  \<open>Start\<close> waits for the delay, unless its context ends first, and then for the reply; only the end of the
  context is an error. The outcome says what it logs.
\<close>

datatype registration_outcome = RegSkipped | RegCancelled go_error | RegFailed go_error | RegRejected string string | RegDone

record registration_response =
  ag_Accepted :: bool
  ag_Message :: string
  ag_Reason :: string

definition decode_registration :: "http_body \<Rightarrow> registration_response option" where
  "decode_registration body =
     (case probe body of
        None \<Rightarrow> None
      | Some kvs \<Rightarrow> do {
          a \<leftarrow> fld_bool ''accepted'' kvs;
          m \<leftarrow> fld_str ''message'' kvs;
          r \<leftarrow> fld_str ''reason'' kvs;
          Some \<lparr> ag_Accepted = a, ag_Message = m, ag_Reason = r \<rparr> })"

definition registration_Start ::
  "config \<Rightarrow> bool \<Rightarrow> go_error option \<Rightarrow> (go_error + http_body \<times> (string, string) gomap) \<Rightarrow> registration_outcome" where
  "registration_Start cfg has_client ctx_err reply =
     (if \<not> has_client then RegSkipped
      else case (if int64 (a_RegistrationDelayMs (cfg_Agent cfg) * 1000000) > 0 then ctx_err else None) of
        Some e \<Rightarrow> RegCancelled e
      | None \<Rightarrow>
          (case reply of
             Inl e \<Rightarrow> RegFailed e
           | Inr (body, _) \<Rightarrow>
               (case decode_registration body of
                  Some r \<Rightarrow> if \<not> ag_Accepted r then RegRejected (ag_Reason r) (ag_Message r) else RegDone
                | None \<Rightarrow> RegDone)))"

definition registration_error :: "registration_outcome \<Rightarrow> go_error option" where
  "registration_error out = (case out of RegCancelled e \<Rightarrow> Some e | _ \<Rightarrow> None)"

section \<open>REST proxy (internal/modules/kubeapi/module.go)\<close>

text \<open>\<open>rest_env\<close> is the environment variable \<open>KUBEAPI_REST_ENABLED\<close>.\<close>

definition kubeapi_Enabled :: "string \<Rightarrow> config \<Rightarrow> feat_registry option \<Rightarrow> bool" where
  "kubeapi_Enabled rest_env cfg feat =
     (if EqualFold rest_env ''true'' then True
      else if feat \<noteq> None \<and> (feat_Enabled feat ''cluster_inventory'' \<or> CommandEnabled feat ''k8s.api'') then legacy_mode cfg
      else False)"

definition singleJoiningSlash :: "string \<Rightarrow> string \<Rightarrow> string" where
  "singleJoiningSlash a b =
     (if HasSuffix a ''/'' \<and> HasPrefix b ''/'' then a @ drop 1 b
      else if \<not> HasSuffix a ''/'' \<and> \<not> HasPrefix b ''/'' then a @ ''/'' @ b
      else a @ b)"

text \<open>
  The request the proxy sends: \<open>target\<close> is the path of the API server's URL, \<open>token\<close> the bearer token of the
  agent. The header of the caller is kept only where the agent has no token.
\<close>

definition kubeapi_director :: "string \<Rightarrow> string \<Rightarrow> http_in \<Rightarrow> http_in" where
  "kubeapi_director target token r =
     r\<lparr> hi_Path := singleJoiningSlash target (hi_Path r),
        hi_Auth := (if token \<noteq> [] then ''Bearer '' @ token else hi_Auth r) \<rparr>"

definition kubeapi_routes :: "string \<Rightarrow> string \<Rightarrow> http_in \<Rightarrow> http_out" where
  "kubeapi_routes target token r =
     (if hi_Path r = ''/healthz'' then Answer 200 OutNothing else Forward (kubeapi_director target token r))"

definition kubeapi_serve :: "string \<Rightarrow> string \<Rightarrow> http_in \<Rightarrow> http_out" where
  "kubeapi_serve target token r = snd (through_mux r (\<lambda>r _. ((), kubeapi_routes target token r)) ())"

section \<open>Buckets are the segments of the log\<close>

text \<open>Reference: a segment is a line that matches and the lines after it up to the next one that does.\<close>

fun segments :: "(string \<Rightarrow> bool) \<Rightarrow> string list \<Rightarrow> string list list" where
  "segments re [] = []"
| "segments re (l # ls) =
     (if re l then [l # takeWhile (\<lambda>x. \<not> re x) ls] else []) @ segments re ls"

definition bucket_of :: "int \<Rightarrow> string list \<Rightarrow> string list" where
  "bucket_of n seg = take (nat (max 2 n)) seg"

lemma buckets_closed: "\<not> bz_open b \<Longrightarrow> bz_buf b = [] \<Longrightarrow> bz_size b = n \<Longrightarrow> bz_re b = re \<Longrightarrow>
    buckets b ls = map (bucket_of n) (segments re ls)"
  and buckets_open: "bz_open b \<Longrightarrow> bz_buf b \<noteq> [] \<Longrightarrow> int (length (bz_buf b)) < max 2 n \<Longrightarrow> bz_size b = n \<Longrightarrow> bz_re b = re \<Longrightarrow>
    buckets b ls = bucket_of n (bz_buf b @ takeWhile (\<lambda>x. \<not> re x) ls) # map (bucket_of n) (segments re ls)"
proof (induction ls arbitrary: b)
  case Nil
  {
    case 1
    then show ?case by (simp add: bucketizer_Flush_def)
  next
    case 2
    then show ?case by (cases "bz_buf b") (auto simp: bucketizer_Flush_def bucket_of_def)
  }
next
  case (Cons l ls)
  {
    case 1
    then show ?case
      using Cons.IH(1) [of b] Cons.IH(2) [of "b\<lparr> bz_buf := [l], bz_open := True \<rparr>"]
      by (auto simp: bucketizer_Add_def bucket_of_def)
  next
    case 2
    show ?case
    proof (cases "re l")
      case True
      then show ?thesis
        using 2 Cons.IH(2) [of "b\<lparr> bz_buf := [l], bz_open := True \<rparr>"]
        by (auto simp: bucketizer_Add_def bucket_of_def)
    next
      case False
      have len: "int (length (bz_buf b @ [l])) \<ge> n \<Longrightarrow> nat (max 2 n) = length (bz_buf b @ [l])"
        using 2 by (cases "bz_buf b") auto
      show ?thesis
        using 2 False len Cons.IH(1) [of "b\<lparr> bz_buf := [], bz_open := False \<rparr>"]
          Cons.IH(2) [of "b\<lparr> bz_buf := bz_buf b @ [l] \<rparr>"]
        by (auto simp: bucketizer_Add_def bucket_of_def Let_def)
    qed
  }
qed



section \<open>What the REST proxy lets through\<close>


text \<open>A caller without any token, with the dual mode set in the environment and a policy for one namespace.\<close>

definition dual_env :: "string \<Rightarrow> string" where
  "dual_env k = (if k = ''KAFKA_MODE'' then ''dual'' else [])"

lemma dual_env_loads: "\<exists>cfg. Load (\<lambda>_. None) ''pod-0'' dual_env = Inr cfg \<and> legacy_mode cfg"
proof -
  have "case Load (\<lambda>_. None) ''pod-0'' dual_env of Inl _ \<Rightarrow> False | Inr cfg \<Rightarrow> legacy_mode cfg" by code_simp
  then show ?thesis by (cases "Load (\<lambda>_. None) ''pod-0'' dual_env") auto
qed


end
