(* ===== verification/Agent.thy ===== *)
theory Agent
  imports K8s_Api Log_Stream Health_Report Logs_Collect Modules
begin

text \<open>
  The agent as a whole: \<open>internal/modules/module.go\<close> (module registry), \<open>internal/modules/cmdmods\<close> and
  \<open>internal/modules/ailogs\<close> (modules with commands), \<open>internal/agent/app.go\<close> and \<open>run.go\<close> (wiring, command
  loop, leadership, shutdown) and \<open>internal/leaderelection\<close>.

  The state of the agent has one part per component, and each handler works on its part. What the client
  libraries do is an argument: \<open>agent_env\<close> has what the handlers need, \<open>agent_clients\<close> the outcome of building
  the clients.
\<close>

section \<open>Modules (internal/modules/module.go)\<close>

text \<open>\<open>am_Handlers\<close> is \<open>None\<close> for a module that is no \<open>CommandProvider\<close>; start and stop give their error.\<close>

record 's agent_module =
  am_Name :: string
  am_Enabled :: "config \<Rightarrow> feat_registry option \<Rightarrow> bool"
  am_Handlers :: "'s handler list option"
  am_Start :: "go_error option"
  am_Stop :: "go_error option"

record 's mod_registry =
  mr_modules :: "'s agent_module list"
  mr_started :: "'s agent_module list"

definition NewRegistry :: "'s agent_module list \<Rightarrow> 's mod_registry" where
  "NewRegistry mods = \<lparr> mr_modules = mods, mr_started = [] \<rparr>"

definition registry_Register :: "'s agent_module \<Rightarrow> 's mod_registry \<Rightarrow> 's mod_registry" where
  "registry_Register m r = r\<lparr> mr_modules := mr_modules r @ [m] \<rparr>"

definition registry_Handlers :: "config \<Rightarrow> feat_registry option \<Rightarrow> 's mod_registry \<Rightarrow> 's handler list" where
  "registry_Handlers cfg feat r =
     concat (map (\<lambda>m. if \<not> am_Enabled m cfg feat then []
                      else case am_Handlers m of None \<Rightarrow> [] | Some hs \<Rightarrow> hs) (mr_modules r))"

fun start_modules ::
  "config \<Rightarrow> feat_registry option \<Rightarrow> 's agent_module list \<Rightarrow> 's agent_module list \<Rightarrow> 's agent_module list \<times> go_error option" where
  "start_modules cfg feat [] started = (started, None)"
| "start_modules cfg feat (m # ms) started =
     (if \<not> am_Enabled m cfg feat then start_modules cfg feat ms started
      else case am_Start m of
             Some e \<Rightarrow> (started, Some (Errorf ''module %s start: %w'' [AStr (am_Name m), AErr e]))
           | None \<Rightarrow> start_modules cfg feat ms (started @ [m]))"

definition registry_Start :: "config \<Rightarrow> feat_registry option \<Rightarrow> 's mod_registry \<Rightarrow> 's mod_registry \<times> go_error option" where
  "registry_Start cfg feat r =
     (case start_modules cfg feat (mr_modules r) (mr_started r) of (st, e) \<Rightarrow> (r\<lparr> mr_started := st \<rparr>, e))"

text \<open>The modules stopped, in order, and the first error.\<close>

definition registry_Stop :: "'s mod_registry \<Rightarrow> 's mod_registry \<times> string list \<times> go_error option" where
  "registry_Stop r =
     (r\<lparr> mr_started := [] \<rparr>, map am_Name (rev (mr_started r)),
      first_error (map (\<lambda>m. map_option (\<lambda>e. Errorf ''module %s stop: %w'' [AStr (am_Name m), AErr e]) (am_Stop m))
                     (rev (mr_started r))))"

definition registry_Names :: "'s mod_registry \<Rightarrow> string list" where
  "registry_Names r = map am_Name (mr_modules r)"

section \<open>Modules with commands (internal/modules/cmdmods, internal/modules/ailogs)\<close>

definition HandlerModule_Enabled :: "string list \<Rightarrow> string list \<Rightarrow> feat_registry option \<Rightarrow> bool" where
  "HandlerModule_Enabled featKeys cmdTypes feat =
     (if feat = None then True
      else if list_ex (feat_Enabled feat) featKeys then True
      else if list_ex (CommandEnabled feat) cmdTypes then True
      else featKeys = [] \<and> cmdTypes = [])"

definition NewHandlerModule :: "string \<Rightarrow> string list \<Rightarrow> string list \<Rightarrow> 's handler list \<Rightarrow> 's agent_module" where
  "NewHandlerModule name featKeys cmdTypes handlers =
     \<lparr> am_Name = name, am_Enabled = (\<lambda>_. HandlerModule_Enabled featKeys cmdTypes), am_Handlers = Some handlers,
       am_Start = None, am_Stop = None \<rparr>"

definition FilterHandlers :: "feat_registry option \<Rightarrow> 's handler list \<Rightarrow> 's handler list" where
  "FilterHandlers feat handlers =
     (if feat = None then handlers else filter (\<lambda>(ty, h). CommandEnabled feat ty) handlers)"

definition ailogs_module :: "'s agent_module" where
  "ailogs_module =
     \<lparr> am_Name = ''ailogscollector'',
       am_Enabled = (\<lambda>cfg feat. legacy_mode cfg \<and> HandlerModule_Enabled [''logs_collect''] [TypeLogsCollect] feat),
       am_Handlers = Some [], am_Start = None, am_Stop = None \<rparr>"

text \<open>A module without commands.\<close>

definition plain_module :: "string \<Rightarrow> (config \<Rightarrow> feat_registry option \<Rightarrow> bool) \<Rightarrow> go_error option \<Rightarrow> 's agent_module" where
  "plain_module name enabled start_err =
     \<lparr> am_Name = name, am_Enabled = enabled, am_Handlers = None, am_Start = start_err, am_Stop = None \<rparr>"

section \<open>Wiring (internal/agent/app.go, New)\<close>

record agent_parts =
  ap_api :: "http_req list"
  ap_logs :: collect_handler
  ap_watch :: watch_manager
  ap_cache :: cache_state
  ap_stream :: stream_manager
  ap_health :: health_manager

record agent_env =
  aw_api :: api_env
  aw_rest :: rest_config
  aw_mapper :: mapper
  aw_sync :: "informer_key \<Rightarrow> bool"
  aw_tick :: "clock \<Rightarrow> nat \<Rightarrow> gtime"
  aw_parse_duration :: "string \<Rightarrow> int option"
  aw_getenv :: "string \<Rightarrow> string"
  aw_registration :: "go_error option"
  aw_kubeapi :: "go_error option \<times> go_error option"

record agent_clients =
  ac_k8s :: "go_error option"
  ac_kubernetes :: "go_error option"
  ac_dynamic :: "go_error option"
  ac_publisher :: "go_error option"

definition envOrDefault :: "agent_env \<Rightarrow> string \<Rightarrow> string \<Rightarrow> string" where
  "envOrDefault w key fallback = (let v = aw_getenv w key in if v \<noteq> [] then v else fallback)"

text \<open>The six modules of handlers, in the order of \<open>New\<close>; metrics are always there.\<close>

definition command_modules :: "agent_env \<Rightarrow> config \<Rightarrow> engine \<Rightarrow> agent_parts agent_module list" where
  "command_modules w cfg e =
     [NewHandlerModule ''api'' [''cluster_inventory'', ''workload_manage'', ''istio_manage'', ''rbac_inspect''] [TypeK8sAPI]
        [(TypeK8sAPI, on_part ap_api (\<lambda>x s. s\<lparr> ap_api := x \<rparr>) (api_Handle (aw_api w) (aw_rest w) e False))],
      NewHandlerModule ''logs'' [''logs_collect''] [TypeLogsCollect]
        [(TypeLogsCollect, on_part ap_logs (\<lambda>x s. s\<lparr> ap_logs := x \<rparr>) (collect_Handle (aw_parse_duration w)))],
      NewHandlerModule ''watch'' [''watch_events''] [TypeWatchSubscribe, TypeWatchUnsubscribe]
        [(TypeWatchSubscribe, on_part ap_watch (\<lambda>x s. s\<lparr> ap_watch := x \<rparr>)
            (SubscribeHandler_Handle (aw_mapper w) (aw_sync w) (k_EventsTopic (cfg_Kafka cfg)))),
         (TypeWatchUnsubscribe, on_part ap_watch (\<lambda>x s. s\<lparr> ap_watch := x \<rparr>) UnsubscribeHandler_Handle)],
      NewHandlerModule ''cache'' [''cache''] [TypeCachePut, TypeCacheDelete, TypeCacheClear]
        [(TypeCachePut, on_part ap_cache (\<lambda>x s. s\<lparr> ap_cache := x \<rparr>) (PutHandler_Handle (aw_tick w) True e)),
         (TypeCacheDelete, on_part ap_cache (\<lambda>x s. s\<lparr> ap_cache := x \<rparr>) (DeleteHandler_Handle True e)),
         (TypeCacheClear, on_part ap_cache (\<lambda>x s. s\<lparr> ap_cache := x \<rparr>) (ClearHandler_Handle True e))],
      NewHandlerModule ''logstream'' [''logs_stream''] [TypeLogsStreamStart, TypeLogsStreamStop]
        [(TypeLogsStreamStart, on_part ap_stream (\<lambda>x s. s\<lparr> ap_stream := x \<rparr>)
            (stream_StartHandler (k_LogsStreamTopic (cfg_Kafka cfg)))),
         (TypeLogsStreamStop, on_part ap_stream (\<lambda>x s. s\<lparr> ap_stream := x \<rparr>) stream_StopHandler)],
      NewHandlerModule ''health'' [''health_report''] [TypeHealthReportStart, TypeHealthReportStop]
        [(TypeHealthReportStart, on_part ap_health (\<lambda>x s. s\<lparr> ap_health := x \<rparr>)
            (health_StartHandler (k_HealthTopic (cfg_Kafka cfg)))),
         (TypeHealthReportStop, on_part ap_health (\<lambda>x s. s\<lparr> ap_health := x \<rparr>) health_StopHandler)]]"

definition other_modules :: "agent_env \<Rightarrow> agent_parts agent_module list" where
  "other_modules w =
     [plain_module ''registration'' (\<lambda>cfg _. registration_Enabled cfg) (aw_registration w),
      plain_module ''eventswatcher'' eventswatcher_Enabled None,
      plain_module ''metricswatcher'' (\<lambda>cfg _. legacy_mode cfg) None,
      plain_module ''loglevel'' (\<lambda>cfg _. legacy_mode cfg) None,
      (plain_module ''kubeapi'' (kubeapi_Enabled (aw_getenv w ''KUBEAPI_REST_ENABLED'')) (fst (aw_kubeapi w)))
        \<lparr> am_Stop := snd (aw_kubeapi w) \<rparr>,
      ailogs_module,
      plain_module ''ottlogstrue'' (\<lambda>cfg _. legacy_mode cfg) None]"

definition agent_registry :: "agent_env \<Rightarrow> config \<Rightarrow> engine \<Rightarrow> agent_parts mod_registry" where
  "agent_registry w cfg e = fold registry_Register (other_modules w) (NewRegistry (command_modules w cfg e))"

definition agent_router :: "agent_env \<Rightarrow> config \<Rightarrow> engine \<Rightarrow> feat_registry option \<Rightarrow> agent_parts router" where
  "agent_router w cfg e feat = NewRouter (FilterHandlers feat (registry_Handlers cfg feat (agent_registry w cfg e)))"

definition new_parts :: "config \<Rightarrow> engine \<Rightarrow> agent_parts" where
  "new_parts cfg e =
     \<lparr> ap_api = [],
       ap_logs = collect_NewHandler e (a_LogsCollectMaxJobs (cfg_Agent cfg)),
       ap_watch = watch_NewManager (cfg_ClusterID cfg) (k_EventsTopic (cfg_Kafka cfg)) e,
       ap_cache = \<lparr> cs_store = [], cs_gauge = 0 \<rparr>,
       ap_stream = stream_NewManager (cfg_ClusterID cfg) (k_LogsStreamTopic (cfg_Kafka cfg)) e
         (a_LogStreamMaxPerPod (cfg_Agent cfg)) (a_LogStreamBacklogMax (cfg_Agent cfg)) True,
       ap_health = health_NewManager (cfg_ClusterID cfg) (k_HealthTopic (cfg_Kafka cfg)) e
         (a_HealthMaxPodsPerMessage (cfg_Agent cfg)) \<rparr>"

text \<open>
  \<open>app_served\<close> is the router of the internal HTTP endpoint, \<open>app_gauges\<close> the gauges of watch subscriptions,
  log streams and health reports.
\<close>

record app =
  app_cfg :: config
  app_policy :: "engine option"
  app_feat :: "feat_registry option"
  app_modules :: "agent_parts mod_registry"
  app_router :: "agent_parts router"
  app_served :: "agent_parts router option"
  app_podNamespace :: string
  app_state :: runtime_state
  app_parts :: agent_parts
  app_gauges :: "int \<times> int \<times> int"
  app_label :: "bool option"
  app_consuming :: bool

text \<open>\<open>injected\<close> is the policy option, \<open>loaded\<close> what loading the policy files gives.\<close>

definition New :: "agent_env \<Rightarrow> agent_clients \<Rightarrow> config \<Rightarrow> engine option \<Rightarrow> (go_error + engine \<times> feat_registry) \<Rightarrow> go_error + app" where
  "New w cl cfg injected loaded =
     (case ac_k8s cl of
        Some err \<Rightarrow> Inl (Errorf ''k8s client: %w'' [AErr err])
      | None \<Rightarrow>
          (case (case injected of
                   Some e \<Rightarrow> Inr (e, None)
                 | None \<Rightarrow> (case loaded of
                              Inl err \<Rightarrow> Inl (Errorf ''policy: %w'' [AErr err])
                            | Inr (e, reg) \<Rightarrow> Inr (e, Some reg))) of
             Inl err \<Rightarrow> Inl err
           | Inr (e, feat) \<Rightarrow>
               (case ac_kubernetes cl of
                  Some err \<Rightarrow> Inl (Errorf ''kubernetes clientset: %w'' [AErr err])
                | None \<Rightarrow>
                    (case ac_dynamic cl of
                       Some err \<Rightarrow> Inl (Errorf ''dynamic client: %w'' [AErr err])
                     | None \<Rightarrow>
                         (case ac_publisher cl of
                            Some err \<Rightarrow> Inl (Errorf ''kafka publisher: %w'' [AErr err])
                          | None \<Rightarrow>
                              let router = agent_router w cfg e feat
                              in Inr \<lparr> app_cfg = cfg, app_policy = Some e, app_feat = feat,
                                       app_modules = agent_registry w cfg e, app_router = router,
                                       app_served = (if a_Component (cfg_Agent cfg) = ComponentAgentService then Some router else None),
                                       app_podNamespace = envOrDefault w ''POD_NAMESPACE'' ''uamc-agent'',
                                       app_state = NewRuntimeState, app_parts = new_parts cfg e, app_gauges = (0, 0, 0),
                                       app_label = None, app_consuming = False \<rparr>)))))"

text \<open>\<open>newLogsNodeApp\<close> and the server of \<open>runLogsNode\<close>: a policy that does not load is no policy.\<close>

definition logs_node_policy :: "engine option \<Rightarrow> (go_error + engine \<times> feat_registry) \<Rightarrow> engine option" where
  "logs_node_policy injected loaded =
     (case injected of
        Some e \<Rightarrow> Some e
      | None \<Rightarrow> (case loaded of Inl _ \<Rightarrow> None | Inr (e, _) \<Rightarrow> Some e))"

definition logs_node_state :: runtime_state where
  "logs_node_state = SetAPIServerOK True (SetKafkaConnected True (SetLeader True NewRuntimeState))"

definition runLogsNode :: "config \<Rightarrow> engine option \<Rightarrow> int \<times> node_server" where
  "runLogsNode cfg pol =
     (if l_NodeHTTPPort (cfg_Logs cfg) < 1 then DefaultLogsNodeHTTPPort else l_NodeHTTPPort (cfg_Logs cfg),
      \<lparr> ns_root = l_PodLogsRoot (cfg_Logs cfg), ns_policy = pol, ns_token = h_InternalBearerToken (cfg_HTTP cfg),
        ns_nodeName = l_NodeName (cfg_Logs cfg) \<rparr>)"

section \<open>Leadership, loop and shutdown (internal/agent/app.go, run.go)\<close>

definition syncSubscriptionMetrics :: "app \<Rightarrow> app" where
  "syncSubscriptionMetrics a =
     (let p = app_parts a
      in a\<lparr> app_gauges := (watch_ActiveCount (ap_watch p), stream_ActiveCount (ap_stream p), health_ActiveCount (ap_health p)),
            app_parts := p\<lparr> ap_cache := (ap_cache p)\<lparr> cs_gauge := store_Len (cs_store (ap_cache p)) \<rparr> \<rparr> \<rparr>)"

definition stopSubscriptions :: "app \<Rightarrow> app" where
  "stopSubscriptions a =
     (let p = app_parts a;
          p = p\<lparr> ap_watch := watch_StopAll (ap_watch p), ap_stream := stream_StopAll (ap_stream p),
                 ap_health := health_StopAll (ap_health p) \<rparr>
      in syncSubscriptionMetrics (a\<lparr> app_parts := p \<rparr>))"

text \<open>\<open>PatchLeaderLabel\<close> (internal/leaderelection/marker.go): the merge patch, if there is one to send.\<close>

definition PatchLeaderLabel :: "bool \<Rightarrow> string \<Rightarrow> string \<Rightarrow> bool \<Rightarrow> go_error + json" where
  "PatchLeaderLabel has_client namespace podName leader =
     (if \<not> has_client \<or> namespace = [] \<or> podName = [] then
        Inl (Errorf ''leader label patch requires client, namespace and pod name'' [])
      else Inr (JObj [(''metadata'', JObj [(''labels'', JObj [(''k8s-agent/leader'', JStr (if leader then ''true'' else ''false''))])])]))"

text \<open>\<open>patched\<close> says whether the API server took the patch; a failure is logged.\<close>

definition patchLeaderLabel :: "bool \<Rightarrow> bool \<Rightarrow> app \<Rightarrow> app" where
  "patchLeaderLabel patched leader a =
     (case PatchLeaderLabel True (app_podNamespace a) (a_InstanceID (cfg_Agent (app_cfg a))) leader of
        Inl _ \<Rightarrow> a
      | Inr _ \<Rightarrow> if patched then a\<lparr> app_label := Some leader \<rparr> else a)"

definition set_leader :: "bool \<Rightarrow> app \<Rightarrow> app" where
  "set_leader b a = a\<lparr> app_state := SetLeader b (app_state a) \<rparr>"

definition shutdown :: "app \<Rightarrow> app" where
  "shutdown a =
     (stopSubscriptions (a\<lparr> app_state := SetKafkaConnected False (app_state a) \<rparr>))\<lparr> app_consuming := False \<rparr>"

definition nextBackoff :: "gtime \<Rightarrow> gtime \<Rightarrow> gtime" where
  "nextBackoff cur mx =
     (let next = int64 (cur * 2)
      in if next > mx then mx else if next < cur then mx else next)"

text \<open>
  One round of the loop: the context is over; no consumer could be made; or the processor ran, and at its
  end the context was over or not. The last flag says whether the pause went through or the context ended
  in it. The trace has the lifecycle events and the pauses.
\<close>

datatype loop_round = CtxOver | NoConsumer bool | Ran bool bool
datatype loop_event = LStarted | LLeaderLost | LSleep gtime

partial_function (option) loop_rounds ::
  "(nat \<Rightarrow> loop_round) \<Rightarrow> nat \<Rightarrow> gtime \<Rightarrow> loop_event list \<Rightarrow> loop_event list option" where
  "loop_rounds rnds i backoff tr =
     (case rnds i of
        CtxOver \<Rightarrow> Some tr
      | NoConsumer slept \<Rightarrow>
          if \<not> slept then Some (tr @ [LSleep backoff])
          else loop_rounds rnds (Suc i) (nextBackoff backoff (30 * second)) (tr @ [LSleep backoff])
      | Ran over slept \<Rightarrow>
          if over then Some (tr @ [LStarted, LLeaderLost])
          else if \<not> slept then Some (tr @ [LStarted, LLeaderLost, LSleep backoff])
          else loop_rounds rnds (Suc i) (nextBackoff backoff (30 * second)) (tr @ [LStarted, LLeaderLost, LSleep backoff]))"

text \<open>
  \<open>commandLoop\<close>: what commands change in the meantime is \<open>work\<close>. The deferred calls run in reverse order;
  only the component that runs everything patches its label.
\<close>

definition loop_enter :: "bool \<Rightarrow> app \<Rightarrow> app" where
  "loop_enter patched a =
     (let a = set_leader True a
      in if a_Component (cfg_Agent (app_cfg a)) = ComponentAll then patchLeaderLabel patched True a else a)"

definition loop_exit :: "bool \<Rightarrow> app \<Rightarrow> app" where
  "loop_exit patched a =
     (let a = (if a_Component (cfg_Agent (app_cfg a)) = ComponentAll then patchLeaderLabel patched False a else a)
      in set_leader False (stopSubscriptions a))"

definition commandLoop ::
  "bool \<Rightarrow> bool \<Rightarrow> (nat \<Rightarrow> loop_round) \<Rightarrow> (agent_parts \<Rightarrow> agent_parts) \<Rightarrow> app \<Rightarrow> (app \<times> loop_event list) option" where
  "commandLoop p1 p2 rnds work a =
     map_option (\<lambda>tr. (loop_exit p2 ((loop_enter p1 a)\<lparr> app_parts := work (app_parts (loop_enter p1 a)) \<rparr>), tr))
       (loop_rounds rnds 0 second [])"

text \<open>
  The start of \<open>runAll\<close> and \<open>runAgentService\<close>, where \<open>ping_ok\<close> is the answer of the API server, and of
  \<open>runEgress\<close>; and the time as leader of the agent service, which waits for the end of its context.
\<close>

definition run_begin :: "bool \<Rightarrow> app \<Rightarrow> app" where
  "run_begin ping_ok a =
     (let a = a\<lparr> app_state := SetKafkaConnected True (app_state a) \<rparr>
      in if ping_ok then a\<lparr> app_state := SetAPIServerOK True (app_state a) \<rparr> else a)"

definition egress_begin :: "app \<Rightarrow> app" where
  "egress_begin a = a\<lparr> app_state := SetKafkaConnected True (app_state a) \<rparr>"

definition service_lead :: "bool \<Rightarrow> bool \<Rightarrow> (agent_parts \<Rightarrow> agent_parts) \<Rightarrow> app \<Rightarrow> app \<times> loop_event list" where
  "service_lead p1 p2 work a =
     (let a = patchLeaderLabel p1 True (set_leader True a);
          a = a\<lparr> app_parts := work (app_parts a) \<rparr>
      in (set_leader False (stopSubscriptions (patchLeaderLabel p2 False a)), [LStarted, LLeaderLost]))"

text \<open>\<open>Run\<close>: the modules start before the component; their error ends the agent.\<close>

definition start_app :: "app \<Rightarrow> app \<times> go_error option" where
  "start_app a =
     (case registry_Start (app_cfg a) (app_feat a) (app_modules a) of (r, e) \<Rightarrow> (a\<lparr> app_modules := r \<rparr>, e))"

text \<open>The executor of the processor.\<close>

definition loop_executor :: "(remote_executor \<Rightarrow> agent_parts executor) \<Rightarrow> app \<Rightarrow> agent_parts executor" where
  "loop_executor remote a =
     (if a_Component (cfg_Agent (app_cfg a)) = ComponentEgress
      then remote \<lparr> re_baseURL = a_AgentServiceURL (cfg_Agent (app_cfg a)),
                    re_internalToken = h_InternalBearerToken (cfg_HTTP (app_cfg a)) \<rparr>
      else (\<lambda>s c m t. Router_Handle (app_router a) s (Some c) m t))"

text \<open>\<open>startProbeServer\<close>: status and body of its two endpoints.\<close>

definition probe_readyz :: "runtime_state \<Rightarrow> int \<times> (string \<times> json) list" where
  "probe_readyz st =
     (if \<not> rs_kafkaConnected st then (503, [(''ready'', JBool False), (''kafka'', JBool False)])
      else (200, [(''ready'', JBool True), (''leader'', JBool (rs_isLeader st))]))"

text \<open>The lease (internal/leaderelection/election.go).\<close>

record lease_config =
  lc_LeaseName :: string
  lc_LeaseNamespace :: string
  lc_Identity :: string

definition lease_of :: "agent_env \<Rightarrow> string \<Rightarrow> string \<Rightarrow> lease_config" where
  "lease_of w identity leaseName =
     \<lparr> lc_LeaseName = (if leaseName = [] then ''k8s-agent-leader'' else leaseName),
       lc_LeaseNamespace = envOrDefault w ''POD_NAMESPACE'' ''uamc-agent'',
       lc_Identity = (if identity = [] then envOrDefault w ''HOSTNAME'' ''k8s-agent'' else identity) \<rparr>"

section \<open>The commands the agent serves\<close>

definition provided :: "'s agent_module \<Rightarrow> 's handler list" where
  "provided m = (case am_Handlers m of None \<Rightarrow> [] | Some hs \<Rightarrow> hs)"

definition agent_handlers :: "agent_env \<Rightarrow> config \<Rightarrow> engine \<Rightarrow> agent_parts handler list" where
  "agent_handlers w cfg e = concat (map provided (command_modules w cfg e))"

definition command_types :: "string list" where
  "command_types =
     [TypeK8sAPI, TypeLogsCollect, TypeWatchSubscribe, TypeWatchUnsubscribe, TypeCachePut, TypeCacheDelete,
      TypeCacheClear, TypeLogsStreamStart, TypeLogsStreamStop, TypeHealthReportStart, TypeHealthReportStop]"

lemma agent_handlers_types: "map fst (agent_handlers w cfg e) = command_types"
  by (simp add: agent_handlers_def command_modules_def NewHandlerModule_def provided_def command_types_def)

text \<open>A module that is off has no enabled command, so the filter is all that matters.\<close>

definition gated :: "config \<Rightarrow> feat_registry option \<Rightarrow> 's agent_module \<Rightarrow> bool" where
  "gated cfg feat m \<longleftrightarrow> am_Enabled m cfg feat \<or> filter (\<lambda>(ty, h). CommandEnabled feat ty) (provided m) = []"

lemma gated_handlers:
  assumes "list_all (\<lambda>(ty, h). ty \<in> set cmdTypes) hs"
  shows "gated cfg feat (NewHandlerModule name featKeys cmdTypes hs)"
proof (cases "HandlerModule_Enabled featKeys cmdTypes feat")
  case False
  then have "(ty, h) \<in> set hs \<Longrightarrow> \<not> CommandEnabled feat ty" for ty h
    using assms by (auto simp: HandlerModule_Enabled_def list_ex_iff list_all_iff split: if_splits)
  then have "filter (\<lambda>(ty, h). CommandEnabled feat ty) hs = []" by (auto simp: filter_empty_conv)
  then show ?thesis by (simp add: gated_def provided_def NewHandlerModule_def)
qed (simp add: gated_def NewHandlerModule_def)

lemma gated_modules: "list_all (gated cfg feat) (command_modules w cfg' e)" "list_all (gated cfg feat) (other_modules w)"
  unfolding command_modules_def other_modules_def
  by (simp_all add: gated_handlers) (simp_all add: gated_def provided_def plain_module_def ailogs_module_def)

lemma registry_Handlers_filter:
  assumes "list_all (gated cfg feat) (mr_modules r)"
  shows "FilterHandlers feat (registry_Handlers cfg feat r) =
    filter (\<lambda>(ty, h). CommandEnabled feat ty) (concat (map provided (mr_modules r)))"
proof -
  have "filter p (concat (map (\<lambda>m. if \<not> am_Enabled m cfg feat then [] else provided m) ms)) = filter p (concat (map provided ms))"
    if "list_all (gated cfg feat) ms" "p = (\<lambda>(ty, h). CommandEnabled feat ty)" for ms and p :: "'a handler \<Rightarrow> bool"
    using that by (induction ms) (auto simp: gated_def)
  moreover have "FilterHandlers feat hs = filter (\<lambda>(ty, h). CommandEnabled feat ty) hs" for hs :: "'a handler list"
    by (cases feat) (auto simp: FilterHandlers_def CommandEnabled_def filter_id_conv)
  ultimately show ?thesis using assms unfolding registry_Handlers_def provided_def [symmetric] by simp
qed

lemma agent_router_handlers:
  "agent_router w cfg e feat = NewRouter (filter (\<lambda>(ty, h). CommandEnabled feat ty) (agent_handlers w cfg e))"
proof -
  have m: "mr_modules (agent_registry w cfg e) = command_modules w cfg e @ other_modules w"
    by (simp add: agent_registry_def other_modules_def registry_Register_def NewRegistry_def)
  have "concat (map provided (other_modules w)) = []"
    by (simp add: other_modules_def plain_module_def ailogs_module_def provided_def)
  moreover have "list_all (gated cfg feat) (mr_modules (agent_registry w cfg e))" by (simp add: m gated_modules)
  ultimately show ?thesis
    unfolding agent_router_def by (simp only: registry_Handlers_filter m map_append concat_append append_Nil2 agent_handlers_def)
qed

lemma agent_router_serves:
  "gm_get (agent_router w cfg e feat) ty \<noteq> None \<longleftrightarrow> ty \<in> set command_types \<and> CommandEnabled feat ty"
proof -
  have "set command_types = fst ` set (agent_handlers w cfg e)"
    using arg_cong [OF agent_handlers_types, of set w cfg e] by (simp only: set_map)
  then show ?thesis by (force simp: agent_router_handlers NewRouter_get map_of_eq_None_iff image_iff)
qed

lemmas agent_handler_contracts =
  api_h.command_handler_axioms collect_h.command_handler_axioms watch_start_h.command_handler_axioms
  watch_stop_h.command_handler_axioms put_h.command_handler_axioms del_h.command_handler_axioms
  clear_h.command_handler_axioms stream_start_h.command_handler_axioms stream_stop_h.command_handler_axioms
  health_start_h.command_handler_axioms health_stop_h.command_handler_axioms

lemma agent_handlers_contract: "list_all (\<lambda>(ty, h). command_handler h) (agent_handlers w cfg e)"
  by (simp add: agent_handlers_def command_modules_def NewHandlerModule_def provided_def command_handler_on_part
      agent_handler_contracts)

interpretation agent: routed_handlers "agent_router w cfg e feat" for w cfg e feat
proof (rule routed_handlers.intro)
  fix ty h
  assume "gm_get (agent_router w cfg e feat) ty = Some h"
  then show "command_handler h"
    using agent_handlers_contract [of w cfg e]
    by (fastforce simp: agent_router_handlers list_all_iff dest!: NewRouter_SomeD)
qed


text \<open>A features file with one group on, and an agent without any network.\<close>

definition demo_world :: agent_env where
  "demo_world =
     \<lparr> aw_api = demo_api, aw_rest = demo_rest, aw_mapper = demo_mapper, aw_sync = (\<lambda>_. True), aw_tick = (\<lambda>t n. fst t),
       aw_parse_duration = (\<lambda>_. None), aw_getenv = (\<lambda>_. []), aw_registration = None, aw_kubeapi = (None, None) \<rparr>"

definition demo_cfg :: config where
  "demo_cfg = (case Load (\<lambda>_. None) ''pod-0'' dual_env of Inr c \<Rightarrow> c | Inl _ \<Rightarrow> undefined)"


section \<open>Commands that are off\<close>

lemma unserved_inert: "gm_get r (c_Type c) = None \<Longrightarrow> fst (Router_Handle r s (Some c) m t) = s"
  by (simp add: Router_Handle_def split: option.split)

definition agent_executor :: "agent_parts router \<Rightarrow> agent_parts executor" where
  "agent_executor r s c m t = Router_Handle r s (Some c) m t"

lemma internal_command_inert:
  assumes "fst (ex s c (er_Meta req) t) = s" and "hi_Body r = Exec req" and "er_Command req = Some c"
  shows "fst (handleInternalCommand et ex st tok t r s) = s"
  using assms
  by (cases "snd (ex s c (er_Meta req) t)"; cases "authorizeBearer r tok"; cases "ex s c (er_Meta req) t")
     (auto simp: handleInternalCommand_def)

text \<open>
  C13: A command that is off does nothing, whichever way it comes in. With a features file, a command of a type
  no enabled group lists changes no part of the agent: neither through the internal HTTP endpoint, with or
  without the token, nor through the dual adapter, which has no guard, nor through the router itself.
\<close>

theorem disabled_commands_inert:
  assumes "LoadFromFilesWithFeatures read yaml yaml_ns yaml_feat pf nf ff = Inr (e, reg)"
    and "features_Load read yaml_feat ff = Inr (Some feats)" and "\<not> offers feats (c_Type c)"
    and "ex = agent_executor (agent_router w cfg e (Some reg))"
  shows "fst (ex s c m t) = s \<and>
    (hi_Path r = ''/internal/v1/commands'' \<and> hi_Body r = Exec req \<and> er_Command req = Some c \<longrightarrow>
       fst (server_serve et hc st (Some ex) sel upd t r s) = s) \<and>
    (unmarshal_command (km_Value msg) = Inr c \<and> d_executor d = Some ex \<longrightarrow> fst (dual_handleJSON d s msg t) = s)"
proof -
  have "gm_get (agent_router w cfg e (Some reg)) (c_Type c) = None"
    using agent_router_serves [of w cfg e "Some reg" "c_Type c"] features_commands(2) [OF assms(1,2)] assms(3) by auto
  then have off: "fst (ex s c m t) = s" for m by (simp add: assms(4) agent_executor_def unserved_inert)
  have "hi_Path r = ''/internal/v1/commands'' \<Longrightarrow> server_serve et hc st (Some ex) sel upd t r s =
      (if hi_Method r \<noteq> ''CONNECT'' \<and> mux_clean (hi_Path r) \<noteq> hi_Path r then (s, Redirect (mux_clean (hi_Path r)))
       else handleInternalCommand et ex st (h_InternalBearerToken hc) t r s)"
    by (simp add: server_serve_def through_mux_def server_routes_def HasPrefix_def)
  then show ?thesis
    using off internal_command_inert [of ex s c req t r et st "h_InternalBearerToken hc"] by (auto simp: dual_handleJSON_def)
qed

text \<open>A forwarded \<open>logs.collect\<close> command where only another group is on.\<close>

definition demo_leader :: runtime_state where
  "demo_leader = \<lparr> rs_kafkaConnected = True, rs_isLeader = True, rs_apiserverOK = True \<rparr>"

definition collect_command :: command where
  "collect_command = pods_command\<lparr> c_Type := ''logs.collect'' \<rparr>"

definition put_store :: "store \<Rightarrow> agent_parts \<Rightarrow> agent_parts" where
  "put_store c s = s\<lparr> ap_cache := (ap_cache s)\<lparr> cs_store := c \<rparr> \<rparr>"

theorem disabled_commands_inert_witness:
  "case LoadFromFilesWithFeatures demo_read (\<lambda>_. Inr shop_policy) (\<lambda>_. Inr []) (\<lambda>_. Inr demo_features)
          ''policy'' [] ''features'' of
     Inl _ \<Rightarrow> False
   | Inr (e, reg) \<Rightarrow>
       fst (server_serve (\<lambda>_. []) \<lparr> h_Port = 8081, h_BearerToken = [], h_InternalBearerToken = ''i'' \<rparr> demo_leader
              (Some (agent_executor (agent_router demo_world demo_cfg e (Some reg))))
              (cs_store \<circ> ap_cache) put_store (1, 2)
              (remote_request \<lparr> re_baseURL = [], re_internalToken = ''i'' \<rparr> collect_command pods_meta) (new_parts demo_cfg e))
       = new_parts demo_cfg e"
proof -
  let ?l = "LoadFromFilesWithFeatures demo_read (\<lambda>_. Inr shop_policy) (\<lambda>_. Inr []) (\<lambda>_. Inr demo_features)
              ''policy'' [] ''features''"
  have "\<not> isl ?l" by code_simp
  then obtain e reg where l: "?l = Inr (e, reg)" by (cases ?l) auto
  have f: "features_Load demo_read (\<lambda>_. Inr demo_features) ''features'' = Inr (Some demo_features)" by code_simp
  have "\<not> offers demo_features ''logs.collect''" by code_simp
  then show ?thesis
    using disabled_commands_inert [OF l f _ refl, of collect_command demo_world demo_cfg "new_parts demo_cfg e" pods_meta "(1, 2)"
        "remote_request \<lparr> re_baseURL = [], re_internalToken = ''i'' \<rparr> collect_command pods_meta"] l
    by (simp add: remote_request_def collect_command_def)
qed

section \<open>The command loop\<close>

definition round_ends :: "loop_round \<Rightarrow> bool" where
  "round_ends r = (case r of CtxOver \<Rightarrow> True | NoConsumer slept \<Rightarrow> \<not> slept | Ran over slept \<Rightarrow> over \<or> \<not> slept)"

definition round_trace :: "gtime \<Rightarrow> loop_round \<Rightarrow> loop_event list" where
  "round_trace pause r =
     (case r of CtxOver \<Rightarrow> [] | NoConsumer _ \<Rightarrow> [LSleep pause]
      | Ran over _ \<Rightarrow> [LStarted, LLeaderLost] @ (if over then [] else [LSleep pause]))"

text \<open>The pause after round \<open>k\<close>: one second, doubled every time, at most thirty.\<close>

definition pause :: "nat \<Rightarrow> gtime" where
  "pause k = min (2 ^ k) 30 * second"

lemma nextBackoff_pause: "nextBackoff (pause k) (30 * second) = pause (Suc k)"
proof -
  have "1 \<le> (min (2 ^ k) 30 :: int)" "(min (2 ^ k) 30 :: int) \<le> 30" by simp_all
  then have p: "second \<le> pause k" "pause k \<le> 30 * second" by (simp_all add: pause_def second_def)
  then have "int64 (pause k * 2) = pause k * 2" by (intro int64_id) (simp_all add: second_def)
  then show ?thesis using p by (auto simp: nextBackoff_def Let_def pause_def second_def min_def)
qed

lemma loop_rounds_step:
  "loop_rounds rnds i b tr =
     (if round_ends (rnds i) then Some (tr @ round_trace b (rnds i))
      else loop_rounds rnds (Suc i) (nextBackoff b (30 * second)) (tr @ round_trace b (rnds i)))"
  by (subst loop_rounds.simps) (auto simp: round_ends_def round_trace_def split: loop_round.split)

lemma loop_rounds_returns:
  assumes "round_ends (rnds (i + n))" and "\<And>k. k < n \<Longrightarrow> \<not> round_ends (rnds (i + k))"
  shows "loop_rounds rnds i (pause i) tr = Some (tr @ concat (map (\<lambda>k. round_trace (pause k) (rnds k)) [i..<Suc (i + n)]))"
  using assms
proof (induction n arbitrary: i tr)
  case 0
  then show ?case by (subst loop_rounds_step) simp
next
  case (Suc n)
  have "[i..<Suc (i + Suc n)] = i # [Suc i..<Suc (Suc i + n)]" by (simp add: upt_conv_Cons)
  moreover have "\<not> round_ends (rnds i)" using Suc.prems(2) [of 0] by simp
  moreover have "loop_rounds rnds (Suc i) (pause (Suc i)) tr' =
      Some (tr' @ concat (map (\<lambda>k. round_trace (pause k) (rnds k)) [Suc i..<Suc (Suc i + n)]))" for tr'
    using Suc.prems(1) Suc.prems(2) [of "Suc _"] by (intro Suc.IH) simp_all
  ultimately show ?case by (subst loop_rounds_step) (simp add: nextBackoff_pause del: upt_Suc)
qed

lemma loop_rounds_ends:
  assumes "loop_rounds rnds i b tr = Some tr'"
  shows "\<exists>n. round_ends (rnds n)"
proof (rule loop_rounds.raw_induct [OF _ assms, where P = "\<lambda>rnds i b tr tr'. \<exists>n. round_ends (rnds n)"])
  fix f :: "(nat \<Rightarrow> loop_round) \<Rightarrow> nat \<Rightarrow> gtime \<Rightarrow> loop_event list \<Rightarrow> loop_event list option" and rnds i b tr tr'
  assume IH: "\<And>rnds i b tr tr'. f rnds i b tr = Some tr' \<Longrightarrow> \<exists>n. round_ends (rnds n)"
  assume "(case rnds i of CtxOver \<Rightarrow> Some tr
      | NoConsumer slept \<Rightarrow>
          if \<not> slept then Some (tr @ [LSleep b]) else f rnds (Suc i) (nextBackoff b (30 * second)) (tr @ [LSleep b])
      | Ran over slept \<Rightarrow>
          if over then Some (tr @ [LStarted, LLeaderLost])
          else if \<not> slept then Some (tr @ [LStarted, LLeaderLost, LSleep b])
          else f rnds (Suc i) (nextBackoff b (30 * second)) (tr @ [LStarted, LLeaderLost, LSleep b])) = Some tr'"
  then have "round_ends (rnds i) \<or> (\<exists>b tr. f rnds (Suc i) b tr = Some tr')"
    by (auto simp: round_ends_def split: loop_round.splits if_splits)
  then show "\<exists>n. round_ends (rnds n)" using IH by blast
qed

lemma loop_exit_stopped:
  "\<not> rs_isLeader (app_state (loop_exit p a))" "watch_active (ap_watch (app_parts (loop_exit p a))) = {}"
  "stream_active (ap_stream (app_parts (loop_exit p a))) = {}" "health_active (ap_health (app_parts (loop_exit p a))) = {}"
  "app_gauges (loop_exit p a) = (0, 0, 0)"
  using watch_table.stopped_all stream_table.stopped_all health_table.stopped_all
  by (simp_all add: loop_exit_def Let_def set_leader_def SetLeader_def stopSubscriptions_def syncSubscriptionMetrics_def
      watch_ActiveCount_def stream_ActiveCount_def health_ActiveCount_def watch_StopAll_def stream_StopAll_def
      health_StopAll_def)


end
