(* ===== verification/Nup_Policy.thy ===== *)
theory Nup_Policy
  imports Subscriptions Config
begin

text \<open>
  The archived agent under \<open>k8s-agent\<close>, first part: envelope and validation (\<open>internal/command\<close>), results
  (\<open>internal/result\<close>), policy (\<open>internal/policy\<close>) and configuration (\<open>internal/config\<close>). It is a program of its
  own, with commands \<open>resource.list\<close>, \<open>file.fetch\<close>, watches and log streams.
\<close>

section \<open>Envelope (internal/command/envelope.go)\<close>

record nup_target =
  tg_Group :: string
  tg_Version :: string
  tg_Kind :: string
  tg_Namespace :: string
  tg_Name :: string

record nup_command =
  nc_CommandID :: string
  nc_IdempotencyKey :: string
  nc_Type :: string
  nc_IssuedBy :: string
  nc_TS :: gtime
  nc_DryRun :: bool
  nc_Target :: nup_target
  nc_Payload :: raw

definition decode_target :: "obj \<Rightarrow> nup_target option" where
  "decode_target kvs = do {
     g \<leftarrow> fld_str ''group'' kvs;
     v \<leftarrow> fld_str ''version'' kvs;
     k \<leftarrow> fld_str ''kind'' kvs;
     ns \<leftarrow> fld_str ''namespace'' kvs;
     n \<leftarrow> fld_str ''name'' kvs;
     Some \<lparr> tg_Group = g, tg_Version = v, tg_Kind = k, tg_Namespace = ns, tg_Name = n \<rparr> }"

definition decode_nup_command :: "http_body \<Rightarrow> go_error + nup_command" where
  "decode_nup_command body =
     (case body of
        BodyRaw _ \<Rightarrow> Inl json_error
      | BodyJson j \<Rightarrow>
          sum_bind (unmarshal_struct (Some j)) (\<lambda>kvs. or_json_error (do {
            cid \<leftarrow> fld_str ''command_id'' kvs;
            ik \<leftarrow> fld_str ''idempotency_key'' kvs;
            ty \<leftarrow> fld_str ''type'' kvs;
            ib \<leftarrow> fld_str ''issued_by'' kvs;
            ts \<leftarrow> fld_time ''ts'' kvs;
            dr \<leftarrow> fld_bool ''dry_run'' kvs;
            tkvs \<leftarrow> dec_obj [] (members ''target'' kvs);
            tg \<leftarrow> decode_target tkvs;
            Some \<lparr> nc_CommandID = cid, nc_IdempotencyKey = ik, nc_Type = ty, nc_IssuedBy = ib, nc_TS = ts,
                   nc_DryRun = dr, nc_Target = tg, nc_Payload = fld_raw ''payload'' kvs \<rparr> })))"

record nup_result =
  nr_CommandID :: string
  nr_IdempotencyKey :: string
  nr_Status :: string
  nr_Phase :: string
  nr_Progress :: int
  nr_StartedAt :: gtime
  nr_FinishedAt :: "gtime option"
  nr_Details :: raw
  nr_Error :: "error_detail option"

record nup_event =
  nv_SubscriptionID :: string
  nv_EventType :: string
  nv_Resource :: nup_target
  nv_ObservedAt :: gtime
  nv_Details :: json

abbreviation (input) NupReceived :: string where "NupReceived \<equiv> ''received''"
abbreviation (input) NupExecuting :: string where "NupExecuting \<equiv> ''executing''"
abbreviation (input) NupCompleted :: string where "NupCompleted \<equiv> ''completed''"
abbreviation (input) NupFailed :: string where "NupFailed \<equiv> ''failed''"
abbreviation (input) NupRejected :: string where "NupRejected \<equiv> ''rejected''"

abbreviation (input) NupResourceList :: string where "NupResourceList \<equiv> ''resource.list''"
abbreviation (input) NupFileFetch :: string where "NupFileFetch \<equiv> ''file.fetch''"
abbreviation (input) NupWatchSubscribe :: string where "NupWatchSubscribe \<equiv> ''watch.subscribe''"
abbreviation (input) NupWatchUnsubscribe :: string where "NupWatchUnsubscribe \<equiv> ''watch.unsubscribe''"
abbreviation (input) NupLogsSubscribe :: string where "NupLogsSubscribe \<equiv> ''logs.stream.subscribe''"
abbreviation (input) NupLogsUnsubscribe :: string where "NupLogsUnsubscribe \<equiv> ''logs.stream.unsubscribe''"

section \<open>Validation (internal/command/validator.go)\<close>

definition allowedTypes :: "string list" where
  "allowedTypes =
     [NupResourceList, NupFileFetch, NupWatchSubscribe, NupWatchUnsubscribe, NupLogsSubscribe, NupLogsUnsubscribe]"

definition nup_Validate :: "nup_command \<Rightarrow> go_error option" where
  "nup_Validate c =
     (if TrimSpace (nc_CommandID c) = [] then Some (Errorf ''command_id is required'' [])
      else if TrimSpace (nc_IdempotencyKey c) = [] then Some (Errorf ''idempotency_key is required'' [])
      else if TrimSpace (nc_Type c) = [] then Some (Errorf ''type is required'' [])
      else if nc_Type c \<notin> set allowedTypes then Some (Errorf ''unsupported command type: %s'' [AStr (nc_Type c)])
      else if TrimSpace (nc_IssuedBy c) = [] then Some (Errorf ''issued_by is required'' [])
      else if nc_TS c = zero_time then Some (Errorf ''ts is required'' [])
      else None)"

section \<open>Results (internal/result/publisher.go)\<close>

definition NewResult :: "nup_command \<Rightarrow> string \<Rightarrow> gtime \<Rightarrow> nup_result" where
  "NewResult c status now =
     \<lparr> nr_CommandID = nc_CommandID c, nr_IdempotencyKey = nc_IdempotencyKey c, nr_Status = status, nr_Phase = [],
       nr_Progress = 0, nr_StartedAt = now, nr_FinishedAt = None, nr_Details = None, nr_Error = None \<rparr>"

definition nup_Rejected :: "nup_command \<Rightarrow> string \<Rightarrow> go_error \<Rightarrow> gtime \<Rightarrow> nup_result" where
  "nup_Rejected c code msg now =
     (NewResult c NupRejected now)\<lparr> nr_FinishedAt := Some now, nr_Error := Some \<lparr> ed_Code = code, ed_Message = msg \<rparr> \<rparr>"

definition nup_Failed :: "nup_command \<Rightarrow> string \<Rightarrow> go_error \<Rightarrow> gtime \<Rightarrow> nup_result" where
  "nup_Failed c code msg now =
     (NewResult c NupFailed now)\<lparr> nr_FinishedAt := Some now, nr_Error := Some \<lparr> ed_Code = code, ed_Message = msg \<rparr> \<rparr>"

definition Finish :: "nup_result \<Rightarrow> string \<Rightarrow> raw \<Rightarrow> error_detail option \<Rightarrow> gtime \<Rightarrow> nup_result" where
  "Finish res status details err now =
     res\<lparr> nr_Status := status, nr_FinishedAt := Some now,
          nr_Details := (if details = None then nr_Details res else details), nr_Error := err \<rparr>"

text \<open>A completed result, as the handlers build it.\<close>

definition completed_with :: "nup_command \<Rightarrow> gtime \<Rightarrow> gtime \<Rightarrow> raw \<Rightarrow> nup_result" where
  "completed_with c started finished details =
     (NewResult c NupCompleted started)\<lparr> nr_FinishedAt := Some finished, nr_Details := details \<rparr>"

definition result_key :: "nup_result \<Rightarrow> string" where
  "result_key res = (if nr_CommandID res = [] then nr_IdempotencyKey res else nr_CommandID res)"

section \<open>Policy (internal/policy/engine.go)\<close>

record issuer_rule =
  ir_Issuer :: string
  ir_Namespaces :: "string list"

record nup_policy =
  np_AllowedGVK :: "gvk list"
  np_AllowedNamespaces :: "string list"
  np_AllowedCommandTypes :: "string list"
  np_IssuerRules :: "issuer_rule list"
  np_MaxBytes :: int
  np_MaxConcurrentTargets :: int
  np_AllowedPresignedHosts :: "string list"
  np_MaxSubscriptions :: int
  np_MaxPatternLength :: int
  np_ExcludeSecretKind :: bool

definition defaultPolicy :: nup_policy where
  "defaultPolicy =
     \<lparr> np_AllowedGVK =
         [\<lparr> g_Group = ''networking.istio.io'', g_Version = ''v1beta1'', g_Kind = ''VirtualService'' \<rparr>,
          \<lparr> g_Group = ''networking.istio.io'', g_Version = ''v1beta1'', g_Kind = ''DestinationRule'' \<rparr>,
          \<lparr> g_Group = ''networking.istio.io'', g_Version = ''v1beta1'', g_Kind = ''Gateway'' \<rparr>,
          \<lparr> g_Group = ''apps'', g_Version = ''v1'', g_Kind = ''Deployment'' \<rparr>,
          \<lparr> g_Group = [], g_Version = ''v1'', g_Kind = ''Pod'' \<rparr>],
       np_AllowedNamespaces = [''app'', ''istio-system'', ''k8s-agent''],
       np_AllowedCommandTypes = allowedTypes,
       np_IssuerRules = [\<lparr> ir_Issuer = ''core-prod'', ir_Namespaces = [''app'', ''istio-system''] \<rparr>],
       np_MaxBytes = 1073741824, np_MaxConcurrentTargets = 50, np_AllowedPresignedHosts = [],
       np_MaxSubscriptions = 100, np_MaxPatternLength = 512, np_ExcludeSecretKind = True \<rparr>"

text \<open>\<open>yaml\<close> is the decoder; a file that cannot be read gives the default.\<close>

definition nup_policy_Load ::
  "(string \<Rightarrow> file_read) \<Rightarrow> (string \<Rightarrow> go_error + nup_policy) \<Rightarrow> string \<Rightarrow> go_error + nup_policy" where
  "nup_policy_Load read yaml path =
     (case read path of
        Contents d \<Rightarrow>
          (case yaml d of
             Inl e \<Rightarrow> Inl (Errorf ''parse policy: %w'' [AErr e])
           | Inr p \<Rightarrow> Inr (if \<not> np_ExcludeSecretKind p \<and> np_AllowedGVK p = [] then defaultPolicy else p))
      | _ \<Rightarrow> Inr defaultPolicy)"

definition allowedCommandType :: "nup_policy \<Rightarrow> string \<Rightarrow> bool" where
  "allowedCommandType p t = list_ex (\<lambda>ct. ct = t) (np_AllowedCommandTypes p)"

definition allowedGVK :: "nup_policy \<Rightarrow> gvk \<Rightarrow> bool" where
  "allowedGVK p g = list_ex (\<lambda>x. x = g) (np_AllowedGVK p)"

definition allowedNamespace :: "nup_policy \<Rightarrow> string \<Rightarrow> bool" where
  "allowedNamespace p ns = (if ns = [] then True else list_ex (\<lambda>n. n = ns \<or> n = ''*'') (np_AllowedNamespaces p))"

text \<open>The first rule of the issuer decides.\<close>

fun issuer_rules_allow :: "issuer_rule list \<Rightarrow> string \<Rightarrow> string \<Rightarrow> bool" where
  "issuer_rules_allow [] issuer ns = False"
| "issuer_rules_allow (r # rs) issuer ns =
     (if ir_Issuer r \<noteq> issuer then issuer_rules_allow rs issuer ns
      else if ns = [] then True
      else list_ex (\<lambda>a. a = ns \<or> a = ''*'') (ir_Namespaces r))"

definition allowedIssuer :: "nup_policy \<Rightarrow> string \<Rightarrow> string \<Rightarrow> bool" where
  "allowedIssuer p issuer ns = (if np_IssuerRules p = [] then True else issuer_rules_allow (np_IssuerRules p) issuer ns)"

definition target_gvk :: "nup_target \<Rightarrow> gvk" where
  "target_gvk t = \<lparr> g_Group = tg_Group t, g_Version = tg_Version t, g_Kind = tg_Kind t \<rparr>"

definition CheckCommand :: "nup_policy \<Rightarrow> nup_command \<Rightarrow> go_error option" where
  "CheckCommand p c =
     (let t = nc_Target c in
      if \<not> allowedCommandType p (nc_Type c) then Some (Errorf ''command type %s not allowed'' [AStr (nc_Type c)])
      else if np_ExcludeSecretKind p \<and> EqualFold (tg_Kind t) ''Secret'' then Some (Errorf ''Secret resources are forbidden'' [])
      else if tg_Kind t \<noteq> [] \<and> \<not> allowedGVK p (target_gvk t) then
        Some (Errorf ''GVK %s/%s/%s not allowed'' [AStr (tg_Group t), AStr (tg_Version t), AStr (tg_Kind t)])
      else if tg_Namespace t \<noteq> [] \<and> \<not> allowedNamespace p (tg_Namespace t) then
        Some (Errorf ''namespace %s not allowed'' [AStr (tg_Namespace t)])
      else if \<not> allowedIssuer p (nc_IssuedBy c) (tg_Namespace t) then
        Some (Errorf ''issuer %s not allowed for namespace'' [AStr (nc_IssuedBy c)])
      else None)"

definition CheckGVK :: "nup_policy \<Rightarrow> gvk \<Rightarrow> go_error option" where
  "CheckGVK p g =
     (if np_ExcludeSecretKind p \<and> EqualFold (g_Kind g) ''Secret'' then Some (Errorf ''Secret resources are forbidden'' [])
      else if \<not> allowedGVK p g then Some (Errorf ''GVK not allowed'' [])
      else None)"

definition CheckNamespace :: "nup_policy \<Rightarrow> string \<Rightarrow> go_error option" where
  "CheckNamespace p ns =
     (if \<not> allowedNamespace p ns then Some (Errorf ''namespace %s not allowed'' [AStr ns]) else None)"

definition CheckPresignedHost :: "nup_policy \<Rightarrow> string \<Rightarrow> go_error option" where
  "CheckPresignedHost p host =
     (if np_AllowedPresignedHosts p = [] then None
      else if list_ex (\<lambda>h. EqualFold h host) (np_AllowedPresignedHosts p) then None
      else Some (Errorf ''presigned URL host %s not allowed'' [AStr host]))"

section \<open>Configuration (internal/config/config.go)\<close>

text \<open>The readers of the environment have the bodies of those in \<open>Config\<close>.\<close>

record nup_config =
  ng_KafkaBrokers :: "string list"
  ng_TopicCommandsIn :: string
  ng_TopicCommandsOut :: string
  ng_TopicClusterEvents :: string
  ng_TopicDLQ :: string
  ng_ConsumerGroup :: string
  ng_HTTPAddr :: string
  ng_PolicyFile :: string
  ng_LeaderElectionEnabled :: bool
  ng_LeaderLeaseName :: string
  ng_LeaderLeaseNamespace :: string
  ng_TempDir :: string
  ng_MaxRetries :: int
  ng_RetryBaseDelay :: gtime
  ng_InlineListMaxBytes :: int

definition blank :: "char \<Rightarrow> bool" where
  "blank c \<longleftrightarrow> c = CHR '' '' \<or> c = CHR 0x09"

definition nup_trim :: "string \<Rightarrow> string" where
  "nup_trim s = rev (dropWhile blank (rev (dropWhile blank s)))"

text \<open>The loop of \<open>splitCSV\<close>: \<open>cur\<close> is \<open>s[start:i]\<close>.\<close>

fun csv_loop :: "string \<Rightarrow> string \<Rightarrow> string list" where
  "csv_loop cur [] = (if nup_trim cur \<noteq> [] then [nup_trim cur] else [])"
| "csv_loop cur (c # cs) =
     (if c = CHR '','' then (if nup_trim cur \<noteq> [] then [nup_trim cur] else []) @ csv_loop [] cs
      else csv_loop (cur @ [c]) cs)"

definition nup_splitCSV :: "string \<Rightarrow> string list" where
  "nup_splitCSV s = (let out = csv_loop [] s in if out = [] then [''localhost:9092''] else out)"

definition LoadFromEnv :: "(string \<Rightarrow> string) \<Rightarrow> go_error + nup_config" where
  "LoadFromEnv getenv =
     (let cfg =
        \<lparr> ng_KafkaBrokers = nup_splitCSV (env getenv ''KAFKA_BROKERS'' ''localhost:9092''),
          ng_TopicCommandsIn = env getenv ''KAFKA_TOPIC_COMMANDS_IN'' ''commands.in'',
          ng_TopicCommandsOut = env getenv ''KAFKA_TOPIC_COMMANDS_OUT'' ''commands.results'',
          ng_TopicClusterEvents = env getenv ''KAFKA_TOPIC_CLUSTER_EVENTS'' ''cluster.events'',
          ng_TopicDLQ = env getenv ''KAFKA_TOPIC_DLQ'' ''commands.dlq'',
          ng_ConsumerGroup = env getenv ''KAFKA_CONSUMER_GROUP'' ''k8s-agent'',
          ng_HTTPAddr = env getenv ''HTTP_ADDR'' '':8080'',
          ng_PolicyFile = env getenv ''POLICY_FILE'' ''/etc/k8s-agent/policy.yaml'',
          ng_LeaderElectionEnabled = envBool getenv ''LEADER_ELECTION_ENABLED'' True,
          ng_LeaderLeaseName = env getenv ''LEADER_LEASE_NAME'' ''k8s-agent-leader'',
          ng_LeaderLeaseNamespace = env getenv ''LEADER_LEASE_NAMESPACE'' ''k8s-agent'',
          ng_TempDir = env getenv ''TEMP_DIR'' ''/tmp/k8s-agent'',
          ng_MaxRetries = intFromEnv getenv ''MAX_RETRIES'' 5,
          ng_RetryBaseDelay = int64 (intFromEnv getenv ''RETRY_BASE_DELAY_MS'' 200 * 1000000),
          ng_InlineListMaxBytes = intFromEnv getenv ''INLINE_LIST_MAX_BYTES'' 5242880 \<rparr>
      in if ng_MaxRetries cfg < 1 then Inl (Errorf ''MAX_RETRIES must be >= 1'' []) else Inr cfg)"

section \<open>Properties\<close>

lemma csv_loop_split:
  "csv_loop cur s = (case SplitChar (CHR '','') s of
     [] \<Rightarrow> [] | x # xs \<Rightarrow> filter (\<lambda>p. p \<noteq> []) (map nup_trim ((cur @ x) # xs)))"
  by (induction s arbitrary: cur) (auto split: list.splits)

text \<open>The byte loop is splitting at commas, trimming and dropping what is empty.\<close>

lemma nup_splitCSV_reference:
  "nup_splitCSV s =
     (let ps = filter (\<lambda>p. p \<noteq> []) (map nup_trim (SplitChar (CHR '','') s)) in if ps = [] then [''localhost:9092''] else ps)"
  by (auto simp: nup_splitCSV_def csv_loop_split Let_def split: list.split)

lemma CheckCommand_None:
  assumes "CheckCommand p c = None"
  shows "nc_Type c \<in> set (np_AllowedCommandTypes p)"
    and "tg_Kind (nc_Target c) = [] \<or> target_gvk (nc_Target c) \<in> set (np_AllowedGVK p)"
    and "allowedNamespace p (tg_Namespace (nc_Target c))"
    and "allowedIssuer p (nc_IssuedBy c) (tg_Namespace (nc_Target c))"
    and "np_ExcludeSecretKind p \<Longrightarrow> ToLower (tg_Kind (nc_Target c)) \<noteq> ''secret''"
proof -
  have *: "allowedCommandType p (nc_Type c)" "\<not> (np_ExcludeSecretKind p \<and> EqualFold (tg_Kind (nc_Target c)) ''Secret'')"
    "\<not> (tg_Kind (nc_Target c) \<noteq> [] \<and> \<not> allowedGVK p (target_gvk (nc_Target c)))"
    "\<not> (tg_Namespace (nc_Target c) \<noteq> [] \<and> \<not> allowedNamespace p (tg_Namespace (nc_Target c)))"
    "allowedIssuer p (nc_IssuedBy c) (tg_Namespace (nc_Target c))"
    using assms unfolding CheckCommand_def Let_def by (auto split: if_splits)
  show "nc_Type c \<in> set (np_AllowedCommandTypes p)" using *(1) by (auto simp: allowedCommandType_def list_ex_iff)
  show "tg_Kind (nc_Target c) = [] \<or> target_gvk (nc_Target c) \<in> set (np_AllowedGVK p)"
    using *(3) by (auto simp: allowedGVK_def list_ex_iff)
  show "allowedNamespace p (tg_Namespace (nc_Target c))" using *(4) by (auto simp: allowedNamespace_def)
  show "allowedIssuer p (nc_IssuedBy c) (tg_Namespace (nc_Target c))" by fact
  have "ToLower ''Secret'' = ''secret''" by code_simp
  then show "np_ExcludeSecretKind p \<Longrightarrow> ToLower (tg_Kind (nc_Target c)) \<noteq> ''secret''"
    using *(2) by (simp add: EqualFold_def)
qed

section \<open>Router (internal/command/router.go)\<close>

text \<open>
  A handler: its state, the command and the instants it reads; a result, an error, or \<open>Hangs\<close> when it never
  returns.
\<close>

datatype nup_outcome = Result nup_result | HandlerError go_error | Hangs

type_synonym 's nup_handle = "'s \<Rightarrow> nup_command \<Rightarrow> clock \<Rightarrow> 's \<times> nup_outcome"

type_synonym 's nup_router = "(string, 's nup_handle) gomap"

definition nup_NewRouter :: "(string \<times> 's nup_handle) list \<Rightarrow> 's nup_router" where
  "nup_NewRouter handlers = fold (\<lambda>(ty, h). gm_put ty h) handlers []"

definition nup_Route :: "'s nup_router \<Rightarrow> 's nup_handle" where
  "nup_Route rt s c t =
     (case gm_get rt (nc_Type c) of
        None \<Rightarrow> (s, HandlerError (Errorf ''no handler for type %s'' [AStr (nc_Type c)]))
      | Some h \<Rightarrow> h s c t)"

text \<open>The result that ends a command.\<close>

definition final_for :: "nup_command \<Rightarrow> nup_result \<Rightarrow> bool" where
  "final_for c r \<longleftrightarrow>
     nr_CommandID r = nc_CommandID c \<and> nr_IdempotencyKey r = nc_IdempotencyKey c \<and> nr_FinishedAt r \<noteq> None \<and>
     (if nr_Status r = NupCompleted then nr_Error r = None else nr_Status r \<in> {NupFailed, NupRejected} \<and> nr_Error r \<noteq> None)"

lemma final_results [simp]:
  "final_for c (nup_Rejected c code msg now)" "final_for c (nup_Failed c code msg now)"
  "final_for c (completed_with c started finished d)"
  by (simp_all add: final_for_def nup_Rejected_def nup_Failed_def completed_with_def NewResult_def)

lemma result_status [simp]:
  "nr_Status (nup_Rejected c code msg now) = NupRejected" "nr_Status (nup_Failed c code msg now) = NupFailed"
  "nr_Status (completed_with c started finished d) = NupCompleted"
  by (simp_all add: nup_Rejected_def nup_Failed_def completed_with_def NewResult_def)

text \<open>What the service relies on: a handler answers with the result that ends its command.\<close>

locale nup_handler =
  fixes handle :: "'s nup_handle"
  assumes answers: "handle s c t = (s', r) \<Longrightarrow> r = Hangs \<or> (\<exists>res. r = Result res \<and> final_for c res)"

locale nup_routed =
  fixes rt :: "'s nup_router"
  assumes routed: "gm_get rt ty = Some h \<Longrightarrow> nup_handler h"
begin

lemma route_answers:
  assumes "gm_get rt (nc_Type c) \<noteq> None" and "nup_Route rt s c t = (s', r)"
  shows "r = Hangs \<or> (\<exists>res. r = Result res \<and> final_for c res)"
proof -
  obtain h where h: "gm_get rt (nc_Type c) = Some h" using assms(1) by auto
  then have "h s c t = (s', r)" using assms(2) by (simp add: nup_Route_def)
  then show ?thesis by (rule nup_handler.answers [OF routed [OF h]])
qed

end

text \<open>A handler of a part of the state.\<close>

definition nup_on :: "('s \<Rightarrow> 'a) \<Rightarrow> ('a \<Rightarrow> 's \<Rightarrow> 's) \<Rightarrow> 'a nup_handle \<Rightarrow> 's nup_handle" where
  "nup_on sel upd h s c t = (case h (sel s) c t of (a, r) \<Rightarrow> (upd a s, r))"

lemma nup_handler_on: "nup_handler h \<Longrightarrow> nup_handler (nup_on sel upd h)"
  by unfold_locales (auto simp: nup_on_def split: prod.splits dest: nup_handler.answers)

end
