(* ===== verification/Nup_Streams.thy ===== *)
theory Nup_Streams
  imports Nup_Policy Watch Node_Logs
begin

text \<open>
  The archived agent, second part: the watch manager (\<open>internal/watchmanager\<close>), the log stream manager
  (\<open>internal/logstream\<close>), the sanitizing of objects (\<open>internal/k8s/sanitize.go\<close>) and the four handlers of
  \<open>internal/handlers/watch\<close> and \<open>internal/handlers/logs\<close>. A subscription runs until its context is
  cancelled; contexts are those of \<open>Subscriptions\<close>, without a deadline.
\<close>

section \<open>Objects (internal/k8s/sanitize.go)\<close>

text \<open>\<open>trim_metadata\<close> is the same code as in \<open>internal/k8s/trim.go\<close>.\<close>

definition SanitizeObject :: "bool \<Rightarrow> obj \<Rightarrow> obj" where
  "SanitizeObject strip o1 = (if strip then gm_del ''status'' (trim_metadata o1) else trim_metadata o1)"

definition meta_str :: "string \<Rightarrow> obj \<Rightarrow> string" where
  "meta_str k o1 =
     (case gm_get o1 ''metadata'' of
        Some (JObj md) \<Rightarrow> (case gm_get md k of Some (JStr s) \<Rightarrow> s | _ \<Rightarrow> [])
      | _ \<Rightarrow> [])"

section \<open>Watch manager (internal/watchmanager/manager.go)\<close>

record nup_watch_payload =
  nwp_SubscriptionID :: string
  nwp_GVK :: gvk
  nwp_Namespace :: string
  nwp_LabelSelector :: string
  nwp_FieldSelector :: string
  nwp_EventFilter :: "string list"
  nwp_TTLSeconds :: int

definition decode_nup_watch :: "obj \<Rightarrow> nup_watch_payload option" where
  "decode_nup_watch kvs = do {
     i \<leftarrow> fld_str ''subscription_id'' kvs;
     gm \<leftarrow> dec_obj [] (members ''gvk'' kvs);
     g \<leftarrow> decode_gvk gm;
     ns \<leftarrow> fld_str ''namespace'' kvs;
     sm \<leftarrow> dec_obj [] (members ''selector'' kvs);
     ls \<leftarrow> fld_str ''labelSelector'' sm;
     fs \<leftarrow> fld_str ''fieldSelector'' sm;
     ef \<leftarrow> fld_strs ''event_filter'' kvs;
     ttl \<leftarrow> fld_int ''ttl_seconds'' kvs;
     Some \<lparr> nwp_SubscriptionID = i, nwp_GVK = g, nwp_Namespace = ns, nwp_LabelSelector = ls, nwp_FieldSelector = fs,
            nwp_EventFilter = ef, nwp_TTLSeconds = ttl \<rparr> }"

text \<open>A subscription: its payload and its context.\<close>

record nup_watches =
  nw_subs :: "(string, nup_watch_payload \<times> nat) gomap"
  nw_isLeader :: bool
  nw_ctxs :: ctxs

definition nup_watches_new :: nup_watches where
  "nup_watches_new = \<lparr> nw_subs = [], nw_isLeader = False, nw_ctxs = [] \<rparr>"

definition watches_SetLeader :: "bool \<Rightarrow> nup_watches \<Rightarrow> nup_watches" where
  "watches_SetLeader v m =
     (if v then m\<lparr> nw_isLeader := True \<rparr>
      else m\<lparr> nw_isLeader := False, nw_ctxs := fold cancel (map (snd \<circ> snd) (nw_subs m)) (nw_ctxs m), nw_subs := [] \<rparr>)"

definition watches_ActiveCount :: "nup_watches \<Rightarrow> int" where
  "watches_ActiveCount m = int (gm_len (nw_subs m))"

text \<open>
  \<open>rm n g\<close> is the mapping the REST mapper gives for \<open>g\<close>, before (0) and after (1) its reset; \<open>wrap\<close> is
  what the caller makes of the error.
\<close>

definition gvrFor :: "(nat \<Rightarrow> gvk \<Rightarrow> go_error + string) \<Rightarrow> (go_error \<Rightarrow> go_error) \<Rightarrow> gvk \<Rightarrow> go_error + string" where
  "gvrFor rm wrap g =
     (case rm 0 g of
        Inr r \<Rightarrow> Inr r
      | Inl _ \<Rightarrow> (case rm 1 g of Inl e \<Rightarrow> Inl (wrap e) | Inr r \<Rightarrow> Inr r))"

text \<open>\<open>add\<close> and \<open>sync\<close> are the answers of \<open>AddEventHandler\<close> and \<open>WaitForCacheSync\<close>.\<close>

definition watches_Subscribe ::
  "(nat \<Rightarrow> gvk \<Rightarrow> go_error + string) \<Rightarrow> go_error option \<Rightarrow> bool \<Rightarrow> nup_watches \<Rightarrow> nup_watch_payload
     \<Rightarrow> nup_watches \<times> go_error option" where
  "watches_Subscribe rm add sync m p =
     (if \<not> nw_isLeader m then (m, Some (Errorf ''watch subscriptions require leader'' []))
      else if gm_get (nw_subs m) (nwp_SubscriptionID p) \<noteq> None then
        (m, Some (Errorf ''subscription %s already exists'' [AStr (nwp_SubscriptionID p)]))
      else
        case gvrFor rm id (nwp_GVK p) of
          Inl e \<Rightarrow> (m, Some e)
        | Inr gvr \<Rightarrow>
            let i = length (nw_ctxs m);
                m' = m\<lparr> nw_ctxs := nw_ctxs m @ [\<lparr> cx_deadline = None, cx_cancelled = False \<rparr>] \<rparr>
            in case add of
                 Some e \<Rightarrow> (m'\<lparr> nw_ctxs := cancel i (nw_ctxs m') \<rparr>, Some e)
               | None \<Rightarrow>
                   if \<not> sync then
                     (m'\<lparr> nw_ctxs := cancel i (nw_ctxs m') \<rparr>, Some (Errorf ''informer cache sync failed'' []))
                   else (m'\<lparr> nw_subs := gm_put (nwp_SubscriptionID p) (p, i) (nw_subs m') \<rparr>, None))"

definition watches_Unsubscribe :: "nup_watches \<Rightarrow> string \<Rightarrow> nup_watches \<times> go_error option" where
  "watches_Unsubscribe m i =
     (case gm_get (nw_subs m) i of
        None \<Rightarrow> (m, Some (Errorf ''subscription %s not found'' [AStr i]))
      | Some (p, x) \<Rightarrow> (m\<lparr> nw_ctxs := cancel x (nw_ctxs m), nw_subs := gm_del i (nw_subs m) \<rparr>, None))"

text \<open>
  What the informer hands to the three functions. The filter of a payload without one is the three events. An
  assertion to \<open>*Unstructured\<close> that fails panics, also in the function for deletions, where it comes before the
  test for a tombstone.
\<close>

datatype nup_kobj = NObject obj | NTombstone obj | NOther

datatype nup_notice = NAdd nup_kobj | NUpdate nup_kobj nup_kobj | NDelete nup_kobj

definition nup_filter :: "nup_watch_payload \<Rightarrow> string list" where
  "nup_filter p = (if nwp_EventFilter p = [] then [''ADD'', ''UPDATE'', ''DELETE''] else nwp_EventFilter p)"

definition computeDiff :: "(obj \<Rightarrow> obj \<Rightarrow> go_error + json) \<Rightarrow> obj \<Rightarrow> obj \<Rightarrow> go_error + json" where
  "computeDiff compare oldObj newObj =
     (case compare (SanitizeObject False oldObj) (SanitizeObject False newObj) of
        Inl e \<Rightarrow> Inl e | Inr patch \<Rightarrow> Inr (JObj [(''operations'', patch)]))"

definition nup_publishEvent ::
  "(obj \<Rightarrow> obj \<Rightarrow> go_error + json) \<Rightarrow> nup_watch_payload \<Rightarrow> gtime \<Rightarrow> string \<Rightarrow> obj \<Rightarrow> obj option \<Rightarrow> string \<times> nup_event" where
  "nup_publishEvent compare p now eventType o1 old =
     (let san = SanitizeObject False o1;
          ns = meta_str ''namespace'' san; n = meta_str ''name'' san; g = nwp_GVK p;
          diff = (case old of
                    Some oldO \<Rightarrow>
                      if eventType = ''UPDATE''
                      then (case computeDiff compare oldO san of Inl _ \<Rightarrow> [] | Inr d \<Rightarrow> [(''diff'', d)]) else []
                  | None \<Rightarrow> [])
      in (ns @ ''/'' @ n,
          \<lparr> nv_SubscriptionID = nwp_SubscriptionID p, nv_EventType = eventType,
            nv_Resource = \<lparr> tg_Group = g_Group g, tg_Version = g_Version g, tg_Kind = g_Kind g, tg_Namespace = ns, tg_Name = n \<rparr>,
            nv_ObservedAt = now,
            nv_Details = JObj (diff @ [(''resource_version'', JStr (meta_str ''resourceVersion'' san))]) \<rparr>))"

fun nup_notify ::
  "(obj \<Rightarrow> obj \<Rightarrow> go_error + json) \<Rightarrow> nup_watch_payload \<Rightarrow> gtime \<Rightarrow> nup_notice \<Rightarrow> (string \<times> nup_event) list res" where
  "nup_notify compare p now (NAdd k) =
     (if ''ADD'' \<notin> set (nup_filter p) then Ok []
      else case k of NObject o1 \<Rightarrow> Ok [nup_publishEvent compare p now ''ADD'' o1 None] | _ \<Rightarrow> Panic)"
| "nup_notify compare p now (NUpdate old new) =
     (if ''UPDATE'' \<notin> set (nup_filter p) then Ok []
      else case (old, new) of
             (NObject o1, NObject o2) \<Rightarrow> Ok [nup_publishEvent compare p now ''UPDATE'' o2 (Some o1)]
           | _ \<Rightarrow> Panic)"
| "nup_notify compare p now (NDelete k) =
     (if ''DELETE'' \<notin> set (nup_filter p) then Ok []
      else case k of NObject o1 \<Rightarrow> Ok [nup_publishEvent compare p now ''DELETE'' o1 None] | _ \<Rightarrow> Panic)"

section \<open>Log stream manager (internal/logstream/manager.go)\<close>

record nup_log_target =
  lt_Namespace :: string
  lt_Pod :: string
  lt_Container :: string
  lt_Previous :: bool

record nup_stream_payload =
  nsp_SubscriptionID :: string
  nsp_Targets :: "nup_log_target list"
  nsp_Pattern :: string
  nsp_PatternType :: string
  nsp_CaseInsensitive :: bool
  nsp_Follow :: bool
  nsp_SinceSeconds :: int
  nsp_TTLSeconds :: int

definition decode_log_target :: "json \<Rightarrow> nup_log_target option" where
  "decode_log_target j = do {
     kvs \<leftarrow> json_obj j;
     ns \<leftarrow> fld_str ''namespace'' kvs;
     pod \<leftarrow> fld_str ''pod'' kvs;
     ct \<leftarrow> fld_str ''container'' kvs;
     pv \<leftarrow> fld_bool ''previous'' kvs;
     Some \<lparr> lt_Namespace = ns, lt_Pod = pod, lt_Container = ct, lt_Previous = pv \<rparr> }"

definition no_log_target :: nup_log_target where
  "no_log_target = \<lparr> lt_Namespace = [], lt_Pod = [], lt_Container = [], lt_Previous = False \<rparr>"

definition decode_nup_stream :: "obj \<Rightarrow> nup_stream_payload option" where
  "decode_nup_stream kvs = do {
     i \<leftarrow> fld_str ''subscription_id'' kvs;
     ts \<leftarrow> fld_list ''targets'' no_log_target decode_log_target kvs;
     pt \<leftarrow> fld_str ''pattern'' kvs;
     ty \<leftarrow> fld_str ''pattern_type'' kvs;
     ci \<leftarrow> fld_bool ''case_insensitive'' kvs;
     fl \<leftarrow> fld_bool ''follow'' kvs;
     ss \<leftarrow> fld_int ''since_seconds'' kvs;
     ttl \<leftarrow> fld_int ''ttl_seconds'' kvs;
     Some \<lparr> nsp_SubscriptionID = i, nsp_Targets = ts, nsp_Pattern = pt, nsp_PatternType = ty, nsp_CaseInsensitive = ci,
            nsp_Follow = fl, nsp_SinceSeconds = ss, nsp_TTLSeconds = ttl \<rparr> }"

text \<open>A stream: its context. \<open>nt_running\<close> lists the goroutines started, each with its context.\<close>

record nup_streams =
  nt_streams :: "(string, nat) gomap"
  nt_isLeader :: bool
  nt_ctxs :: ctxs
  nt_running :: "(string \<times> nup_log_target \<times> nat) list"

definition nup_streams_new :: nup_streams where
  "nup_streams_new = \<lparr> nt_streams = [], nt_isLeader = False, nt_ctxs = [], nt_running = [] \<rparr>"

definition streams_SetLeader :: "bool \<Rightarrow> nup_streams \<Rightarrow> nup_streams" where
  "streams_SetLeader v m =
     (if v then m\<lparr> nt_isLeader := True \<rparr>
      else m\<lparr> nt_isLeader := False, nt_ctxs := fold cancel (map snd (nt_streams m)) (nt_ctxs m), nt_streams := [] \<rparr>)"

definition streams_ActiveCount :: "nup_streams \<Rightarrow> int" where
  "streams_ActiveCount m = int (gm_len (nt_streams m))"

text \<open>\<open>compile\<close> is \<open>regexp.Compile\<close>; an expression gives the first match in a line, if any.\<close>

type_synonym regexp = "string \<Rightarrow> string option"

definition nup_CompilePattern :: "(string \<Rightarrow> go_error + regexp) \<Rightarrow> nup_stream_payload \<Rightarrow> go_error + regexp" where
  "nup_CompilePattern compile p =
     (if nsp_PatternType p \<noteq> ''regex'' \<and> nsp_PatternType p \<noteq> [] then
        Inl (Errorf ''unsupported pattern_type: %s'' [AStr (nsp_PatternType p)])
      else compile (if nsp_CaseInsensitive p then ''(?i)'' @ nsp_Pattern p else nsp_Pattern p))"

definition streams_Subscribe ::
  "(string \<Rightarrow> go_error + regexp) \<Rightarrow> nup_streams \<Rightarrow> nup_stream_payload \<Rightarrow> nup_streams \<times> go_error option" where
  "streams_Subscribe compile m p =
     (if \<not> nt_isLeader m then (m, Some (Errorf ''log stream subscriptions require leader'' []))
      else if gm_get (nt_streams m) (nsp_SubscriptionID p) \<noteq> None then
        (m, Some (Errorf ''subscription %s already exists'' [AStr (nsp_SubscriptionID p)]))
      else if nsp_Pattern p = [] then (m, Some (Errorf ''pattern is required'' []))
      else
        case nup_CompilePattern compile p of
          Inl e \<Rightarrow> (m, Some e)
        | Inr re \<Rightarrow>
            let i = length (nt_ctxs m)
            in (m\<lparr> nt_ctxs := nt_ctxs m @ [\<lparr> cx_deadline = None, cx_cancelled = False \<rparr>],
                   nt_streams := gm_put (nsp_SubscriptionID p) i (nt_streams m),
                   nt_running := nt_running m @ map (\<lambda>t. (nsp_SubscriptionID p, t, i)) (nsp_Targets p) \<rparr>, None))"

definition streams_Unsubscribe :: "nup_streams \<Rightarrow> string \<Rightarrow> nup_streams \<times> go_error option" where
  "streams_Unsubscribe m i =
     (case gm_get (nt_streams m) i of
        None \<Rightarrow> (m, Some (Errorf ''subscription %s not found'' [AStr i]))
      | Some x \<Rightarrow> (m\<lparr> nt_ctxs := cancel x (nt_ctxs m), nt_streams := gm_del i (nt_streams m) \<rparr>, None))"

text \<open>
  The scanner has the default buffer of 65536 bytes, so that the branch of \<open>scanLines\<close> for a line of more than
  one mebibyte is never taken: the lines before the first that does not fit.
\<close>

definition nup_scan_lines :: "string \<Rightarrow> string list" where
  "nup_scan_lines s =
     (let ls = SplitChar (CHR 0x0A) s;
          ls = (if last ls = [] then butlast ls else ls)
      in takeWhile (\<lambda>l. int (length l) < 65536) ls)"

definition log_line_event ::
  "string \<Rightarrow> nup_log_target \<Rightarrow> gtime \<Rightarrow> int \<Rightarrow> string \<Rightarrow> string \<Rightarrow> string \<times> nup_event" where
  "log_line_event i t now lineNum line match =
     (lt_Namespace t @ ''/'' @ lt_Pod t @ ''/'' @ lt_Container t,
      \<lparr> nv_SubscriptionID = i, nv_EventType = ''LOG_LINE'',
        nv_Resource = \<lparr> tg_Group = [], tg_Version = [], tg_Kind = ''Pod'', tg_Namespace = lt_Namespace t, tg_Name = lt_Pod t \<rparr>,
        nv_ObservedAt = now,
        nv_Details = JObj [(''container'', JStr (lt_Container t)), (''line'', JStr line), (''line_number'', JInt lineNum),
                           (''pattern_matched'', JStr match)] \<rparr>)"

fun scan_matches ::
  "regexp \<Rightarrow> string \<Rightarrow> nup_log_target \<Rightarrow> gtime \<Rightarrow> int \<Rightarrow> string list \<Rightarrow> (string \<times> nup_event) list" where
  "scan_matches re i t now n [] = []"
| "scan_matches re i t now n (line # rest) =
     (case re line of
        None \<Rightarrow> scan_matches re i t now (n + 1) rest
      | Some match \<Rightarrow> log_line_event i t now (n + 1) line match # scan_matches re i t now (n + 1) rest)"

definition scanStream :: "regexp \<Rightarrow> string \<Rightarrow> nup_log_target \<Rightarrow> gtime \<Rightarrow> string \<Rightarrow> (string \<times> nup_event) list" where
  "scanStream re i t now content = scan_matches re i t now 0 (nup_scan_lines content)"

text \<open>
  \<open>runStream\<close> over what its surroundings answer, one \<open>turn\<close> for each pass of the loop: the context is done at
  the top, the stream does not open and the context is or is not done during the wait, or the stream opens and
  ends after its content. What it does: the waits and the events, in order.
\<close>

datatype turn = CtxDone | OpenFailed bool | Opened gtime string

datatype stream_act = Waits gtime | Emits "(string \<times> nup_event) list"

fun runStream :: "bool \<Rightarrow> regexp \<Rightarrow> string \<Rightarrow> nup_log_target \<Rightarrow> gtime \<Rightarrow> turn list \<Rightarrow> stream_act list" where
  "runStream follow re i t backoff [] = []"
| "runStream follow re i t backoff (CtxDone # turns) = []"
| "runStream follow re i t backoff (OpenFailed ended # turns) =
     Waits backoff #
     (if ended then []
      else runStream follow re i t (if backoff < 30 * second then 2 * backoff else backoff) turns)"
| "runStream follow re i t backoff (Opened now content # turns) =
     Emits (scanStream re i t now content) # (if \<not> follow then [] else runStream follow re i t second turns)"

section \<open>Handlers (internal/handlers/watch/handler.go, internal/handlers/logs/handler.go)\<close>

definition subscribed_details :: "string \<Rightarrow> int \<Rightarrow> raw" where
  "subscribed_details i n = Some (JObj [(''active'', JInt n), (''subscription_id'', JStr i)])"

definition parse_nup_watch :: "nup_command \<Rightarrow> go_error + nup_watch_payload" where
  "parse_nup_watch c = sum_bind (unmarshal_struct (nc_Payload c)) (\<lambda>kvs. or_json_error (decode_nup_watch kvs))"

definition nup_watch_Subscribe ::
  "nup_policy \<Rightarrow> (nat \<Rightarrow> gvk \<Rightarrow> go_error + string) \<Rightarrow> go_error option \<Rightarrow> bool \<Rightarrow> nup_watches nup_handle" where
  "nup_watch_Subscribe pol rm add sync s c t =
     (case parse_nup_watch c of
        Inl e \<Rightarrow> (s, Result (nup_Rejected c ''INVALID_PAYLOAD'' e (snd t)))
      | Inr p \<Rightarrow>
          if nwp_SubscriptionID p = [] then
            (s, Result (nup_Rejected c ''INVALID_PAYLOAD'' (Errorf ''subscription_id required'' []) (snd t)))
          else case CheckGVK pol (nwp_GVK p) of
            Some e \<Rightarrow> (s, Result (nup_Rejected c ''POLICY_VIOLATION'' e (snd t)))
          | None \<Rightarrow>
              (case (if nwp_Namespace p \<noteq> [] then CheckNamespace pol (nwp_Namespace p) else None) of
                 Some e \<Rightarrow> (s, Result (nup_Rejected c ''POLICY_VIOLATION'' e (snd t)))
               | None \<Rightarrow>
                   (case watches_Subscribe rm add sync s p of
                      (s', Some e) \<Rightarrow> (s', Result (nup_Failed c ''SUBSCRIBE_FAILED'' e (snd t)))
                    | (s', None) \<Rightarrow>
                        (s', Result (completed_with c (snd t) (snd t)
                                    (subscribed_details (nwp_SubscriptionID p) (watches_ActiveCount s')))))))"

definition nup_unsubscribe_payload :: "nup_command \<Rightarrow> go_error + string" where
  "nup_unsubscribe_payload c =
     sum_bind (unmarshal_struct (nc_Payload c)) (\<lambda>kvs. or_json_error (fld_str ''subscription_id'' kvs))"

text \<open>The two \<open>UnsubscribeHandler\<close>s have the same body.\<close>

definition nup_unsubscribe :: "('m \<Rightarrow> string \<Rightarrow> 'm \<times> go_error option) \<Rightarrow> 'm nup_handle" where
  "nup_unsubscribe unsub s c t =
     (case nup_unsubscribe_payload c of
        Inl e \<Rightarrow> (s, Result (nup_Rejected c ''INVALID_PAYLOAD'' e (snd t)))
      | Inr i \<Rightarrow>
          (case unsub s i of
             (s', Some e) \<Rightarrow> (s', Result (nup_Failed c ''UNSUBSCRIBE_FAILED'' e (snd t)))
           | (s', None) \<Rightarrow> (s', Result (completed_with c (snd t) (snd t) None))))"

definition nup_watch_Unsubscribe :: "nup_watches nup_handle" where
  "nup_watch_Unsubscribe = nup_unsubscribe watches_Unsubscribe"

definition parse_nup_stream :: "nup_command \<Rightarrow> go_error + nup_stream_payload" where
  "parse_nup_stream c = sum_bind (unmarshal_struct (nc_Payload c)) (\<lambda>kvs. or_json_error (decode_nup_stream kvs))"

definition nup_logs_Subscribe :: "nup_policy \<Rightarrow> (string \<Rightarrow> go_error + regexp) \<Rightarrow> nup_streams nup_handle" where
  "nup_logs_Subscribe pol compile s c t =
     (case parse_nup_stream c of
        Inl e \<Rightarrow> (s, Result (nup_Rejected c ''INVALID_PAYLOAD'' e (snd t)))
      | Inr p \<Rightarrow>
          if nsp_SubscriptionID p = [] then
            (s, Result (nup_Rejected c ''INVALID_PAYLOAD'' (Errorf ''subscription_id required'' []) (snd t)))
          else if nsp_Targets p = [] then
            (s, Result (nup_Rejected c ''INVALID_PAYLOAD'' (Errorf ''targets required'' []) (snd t)))
          else if np_MaxPatternLength pol > 0 \<and> int (length (nsp_Pattern p)) > np_MaxPatternLength pol then
            (s, Result (nup_Rejected c ''INVALID_PAYLOAD'' (Errorf ''pattern too long'' []) (snd t)))
          else case first_error (map (\<lambda>x. CheckNamespace pol (lt_Namespace x)) (nsp_Targets p)) of
            Some e \<Rightarrow> (s, Result (nup_Rejected c ''POLICY_VIOLATION'' e (snd t)))
          | None \<Rightarrow>
              (case streams_Subscribe compile s p of
                 (s', Some e) \<Rightarrow> (s', Result (nup_Failed c ''SUBSCRIBE_FAILED'' e (snd t)))
               | (s', None) \<Rightarrow>
                   (s', Result (completed_with c (snd t) (snd t)
                               (subscribed_details (nsp_SubscriptionID p) (streams_ActiveCount s'))))))"

definition nup_logs_Unsubscribe :: "nup_streams nup_handle" where
  "nup_logs_Unsubscribe = nup_unsubscribe streams_Unsubscribe"

section \<open>Tables and contexts\<close>

text \<open>Every id has a context of its own, and the contexts that are not cancelled are those in the table.\<close>

definition live_exact :: "(string \<rightharpoonup> nat) \<Rightarrow> ctxs \<Rightarrow> bool" where
  "live_exact tb cs \<longleftrightarrow>
     inj_on tb (dom tb) \<and> ran tb \<subseteq> {..<length cs} \<and> (\<forall>i < length cs. cancelled cs i \<longleftrightarrow> i \<notin> ran tb)"

lemma cancelled_append [simp]:
  "cancelled (cs @ [\<lparr> cx_deadline = None, cx_cancelled = False \<rparr>]) i \<longleftrightarrow> cancelled cs i"
  by (auto simp: cancelled_def nth_append less_Suc_eq)

lemma cancelled_bound: "cancelled cs i \<Longrightarrow> i < length cs"
  by (simp add: cancelled_def)

lemma live_add:
  assumes "live_exact tb cs" and "tb k = None"
  shows "live_exact (tb(k \<mapsto> length cs)) (cs @ [\<lparr> cx_deadline = None, cx_cancelled = False \<rparr>])"
proof -
  have "length cs \<notin> ran tb" using assms(1) by (auto simp: live_exact_def)
  then have "inj_on (tb(k \<mapsto> length cs)) (insert k (dom tb))"
    using assms by (auto simp: live_exact_def inj_on_def ran_def)
  then show ?thesis using assms by (auto simp: live_exact_def less_Suc_eq dest: cancelled_bound)
qed

lemma live_fail:
  "live_exact tb cs \<Longrightarrow> live_exact tb (cancel (length cs) (cs @ [\<lparr> cx_deadline = None, cx_cancelled = False \<rparr>]))"
  by (auto simp: live_exact_def less_Suc_eq)

lemma live_del:
  assumes "live_exact tb cs" and "tb k = Some i"
  shows "live_exact (tb(k := None)) (cancel i cs)"
proof -
  have inj: "inj_on tb (dom tb)" and sub: "ran tb \<subseteq> {..<length cs}"
    and c: "\<And>j. j < length cs \<Longrightarrow> cancelled cs j \<longleftrightarrow> j \<notin> ran tb"
    using assms(1) by (auto simp: live_exact_def)
  have "a = k" if "tb a = Some i" for a using that assms(2) inj_onD [OF inj, of a k] by auto
  then have "(\<exists>a. (tb(k := None)) a = Some j) \<longleftrightarrow> (\<exists>a. tb a = Some j) \<and> j \<noteq> i" for j
    using assms(2) by (metis fun_upd_apply option.distinct(1) option.inject)
  then have r: "ran (tb(k := None)) = ran tb - {i}" by (auto simp: ran_def)
  have "i \<in> ran tb" using assms(2) by (auto simp: ran_def)
  moreover have "inj_on (tb(k := None)) (dom (tb(k := None)))" using inj by (simp add: inj_on_def)
  ultimately show ?thesis using sub c unfolding live_exact_def r by auto
qed

lemma live_clear:
  assumes "live_exact tb cs" and "ran tb \<subseteq> set is"
  shows "live_exact (\<lambda>_. None) (fold cancel is cs)"
  using assms by (auto simp: live_exact_def fold_cancel)

section \<open>The watch manager keeps its contract\<close>

definition watch_ids :: "nup_watches \<Rightarrow> string \<rightharpoonup> nat" where
  "watch_ids m = (\<lambda>i. map_option snd (gm_get (nw_subs m) i))"

definition watches_inv :: "nup_watches \<Rightarrow> bool" where
  "watches_inv m \<longleftrightarrow> live_exact (watch_ids m) (nw_ctxs m) \<and> (if nw_isLeader m then True else watch_ids m = (\<lambda>_. None))"

text \<open>The ways \<open>Subscribe\<close> ends.\<close>

lemma watches_Subscribe_cases:
  assumes "watches_Subscribe rm add sync m p = (m', r)"
  obtains (refused) e where "m' = m" "r = Some e"
  | (failed) e where "m' = m\<lparr> nw_ctxs := cancel (length (nw_ctxs m)) (nw_ctxs m @ [\<lparr> cx_deadline = None, cx_cancelled = False \<rparr>]) \<rparr>"
      "r = Some e"
  | (subscribed) "nw_isLeader m" "gm_get (nw_subs m) (nwp_SubscriptionID p) = None" "r = None"
      "m' = m\<lparr> nw_ctxs := nw_ctxs m @ [\<lparr> cx_deadline = None, cx_cancelled = False \<rparr>],
               nw_subs := gm_put (nwp_SubscriptionID p) (p, length (nw_ctxs m)) (nw_subs m) \<rparr>"
proof (cases "nw_isLeader m \<and> gm_get (nw_subs m) (nwp_SubscriptionID p) = None")
  case False
  then have "m' = m \<and> r \<noteq> None" using assms by (auto simp: watches_Subscribe_def split: if_splits)
  then show thesis by (metis refused option.exhaust)
next
  case True
  note d = assms [unfolded watches_Subscribe_def Let_def]
  show thesis
  proof (cases "gvrFor rm id (nwp_GVK p)")
    case (Inl e)
    show thesis by (rule refused [of e]) (use d True Inl in simp_all)
  next
    case (Inr gvr)
    show thesis
    proof (cases "add = None \<and> sync")
      case True': True
      show thesis by (rule subscribed) (use d True Inr True' in simp_all)
    next
      case False
      then obtain e where "r = Some e" using d True Inr by (auto split: option.splits if_splits)
      then show thesis by (rule failed [rotated]) (use d True Inr False in \<open>auto split: option.splits if_splits\<close>)
    qed
  qed
qed

lemma dom_watch_ids: "dom (watch_ids m) = dom (gm_get (nw_subs m))"
  by (auto simp: watch_ids_def)

interpretation nup_watch_table: subscription_table "\<lambda>m. dom (watch_ids m)" nwp_SubscriptionID
    "watches_Subscribe rm add sync" watches_Unsubscribe "watches_SetLeader False" for rm add sync
proof
  fix m m' :: nup_watches and p e and i :: string
  show "watches_Subscribe rm add sync m p = (m', None) \<Longrightarrow> dom (watch_ids m') = insert (nwp_SubscriptionID p) (dom (watch_ids m))"
    by (erule watches_Subscribe_cases) (auto simp: dom_watch_ids)
  show "watches_Subscribe rm add sync m p = (m', Some e) \<Longrightarrow>
      dom (watch_ids m') \<union> {nwp_SubscriptionID p} = dom (watch_ids m) \<union> {nwp_SubscriptionID p}"
    by (erule watches_Subscribe_cases) (auto simp: dom_watch_ids)
  show "i \<in> dom (watch_ids m) \<Longrightarrow>
      snd (watches_Unsubscribe m i) = None \<and> dom (watch_ids (fst (watches_Unsubscribe m i))) = dom (watch_ids m) - {i}"
    by (cases "gm_get (nw_subs m) i") (auto simp: watches_Unsubscribe_def dom_watch_ids split: if_splits)
  show "i \<notin> dom (watch_ids m) \<Longrightarrow> snd (watches_Unsubscribe m i) \<noteq> None \<and> fst (watches_Unsubscribe m i) = m"
    by (cases "gm_get (nw_subs m) i") (auto simp: watches_Unsubscribe_def dom_watch_ids split: if_splits)
  show "dom (watch_ids (watches_SetLeader False m)) = {}" by (simp add: watches_SetLeader_def watch_ids_def)
qed

lemma watches_inv_new: "watches_inv nup_watches_new"
  by (simp add: watches_inv_def nup_watches_new_def watch_ids_def live_exact_def)

lemma watches_inv_SetLeader: "watches_inv m \<Longrightarrow> watches_inv (watches_SetLeader v m)"
proof (cases v)
  case False
  assume "watches_inv m"
  moreover have "ran (watch_ids m) \<subseteq> set (map (snd \<circ> snd) (nw_subs m))"
    by (force simp: watch_ids_def ran_def gm_get_def dest: map_of_SomeD)
  ultimately show ?thesis using False live_clear
    by (auto simp: watches_inv_def watches_SetLeader_def watch_ids_def)
qed (auto simp: watches_inv_def watches_SetLeader_def watch_ids_def)

lemma watches_inv_Subscribe:
  assumes "watches_inv m" and "watches_Subscribe rm add sync m p = (m', r)"
  shows "watches_inv m'"
  using assms(2)
proof (cases rule: watches_Subscribe_cases)
  case (failed e)
  then show ?thesis using assms(1) live_fail by (auto simp: watches_inv_def watch_ids_def)
next
  case subscribed
  have "watch_ids m' = (watch_ids m)(nwp_SubscriptionID p \<mapsto> length (nw_ctxs m))"
    by (auto simp: subscribed watch_ids_def)
  then show ?thesis using assms(1) subscribed live_add [of "watch_ids m" "nw_ctxs m" "nwp_SubscriptionID p"]
    by (auto simp: watches_inv_def watch_ids_def)
qed (use assms in simp)

lemma watches_inv_Unsubscribe:
  assumes "watches_inv m" and "watches_Unsubscribe m i = (m', r)"
  shows "watches_inv m'"
proof (cases "gm_get (nw_subs m) i")
  case (Some px)
  have "watch_ids m' = (watch_ids m)(i := None)" "watch_ids m i = Some (snd px)"
    "nw_ctxs m' = cancel (snd px) (nw_ctxs m)" "nw_isLeader m' = nw_isLeader m"
    using assms(2) Some by (auto simp: watches_Unsubscribe_def watch_ids_def split: prod.splits)
  then show ?thesis using assms(1) live_del [of "watch_ids m" "nw_ctxs m" i "snd px"] by (auto simp: watches_inv_def)
qed (use assms in \<open>simp add: watches_Unsubscribe_def\<close>)

section \<open>The log stream manager keeps its contract\<close>

definition streams_inv :: "nup_streams \<Rightarrow> bool" where
  "streams_inv m \<longleftrightarrow>
     live_exact (gm_get (nt_streams m)) (nt_ctxs m) \<and> (if nt_isLeader m then True else nt_streams m = []) \<and>
     list_all (\<lambda>(i, t, x). x < length (nt_ctxs m) \<and> (if cancelled (nt_ctxs m) x then True else gm_get (nt_streams m) i = Some x))
       (nt_running m)"

lemma streams_Subscribe_cases:
  assumes "streams_Subscribe compile m p = (m', r)"
  obtains (refused) e where "m' = m" "r = Some e"
  | (subscribed) "nt_isLeader m" "gm_get (nt_streams m) (nsp_SubscriptionID p) = None" "r = None"
      "m' = m\<lparr> nt_ctxs := nt_ctxs m @ [\<lparr> cx_deadline = None, cx_cancelled = False \<rparr>],
               nt_streams := gm_put (nsp_SubscriptionID p) (length (nt_ctxs m)) (nt_streams m),
               nt_running := nt_running m @ map (\<lambda>t. (nsp_SubscriptionID p, t, length (nt_ctxs m))) (nsp_Targets p) \<rparr>"
proof (cases "nt_isLeader m \<and> gm_get (nt_streams m) (nsp_SubscriptionID p) = None \<and> nsp_Pattern p \<noteq> []")
  case False
  then have "m' = m \<and> r \<noteq> None" using assms by (auto simp: streams_Subscribe_def split: if_splits)
  then show thesis by (metis refused option.exhaust)
next
  case True
  note d = assms [unfolded streams_Subscribe_def Let_def]
  show thesis
  proof (cases "nup_CompilePattern compile p")
    case (Inl e)
    show thesis by (rule refused [of e]) (use d True Inl in simp_all)
  next
    case (Inr re)
    show thesis by (rule subscribed) (use d True Inr in simp_all)
  qed
qed

interpretation nup_stream_table: subscription_table "\<lambda>m. dom (gm_get (nt_streams m))" nsp_SubscriptionID
    "streams_Subscribe compile" streams_Unsubscribe "streams_SetLeader False" for compile
proof
  fix m m' :: nup_streams and p e and i :: string
  show "streams_Subscribe compile m p = (m', None) \<Longrightarrow>
      dom (gm_get (nt_streams m')) = insert (nsp_SubscriptionID p) (dom (gm_get (nt_streams m)))"
    by (erule streams_Subscribe_cases) auto
  show "streams_Subscribe compile m p = (m', Some e) \<Longrightarrow>
      dom (gm_get (nt_streams m')) \<union> {nsp_SubscriptionID p} = dom (gm_get (nt_streams m)) \<union> {nsp_SubscriptionID p}"
    by (erule streams_Subscribe_cases) auto
  show "i \<in> dom (gm_get (nt_streams m)) \<Longrightarrow> snd (streams_Unsubscribe m i) = None \<and>
      dom (gm_get (nt_streams (fst (streams_Unsubscribe m i)))) = dom (gm_get (nt_streams m)) - {i}"
    by (cases "gm_get (nt_streams m) i") (auto simp: streams_Unsubscribe_def split: if_splits)
  show "i \<notin> dom (gm_get (nt_streams m)) \<Longrightarrow> snd (streams_Unsubscribe m i) \<noteq> None \<and> fst (streams_Unsubscribe m i) = m"
    by (cases "gm_get (nt_streams m) i") (auto simp: streams_Unsubscribe_def)
  show "dom (gm_get (nt_streams (streams_SetLeader False m))) = {}" by (simp add: streams_SetLeader_def)
qed

lemma streams_inv_new: "streams_inv nup_streams_new"
  by (simp add: streams_inv_def nup_streams_new_def live_exact_def)

text \<open>A goroutine whose context is not cancelled belongs to a subscription of the table.\<close>

lemma running_live:
  assumes "streams_inv m" and "(i, t, x) \<in> set (nt_running m)"
  shows "x < length (nt_ctxs m)" "cancelled (nt_ctxs m) x \<or> gm_get (nt_streams m) i = Some x"
  using assms by (auto simp: streams_inv_def list_all_iff split: if_splits)

lemma streams_inv_SetLeader:
  assumes "streams_inv m"
  shows "streams_inv (streams_SetLeader v m)"
proof (cases v)
  case False
  have r: "ran (gm_get (nt_streams m)) \<subseteq> set (map snd (nt_streams m))"
    by (force simp: ran_def gm_get_def dest: map_of_SomeD)
  have "x < length (nt_ctxs m) \<and> (cancelled (nt_ctxs m) x \<or> x \<in> set (map snd (nt_streams m)))"
    if "(i, t, x) \<in> set (nt_running m)" for i t x
    using running_live [OF assms that] r by (auto simp: ran_def)
  then have "list_all (\<lambda>(i, t, x). x < length (fold cancel (map snd (nt_streams m)) (nt_ctxs m)) \<and>
      cancelled (fold cancel (map snd (nt_streams m)) (nt_ctxs m)) x) (nt_running m)"
    unfolding list_all_iff fold_cancel [THEN conjunct1] fold_cancel [THEN conjunct2] by fast
  then show ?thesis using False assms live_clear [OF _ r, of "nt_ctxs m"]
    by (auto simp: streams_inv_def streams_SetLeader_def list_all_iff)
qed (use assms in \<open>auto simp: streams_inv_def streams_SetLeader_def list_all_iff\<close>)

lemma streams_inv_Subscribe:
  assumes "streams_inv m" and "streams_Subscribe compile m p = (m', r)"
  shows "streams_inv m'"
  using assms(2)
proof (cases rule: streams_Subscribe_cases)
  case subscribed
  have "live_exact (gm_get (nt_streams m')) (nt_ctxs m')"
    using assms(1) live_add [of "gm_get (nt_streams m)" "nt_ctxs m" "nsp_SubscriptionID p"] subscribed
    by (simp add: streams_inv_def)
  moreover have "x < length (nt_ctxs m') \<and> (cancelled (nt_ctxs m') x \<or> gm_get (nt_streams m') i = Some x)"
    if "(i, t, x) \<in> set (nt_running m')" for i t x
  proof (cases "(i, t, x) \<in> set (nt_running m)")
    case True
    show ?thesis using running_live [OF assms(1) True] subscribed by auto
  next
    case False
    then show ?thesis using that by (auto simp: subscribed)
  qed
  ultimately show ?thesis using subscribed by (auto simp: streams_inv_def list_all_iff)
qed (use assms in simp)

lemma streams_inv_Unsubscribe:
  assumes "streams_inv m" and "streams_Unsubscribe m i = (m', r)"
  shows "streams_inv m'"
proof (cases "gm_get (nt_streams m) i")
  case (Some x)
  have l: "live_exact (gm_get (nt_streams m)) (nt_ctxs m)" using assms(1) by (simp add: streams_inv_def)
  have m': "m' = m\<lparr> nt_ctxs := cancel x (nt_ctxs m), nt_streams := gm_del i (nt_streams m) \<rparr>"
    using assms(2) Some by (simp add: streams_Unsubscribe_def)
  have "live_exact (gm_get (nt_streams m')) (nt_ctxs m')" using live_del [OF l Some] by (simp add: m')
  moreover have "y < length (nt_ctxs m') \<and> (cancelled (nt_ctxs m') y \<or> gm_get (nt_streams m') j = Some y)"
    if "(j, t, y) \<in> set (nt_running m')" for j t y
  proof -
    have "y < length (nt_ctxs m)" "cancelled (nt_ctxs m) y \<or> gm_get (nt_streams m) j = Some y"
      using running_live [OF assms(1), of j t y] that by (auto simp: m')
    then show ?thesis using Some by (auto simp: m')
  qed
  moreover have "nt_isLeader m" using assms(1) Some by (auto simp: streams_inv_def split: if_splits)
  ultimately show ?thesis by (auto simp: streams_inv_def list_all_iff m')
qed (use assms in \<open>simp add: streams_Unsubscribe_def\<close>)

section \<open>Handlers and streams\<close>

lemma nup_handler_unsubscribe: "nup_handler (nup_unsubscribe unsub)"
  by unfold_locales (auto simp: nup_unsubscribe_def split: sum.splits prod.splits option.splits)

interpretation nup_watch_h: nup_handler "nup_watch_Subscribe pol rm add sync" for pol rm add sync
  by unfold_locales (auto simp: nup_watch_Subscribe_def split: sum.splits if_splits option.splits prod.splits)

interpretation nup_unwatch_h: nup_handler nup_watch_Unsubscribe
  unfolding nup_watch_Unsubscribe_def by (rule nup_handler_unsubscribe)

interpretation nup_logs_h: nup_handler "nup_logs_Subscribe pol compile" for pol compile
  by unfold_locales (auto simp: nup_logs_Subscribe_def split: sum.splits if_splits option.splits prod.splits)

interpretation nup_unlogs_h: nup_handler nup_logs_Unsubscribe
  unfolding nup_logs_Unsubscribe_def by (rule nup_handler_unsubscribe)

text \<open>The state a handler leaves is one of its manager.\<close>

lemma nup_watch_Subscribe_state:
  "fst (nup_watch_Subscribe pol rm add sync s c t) = s \<or>
   (\<exists>p r. watches_Subscribe rm add sync s p = (fst (nup_watch_Subscribe pol rm add sync s c t), r) \<and>
      CheckGVK pol (nwp_GVK p) = None \<and> allowedNamespace pol (nwp_Namespace p))"
proof (cases "parse_nup_watch c")
  case (Inr p)
  obtain s' r where r: "watches_Subscribe rm add sync s p = (s', r)" by fastforce
  show ?thesis
  proof (cases "nwp_SubscriptionID p \<noteq> [] \<and> CheckGVK pol (nwp_GVK p) = None \<and> allowedNamespace pol (nwp_Namespace p)")
    case True
    then have "fst (nup_watch_Subscribe pol rm add sync s c t) = s'"
      using Inr r by (auto simp: nup_watch_Subscribe_def CheckNamespace_def split: option.split)
    then show ?thesis using True r by blast
  next
    case False
    then have "fst (nup_watch_Subscribe pol rm add sync s c t) = s"
      using Inr by (auto simp: nup_watch_Subscribe_def CheckNamespace_def allowedNamespace_def split: option.split)
    then show ?thesis by simp
  qed
qed (simp add: nup_watch_Subscribe_def)

lemma nup_logs_Subscribe_state:
  "fst (nup_logs_Subscribe pol compile s c t) = s \<or>
   (\<exists>p r. streams_Subscribe compile s p = (fst (nup_logs_Subscribe pol compile s c t), r) \<and>
      list_all (\<lambda>x. allowedNamespace pol (lt_Namespace x)) (nsp_Targets p))"
proof (cases "parse_nup_stream c")
  case (Inr p)
  obtain s' r where r: "streams_Subscribe compile s p = (s', r)" by fastforce
  show ?thesis
  proof (cases "first_error (map (\<lambda>x. CheckNamespace pol (lt_Namespace x)) (nsp_Targets p))")
    case None
    then have "list_all (\<lambda>x. allowedNamespace pol (lt_Namespace x)) (nsp_Targets p)"
      by (auto simp: first_error_None list_all_iff CheckNamespace_def split: if_splits)
    moreover have "fst (nup_logs_Subscribe pol compile s c t) = s \<or> fst (nup_logs_Subscribe pol compile s c t) = s'"
      using Inr None r by (auto simp: nup_logs_Subscribe_def split: option.split)
    ultimately show ?thesis using r by blast
  next
    case (Some e)
    then show ?thesis using Inr by (simp add: nup_logs_Subscribe_def)
  qed
qed (simp add: nup_logs_Subscribe_def)

lemma nup_unsubscribe_state:
  "fst (nup_unsubscribe unsub s c t) = s \<or> (\<exists>i r. unsub s i = (fst (nup_unsubscribe unsub s c t), r))"
  by (cases "nup_unsubscribe_payload c") (auto simp: nup_unsubscribe_def split: prod.split option.split)


text \<open>The events of a stream: the matching lines, numbered from 1.\<close>

lemma scan_matches_reference:
  "scan_matches re i t now (int n) ls =
     concat (map (\<lambda>(k, l). case re l of None \<Rightarrow> [] | Some x \<Rightarrow> [log_line_event i t now (int k) l x]) (enumerate (Suc n) ls))"
proof (induction ls arbitrary: n)
  case (Cons l ls)
  show ?case using Cons [of "Suc n"] by (auto simp: add.commute split: option.split)
qed simp

text \<open>A line that does not fit the buffer ends the stream: it and all that follows are dropped.\<close>

lemma long_line_ends_stream:
  assumes "CHR 0x0A \<notin> set long" and "65536 \<le> int (length long)"
  shows "scanStream re i t now (long @ CHR 0x0A # rest) = []"
proof -
  have "SplitChar (CHR 0x0A) (long @ CHR 0x0A # rest) = long # SplitChar (CHR 0x0A) rest"
    using assms(1) by (induction long) (auto split: list.splits)
  moreover have "SplitChar (CHR 0x0A) rest \<noteq> []" by (induction rest) (auto split: list.splits)
  ultimately show ?thesis using assms(2) by (auto simp: scanStream_def nup_scan_lines_def Let_def neq_Nil_conv)
qed

text \<open>The waits: the doubling stops above the limit of 30 seconds, at 32.\<close>

lemma runStream_waits:
  assumes "b \<in> (\<lambda>k. 2 ^ k * second) ` {..5}" and "Waits w \<in> set (runStream follow re i t b turns)"
  shows "w \<in> (\<lambda>k. 2 ^ k * second) ` {..5}"
  using assms
proof (induction follow re i t b turns rule: runStream.induct)
  case (3 follow re i t backoff ended turns)
  obtain k where k: "k \<le> 5" "backoff = 2 ^ k * second" using 3(2) by auto
  have "(if backoff < 30 * second then 2 * backoff else backoff) = 2 ^ (if k < 5 then Suc k else k) * second"
  proof (cases "k < 5")
    case True
    then have "(2 :: int) ^ k \<le> 2 ^ 4" by (intro power_increasing) auto
    then show ?thesis using True k(2) by (simp add: second_def)
  qed (use k in \<open>simp add: second_def\<close>)
  moreover have "(if k < 5 then Suc k else k) \<le> 5" using k(1) by simp
  ultimately have "(if backoff < 30 * second then 2 * backoff else backoff) \<in> (\<lambda>k. 2 ^ k * second) ` {..5}" by blast
  then show ?case using 3 by (auto split: if_splits)
next
  case (4 follow re i t backoff now content turns)
  have "second \<in> (\<lambda>k. 2 ^ k * second) ` {..5}" by (rule image_eqI [of _ _ 0]) auto
  then show ?case using 4 by (auto split: if_splits)
qed auto

end
