(* ===== verification/Nup_Fetch.thy ===== *)
theory Nup_Fetch
  imports Nup_Streams Logs_Collect
begin

text \<open>
  The archived agent, third part: listing of resources (\<open>internal/k8s/lister.go\<close>, \<open>internal/handlers/resource\<close>),
  pod logs (\<open>internal/k8s/logs.go\<close>), upload to a presigned URL (\<open>internal/s3\<close>) and \<open>file.fetch\<close>
  (\<open>internal/handlers/file\<close>, \<open>internal/local\<close>).
\<close>

section \<open>Lister (internal/k8s/lister.go)\<close>

record list_options =
  lo_GVK :: gvk
  lo_Namespace :: string
  lo_LabelSelector :: string
  lo_FieldSelector :: string
  lo_Limit :: int
  lo_ContinueToken :: string
  lo_OutputFormat :: string
  lo_StripStatus :: bool
  lo_Namespaces :: "string list"

record list_output =
  lu_ItemsCount :: int
  lu_ContinueToken :: string
  lu_Items :: "string list"
  lu_Truncated :: bool

text \<open>One request of the dynamic client: the resource, the namespace (empty: all of the cluster) and the options.\<close>

record list_request =
  lq_Resource :: string
  lq_Namespace :: string
  lq_LabelSelector :: string
  lq_FieldSelector :: string
  lq_Limit :: int
  lq_Continue :: string

text \<open>
  The cluster: \<open>kl_list n\<close> answers the n-th list request of a command with the objects and the continue token;
  \<open>kl_map\<close> is the REST mapper, before and after its reset; \<open>kl_yaml\<close> and \<open>kl_json\<close> are the encoders.
\<close>

record nup_cluster =
  kl_list :: "nat \<Rightarrow> list_request \<Rightarrow> go_error + obj list \<times> string"
  kl_map :: "nat \<Rightarrow> gvk \<Rightarrow> go_error + string"
  kl_yaml :: "obj \<Rightarrow> go_error + string"
  kl_json :: "obj \<Rightarrow> go_error + string"

definition lister_gvr :: "nup_cluster \<Rightarrow> gvk \<Rightarrow> go_error + string" where
  "lister_gvr k g = gvrFor (kl_map k) (\<lambda>e. Errorf ''resolve GVR for %s: %w'' [AStr (g_Kind g), AErr e]) g"

definition list_namespaces :: "list_options \<Rightarrow> string list" where
  "list_namespaces opts =
     (let nss = (if lo_Namespaces opts = [] \<and> lo_Namespace opts \<noteq> [] then [lo_Namespace opts] else lo_Namespaces opts)
      in if nss = [] then [[]] else nss)"

fun encode_items :: "(obj \<Rightarrow> go_error + string) \<Rightarrow> bool \<Rightarrow> obj list \<Rightarrow> go_error + string list" where
  "encode_items enc strip [] = Inr []"
| "encode_items enc strip (o1 # os) =
     sum_bind (enc (SanitizeObject strip o1)) (\<lambda>s. sum_bind (encode_items enc strip os) (\<lambda>ss. Inr (s # ss)))"

definition listNamespace ::
  "nup_cluster \<Rightarrow> nat \<Rightarrow> string \<Rightarrow> string \<Rightarrow> list_options \<Rightarrow> int \<Rightarrow> go_error + string list \<times> string" where
  "listNamespace k n gvr ns opts limit =
     (case kl_list k n \<lparr> lq_Resource = gvr, lq_Namespace = ns, lq_LabelSelector = lo_LabelSelector opts,
              lq_FieldSelector = lo_FieldSelector opts, lq_Limit = limit, lq_Continue = lo_ContinueToken opts \<rparr> of
        Inl e \<Rightarrow> Inl (Errorf ''list resources: %w'' [AErr e])
      | Inr (objs, cont) \<Rightarrow>
          sum_bind (encode_items (if lo_OutputFormat opts = ''json'' then kl_json k else kl_yaml k) (lo_StripStatus opts) objs)
            (\<lambda>items. Inr (items, cont)))"

fun list_loop ::
  "nup_cluster \<Rightarrow> nat \<Rightarrow> string \<Rightarrow> list_options \<Rightarrow> int \<Rightarrow> string list \<Rightarrow> list_output \<Rightarrow> go_error + list_output" where
  "list_loop k n gvr opts limit [] out = Inr out"
| "list_loop k n gvr opts limit (ns # nss) out =
     (case listNamespace k n gvr ns opts limit of
        Inl e \<Rightarrow> Inl e
      | Inr (items, cont) \<Rightarrow>
          let out = out\<lparr> lu_Items := lu_Items out @ items, lu_ItemsCount := lu_ItemsCount out + int (length items) \<rparr>
          in if cont \<noteq> [] then Inr (out\<lparr> lu_ContinueToken := cont, lu_Truncated := True \<rparr>)
             else list_loop k (Suc n) gvr opts limit nss out)"

definition Lister_List :: "nup_cluster \<Rightarrow> list_options \<Rightarrow> go_error + list_output" where
  "Lister_List k opts =
     (case lister_gvr k (lo_GVK opts) of
        Inl e \<Rightarrow> Inl e
      | Inr gvr \<Rightarrow>
          list_loop k 0 gvr opts (if lo_Limit opts \<le> 0 then 500 else lo_Limit opts) (list_namespaces opts)
            \<lparr> lu_ItemsCount = 0, lu_ContinueToken = [], lu_Items = [], lu_Truncated = False \<rparr>)"

text \<open>The loop over the pages of a namespace, which ends only when the server stops giving a token.\<close>

partial_function (option) pages ::
  "(nat \<Rightarrow> string \<Rightarrow> go_error + obj list \<times> string) \<Rightarrow> nat \<Rightarrow> string \<Rightarrow> obj list \<Rightarrow> (go_error + nat \<times> obj list) option" where
  "pages page n cont all =
     (case page n cont of
        Inl e \<Rightarrow> Some (Inl (Errorf ''list all pages: %w'' [AErr e]))
      | Inr (items, cont') \<Rightarrow>
          if cont' = [] then Some (Inr (Suc n, all @ items)) else pages page (Suc n) cont' (all @ items))"

definition page_request :: "nup_cluster \<Rightarrow> string \<Rightarrow> list_options \<Rightarrow> string \<Rightarrow> nat \<Rightarrow> string \<Rightarrow> go_error + obj list \<times> string" where
  "page_request k gvr opts ns n cont =
     kl_list k n \<lparr> lq_Resource = gvr, lq_Namespace = ns, lq_LabelSelector = lo_LabelSelector opts,
       lq_FieldSelector = lo_FieldSelector opts, lq_Limit = 500, lq_Continue = cont \<rparr>"

fun all_pages ::
  "nup_cluster \<Rightarrow> string \<Rightarrow> list_options \<Rightarrow> nat \<Rightarrow> obj list \<Rightarrow> string list \<Rightarrow> (go_error + obj list) option" where
  "all_pages k gvr opts n all [] = Some (Inr all)"
| "all_pages k gvr opts n all (ns # nss) =
     (case pages (page_request k gvr opts ns) n [] all of
        None \<Rightarrow> None
      | Some (Inl e) \<Rightarrow> Some (Inl e)
      | Some (Inr (n', all')) \<Rightarrow> all_pages k gvr opts n' all' nss)"

definition ListAllPages :: "nup_cluster \<Rightarrow> list_options \<Rightarrow> (go_error + obj list) option" where
  "ListAllPages k opts =
     (case lister_gvr k (lo_GVK opts) of
        Inl e \<Rightarrow> Some (Inl e)
      | Inr gvr \<Rightarrow> all_pages k gvr opts 0 [] (list_namespaces opts))"

section \<open>resource.list (internal/handlers/resource/list.go)\<close>

record list_payload =
  ly_LabelSelector :: string
  ly_FieldSelector :: string
  ly_OutputFormat :: string
  ly_Limit :: int
  ly_ContinueToken :: string
  ly_StripStatus :: bool
  ly_Namespaces :: "string list"

definition decode_list_payload :: "obj \<Rightarrow> list_payload option" where
  "decode_list_payload kvs = do {
     ls \<leftarrow> fld_str ''labelSelector'' kvs;
     fs \<leftarrow> fld_str ''fieldSelector'' kvs;
     fmt \<leftarrow> fld_str ''output_format'' kvs;
     lim \<leftarrow> fld_int ''limit'' kvs;
     ct \<leftarrow> fld_str ''continue_token'' kvs;
     st \<leftarrow> fld_bool ''strip_status'' kvs;
     nss \<leftarrow> fld_strs ''namespaces'' kvs;
     Some \<lparr> ly_LabelSelector = ls, ly_FieldSelector = fs, ly_OutputFormat = fmt, ly_Limit = lim, ly_ContinueToken = ct,
            ly_StripStatus = st, ly_Namespaces = nss \<rparr> }"

definition parse_list :: "raw \<Rightarrow> go_error + list_payload" where
  "parse_list raw =
     (case raw of
        None \<Rightarrow> or_json_error (decode_list_payload [])
      | Some _ \<Rightarrow> sum_bind (unmarshal_struct raw) (\<lambda>kvs. or_json_error (decode_list_payload kvs)))"

definition list_options_of :: "nup_command \<Rightarrow> list_payload \<Rightarrow> list_options" where
  "list_options_of c p =
     \<lparr> lo_GVK = target_gvk (nc_Target c), lo_Namespace = tg_Namespace (nc_Target c),
       lo_LabelSelector = ly_LabelSelector p, lo_FieldSelector = ly_FieldSelector p, lo_Limit = ly_Limit p,
       lo_ContinueToken = ly_ContinueToken p,
       lo_OutputFormat = (if ly_OutputFormat p = [] then ''yaml'' else ly_OutputFormat p),
       lo_StripStatus = ly_StripStatus p, lo_Namespaces = ly_Namespaces p \<rparr>"

definition list_details :: "list_output \<Rightarrow> json" where
  "list_details out =
     JObj ([(''items_count'', JInt (lu_ItemsCount out))] @
           (if lu_ContinueToken out = [] then [] else [(''continue_token'', JStr (lu_ContinueToken out))]) @
           [(''items'', JArr (map JStr (lu_Items out))), (''truncated'', JBool (lu_Truncated out))])"

definition ListHandler_Handle :: "nup_policy \<Rightarrow> int \<Rightarrow> nup_cluster \<Rightarrow> 's nup_handle" where
  "ListHandler_Handle pol maxInline k s c t =
     (s, Result (
        case first_error [CheckGVK pol (target_gvk (nc_Target c)),
               (if tg_Namespace (nc_Target c) \<noteq> [] then CheckNamespace pol (tg_Namespace (nc_Target c)) else None)] of
          Some e \<Rightarrow> nup_Rejected c ''POLICY_VIOLATION'' e (snd t)
        | None \<Rightarrow>
            (case parse_list (nc_Payload c) of
               Inl e \<Rightarrow> nup_Rejected c ''INVALID_PAYLOAD'' e (snd t)
             | Inr p \<Rightarrow>
                 (case Lister_List k (list_options_of c p) of
                    Inl e \<Rightarrow> nup_Failed c ''LIST_FAILED'' e (snd t)
                  | Inr out \<Rightarrow>
                      let totalSize = sum_list (map (\<lambda>item. int (length item)) (lu_Items out))
                      in if maxInline > 0 \<and> totalSize > maxInline then
                           nup_Failed c ''PAYLOAD_TOO_LARGE''
                             (Errorf ''list result %d bytes exceeds inline limit %d; use file.fetch resource_export''
                                [AInt totalSize, AInt maxInline]) (snd t)
                         else completed_with c (fst t) (snd t) (Some (list_details out))))))"

section \<open>Upload (internal/s3/presigned.go)\<close>

text \<open>
  The answer of a server to a PUT: none, or a status, the first 4096 bytes of the body and the content length.
\<close>

datatype put_answer = NoAnswer go_error | Answered int string int

text \<open>
  One attempt. \<open>create\<close> is the error of making the request. The body of the request is an open file, which
  the transport closes when it has sent the request or failed to (\<open>net/http\<close>, \<open>Request.Body\<close>); \<open>closed\<close> is
  whether it is. A closed file cannot be read, so that the request fails.
\<close>

definition nup_Upload :: "go_error option \<Rightarrow> put_answer \<Rightarrow> bool \<Rightarrow> bool \<times> (go_error + int)" where
  "nup_Upload create ans closed =
     (case create of
        Some e \<Rightarrow> (closed, Inl (Errorf ''create PUT request: %w'' [AErr e]))
      | None \<Rightarrow>
          (True,
           if closed then Inl (Errorf ''PUT presigned URL: %w'' [AErr (LibErr ''file already closed'')])
           else case ans of
             NoAnswer e \<Rightarrow> Inl (Errorf ''PUT presigned URL: %w'' [AErr e])
           | Answered code body n \<Rightarrow>
               if code < 200 \<or> code \<ge> 300 then
                 if code = 403 then Inl (Errorf ''PRESIGNED_URL_EXPIRED: status %d: %s'' [AInt code, AStr body])
                 else Inl (Errorf ''upload failed status %d: %s'' [AInt code, AStr body])
               else Inr (if n > 0 then n else 0)))"

definition HostFromPresignedURL :: "(string \<Rightarrow> go_error + string) \<Rightarrow> string \<Rightarrow> go_error + string" where
  "HostFromPresignedURL url_host url =
     (case url_host url of
        Inl e \<Rightarrow> Inl (Errorf ''parse presigned URL: %w'' [AErr e])
      | Inr host \<Rightarrow> if host = [] then Inl (Errorf ''presigned URL has empty host'' []) else Inr host)"

definition retry_delay :: "gtime \<Rightarrow> nat \<Rightarrow> gtime" where
  "retry_delay baseDelay attempt = int64 (baseDelay * int64 (2 ^ attempt))"

text \<open>\<open>ended n d\<close> is whether the context ends in the wait of length \<open>d\<close> before attempt \<open>n\<close>.\<close>

fun upload_loop ::
  "(nat \<Rightarrow> gtime \<Rightarrow> bool) \<Rightarrow> go_error option \<Rightarrow> (nat \<Rightarrow> put_answer) \<Rightarrow> gtime \<Rightarrow> nat \<Rightarrow> nat \<Rightarrow> bool \<Rightarrow> go_error option
     \<Rightarrow> go_error + int" where
  "upload_loop ended create ans baseDelay 0 attempt closed lastErr =
     (case lastErr of None \<Rightarrow> Inr 0 | Some e \<Rightarrow> Inl e)"
| "upload_loop ended create ans baseDelay (Suc left) attempt closed lastErr =
     (if attempt > 0 \<and> ended attempt (retry_delay baseDelay attempt) then Inl (LibErr ''context'')
      else case nup_Upload create (ans attempt) closed of
             (closed', Inr n) \<Rightarrow> Inr n
           | (closed', Inl e) \<Rightarrow> upload_loop ended create ans baseDelay left (Suc attempt) closed' (Some e))"

definition UploadWithRetry ::
  "(nat \<Rightarrow> gtime \<Rightarrow> bool) \<Rightarrow> go_error option \<Rightarrow> (nat \<Rightarrow> put_answer) \<Rightarrow> int \<Rightarrow> gtime \<Rightarrow> go_error + int" where
  "UploadWithRetry ended create ans maxRetries baseDelay =
     upload_loop ended create ans baseDelay (nat maxRetries) 0 False None"

section \<open>Pod logs (internal/k8s/logs.go) and files (internal/local/archive.go)\<close>

record fetch_payload =
  fp_Source :: string
  fp_SourceParams :: raw
  fp_PresignedPutURL :: string
  fp_ContentType :: string
  fp_ObjectKey :: string
  fp_S3URI :: string
  fp_LocalProcessing :: "string list"

record export_params =
  ex_GVK :: gvk
  ex_Namespace :: string
  ex_LabelSelector :: string
  ex_Namespaces :: "string list"

record batch_params =
  bt_Targets :: "nup_log_target list"
  bt_SinceSeconds :: "int option"
  bt_TailLines :: "int option"
  bt_LimitBytes :: "int option"

record fetch_error =
  fx_Namespace :: string
  fx_Pod :: string
  fx_Container :: string
  fx_Error :: go_error

text \<open>
  What the handler meets: the host in a URL, the file system (temporary directory, directories, files, size and
  opening of the archive), the archive writers (the size for the entries), the pods and replica sets with their
  owners (kind and name), the logs, the clock as text and the object store. \<open>fe_order\<close> is the order in which the
  goroutines of a batch take effect.
\<close>

record fetch_env =
  fe_host :: "string \<Rightarrow> go_error + string"
  fe_tempdir :: "string \<Rightarrow> go_error + string"
  fe_mkdir :: "string \<Rightarrow> go_error option"
  fe_write :: "string \<Rightarrow> string \<Rightarrow> go_error option"
  fe_targz :: "(string \<times> string) list \<Rightarrow> go_error + int"
  fe_zip :: "(string \<times> string) list \<Rightarrow> go_error + int"
  fe_stat :: "string \<Rightarrow> go_error option"
  fe_open :: "string \<Rightarrow> go_error option"
  fe_logs :: "nup_log_target \<Rightarrow> batch_params \<Rightarrow> go_error + string"
  fe_pod :: "string \<Rightarrow> string \<Rightarrow> go_error + (string \<times> string) list"
  fe_replicaset :: "string \<Rightarrow> string \<Rightarrow> go_error + (string \<times> string) list"
  fe_stamp :: "nup_log_target \<Rightarrow> string"
  fe_order :: "nup_log_target list \<Rightarrow> nup_log_target list"
  fe_create :: "string \<Rightarrow> go_error option"
  fe_put :: "string \<Rightarrow> string \<Rightarrow> nat \<Rightarrow> put_answer"
  fe_ended :: "nat \<Rightarrow> gtime \<Rightarrow> bool"
  fe_text :: "go_error \<Rightarrow> string"

definition log_Fetch :: "fetch_env \<Rightarrow> nup_log_target \<Rightarrow> batch_params \<Rightarrow> go_error + string" where
  "log_Fetch w t opts =
     (case fe_logs w t opts of
        Inl e \<Rightarrow> Inl (Errorf ''stream logs %s/%s/%s: %w'' [AStr (lt_Namespace t), AStr (lt_Pod t), AStr (lt_Container t), AErr e])
      | Inr d \<Rightarrow> Inr d)"

fun deployment_owner :: "(string \<Rightarrow> go_error + (string \<times> string) list) \<Rightarrow> (string \<times> string) list \<Rightarrow> string" where
  "deployment_owner rs [] = ''standalone''"
| "deployment_owner rs ((kind, name) # owners) =
     (if kind = ''ReplicaSet'' then
        case rs name of
          Inl _ \<Rightarrow> deployment_owner rs owners
        | Inr refs \<Rightarrow>
            (case filter (\<lambda>(k, _). k = ''Deployment'') refs of
               (_, d) # _ \<Rightarrow> d
             | [] \<Rightarrow> deployment_owner rs owners)
      else deployment_owner rs owners)"

definition ResolveDeploymentName :: "fetch_env \<Rightarrow> string \<Rightarrow> string \<Rightarrow> string" where
  "ResolveDeploymentName w ns pod =
     (case fe_pod w ns pod of Inl _ \<Rightarrow> ''unknown'' | Inr owners \<Rightarrow> deployment_owner (fe_replicaset w ns) owners)"

text \<open>The files written so far, by path; a file that exists is overwritten.\<close>

definition nup_WriteFile ::
  "fetch_env \<Rightarrow> string \<Rightarrow> string \<Rightarrow> string \<Rightarrow> (string, string) gomap \<Rightarrow> go_error + (string, string) gomap" where
  "nup_WriteFile w dir relPath data files =
     (let full = path_join [dir, relPath] in
      case fe_mkdir w (path_dir full) of
        Some e \<Rightarrow> Inl e
      | None \<Rightarrow> (case fe_write w full data of Some e \<Rightarrow> Inl e | None \<Rightarrow> Inr (gm_put full data files)))"

text \<open>The walk below a directory: each file with its path from there, in lexical order of the path elements.\<close>

definition dir_entries :: "string \<Rightarrow> (string, string) gomap \<Rightarrow> (string \<times> string) list" where
  "dir_entries srcDir files =
     (let dir = path_clean srcDir @ ''/'';
          inside = filter (\<lambda>(path, _). HasPrefix path dir) files
      in sort_key (\<lambda>(path, _). SplitChar (CHR ''/'') path) (map (\<lambda>(path, text). (TrimPrefix path dir, text)) inside))"

section \<open>file.fetch (internal/handlers/file/fetch.go)\<close>

definition decode_nup_fetch :: "obj \<Rightarrow> fetch_payload option" where
  "decode_nup_fetch kvs = do {
     src \<leftarrow> fld_str ''source'' kvs;
     dst \<leftarrow> dec_obj [] (members ''destination'' kvs);
     url \<leftarrow> fld_str ''presigned_put_url'' dst;
     ct \<leftarrow> fld_str ''content_type'' dst;
     ok \<leftarrow> fld_str ''object_key'' dst;
     uri \<leftarrow> fld_str ''s3_uri'' dst;
     lp \<leftarrow> fld_strs ''local_processing'' kvs;
     Some \<lparr> fp_Source = src, fp_SourceParams = fld_raw ''source_params'' kvs, fp_PresignedPutURL = url,
            fp_ContentType = ct, fp_ObjectKey = ok, fp_S3URI = uri, fp_LocalProcessing = lp \<rparr> }"

definition decode_export :: "obj \<Rightarrow> export_params option" where
  "decode_export kvs = do {
     gm \<leftarrow> dec_obj [] (members ''gvk'' kvs);
     g \<leftarrow> decode_gvk gm;
     ns \<leftarrow> fld_str ''namespace'' kvs;
     ls \<leftarrow> fld_str ''labelSelector'' kvs;
     nss \<leftarrow> fld_strs ''namespaces'' kvs;
     Some \<lparr> ex_GVK = g, ex_Namespace = ns, ex_LabelSelector = ls, ex_Namespaces = nss \<rparr> }"

definition decode_batch :: "obj \<Rightarrow> batch_params option" where
  "decode_batch kvs = do {
     ts \<leftarrow> fld_list ''targets'' no_log_target decode_log_target kvs;
     ss \<leftarrow> fld_int_ptr ''since_seconds'' kvs;
     tl \<leftarrow> fld_int_ptr ''tail_lines'' kvs;
     lb \<leftarrow> fld_int_ptr ''limit_bytes'' kvs;
     Some \<lparr> bt_Targets = ts, bt_SinceSeconds = ss, bt_TailLines = tl, bt_LimitBytes = lb \<rparr> }"

definition parse_with :: "(obj \<Rightarrow> 'a option) \<Rightarrow> raw \<Rightarrow> go_error + 'a" where
  "parse_with dec raw = sum_bind (unmarshal_struct raw) (\<lambda>kvs. or_json_error (dec kvs))"

text \<open>The end of both sources: open the archive and upload it.\<close>

definition send_archive ::
  "fetch_env \<Rightarrow> nup_config \<Rightarrow> fetch_payload \<Rightarrow> string \<Rightarrow> string \<Rightarrow> nup_command \<Rightarrow> gtime \<Rightarrow> json \<Rightarrow> nup_result" where
  "send_archive w cfg p defaultType path c now details =
     (case fe_open w path of
        Some e \<Rightarrow> nup_Failed c ''OPEN_FAILED'' e now
      | None \<Rightarrow>
          let contentType = (if fp_ContentType p = [] then defaultType else fp_ContentType p);
              url = fp_PresignedPutURL p
          in case UploadWithRetry (fe_ended w) (fe_create w url) (fe_put w url contentType) (ng_MaxRetries cfg)
                    (ng_RetryBaseDelay cfg) of
               Inl e \<Rightarrow>
                 nup_Failed c
                   (if Contains (fe_text w e) ''PRESIGNED_URL_EXPIRED'' then ''PRESIGNED_URL_EXPIRED'' else ''UPLOAD_FAILED'') e now
             | Inr _ \<Rightarrow> completed_with c now now (Some details))"

text \<open>
  The loop over the objects, with the results it gave to \<open>progressFn\<close>; an error with its code ends it.
\<close>

fun export_loop ::
  "fetch_env \<Rightarrow> (obj \<Rightarrow> go_error + string) \<Rightarrow> nup_command \<Rightarrow> gtime \<Rightarrow> string \<Rightarrow> int \<Rightarrow> int \<Rightarrow> obj list
     \<Rightarrow> (string, string) gomap \<Rightarrow> nup_result list \<Rightarrow> nup_result list \<times> (string \<times> go_error + (string, string) gomap)" where
  "export_loop w yaml c now dataDir cnt i [] files prog = (prog, Inr files)"
| "export_loop w yaml c now dataDir cnt i (o1 # os) files prog =
     (let ns = (if meta_str ''namespace'' o1 = [] then ''_cluster'' else meta_str ''namespace'' o1);
          rel = path_join [ns, meta_str ''name'' o1 @ ''.yaml'']
      in case yaml (SanitizeObject True o1) of
           Inl e \<Rightarrow> (prog, Inl (''MARSHAL_FAILED'', e))
         | Inr b \<Rightarrow>
             (case nup_WriteFile w dataDir rel b files of
                Inl e \<Rightarrow> (prog, Inl (''WRITE_FAILED'', e))
              | Inr files' \<Rightarrow>
                  export_loop w yaml c now dataDir cnt (i + 1) os files'
                    (prog @ [(NewResult c NupExecuting now)\<lparr> nr_Phase := NupExecuting, nr_Progress := (i + 1) * 100 div cnt \<rparr>])))"

definition export_options :: "export_params \<Rightarrow> list_options" where
  "export_options params =
     \<lparr> lo_GVK = ex_GVK params, lo_Namespace = ex_Namespace params, lo_LabelSelector = ex_LabelSelector params,
       lo_FieldSelector = [], lo_Limit = 0, lo_ContinueToken = [], lo_OutputFormat = [], lo_StripStatus = True,
       lo_Namespaces = ex_Namespaces params \<rparr>"

definition export_items ::
  "nup_policy \<Rightarrow> nup_config \<Rightarrow> fetch_env \<Rightarrow> nup_cluster \<Rightarrow> nup_command \<Rightarrow> gtime \<Rightarrow> fetch_payload \<Rightarrow> string \<Rightarrow> obj list
     \<Rightarrow> nup_result list \<times> nup_result" where
  "export_items pol cfg w k c now p tmp items =
     (let dataDir = path_join [tmp, ''data'']; archivePath = path_join [tmp, ''export.tar.gz''] in
      case fe_mkdir w dataDir of
        Some e \<Rightarrow> ([], nup_Failed c ''TEMP_DIR'' e now)
      | None \<Rightarrow>
          (case export_loop w (kl_yaml k) c now dataDir (int (length items)) 0 items [] [] of
             (prog, Inl (code, e)) \<Rightarrow> (prog, nup_Failed c code e now)
           | (prog, Inr files) \<Rightarrow>
               (prog,
                case fe_targz w (dir_entries dataDir files) of
                  Inl e \<Rightarrow> nup_Failed c ''ARCHIVE_FAILED'' e now
                | Inr sz \<Rightarrow>
                    (case fe_stat w archivePath of
                       Some e \<Rightarrow> nup_Failed c ''STAT_FAILED'' e now
                     | None \<Rightarrow>
                         if np_MaxBytes pol > 0 \<and> sz > np_MaxBytes pol then
                           nup_Failed c ''SIZE_LIMIT'' (Errorf ''export size %d exceeds limit'' [AInt sz]) now
                         else
                           send_archive w cfg p ''application/gzip'' archivePath c now
                             (JObj [(''bytes'', JInt sz), (''object_key'', JStr (fp_ObjectKey p)),
                                    (''resource_count'', JInt (int (length items))), (''s3_uri'', JStr (fp_S3URI p))])))))"

definition exportResources ::
  "nup_policy \<Rightarrow> nup_config \<Rightarrow> fetch_env \<Rightarrow> nup_cluster \<Rightarrow> nup_command \<Rightarrow> gtime \<Rightarrow> fetch_payload \<Rightarrow> nup_result list \<times> nup_outcome" where
  "exportResources pol cfg w k c now p =
     (case parse_with decode_export (fp_SourceParams p) of
        Inl e \<Rightarrow> ([], Result (nup_Rejected c ''INVALID_PAYLOAD'' e now))
      | Inr params \<Rightarrow>
          (case CheckGVK pol (ex_GVK params) of
             Some e \<Rightarrow> ([], Result (nup_Rejected c ''POLICY_VIOLATION'' e now))
           | None \<Rightarrow>
               (case fe_tempdir w (ng_TempDir cfg) of
                  Inl e \<Rightarrow> ([], Result (nup_Failed c ''TEMP_DIR'' (Errorf ''create temp dir: %w'' [AErr e]) now))
                | Inr tmp \<Rightarrow>
                    (case ListAllPages k (export_options params) of
                       None \<Rightarrow> ([], Hangs)
                     | Some (Inl e) \<Rightarrow> ([], Result (nup_Failed c ''LIST_FAILED'' e now))
                     | Some (Inr items) \<Rightarrow>
                         (case export_items pol cfg w k c now p tmp items of (prog, r) \<Rightarrow> (prog, Result r))))))"

text \<open>What the goroutines of a batch share: the files, the partial errors and the count.\<close>

record batch_state =
  bs_files :: "(string, string) gomap"
  bs_errors :: "fetch_error list"
  bs_count :: int

definition batch_rel :: "fetch_env \<Rightarrow> nup_log_target \<Rightarrow> string" where
  "batch_rel w t =
     path_join [ResolveDeploymentName w (lt_Namespace t) (lt_Pod t), lt_Pod t,
       lt_Container t @ ''-'' @ (if lt_Previous t then ''previous'' else ''current'') @ ''-'' @ fe_stamp w t @ ''.log'']"

definition batch_one :: "fetch_env \<Rightarrow> string \<Rightarrow> batch_params \<Rightarrow> nup_log_target \<Rightarrow> batch_state \<Rightarrow> batch_state" where
  "batch_one w logsDir params t s =
     (case log_Fetch w t params of
        Inl e \<Rightarrow>
          s\<lparr> bs_errors := bs_errors s @
               [\<lparr> fx_Namespace = lt_Namespace t, fx_Pod = lt_Pod t, fx_Container = lt_Container t, fx_Error = e \<rparr>] \<rparr>
      | Inr d \<Rightarrow>
          (case nup_WriteFile w logsDir (batch_rel w t) d (bs_files s) of
             Inl e \<Rightarrow>
               s\<lparr> bs_errors := bs_errors s @
                    [\<lparr> fx_Namespace = [], fx_Pod = lt_Pod t, fx_Container = lt_Container t, fx_Error = e \<rparr>] \<rparr>
           | Inr files \<Rightarrow> s\<lparr> bs_files := files, bs_count := bs_count s + 1 \<rparr>))"

definition batch_run :: "fetch_env \<Rightarrow> string \<Rightarrow> batch_params \<Rightarrow> batch_state" where
  "batch_run w logsDir params =
     fold (batch_one w logsDir params) (fe_order w (bt_Targets params)) \<lparr> bs_files = [], bs_errors = [], bs_count = 0 \<rparr>"

definition fetch_error_json :: "(go_error \<Rightarrow> string) \<Rightarrow> fetch_error \<Rightarrow> json" where
  "fetch_error_json text e =
     JObj (filter (\<lambda>(k, v). k = ''error'' \<or> v \<noteq> JStr [])
       [(''namespace'', JStr (fx_Namespace e)), (''pod'', JStr (fx_Pod e)), (''container'', JStr (fx_Container e)),
        (''error'', JStr (text (fx_Error e)))])"

definition batchLogs ::
  "nup_policy \<Rightarrow> nup_config \<Rightarrow> fetch_env \<Rightarrow> nup_command \<Rightarrow> gtime \<Rightarrow> fetch_payload \<Rightarrow> nup_result" where
  "batchLogs pol cfg w c now p =
     (case parse_with decode_batch (fp_SourceParams p) of
        Inl e \<Rightarrow> nup_Rejected c ''INVALID_PAYLOAD'' e now
      | Inr params \<Rightarrow>
          if bt_Targets params = [] then nup_Rejected c ''INVALID_PAYLOAD'' (Errorf ''targets required'' []) now
          else case fe_tempdir w (ng_TempDir cfg) of
            Inl e \<Rightarrow> nup_Failed c ''TEMP_DIR'' (Errorf ''create temp dir: %w'' [AErr e]) now
          | Inr tmp \<Rightarrow>
              let logsDir = path_join [tmp, ''logs'']; zipPath = path_join [tmp, ''logs.zip''] in
              (case fe_mkdir w logsDir of
                 Some e \<Rightarrow> nup_Failed c ''TEMP_DIR'' e now
               | None \<Rightarrow>
                   (case first_error (map (\<lambda>t. CheckNamespace pol (lt_Namespace t)) (bt_Targets params)) of
                      Some e \<Rightarrow> nup_Rejected c ''POLICY_VIOLATION'' e now
                    | None \<Rightarrow>
                        let b = batch_run w logsDir params in
                        (case fe_zip w (dir_entries logsDir (bs_files b)) of
                           Inl e \<Rightarrow> nup_Failed c ''ARCHIVE_FAILED'' e now
                         | Inr sz \<Rightarrow>
                             (case fe_stat w zipPath of
                                Some e \<Rightarrow> nup_Failed c ''STAT_FAILED'' e now
                              | None \<Rightarrow>
                                  send_archive w cfg p ''application/zip'' zipPath c now
                                    (JObj [(''bytes'', JInt sz), (''file_count'', JInt (bs_count b)),
                                           (''object_key'', JStr (fp_ObjectKey p)),
                                           (''partial_errors'',
                                            if bs_errors b = [] then JNull
                                            else JArr (map (fetch_error_json (fe_text w)) (bs_errors b))),
                                           (''s3_uri'', JStr (fp_S3URI p))]))))))"

definition FetchHandler_Handle ::
  "nup_policy \<Rightarrow> nup_config \<Rightarrow> fetch_env \<Rightarrow> nup_cluster \<Rightarrow> nup_result list nup_handle" where
  "FetchHandler_Handle pol cfg w k s c t =
     (case parse_with decode_nup_fetch (nc_Payload c) of
        Inl e \<Rightarrow> (s, Result (nup_Rejected c ''INVALID_PAYLOAD'' e (snd t)))
      | Inr p \<Rightarrow>
          if fp_PresignedPutURL p = [] then
            (s, Result (nup_Rejected c ''INVALID_PAYLOAD'' (Errorf ''presigned_put_url is required'' []) (snd t)))
          else case HostFromPresignedURL (fe_host w) (fp_PresignedPutURL p) of
            Inl e \<Rightarrow> (s, Result (nup_Rejected c ''INVALID_PAYLOAD'' e (snd t)))
          | Inr host \<Rightarrow>
              (case CheckPresignedHost pol host of
                 Some e \<Rightarrow> (s, Result (nup_Rejected c ''POLICY_VIOLATION'' e (snd t)))
               | None \<Rightarrow>
                   if fp_Source p = ''resource_export'' then
                     case exportResources pol cfg w k c (snd t) p of (prog, r) \<Rightarrow> (s @ prog, r)
                   else if fp_Source p = ''pod_logs_batch'' then (s, Result (batchLogs pol cfg w c (snd t) p))
                   else (s, Result (nup_Rejected c ''INVALID_PAYLOAD'' (Errorf ''unsupported source: %s'' [AStr (fp_Source p)]) (snd t)))))"

section \<open>Handlers and results\<close>

interpretation nup_list_h: nup_handler "ListHandler_Handle pol maxInline k" for pol maxInline k
  by unfold_locales (auto simp: ListHandler_Handle_def Let_def split: sum.splits option.splits)

lemma final_send_archive [simp]: "final_for c (send_archive w cfg p ty path c now d)"
  by (auto simp: send_archive_def Let_def split: option.split sum.split)

lemma final_export_items: "export_items pol cfg w k c now p tmp items = (prog, r) \<Longrightarrow> final_for c r"
  by (auto simp: export_items_def Let_def split: option.splits sum.splits prod.splits if_splits)

lemma final_exportResources:
  "exportResources pol cfg w k c now p = (prog, r) \<Longrightarrow> r = Hangs \<or> (\<exists>res. r = Result res \<and> final_for c res)"
  by (auto simp: exportResources_def split: option.splits sum.splits prod.splits dest: final_export_items)

lemma final_batchLogs [simp]: "final_for c (batchLogs pol cfg w c now p)"
  by (auto simp: batchLogs_def Let_def split: option.split sum.split)

interpretation nup_fetch_h: nup_handler "FetchHandler_Handle pol cfg w k" for pol cfg w k
  by unfold_locales
     (auto simp: FetchHandler_Handle_def split: sum.splits option.splits if_splits prod.splits dest: final_exportResources)

section \<open>Pages\<close>

text \<open>The server gives the chunks in turn, with a token until the last.\<close>

fun serves :: "(nat \<Rightarrow> string \<Rightarrow> go_error + obj list \<times> string) \<Rightarrow> nat \<Rightarrow> string \<Rightarrow> obj list list \<Rightarrow> bool" where
  "serves page n cont [] = False"
| "serves page n cont (ch # chs) =
     (case page n cont of
        Inl _ \<Rightarrow> False
      | Inr (items, cont') \<Rightarrow> items = ch \<and> (if cont' = [] then chs = [] else serves page (Suc n) cont' chs))"

fun serves_all :: "nup_cluster \<Rightarrow> string \<Rightarrow> list_options \<Rightarrow> nat \<Rightarrow> string list \<Rightarrow> obj list list list \<Rightarrow> bool" where
  "serves_all k gvr opts n [] chss = (chss = [])"
| "serves_all k gvr opts n (ns # nss) chss =
     (case chss of
        [] \<Rightarrow> False
      | chs # rest \<Rightarrow> serves (page_request k gvr opts ns) n [] chs \<and> serves_all k gvr opts (n + length chs) nss rest)"

lemma pages_served: "serves page n cont chs \<Longrightarrow> pages page n cont all = Some (Inr (n + length chs, all @ concat chs))"
proof (induction page n cont chs arbitrary: all rule: serves.induct)
  case (2 page n cont ch chs)
  then show ?case by (subst pages.simps) (auto split: sum.splits if_splits)
qed simp

lemma all_pages_served:
  "serves_all k gvr opts n nss chss \<Longrightarrow> all_pages k gvr opts n all nss = Some (Inr (all @ concat (concat chss)))"
  by (induction k gvr opts n nss chss arbitrary: all rule: serves_all.induct) (auto simp: pages_served split: list.splits)

section \<open>Upload\<close>

definition closed_error :: go_error where
  "closed_error = Errorf ''PUT presigned URL: %w'' [AErr (LibErr ''file already closed'')]"

lemma upload_loop_closed:
  "upload_loop ended None ans baseDelay left (Suc attempt) True (Some e) \<in> {Inl e, Inl closed_error, Inl (LibErr ''context'')}"
  by (induction left arbitrary: attempt e) (auto simp: nup_Upload_def closed_error_def)

lemma upload_loop_closed_awake:
  "upload_loop (\<lambda>_ _. False) None ans baseDelay (Suc left) (Suc attempt) True (Some e) = Inl closed_error"
proof (induction left arbitrary: attempt e)
  case (Suc left)
  show ?case by (subst upload_loop.simps(2)) (use Suc in \<open>simp add: nup_Upload_def closed_error_def\<close>)
qed (simp add: nup_Upload_def closed_error_def)

lemma upload_first:
  assumes "0 < maxRetries"
  shows "UploadWithRetry ended None ans maxRetries baseDelay =
    (case snd (nup_Upload None (ans 0) False) of
       Inr n \<Rightarrow> Inr n
     | Inl e \<Rightarrow> upload_loop ended None ans baseDelay (nat (maxRetries - 1)) 1 True (Some e))"
proof -
  have "nat maxRetries = Suc (nat (maxRetries - 1))" using assms by simp
  moreover obtain r where "nup_Upload None (ans 0) False = (True, r)" by (simp add: nup_Upload_def)
  ultimately show ?thesis by (simp add: UploadWithRetry_def split: sum.split)
qed

lemma upload_succeeds_iff:
  "UploadWithRetry ended None ans maxRetries baseDelay = Inr n \<longleftrightarrow>
     (if 0 < maxRetries then snd (nup_Upload None (ans 0) False) = Inr n else n = 0)"
proof (cases "0 < maxRetries")
  case True
  show ?thesis
  proof (cases "snd (nup_Upload None (ans 0) False)")
    case (Inl e)
    show ?thesis using True Inl upload_loop_closed [of ended ans baseDelay "nat (maxRetries - 1)" 0 e]
      unfolding upload_first [OF True] by auto
  qed (simp add: upload_first True)
qed (auto simp: UploadWithRetry_def)

lemma upload_awake:
  "UploadWithRetry (\<lambda>_ _. False) None ans maxRetries baseDelay =
     (if maxRetries \<le> 0 then Inr 0
      else case snd (nup_Upload None (ans 0) False) of
             Inr n \<Rightarrow> Inr n
           | Inl e \<Rightarrow> if maxRetries = 1 then Inl e else Inl closed_error)"
proof (cases "maxRetries \<le> 1")
  case True
  then consider "maxRetries \<le> 0" | "maxRetries = 1" by linarith
  then show ?thesis
  proof cases
    case 2
    then show ?thesis using upload_first [of 1] by (simp split: sum.split)
  qed (simp add: UploadWithRetry_def)
next
  case False
  then have "nat (maxRetries - 1) = Suc (nat (maxRetries - 2))" by simp
  then show ?thesis
    using False upload_loop_closed_awake [of ans baseDelay "nat (maxRetries - 2)" 0]
    by (simp add: upload_first split: sum.split)
qed

section \<open>Batches and progress\<close>

lemma batch_one_counts:
  "bs_count (batch_one w dir params t s) + int (length (bs_errors (batch_one w dir params t s))) =
     bs_count s + int (length (bs_errors s)) + 1"
  by (auto simp: batch_one_def split: sum.split)

lemma batch_fold_counts:
  "bs_count (fold (batch_one w dir params) ts s) + int (length (bs_errors (fold (batch_one w dir params) ts s))) =
     bs_count s + int (length (bs_errors s)) + int (length ts)"
  by (induction ts arbitrary: s) (auto simp: batch_one_counts)

text \<open>In whatever order its goroutines end, a batch accounts for each target, as a file or as an error.\<close>

lemma batch_accounts:
  assumes "length (fe_order w (bt_Targets params)) = length (bt_Targets params)"
  shows "bs_count (batch_run w dir params) + int (length (bs_errors (batch_run w dir params))) = int (length (bt_Targets params))"
  using assms by (simp add: batch_run_def batch_fold_counts)

text \<open>An export that writes all its objects reports the progress after each of them.\<close>

lemma export_progress:
  assumes "export_loop w yaml c now dir cnt (int n) items files prog = (prog', Inr files')"
  shows "map nr_Progress prog' = map nr_Progress prog @ map (\<lambda>i. int i * 100 div cnt) [Suc n..<Suc n + length items]"
  using assms
proof (induction items arbitrary: n files prog)
  case (Cons o1 items)
  from Cons.prems obtain files1 where
    "export_loop w yaml c now dir cnt (int (Suc n)) items files1
       (prog @ [(NewResult c NupExecuting now)\<lparr> nr_Phase := NupExecuting, nr_Progress := (int n + 1) * 100 div cnt \<rparr>]) = (prog', Inr files')"
    by (auto simp: Let_def add.commute split: sum.splits)
  from Cons.IH [OF this] have "map nr_Progress prog' = map nr_Progress prog @ (int n + 1) * 100 div cnt #
      map (\<lambda>i. int i * 100 div cnt) [Suc (Suc n)..<Suc (Suc n) + length items]" by simp
  moreover have "[Suc n..<Suc n + length (o1 # items)] = Suc n # [Suc (Suc n)..<Suc (Suc n) + length items]"
    by (subst upt_conv_Cons) simp_all
  ultimately show ?case by (simp only: list.map of_nat_Suc add.commute)
qed simp

section \<open>Properties\<close>

text \<open>
  An export returns every page of every namespace: where the server answers the requests for the namespaces in turn,
  each with the chunks of a list that ends, listing all pages ends with all the objects in order.
\<close>

lemma ListAllPages_complete:
  assumes "lister_gvr k (lo_GVK opts) = Inr gvr" and "serves_all k gvr opts 0 (list_namespaces opts) chss"
  shows "ListAllPages k opts = Some (Inr (concat (concat chss)))"
  using assms all_pages_served [OF assms(2), of "[]"] by (simp add: ListAllPages_def)

text \<open>
  C29: A failed upload is never repaired by its retries. The first attempt leaves the file of the request
  closed, so that with at least one attempt allowed an upload succeeds exactly when its first attempt does. While the
  context lives, two or more attempts turn every failure of the first, an expired URL included, into the error
  that the file is closed. With no attempt allowed nothing is sent, and success is reported.
\<close>

theorem nup_upload_retry:
  "(UploadWithRetry ended None ans maxRetries baseDelay = Inr n \<longleftrightarrow>
     (if 0 < maxRetries then snd (nup_Upload None (ans 0) False) = Inr n else n = 0)) \<and>
   UploadWithRetry (\<lambda>_ _. False) None ans maxRetries baseDelay =
     (if maxRetries \<le> 0 then Inr 0
      else case snd (nup_Upload None (ans 0) False) of
             Inr n \<Rightarrow> Inr n
           | Inl e \<Rightarrow> if maxRetries = 1 then Inl e else Inl closed_error)"
  by (rule conjI [OF upload_succeeds_iff upload_awake])

text \<open>
  A cluster with one pod in every namespace, whose encoding is its namespace, and a command of the issuer of the
  default policy: list the pods of \<open>app\<close>, with other namespaces in the payload.
\<close>

definition pod_everywhere :: nup_cluster where
  "pod_everywhere =
     \<lparr> kl_list = (\<lambda>n q. Inr ([[(''metadata'', JObj [(''name'', JStr ''web''), (''namespace'', JStr (lq_Namespace q))])]], [])),
       kl_map = (\<lambda>n g. Inr ''pods''), kl_yaml = (\<lambda>o1. Inr (meta_str ''namespace'' o1)),
       kl_json = (\<lambda>o1. Inr (meta_str ''namespace'' o1)) \<rparr>"

definition list_pods_of :: "string list \<Rightarrow> nup_command" where
  "list_pods_of nss =
     \<lparr> nc_CommandID = ''c1'', nc_IdempotencyKey = ''k1'', nc_Type = NupResourceList, nc_IssuedBy = ''core-prod'', nc_TS = 0,
       nc_DryRun = False,
       nc_Target = \<lparr> tg_Group = [], tg_Version = ''v1'', tg_Kind = ''Pod'', tg_Namespace = ''app'', tg_Name = [] \<rparr>,
       nc_Payload = Some (JObj [(''namespaces'', JArr (map JStr nss))]) \<rparr>"

lemma list_namespace_everywhere:
  "listNamespace pod_everywhere n gvr ns opts lim = Inr ([ns], [])"
  by (cases "lo_StripStatus opts")
     (simp_all add: listNamespace_def pod_everywhere_def SanitizeObject_def meta_str_def trim_metadata_def
        trim_annotations_def gm_get_def gm_put_def gm_del_def)

lemma list_loop_everywhere:
  "list_loop pod_everywhere n gvr opts lim nss out =
     Inr (out\<lparr> lu_Items := lu_Items out @ nss, lu_ItemsCount := lu_ItemsCount out + int (length nss) \<rparr>)"
  by (induction nss arbitrary: n out) (auto simp: list_namespace_everywhere Let_def)

lemma parse_list_pods:
  "parse_list (nc_Payload (list_pods_of nss)) =
     Inr \<lparr> ly_LabelSelector = [], ly_FieldSelector = [], ly_OutputFormat = [], ly_Limit = 0, ly_ContinueToken = [],
           ly_StripStatus = False, ly_Namespaces = nss \<rparr>"
proof -
  have "map_opt (elem_or [] json_str) (map JStr nss) = Some nss" by (induction nss) (auto simp: elem_or_def)
  moreover have "\<not> EqualFold ''namespaces'' ''labelSelector''" "\<not> EqualFold ''namespaces'' ''fieldSelector''"
    "\<not> EqualFold ''namespaces'' ''output_format''" "\<not> EqualFold ''namespaces'' ''limit''"
    "\<not> EqualFold ''namespaces'' ''continue_token''" "\<not> EqualFold ''namespaces'' ''strip_status''"
    "EqualFold ''namespaces'' ''namespaces''"
    by code_simp+
  ultimately show ?thesis
    by (simp add: parse_list_def list_pods_of_def decode_list_payload_def fld_str_def fld_int_def fld_bool_def fld_strs_def
        fld_list_def members_def or_json_error_def)
qed

lemma list_pods_of_passes:
  "nup_Validate (list_pods_of nss) = None" "CheckCommand defaultPolicy (list_pods_of nss) = None"
  "CheckGVK defaultPolicy (target_gvk (nc_Target (list_pods_of nss))) = None" "CheckNamespace defaultPolicy ''app'' = None"
proof -
  have c: "list_pods_of nss = (list_pods_of [])\<lparr> nc_Payload := nc_Payload (list_pods_of nss) \<rparr>" by (simp add: list_pods_of_def)
  have "nup_Validate (c\<lparr> nc_Payload := p \<rparr>) = nup_Validate c" "CheckCommand pol (c\<lparr> nc_Payload := p \<rparr>) = CheckCommand pol c" for c p pol
    by (simp_all add: nup_Validate_def CheckCommand_def Let_def cong: if_cong)
  moreover have "nup_Validate (list_pods_of []) = None" "CheckCommand defaultPolicy (list_pods_of []) = None" by code_simp+
  ultimately show "nup_Validate (list_pods_of nss) = None" "CheckCommand defaultPolicy (list_pods_of nss) = None"
    by (metis c)+
  have "CheckGVK defaultPolicy (target_gvk (nc_Target (list_pods_of []))) = None" by code_simp
  then show "CheckGVK defaultPolicy (target_gvk (nc_Target (list_pods_of nss))) = None" by (simp add: list_pods_of_def)
  show "CheckNamespace defaultPolicy ''app'' = None" by code_simp
qed


end
