(* ===== verification/Nup_Service.thy ===== *)
theory Nup_Service
  imports Nup_Fetch "HOL-Library.Sublist"
begin

text \<open>
  The archived agent, last part: the service (\<open>internal/agent/service.go\<close>), its consumer loop
  (\<open>internal/kafka/client.go\<close>) and its health server (\<open>internal/health/server.go\<close>), and the properties of the whole
  agent.
\<close>

section \<open>State and surroundings\<close>

text \<open>
  The state of the service: the two managers, the flags of the service and of its health server, and what it has
  published, results and dead letters.
\<close>

record nup_service =
  sv_watches :: nup_watches
  sv_streams :: nup_streams
  sv_isLeader :: bool
  sv_healthLeader :: bool
  sv_ready :: bool
  sv_out :: "nup_result list"
  sv_dlq :: "(go_error \<times> http_body) list"

text \<open>
  The policy and configuration, and what the service meets while it handles a message: the cluster, the surroundings
  of \<open>file.fetch\<close>, the compiler of patterns, the informers, the limiter and the two Kafka writers.
\<close>

record service_env =
  se_pol :: nup_policy
  se_cfg :: nup_config
  se_cluster :: nup_cluster
  se_fetch :: fetch_env
  se_compile :: "string \<Rightarrow> go_error + regexp"
  se_add :: "go_error option"
  se_sync :: bool
  se_wait :: "go_error option"
  se_publish :: "nup_result \<Rightarrow> go_error option"
  se_dead :: "go_error \<times> http_body \<Rightarrow> go_error option"

definition published :: "service_env \<Rightarrow> nup_result list \<Rightarrow> nup_result list" where
  "published e rs = filter (\<lambda>r. se_publish e r = None) rs"

text \<open>The router of \<open>New\<close>; \<open>progressFn\<close> publishes and its error is dropped.\<close>

definition service_handlers :: "service_env \<Rightarrow> (string \<times> nup_service nup_handle) list" where
  "service_handlers e =
       [(NupResourceList, ListHandler_Handle (se_pol e) (ng_InlineListMaxBytes (se_cfg e)) (se_cluster e)),
        (NupFileFetch, nup_on (\<lambda>s. []) (\<lambda>prog s. s\<lparr> sv_out := sv_out s @ published e prog \<rparr>)
            (FetchHandler_Handle (se_pol e) (se_cfg e) (se_fetch e) (se_cluster e))),
        (NupWatchSubscribe, nup_on sv_watches (\<lambda>m s. s\<lparr> sv_watches := m \<rparr>)
            (nup_watch_Subscribe (se_pol e) (kl_map (se_cluster e)) (se_add e) (se_sync e))),
        (NupWatchUnsubscribe, nup_on sv_watches (\<lambda>m s. s\<lparr> sv_watches := m \<rparr>) nup_watch_Unsubscribe),
        (NupLogsSubscribe, nup_on sv_streams (\<lambda>m s. s\<lparr> sv_streams := m \<rparr>) (nup_logs_Subscribe (se_pol e) (se_compile e))),
        (NupLogsUnsubscribe, nup_on sv_streams (\<lambda>m s. s\<lparr> sv_streams := m \<rparr>) nup_logs_Unsubscribe)]"

definition service_router :: "service_env \<Rightarrow> nup_service nup_router" where
  "service_router e = nup_NewRouter (service_handlers e)"

definition nup_New :: nup_service where
  "nup_New = \<lparr> sv_watches = nup_watches_new, sv_streams = nup_streams_new, sv_isLeader = False, sv_healthLeader = False,
               sv_ready = True, sv_out = [], sv_dlq = [] \<rparr>"

definition nup_setLeader :: "bool \<Rightarrow> nup_service \<Rightarrow> nup_service" where
  "nup_setLeader v s =
     s\<lparr> sv_isLeader := v, sv_healthLeader := v, sv_watches := watches_SetLeader v (sv_watches s),
        sv_streams := streams_SetLeader v (sv_streams s) \<rparr>"

section \<open>Messages\<close>

text \<open>How the handling of a message ends: without error, with one, or never.\<close>

datatype handling = Handled | HandlingError go_error | Stuck

definition publish_result :: "service_env \<Rightarrow> nup_service \<Rightarrow> nup_result \<Rightarrow> nup_service" where
  "publish_result e s r = s\<lparr> sv_out := sv_out s @ published e [r] \<rparr>"

definition nup_handleMessage :: "service_env \<Rightarrow> nup_service \<Rightarrow> http_body \<Rightarrow> clock \<Rightarrow> nup_service \<times> handling" where
  "nup_handleMessage e s body t =
     (case decode_nup_command body of
        Inl err \<Rightarrow> (s\<lparr> sv_dlq := sv_dlq s @ (if se_dead e (err, body) = None then [(err, body)] else []) \<rparr>, Handled)
      | Inr c \<Rightarrow>
          (case nup_Validate c of
             Some err \<Rightarrow> (publish_result e s (nup_Rejected c ''VALIDATION_FAILED'' err (fst t)), Handled)
           | None \<Rightarrow>
               (case CheckCommand (se_pol e) c of
                  Some err \<Rightarrow> (publish_result e s (nup_Rejected c ''POLICY_VIOLATION'' err (fst t)), Handled)
                | None \<Rightarrow>
                    (case se_wait e of
                       Some err \<Rightarrow> (s, HandlingError err)
                     | None \<Rightarrow>
                         (case nup_Route (service_router e) s c t of
                            (s', Hangs) \<Rightarrow> (s', Stuck)
                          | (s', out) \<Rightarrow>
                              let r = (case out of Result r \<Rightarrow> r | HandlerError err \<Rightarrow> nup_Failed c ''HANDLER_ERROR'' err (snd t))
                              in case se_publish e r of
                                   Some err \<Rightarrow> (s', HandlingError err)
                                 | None \<Rightarrow> (publish_result e s' r, Handled))))))"

text \<open>
  The consumer: what \<open>FetchMessage\<close> gives, a message with its offset or an error, and whether the context has ended
  then; \<open>commit\<close> is the error of the commit. The offsets committed so far, and the end of the loop: its error, or
  \<open>None\<close> when the list is over.
\<close>

datatype fetched = FetchFailed go_error bool | Fetched int http_body clock "go_error option"

fun consumer_Run ::
  "('s \<Rightarrow> http_body \<Rightarrow> clock \<Rightarrow> 's \<times> handling) \<Rightarrow> 's \<Rightarrow> int list \<Rightarrow> fetched list \<Rightarrow> 's \<times> int list \<times> go_error option option" where
  "consumer_Run h s done [] = (s, done, None)"
| "consumer_Run h s done (FetchFailed err ended # rest) =
     (s, done, Some (if ended then None else Some (Errorf ''fetch message: %w'' [AErr err])))"
| "consumer_Run h s done (Fetched off body t commit # rest) =
     (case h s body t of
        (s', Stuck) \<Rightarrow> (s', done, None)
      | (s', HandlingError _) \<Rightarrow> consumer_Run h s' done rest
      | (s', Handled) \<Rightarrow>
          (case commit of
             Some err \<Rightarrow> (s', done, Some (Some (Errorf ''commit message: %w'' [AErr err])))
           | None \<Rightarrow> consumer_Run h s' (done @ [off]) rest))"

section \<open>Health server\<close>

definition nup_liveness :: "int \<times> http_body" where
  "nup_liveness = (200, BodyRaw ''ok'')"

definition nup_readiness :: "nup_service \<Rightarrow> int \<times> http_body" where
  "nup_readiness s =
     (if \<not> sv_ready s then (503, BodyRaw (''not ready'' @ [CHR 0x0A]))
      else (200, BodyJson (JObj [(''leader'', JBool (sv_healthLeader s)), (''ready'', JBool True)])))"

definition SetReady :: "bool \<Rightarrow> nup_service \<Rightarrow> nup_service" where
  "SetReady v s = s\<lparr> sv_ready := v \<rparr>"

section \<open>Steps\<close>

text \<open>What happens to a service: a message, in any surroundings with its policy, or a change of the lead.\<close>

inductive nup_step :: "nup_policy \<Rightarrow> nup_service \<Rightarrow> nup_service \<Rightarrow> bool" for pol where
  step_message: "se_pol e = pol \<Longrightarrow> nup_handleMessage e s body t = (s', out) \<Longrightarrow> nup_step pol s s'"
| step_leader: "nup_step pol s (nup_setLeader v s)"

definition nup_init :: "nup_service \<Rightarrow> bool" where
  "nup_init s \<longleftrightarrow> s = nup_New"

section \<open>The router\<close>

lemma nup_NewRouter_get: "gm_get (nup_NewRouter hs) ty = Some h \<Longrightarrow> (ty, h) \<in> set hs"
proof -
  have "gm_get (fold (\<lambda>(ty, h). gm_put ty h) hs m) ty = Some h \<Longrightarrow> gm_get m ty = Some h \<or> (ty, h) \<in> set hs" for m
  proof (induction hs arbitrary: m)
    case (Cons x hs)
    obtain k v where x: "x = (k, v)" by fastforce
    show ?case using Cons.IH [of "gm_put k v m"] Cons.prems by (auto simp: x split: if_splits)
  qed simp
  from this [of "[]"] show "gm_get (nup_NewRouter hs) ty = Some h \<Longrightarrow> (ty, h) \<in> set hs"
    by (simp add: nup_NewRouter_def)
qed

interpretation service: nup_routed "service_router e" for e
proof (rule nup_routed.intro)
  fix ty and h :: "nup_service nup_handle"
  assume "gm_get (service_router e) ty = Some h"
  then have "(ty, h) \<in> set (service_handlers e)"
    unfolding service_router_def by (rule nup_NewRouter_get)
  then show "nup_handler h"
    using nup_list_h.nup_handler_axioms nup_handler_on [OF nup_fetch_h.nup_handler_axioms]
      nup_handler_on [OF nup_watch_h.nup_handler_axioms] nup_handler_on [OF nup_unwatch_h.nup_handler_axioms]
      nup_handler_on [OF nup_logs_h.nup_handler_axioms] nup_handler_on [OF nup_unlogs_h.nup_handler_axioms]
    by (auto simp: service_handlers_def)
qed

text \<open>The router has a handler for exactly the types that validation allows.\<close>

lemma service_router_types: "gm_get (service_router e) ty \<noteq> None \<longleftrightarrow> ty \<in> set allowedTypes"
  by (simp add: service_router_def service_handlers_def nup_NewRouter_def allowedTypes_def)

section \<open>What a command does to the state\<close>

lemma export_loop_executing:
  assumes "export_loop w yaml c now dir cnt i items files prog = (prog', r)"
    and "list_all (\<lambda>x. nr_CommandID x = nc_CommandID c \<and> nr_Status x = NupExecuting) prog"
  shows "list_all (\<lambda>x. nr_CommandID x = nc_CommandID c \<and> nr_Status x = NupExecuting) prog'"
  using assms
proof (induction items arbitrary: i files prog)
  case (Cons o1 items)
  show ?case
    using Cons.prems by (auto simp: Let_def split: sum.splits elim!: Cons.IH) (simp_all add: NewResult_def)
qed simp

lemma export_executing:
  assumes "exportResources pol cfg w k c now p = (prog, r)"
  shows "list_all (\<lambda>x. nr_CommandID x = nc_CommandID c \<and> nr_Status x = NupExecuting) prog"
proof -
  have "list_all (\<lambda>x. nr_CommandID x = nc_CommandID c \<and> nr_Status x = NupExecuting) prog'"
    if "export_items pol cfg w k c now p tmp items = (prog', res)" for tmp items prog' res
    using that export_loop_executing [where prog = "[]"]
    by (fastforce simp: export_items_def Let_def split: option.splits prod.splits sum.splits)
  then show ?thesis using assms by (auto simp: exportResources_def split: option.splits sum.splits prod.splits)
qed

lemma fetch_executing:
  assumes "FetchHandler_Handle pol cfg w k [] c t = (prog, r)"
  shows "list_all (\<lambda>x. nr_CommandID x = nc_CommandID c \<and> nr_Status x = NupExecuting) prog"
  using assms by (auto simp: FetchHandler_Handle_def split: sum.splits option.splits if_splits prod.splits dest: export_executing)

text \<open>What one command can do to the managers.\<close>

definition watch_change :: "nup_policy \<Rightarrow> nup_watches \<Rightarrow> nup_watches \<Rightarrow> bool" where
  "watch_change pol m m' \<longleftrightarrow>
     m' = m \<or> (\<exists>i r. watches_Unsubscribe m i = (m', r)) \<or>
     (\<exists>rm add sync p r. watches_Subscribe rm add sync m p = (m', r) \<and> CheckGVK pol (nwp_GVK p) = None \<and>
        allowedNamespace pol (nwp_Namespace p))"

definition stream_change :: "nup_policy \<Rightarrow> nup_streams \<Rightarrow> nup_streams \<Rightarrow> bool" where
  "stream_change pol m m' \<longleftrightarrow>
     m' = m \<or> (\<exists>i r. streams_Unsubscribe m i = (m', r)) \<or>
     (\<exists>compile p r. streams_Subscribe compile m p = (m', r) \<and> list_all (\<lambda>x. allowedNamespace pol (lt_Namespace x)) (nsp_Targets p))"

lemma watch_handlers_change:
  "watch_change pol m (fst (nup_watch_Subscribe pol rm add sync m c t))" "watch_change pol m (fst (nup_watch_Unsubscribe m c t))"
  using nup_watch_Subscribe_state [of pol rm add sync m c t] nup_unsubscribe_state [of watches_Unsubscribe m c t]
  unfolding watch_change_def nup_watch_Unsubscribe_def by blast+

lemma stream_handlers_change:
  "stream_change pol m (fst (nup_logs_Subscribe pol compile m c t))" "stream_change pol m (fst (nup_logs_Unsubscribe m c t))"
  using nup_logs_Subscribe_state [of pol compile m c t] nup_unsubscribe_state [of streams_Unsubscribe m c t]
  unfolding stream_change_def nup_logs_Unsubscribe_def by blast+

lemma nup_on_state: "nup_on sel upd h s c t = (s', out) \<Longrightarrow> s' = upd (fst (h (sel s) c t)) s"
  by (auto simp: nup_on_def split: prod.splits)

text \<open>The ways a routed command ends.\<close>

lemma route_cases:
  assumes "nup_Route (service_router e) s c t = (s', out)"
  obtains (same) "s' = s"
  | (progress) prog where "nc_Type c = NupFileFetch" "s' = s\<lparr> sv_out := sv_out s @ published e prog \<rparr>"
      "list_all (\<lambda>x. nr_CommandID x = nc_CommandID c \<and> nr_Status x = NupExecuting) prog"
  | (watches) m where "nc_Type c \<in> {NupWatchSubscribe, NupWatchUnsubscribe}" "s' = s\<lparr> sv_watches := m \<rparr>"
      "watch_change (se_pol e) (sv_watches s) m"
  | (streams) m where "nc_Type c \<in> {NupLogsSubscribe, NupLogsUnsubscribe}" "s' = s\<lparr> sv_streams := m \<rparr>"
      "stream_change (se_pol e) (sv_streams s) m"
proof (cases "gm_get (service_router e) (nc_Type c)")
  case None
  show thesis by (rule same) (use assms None in \<open>simp add: nup_Route_def\<close>)
next
  case (Some h)
  have r: "h s c t = (s', out)" using assms Some by (simp add: nup_Route_def)
  have "(nc_Type c, h) \<in> set (service_handlers e)"
    using Some unfolding service_router_def by (rule nup_NewRouter_get)
  then consider "h = ListHandler_Handle (se_pol e) (ng_InlineListMaxBytes (se_cfg e)) (se_cluster e)"
    | "nc_Type c = NupFileFetch" "h = nup_on (\<lambda>s. []) (\<lambda>prog s. s\<lparr> sv_out := sv_out s @ published e prog \<rparr>)
         (FetchHandler_Handle (se_pol e) (se_cfg e) (se_fetch e) (se_cluster e))"
    | "nc_Type c = NupWatchSubscribe" "h = nup_on sv_watches (\<lambda>m s. s\<lparr> sv_watches := m \<rparr>)
         (nup_watch_Subscribe (se_pol e) (kl_map (se_cluster e)) (se_add e) (se_sync e))"
    | "nc_Type c = NupWatchUnsubscribe" "h = nup_on sv_watches (\<lambda>m s. s\<lparr> sv_watches := m \<rparr>) nup_watch_Unsubscribe"
    | "nc_Type c = NupLogsSubscribe" "h = nup_on sv_streams (\<lambda>m s. s\<lparr> sv_streams := m \<rparr>) (nup_logs_Subscribe (se_pol e) (se_compile e))"
    | "nc_Type c = NupLogsUnsubscribe" "h = nup_on sv_streams (\<lambda>m s. s\<lparr> sv_streams := m \<rparr>) nup_logs_Unsubscribe"
    unfolding service_handlers_def by fastforce
  then show thesis
  proof cases
    case 1
    show thesis by (rule same) (use r 1 in \<open>simp add: ListHandler_Handle_def\<close>)
  next
    case 2
    obtain prog where p: "FetchHandler_Handle (se_pol e) (se_cfg e) (se_fetch e) (se_cluster e) [] c t = (prog, out)"
      "s' = s\<lparr> sv_out := sv_out s @ published e prog \<rparr>"
      using r 2(2) by (auto simp: nup_on_def split: prod.splits)
    show thesis by (rule progress [OF 2(1) p(2) fetch_executing [OF p(1)]])
  next
    case 3
    show thesis by (rule watches [OF _ nup_on_state [OF r [unfolded 3(2)]] watch_handlers_change(1)]) (simp add: 3)
  next
    case 4
    show thesis by (rule watches [OF _ nup_on_state [OF r [unfolded 4(2)]] watch_handlers_change(2)]) (simp add: 4)
  next
    case 5
    show thesis by (rule streams [OF _ nup_on_state [OF r [unfolded 5(2)]] stream_handlers_change(1)]) (simp add: 5)
  next
    case 6
    show thesis by (rule streams [OF _ nup_on_state [OF r [unfolded 6(2)]] stream_handlers_change(2)]) (simp add: 6)
  qed
qed

text \<open>And the ways the handling of a message ends.\<close>

lemma nup_handleMessage_cases:
  assumes "nup_handleMessage e s body t = (s', out)"
  obtains (dead) err where "decode_nup_command body = Inl err" "sv_watches s' = sv_watches s" "sv_streams s' = sv_streams s"
      "sv_out s' = sv_out s" "out = Handled" "sv_isLeader s' = sv_isLeader s" "sv_healthLeader s' = sv_healthLeader s"
  | (rejected) c code err where "decode_nup_command body = Inr c" "s' = publish_result e s (nup_Rejected c code err (fst t))"
      "out = Handled"
  | (limited) c err where "decode_nup_command body = Inr c" "se_wait e = Some err" "s' = s" "out = HandlingError err"
  | (routed) c s1 res where "decode_nup_command body = Inr c" "nup_Validate c = None" "CheckCommand (se_pol e) c = None"
      "se_wait e = None" "nup_Route (service_router e) s c t = (s1, res)"
      "s' = (case out of Handled \<Rightarrow> s' | _ \<Rightarrow> s1)" "out = Stuck \<longleftrightarrow> res = Hangs"
      "out = Handled \<Longrightarrow> \<exists>r. se_publish e r = None \<and> s' = publish_result e s1 r \<and> (res = Result r \<or> (\<forall>x. res \<noteq> Result x))"
      "\<And>err. out = HandlingError err \<Longrightarrow> \<exists>r. se_publish e r = Some err"
proof (cases "decode_nup_command body")
  case (Inl err)
  show thesis by (rule dead [OF Inl]) (use assms Inl in \<open>auto simp: nup_handleMessage_def\<close>)
next
  case (Inr c)
  note d = assms [unfolded nup_handleMessage_def Inr sum.case]
  show thesis
  proof (cases "nup_Validate c")
    case (Some err)
    show thesis by (rule rejected [OF Inr]) (use d Some in auto)
  next
    case v: None
    show thesis
    proof (cases "CheckCommand (se_pol e) c")
      case (Some err)
      show thesis by (rule rejected [OF Inr]) (use d v Some in auto)
    next
      case p: None
      show thesis
      proof (cases "se_wait e")
        case (Some err)
        show thesis by (rule limited [OF Inr Some]) (use d v p Some in auto)
      next
        case None
        obtain s1 res where r: "nup_Route (service_router e) s c t = (s1, res)" by fastforce
        show thesis
          by (rule routed [OF Inr v p None r])
             (use d v p None r in \<open>auto simp: Let_def split: nup_outcome.splits option.splits\<close>)
      qed
    qed
  qed
qed

section \<open>Invariant of the service\<close>

definition watch_permitted :: "nup_policy \<Rightarrow> nup_watch_payload \<Rightarrow> bool" where
  "watch_permitted pol p \<longleftrightarrow> CheckGVK pol (nwp_GVK p) = None \<and> allowedNamespace pol (nwp_Namespace p)"

definition watches_checked :: "nup_policy \<Rightarrow> nup_watches \<Rightarrow> bool" where
  "watches_checked pol m \<longleftrightarrow> (\<forall>i px. gm_get (nw_subs m) i = Some px \<longrightarrow> watch_permitted pol (fst px))"

definition streams_checked :: "nup_policy \<Rightarrow> nup_streams \<Rightarrow> bool" where
  "streams_checked pol m \<longleftrightarrow> list_all (\<lambda>(i, t, x). allowedNamespace pol (lt_Namespace t)) (nt_running m)"

definition watches_ok :: "nup_policy \<Rightarrow> bool \<Rightarrow> nup_watches \<Rightarrow> bool" where
  "watches_ok pol lead m \<longleftrightarrow> watches_inv m \<and> watches_checked pol m \<and> nw_isLeader m = lead"

definition streams_ok :: "nup_policy \<Rightarrow> bool \<Rightarrow> nup_streams \<Rightarrow> bool" where
  "streams_ok pol lead m \<longleftrightarrow> streams_inv m \<and> streams_checked pol m \<and> nt_isLeader m = lead"

definition nup_inv :: "nup_policy \<Rightarrow> nup_service \<Rightarrow> bool" where
  "nup_inv pol s \<longleftrightarrow>
     watches_ok pol (sv_isLeader s) (sv_watches s) \<and> streams_ok pol (sv_isLeader s) (sv_streams s) \<and>
     sv_healthLeader s = sv_isLeader s"

lemma watches_ok_change:
  assumes "watches_ok pol lead m" and "watch_change pol m m'"
  shows "watches_ok pol lead m'"
  using assms(2) unfolding watch_change_def
proof (elim disjE exE conjE)
  fix i r assume u: "watches_Unsubscribe m i = (m', r)"
  then have "watches_checked pol m'" "nw_isLeader m' = nw_isLeader m"
    using assms(1)
    by (fastforce simp: watches_ok_def watches_checked_def watches_Unsubscribe_def split: option.splits prod.splits if_splits)+
  then show ?thesis using assms(1) watches_inv_Unsubscribe [OF _ u] by (simp add: watches_ok_def)
next
  fix rm add sync p r
  assume u: "watches_Subscribe rm add sync m p = (m', r)"
    and c: "CheckGVK pol (nwp_GVK p) = None" "allowedNamespace pol (nwp_Namespace p)"
  have "watch_permitted pol p" using c by (simp add: watch_permitted_def)
  with u have "watches_checked pol m' \<and> nw_isLeader m' = nw_isLeader m"
    by (cases rule: watches_Subscribe_cases) (use assms(1) in \<open>auto simp: watches_ok_def watches_checked_def\<close>)
  then show ?thesis using assms(1) watches_inv_Subscribe [OF _ u] by (simp add: watches_ok_def)
qed (use assms in simp)

lemma streams_ok_change:
  assumes "streams_ok pol lead m" and "stream_change pol m m'"
  shows "streams_ok pol lead m'"
  using assms(2) unfolding stream_change_def
proof (elim disjE exE conjE)
  fix i r assume u: "streams_Unsubscribe m i = (m', r)"
  then have "nt_running m' = nt_running m" "nt_isLeader m' = nt_isLeader m"
    by (auto simp: streams_Unsubscribe_def split: option.splits)
  then show ?thesis using assms(1) streams_inv_Unsubscribe [OF _ u] by (simp add: streams_ok_def streams_checked_def)
next
  fix compile p r
  assume u: "streams_Subscribe compile m p = (m', r)"
    and c: "list_all (\<lambda>x. allowedNamespace pol (lt_Namespace x)) (nsp_Targets p)"
  have "streams_checked pol m' \<and> nt_isLeader m' = nt_isLeader m"
    using u by (cases rule: streams_Subscribe_cases) (use assms(1) c in \<open>auto simp: streams_ok_def streams_checked_def list_all_iff\<close>)
  then show ?thesis using assms(1) streams_inv_Subscribe [OF _ u] by (simp add: streams_ok_def)
qed (use assms in simp)

lemma managers_SetLeader:
  "watches_ok pol lead m \<Longrightarrow> watches_ok pol v (watches_SetLeader v m)"
  "streams_ok pol lead n \<Longrightarrow> streams_ok pol v (streams_SetLeader v n)"
  using watches_inv_SetLeader [of m v] streams_inv_SetLeader [of n v]
  by (auto simp: watches_ok_def streams_ok_def watches_checked_def streams_checked_def watches_SetLeader_def streams_SetLeader_def)

lemma nup_inv_route:
  assumes "nup_inv (se_pol e) s" and "nup_Route (service_router e) s c t = (s', out)"
  shows "nup_inv (se_pol e) s'"
  using assms(2) by (cases rule: route_cases) (use assms(1) watches_ok_change streams_ok_change in \<open>auto simp: nup_inv_def\<close>)

lemma nup_inv_message:
  assumes "nup_inv (se_pol e) s" and "nup_handleMessage e s body t = (s', out)"
  shows "nup_inv (se_pol e) s'"
  using assms(2)
proof (cases rule: nup_handleMessage_cases)
  case (routed c s1 res)
  have "nup_inv (se_pol e) s1" using nup_inv_route [OF assms(1) routed(5)] .
  then show ?thesis
    using routed(6,8) by (cases out) (auto simp: nup_inv_def publish_result_def)
qed (use assms(1) in \<open>auto simp: nup_inv_def publish_result_def\<close>)

lemma nup_inv_reachable:
  assumes "reachable nup_init (nup_step pol) s"
  shows "nup_inv pol s"
proof (rule reachable_invariant [OF assms])
  fix s assume "nup_init s"
  then show "nup_inv pol s"
    using watches_inv_new streams_inv_new
    by (auto simp: nup_init_def nup_New_def nup_inv_def watches_ok_def streams_ok_def watches_checked_def streams_checked_def
        nup_watches_new_def nup_streams_new_def)
next
  fix s s' assume "nup_inv pol s" and "nup_step pol s s'"
  from this(2) show "nup_inv pol s'"
  proof cases
    case (step_message e body t out)
    then show ?thesis using nup_inv_message [of e s body t s' out] \<open>nup_inv pol s\<close> by simp
  next
    case (step_leader v)
    then show ?thesis using \<open>nup_inv pol s\<close> managers_SetLeader by (auto simp: nup_setLeader_def nup_inv_def)
  qed
qed

lemma live_exact_iff: "live_exact tb cs \<Longrightarrow> (x < length cs \<and> \<not> cancelled cs x) \<longleftrightarrow> (\<exists>i. tb i = Some x)"
  by (auto simp: live_exact_def ran_def)

lemma nup_inv_watches:
  assumes "nup_inv pol s"
  shows "(x < length (nw_ctxs (sv_watches s)) \<and> \<not> cancelled (nw_ctxs (sv_watches s)) x) \<longleftrightarrow>
      (\<exists>i p. gm_get (nw_subs (sv_watches s)) i = Some (p, x))"
    and "gm_get (nw_subs (sv_watches s)) i = Some (p, y) \<Longrightarrow> watch_permitted pol p \<and> sv_isLeader s"
proof -
  have l: "live_exact (watch_ids (sv_watches s)) (nw_ctxs (sv_watches s))"
    and c: "watches_checked pol (sv_watches s)" and n: "\<not> sv_isLeader s \<Longrightarrow> watch_ids (sv_watches s) = (\<lambda>_. None)"
    using assms by (auto simp: nup_inv_def watches_ok_def watches_inv_def split: if_splits)
  show "(x < length (nw_ctxs (sv_watches s)) \<and> \<not> cancelled (nw_ctxs (sv_watches s)) x) \<longleftrightarrow>
      (\<exists>i p. gm_get (nw_subs (sv_watches s)) i = Some (p, x))"
    using live_exact_iff [OF l] by (auto simp: watch_ids_def)
  assume g: "gm_get (nw_subs (sv_watches s)) i = Some (p, y)"
  then have "watch_ids (sv_watches s) i \<noteq> None" by (simp add: watch_ids_def)
  then show "watch_permitted pol p \<and> sv_isLeader s"
    using c [unfolded watches_checked_def, rule_format, OF g] n by fastforce
qed

lemma nup_inv_streams:
  assumes "nup_inv pol s"
  shows "(x < length (nt_ctxs (sv_streams s)) \<and> \<not> cancelled (nt_ctxs (sv_streams s)) x) \<longleftrightarrow>
      (\<exists>i. gm_get (nt_streams (sv_streams s)) i = Some x)"
    and "gm_get (nt_streams (sv_streams s)) i = Some x \<Longrightarrow> sv_isLeader s"
    and "(i, t, y) \<in> set (nt_running (sv_streams s)) \<Longrightarrow>
      allowedNamespace pol (lt_Namespace t) \<and> (cancelled (nt_ctxs (sv_streams s)) y \<or> gm_get (nt_streams (sv_streams s)) i = Some y)"
proof -
  have v: "streams_inv (sv_streams s)" and c: "streams_checked pol (sv_streams s)" and n: "nt_isLeader (sv_streams s) = sv_isLeader s"
    using assms by (auto simp: nup_inv_def streams_ok_def)
  show "(x < length (nt_ctxs (sv_streams s)) \<and> \<not> cancelled (nt_ctxs (sv_streams s)) x) \<longleftrightarrow>
      (\<exists>i. gm_get (nt_streams (sv_streams s)) i = Some x)"
    using live_exact_iff v by (simp add: streams_inv_def)
  show "gm_get (nt_streams (sv_streams s)) i = Some x \<Longrightarrow> sv_isLeader s"
    using v n by (auto simp: streams_inv_def split: if_splits)
  show "(i, t, y) \<in> set (nt_running (sv_streams s)) \<Longrightarrow>
      allowedNamespace pol (lt_Namespace t) \<and> (cancelled (nt_ctxs (sv_streams s)) y \<or> gm_get (nt_streams (sv_streams s)) i = Some y)"
    using running_live [OF v] c by (auto simp: streams_checked_def list_all_iff)
qed

section \<open>Properties\<close>


text \<open>The witness: a service that takes the lead and is told to watch the pods of \<open>app\<close>.\<close>

definition nup_demo_fetch :: fetch_env where
  "nup_demo_fetch =
     \<lparr> fe_host = (\<lambda>_. Inr ''s3''), fe_tempdir = (\<lambda>_. Inr ''/tmp/x''), fe_mkdir = (\<lambda>_. None), fe_write = (\<lambda>_ _. None),
       fe_targz = (\<lambda>xs. Inr (int (length xs))), fe_zip = (\<lambda>xs. Inr (int (length xs))), fe_stat = (\<lambda>_. None),
       fe_open = (\<lambda>_. None), fe_logs = (\<lambda>_ _. Inr ''line''), fe_pod = (\<lambda>_ _. Inr []), fe_replicaset = (\<lambda>_ _. Inr []),
       fe_stamp = (\<lambda>_. ''20250101T000000Z''), fe_order = (\<lambda>ts. ts), fe_create = (\<lambda>_. None),
       fe_put = (\<lambda>_ _ _. Answered 200 [] 0), fe_ended = (\<lambda>_ _. False), fe_text = (\<lambda>_. []) \<rparr>"

definition nup_demo_env :: service_env where
  "nup_demo_env =
     \<lparr> se_pol = defaultPolicy,
       se_cfg = \<lparr> ng_KafkaBrokers = [], ng_TopicCommandsIn = [], ng_TopicCommandsOut = [], ng_TopicClusterEvents = [],
                  ng_TopicDLQ = [], ng_ConsumerGroup = [], ng_HTTPAddr = [], ng_PolicyFile = [], ng_LeaderElectionEnabled = False,
                  ng_LeaderLeaseName = [], ng_LeaderLeaseNamespace = [], ng_TempDir = ''/tmp'', ng_MaxRetries = 5,
                  ng_RetryBaseDelay = 200000000, ng_InlineListMaxBytes = 0 \<rparr>,
       se_cluster = pod_everywhere, se_fetch = nup_demo_fetch, se_compile = (\<lambda>_. Inr (\<lambda>l. Some l)), se_add = None, se_sync = True,
       se_wait = None, se_publish = (\<lambda>_. None), se_dead = (\<lambda>_. None) \<rparr>"

definition watch_message :: http_body where
  "watch_message =
     BodyJson (JObj [(''command_id'', JStr ''c1''), (''idempotency_key'', JStr ''k1''), (''type'', JStr ''watch.subscribe''),
       (''issued_by'', JStr ''core-prod''), (''ts'', JStr ''2025-01-01T00:00:00Z''),
       (''target'', JObj [(''version'', JStr ''v1''), (''kind'', JStr ''Pod''), (''namespace'', JStr ''app'')]),
       (''payload'', JObj [(''subscription_id'', JStr ''w1''), (''namespace'', JStr ''app''),
          (''gvk'', JObj [(''version'', JStr ''v1''), (''kind'', JStr ''Pod'')])])])"

definition demo_watching :: nup_service where
  "demo_watching = fst (nup_handleMessage nup_demo_env (nup_setLeader True nup_New) watch_message (0, 1))"

lemma demo_watching_reachable: "reachable nup_init (nup_step defaultPolicy) demo_watching"
proof -
  have "reachable nup_init (nup_step defaultPolicy) nup_New" by (rule reach_init) (simp add: nup_init_def)
  then have "reachable nup_init (nup_step defaultPolicy) (nup_setLeader True nup_New)" by (rule reach_step) (rule step_leader)
  then show ?thesis
  proof (rule reach_step)
    show "nup_step defaultPolicy (nup_setLeader True nup_New) demo_watching"
      unfolding demo_watching_def
      by (rule step_message [of nup_demo_env, OF _ prod.collapse [symmetric]]) (simp add: nup_demo_env_def)
  qed
qed

lemma demo_watching_table: "map_option snd (gm_get (nw_subs (sv_watches demo_watching)) ''w1'') = Some 0"
  by code_simp


text \<open>
  C26: The archived agent acts only on commands that pass its checks. A message that changes a watch or a log stream, or
  whose result is not a rejection, decodes to a command that validation and the policy accept, once the limiter lets
  it through; watches change only for the two watch commands and streams only for the two stream commands. The
  policy has then accepted type, kind, namespace and issuer of the target.
\<close>

theorem nup_guarded:
  assumes "nup_handleMessage e s body t = (s', out)"
    and "sv_watches s' \<noteq> sv_watches s \<or> sv_streams s' \<noteq> sv_streams s \<or>
      list_ex (\<lambda>r. nr_Status r \<noteq> NupRejected) (drop (length (sv_out s)) (sv_out s'))"
  shows "\<exists>c. decode_nup_command body = Inr c \<and> nup_Validate c = None \<and> CheckCommand (se_pol e) c = None \<and> se_wait e = None \<and>
    (sv_watches s' = sv_watches s \<or> nc_Type c \<in> {NupWatchSubscribe, NupWatchUnsubscribe}) \<and>
    (sv_streams s' = sv_streams s \<or> nc_Type c \<in> {NupLogsSubscribe, NupLogsUnsubscribe}) \<and>
    nc_Type c \<in> set (np_AllowedCommandTypes (se_pol e)) \<and>
    (tg_Kind (nc_Target c) = [] \<or> target_gvk (nc_Target c) \<in> set (np_AllowedGVK (se_pol e))) \<and>
    allowedNamespace (se_pol e) (tg_Namespace (nc_Target c)) \<and>
    allowedIssuer (se_pol e) (nc_IssuedBy c) (tg_Namespace (nc_Target c))"
  using assms(1)
proof (cases rule: nup_handleMessage_cases)
  case (routed c s1 res)
  have "sv_watches s1 = sv_watches s \<or> nc_Type c \<in> {NupWatchSubscribe, NupWatchUnsubscribe}"
    "sv_streams s1 = sv_streams s \<or> nc_Type c \<in> {NupLogsSubscribe, NupLogsUnsubscribe}"
    using routed(5) by (cases rule: route_cases; auto)+
  moreover have "sv_watches s' = sv_watches s1" "sv_streams s' = sv_streams s1"
    using routed(6,8) by (cases out; auto simp: publish_result_def)+
  ultimately show ?thesis using routed(1-4) CheckCommand_None(1-4) [OF routed(3)] by auto
qed (use assms(2) in \<open>auto simp: publish_result_def published_def split: if_splits\<close>)

theorem nup_guarded_witness:
  "\<exists>c. decode_nup_command watch_message = Inr c \<and> CheckCommand defaultPolicy c = None \<and>
     nc_Type c \<in> {NupWatchSubscribe, NupWatchUnsubscribe}"
proof -
  let ?s = "nup_setLeader True nup_New"
  have "nw_subs (sv_watches ?s) = []" by (simp add: nup_setLeader_def nup_New_def nup_watches_new_def watches_SetLeader_def)
  then have c: "sv_watches demo_watching \<noteq> sv_watches ?s" using demo_watching_table by fastforce
  then show ?thesis
    using nup_guarded [OF prod.collapse [symmetric], of nup_demo_env ?s watch_message "(0, 1)"]
    unfolding demo_watching_def [symmetric] by (auto simp: nup_demo_env_def)
qed

text \<open>Only \<open>file.fetch\<close> lists all pages.\<close>

lemma nup_on_out: "snd (nup_on sel upd h s c t) = snd (h (sel s) c t)"
  by (simp add: nup_on_def split: prod.split)

lemma unsubscribe_returns: "snd (nup_unsubscribe unsub m c t) \<noteq> Hangs"
  by (simp add: nup_unsubscribe_def split: sum.split option.split prod.split)

lemma handlers_return:
  "snd (ListHandler_Handle pol n k m c t) \<noteq> Hangs" "snd (nup_watch_Subscribe pol rm add sync m1 c t) \<noteq> Hangs"
  "snd (nup_logs_Subscribe pol compile m2 c t) \<noteq> Hangs" "snd (nup_watch_Unsubscribe m1 c t) \<noteq> Hangs"
  "snd (nup_logs_Unsubscribe m2 c t) \<noteq> Hangs"
  by (simp_all add: ListHandler_Handle_def nup_watch_Subscribe_def nup_logs_Subscribe_def nup_watch_Unsubscribe_def
      nup_logs_Unsubscribe_def unsubscribe_returns split: sum.split option.split prod.split)

lemma route_hangs:
  assumes "nup_Route (service_router e) s c t = (s', Hangs)"
  shows "nc_Type c = NupFileFetch"
proof (cases "gm_get (service_router e) (nc_Type c)")
  case (Some h)
  have "snd (h s c t) = Hangs" using assms Some by (simp add: nup_Route_def)
  moreover have "(nc_Type c, h) \<in> set (service_handlers e)"
    using Some unfolding service_router_def by (rule nup_NewRouter_get)
  ultimately show ?thesis unfolding service_handlers_def by (auto simp: nup_on_out handlers_return)
qed (use assms in \<open>simp add: nup_Route_def\<close>)

lemma validated_type: "nup_Validate c = None \<Longrightarrow> nc_Type c \<in> set allowedTypes"
  by (auto simp: nup_Validate_def split: if_splits)

lemma route_publishes:
  assumes "nup_Route (service_router e) s c t = (s', out)" and "\<And>r. se_publish e r = None"
  shows "\<exists>prog. sv_out s' = sv_out s @ prog \<and> list_all (\<lambda>x. nr_CommandID x = nc_CommandID c \<and> nr_Status x = NupExecuting) prog"
  using assms(1)
proof (cases rule: route_cases)
  case (progress prog)
  then show ?thesis using assms(2) by (intro exI [of _ prog]) (simp add: published_def)
qed auto



section \<open>Limits\<close>

text \<open>A message whose handling fails is not committed, but the next commit, of a later offset, passes it.\<close>

lemma consumer_passes_failed:
  assumes "h s b1 t1 = (s1, HandlingError err)" and "h s1 b2 t2 = (s2, Handled)"
  shows "consumer_Run h s committed [Fetched n b1 t1 c1, Fetched (n + 1) b2 t2 None] = (s2, committed @ [n + 1], None)"
  using assms by simp

text \<open>What the consumer commits are offsets it fetched, in order.\<close>

lemma consumer_commits:
  assumes "consumer_Run h s committed msgs = (s', committed', r)"
  shows "\<exists>offs. committed' = committed @ offs \<and> subseq offs (concat (map (\<lambda>m. case m of Fetched n _ _ _ \<Rightarrow> [n] | _ \<Rightarrow> []) msgs))"
  using assms
proof (induction h s committed msgs rule: consumer_Run.induct)
  case (3 h s committed off body t commit rest)
  obtain s1 out where h: "h s body t = (s1, out)" by fastforce
  show ?case
  proof (cases out)
    case Handled
    show ?thesis
    proof (cases commit)
      case None
      from 3(1) [OF h [symmetric] Handled None] 3(3) show ?thesis by (auto simp: h Handled None)
    qed (use 3(3) h Handled in auto)
  next
    case (HandlingError e)
    from 3(2) [OF h [symmetric] HandlingError] 3(3) show ?thesis by (auto simp: h HandlingError)
  qed (use 3(3) h in auto)
qed auto

text \<open>A deletion that the informer missed comes as a tombstone, and ends the program.\<close>

lemma tombstone_panics: "''DELETE'' \<in> set (nup_filter p) \<Longrightarrow> nup_notify compare p now (NDelete (NTombstone o1)) = Panic"
  by simp

text \<open>The pods of one name in two namespaces share a file: two are counted, one is archived.\<close>

lemma batch_collides:
  "let b = batch_run nup_demo_fetch ''/tmp/x/logs''
             \<lparr> bt_Targets = [no_log_target\<lparr> lt_Namespace := ''app'', lt_Pod := ''web'' \<rparr>,
                             no_log_target\<lparr> lt_Namespace := ''istio-system'', lt_Pod := ''web'' \<rparr>],
               bt_SinceSeconds = None, bt_TailLines = None, bt_LimitBytes = None \<rparr>
   in bs_count b = 2 \<and> length (dir_entries ''/tmp/x/logs'' (bs_files b)) = 1 \<and> bs_errors b = []"
  by code_simp

end
