(* ===== verification/Mock_Core.thy ===== *)
theory Mock_Core
  imports Kafka Node_Logs
begin

text \<open>
  The mock core library for development clusters, \<open>hack/mockcorelib\<close>: topics (\<open>topics.go\<close>), messages and waiting for
  replies (\<open>kafka.go\<close>), test scenarios (\<open>scenario.go\<close>), and their runs by \<open>hack/mock-core/main.go\<close>. The broker, the files and \<open>kubectl\<close> are parameters; a loop
  that waits recurses over the list of what it meets.
\<close>

section \<open>Topics (topics.go)\<close>

record topic_spec =
  ts_Name :: string
  ts_Partitions :: int

definition mock_DefaultRequestTopic :: string where "mock_DefaultRequestTopic = ''k8s.commands.request''"

definition mock_DefaultReplyTopic :: string where "mock_DefaultReplyTopic = ''core-client.dev.responses''"

definition mock_DefaultTopics :: "topic_spec list" where
  "mock_DefaultTopics =
     map (\<lambda>n. \<lparr> ts_Name = n, ts_Partitions = 1 \<rparr>)
       [mock_DefaultRequestTopic, mock_DefaultReplyTopic, ''cluster.events'', ''logs.stream'', ''cluster.health'', ''agent.lifecycle'']"

text \<open>\<open>is_exists\<close> and \<open>is_unknown\<close> are the two tests with \<open>errors.Is\<close>, \<open>text\<close> is \<open>err.Error()\<close>.\<close>

definition isTopicAlreadyExists :: "(go_error \<Rightarrow> bool) \<Rightarrow> (go_error \<Rightarrow> string) \<Rightarrow> go_error \<Rightarrow> bool" where
  "isTopicAlreadyExists is_exists text err \<longleftrightarrow>
     is_exists err \<or>
     (let msg = ToLower (text err)
      in Contains msg ''topic already exists'' \<or> Contains msg ''already been created'' \<or> Contains msg ''topic_already_exists'')"

definition isUnknownTopicOrPartition :: "(go_error \<Rightarrow> bool) \<Rightarrow> (go_error \<Rightarrow> string) \<Rightarrow> go_error \<Rightarrow> bool" where
  "isUnknownTopicOrPartition is_unknown text err \<longleftrightarrow>
     is_unknown err \<or>
     (let msg = ToLower (text err) in Contains msg ''unknown topic or partition'' \<or> Contains msg ''unknown topic'')"

definition topic_configs :: "topic_spec list \<Rightarrow> topic_spec list" where
  "topic_configs specs =
     map (\<lambda>t. t\<lparr> ts_Partitions := (if ts_Partitions t < 1 then 1 else ts_Partitions t) \<rparr>) (filter (\<lambda>t. ts_Name t \<noteq> []) specs)"

text \<open>A broker: dialling, creating topics and the two tests on errors.\<close>

record mock_broker =
  mb_dial :: "string \<Rightarrow> go_error option"
  mb_create :: "topic_spec list \<Rightarrow> go_error option"
  mb_is_exists :: "go_error \<Rightarrow> bool"
  mb_is_unknown :: "go_error \<Rightarrow> bool"
  mb_text :: "go_error \<Rightarrow> string"

definition EnsureTopics :: "mock_broker \<Rightarrow> string list \<Rightarrow> topic_spec list \<Rightarrow> go_error option" where
  "EnsureTopics b brokers specs =
     (case brokers of
        [] \<Rightarrow> Some (Errorf ''no kafka brokers configured'' [])
      | broker # _ \<Rightarrow>
          (case mb_dial b broker of
             Some e \<Rightarrow> Some (Errorf ''dial kafka %s: %w'' [AStr broker, AErr e])
           | None \<Rightarrow>
               let configs = topic_configs (if specs = [] then mock_DefaultTopics else specs) in
               if configs = [] then None
               else case mb_create b configs of
                      None \<Rightarrow> None
                    | Some e \<Rightarrow>
                        if isTopicAlreadyExists (mb_is_exists b) (mb_text b) e then None
                        else Some (Errorf ''create topics: %w'' [AErr e])))"

text \<open>
  A read that fails with an unknown topic is tried again before the deadline: the results of the reads, each with
  whether the deadline is still ahead then; \<open>None\<close> when the list is over.
\<close>

fun readMessageWithTopicRetry :: "mock_broker \<Rightarrow> ((go_error + 'm) \<times> bool) list \<Rightarrow> (go_error + 'm) option" where
  "readMessageWithTopicRetry b [] = None"
| "readMessageWithTopicRetry b ((Inr msg, before) # rest) = Some (Inr msg)"
| "readMessageWithTopicRetry b ((Inl err, before) # rest) =
     (if isUnknownTopicOrPartition (mb_is_unknown b) (mb_text b) err \<and> before then readMessageWithTopicRetry b rest
      else Some (Inl err))"

section \<open>Messages (kafka.go)\<close>

record mock_message =
  mk_Topic :: string
  mk_Partition :: int
  mk_Offset :: int
  mk_Key :: string
  mk_Body :: http_body
  mk_Headers :: "(string, string) gomap"
  mk_CorrelationID :: string

definition SplitBrokers :: "string \<Rightarrow> string list" where
  "SplitBrokers s = filter (\<lambda>p. p \<noteq> []) (map TrimSpace (SplitChar (CHR '','') s))"

fun mock_HeaderValue :: "(string \<times> string) list \<Rightarrow> string \<Rightarrow> string" where
  "mock_HeaderValue [] key = []"
| "mock_HeaderValue ((k, v) # hs) key = (if k = key then v else mock_HeaderValue hs key)"

definition HeadersMap :: "(string \<times> string) list \<Rightarrow> (string, string) gomap" where
  "HeadersMap headers = fold (\<lambda>(k, v). gm_put k v) headers []"

text \<open>\<open>quote\<close> is the verb \<open>%q\<close>, for a value that is not JSON.\<close>

definition FormatMessage :: "(string \<Rightarrow> string) \<Rightarrow> string \<Rightarrow> kmsg \<Rightarrow> mock_message" where
  "FormatMessage quote topic msg =
     \<lparr> mk_Topic = topic, mk_Partition = km_Partition msg, mk_Offset = km_Offset msg, mk_Key = km_Key msg,
       mk_Body = (case km_Value msg of BodyJson j \<Rightarrow> BodyJson j | BodyRaw s \<Rightarrow> BodyRaw (quote s)),
       mk_Headers = HeadersMap (km_Headers msg), mk_CorrelationID = mock_HeaderValue (km_Headers msg) ''correlation_id'' \<rparr>"

record send_result =
  sr_CorrelationID :: string
  sr_ReplyTopic :: string
  sr_RequestTopic :: string

text \<open>\<open>write\<close> is the writer of the request topic; the message and the result carry the new correlation id.\<close>

definition command_message :: "string \<Rightarrow> string \<Rightarrow> string \<Rightarrow> http_body \<Rightarrow> kmsg" where
  "command_message requestTopic replyTopic corrID body =
     \<lparr> km_Topic = requestTopic, km_Key = [], km_Value = body,
       km_Headers = [(''correlation_id'', corrID), (''reply_topic'', replyTopic)], km_Partition = 0, km_Offset = 0 \<rparr>"

definition or_topic :: "string \<Rightarrow> string \<Rightarrow> string" where
  "or_topic topic fallback = (if topic = [] then fallback else topic)"

definition SendCommand ::
  "mock_broker \<Rightarrow> (kmsg \<Rightarrow> go_error option) \<Rightarrow> string list \<Rightarrow> string \<Rightarrow> string \<Rightarrow> string \<Rightarrow> http_body
     \<Rightarrow> go_error + send_result" where
  "SendCommand b wr brokers corrID requestTopic replyTopic body =
     (let req = or_topic requestTopic mock_DefaultRequestTopic; rep = or_topic replyTopic mock_DefaultReplyTopic in
      case EnsureTopics b brokers [\<lparr> ts_Name = req, ts_Partitions = 1 \<rparr>, \<lparr> ts_Name = rep, ts_Partitions = 1 \<rparr>] of
        Some e \<Rightarrow> Inl (Errorf ''ensure topics: %w'' [AErr e])
      | None \<Rightarrow>
          (case wr (command_message req rep corrID body) of
             Some e \<Rightarrow> Inl e
           | None \<Rightarrow> Inr \<lparr> sr_CorrelationID = corrID, sr_ReplyTopic = rep, sr_RequestTopic = req \<rparr>))"

text \<open>
  What \<open>listenOnceWithReader\<close> meets in a pass of its loop: the time is over, the read fails, or a message. Its error,
  or the message handed to \<open>onMatch\<close>; \<open>None\<close> when the list is over.
\<close>

datatype listen_turn = TimeOver | ReadFailed go_error | ReadMessage kmsg

fun listenOnce :: "(string \<Rightarrow> string) \<Rightarrow> string \<Rightarrow> string \<Rightarrow> listen_turn list \<Rightarrow> (go_error + mock_message) option" where
  "listenOnce quote replyTopic corrID [] = None"
| "listenOnce quote replyTopic corrID (TimeOver # ts) =
     Some (Inl (Errorf ''timeout waiting for reply on %s (no matching correlation_id; check agent is consuming request topic)''
                  [AStr replyTopic]))"
| "listenOnce quote replyTopic corrID (ReadFailed err # ts) = Some (Inl err)"
| "listenOnce quote replyTopic corrID (ReadMessage msg # ts) =
     (if mock_HeaderValue (km_Headers msg) ''correlation_id'' \<noteq> corrID then listenOnce quote replyTopic corrID ts
      else Some (Inr (FormatMessage quote replyTopic msg)))"

text \<open>\<open>StreamMessages\<close>: each read, with whether the context has ended by then; the messages sent and the error.\<close>

fun StreamMessages ::
  "(string \<Rightarrow> string) \<Rightarrow> string \<Rightarrow> string \<Rightarrow> ((go_error + kmsg) \<times> bool) list \<Rightarrow> mock_message list \<times> go_error option" where
  "StreamMessages quote topic corrID [] = ([], None)"
| "StreamMessages quote topic corrID ((Inl err, ended) # rest) = ([], if ended then None else Some err)"
| "StreamMessages quote topic corrID ((Inr msg, ended) # rest) =
     (if corrID \<noteq> [] \<and> mock_HeaderValue (km_Headers msg) ''correlation_id'' \<noteq> corrID
      then StreamMessages quote topic corrID rest
      else if ended then ([], None)
      else case StreamMessages quote topic corrID rest of (out, e) \<Rightarrow> (FormatMessage quote topic msg # out, e))"

definition recent_limit :: "int \<Rightarrow> int" where
  "recent_limit limit = (let limit = (if limit \<le> 0 then 50 else limit) in if limit > 500 then 500 else limit)"

definition recent_start :: "int \<Rightarrow> string \<Rightarrow> int \<Rightarrow> int \<Rightarrow> int" where
  "recent_start limit corrID first lst =
     (let scanLimit = (if corrID \<noteq> [] then (if limit * 20 > 2000 then 2000 else limit * 20) else limit);
          start = lst - scanLimit
      in if start < first then first else start)"

text \<open>
  The loop over the messages of the partition from the start; the list ends where a read fails. The messages, and
  whether the loop went on until that failure.
\<close>

fun recent_loop :: "(string \<Rightarrow> string) \<Rightarrow> string \<Rightarrow> string \<Rightarrow> int \<Rightarrow> kmsg list \<Rightarrow> mock_message list \<times> bool" where
  "recent_loop quote topic corrID lst [] = ([], True)"
| "recent_loop quote topic corrID lst (msg # msgs) =
     (if corrID \<noteq> [] \<and> mock_HeaderValue (km_Headers msg) ''correlation_id'' \<noteq> corrID
      then recent_loop quote topic corrID lst msgs
      else if km_Offset msg + 1 \<ge> lst then ([FormatMessage quote topic msg], False)
      else case recent_loop quote topic corrID lst msgs of (out, w) \<Rightarrow> (FormatMessage quote topic msg # out, w))"

text \<open>\<open>offsets\<close>, \<open>seek\<close> and \<open>from\<close> are the connection to the leader of the partition.\<close>

definition ReadRecentMessages ::
  "(string \<Rightarrow> string) \<Rightarrow> (string \<Rightarrow> go_error option) \<Rightarrow> (go_error + int \<times> int) \<Rightarrow> (int \<Rightarrow> go_error option) \<Rightarrow> (int \<Rightarrow> kmsg list)
     \<Rightarrow> string list \<Rightarrow> string \<Rightarrow> int \<Rightarrow> string \<Rightarrow> go_error + mock_message list" where
  "ReadRecentMessages quote dial offsets seek msgs_from brokers topic limit corrID =
     (if brokers = [] then Inl (Errorf ''no kafka brokers configured'' [])
      else if topic = [] then Inl (Errorf ''topic is required'' [])
      else
        let limit = recent_limit limit in
        case dial (hd brokers) of
          Some e \<Rightarrow> Inl (Errorf ''dial leader for %s: %w'' [AStr topic, AErr e])
        | None \<Rightarrow>
            (case offsets of
               Inl e \<Rightarrow> Inl (Errorf ''read offsets for %s: %w'' [AStr topic, AErr e])
             | Inr (first, lst) \<Rightarrow>
                 if lst \<le> first then Inr []
                 else
                   let start = recent_start limit corrID first lst in
                   case seek start of
                     Some e \<Rightarrow> Inl (Errorf ''seek %s@%d: %w'' [AStr topic, AInt start, AErr e])
                   | None \<Rightarrow>
                       let out = fst (recent_loop quote topic corrID lst (msgs_from start))
                       in Inr (if corrID \<noteq> [] \<and> int (length out) > limit then drop (nat (int (length out) - limit)) out else out)))"

section \<open>Scenarios (scenario.go)\<close>

record scenario_expect =
  xp_Status :: string
  xp_HTTPStatus :: int
  xp_BodyContains :: "string list"
  xp_Fields :: "(string, string) gomap"

record scenario_stream =
  xs_Topic :: string
  xs_Timeout :: gtime
  xs_MinMessages :: int
  xs_BodyContains :: "string list"

record scenario =
  sc_ID :: string
  sc_Name :: string
  sc_Command :: string
  sc_Cleanup :: string
  sc_ReplyTimeout :: gtime
  sc_Expect :: scenario_expect
  sc_Stream :: "scenario_stream option"
  sc_Trigger :: string
  sc_Namespace :: string
  sc_PodName :: string

definition scenario_defaults :: "scenario \<Rightarrow> scenario" where
  "scenario_defaults s =
     s\<lparr> sc_ReplyTimeout := (if sc_ReplyTimeout s \<le> 0 then 120 * second else sc_ReplyTimeout s),
        sc_Stream := map_option (\<lambda>x. if xs_Timeout x \<le> 0 then x\<lparr> xs_Timeout := 60 * second \<rparr> else x) (sc_Stream s) \<rparr>"

definition LoadScenarios ::
  "(string \<Rightarrow> go_error + string) \<Rightarrow> (string \<Rightarrow> go_error + scenario list) \<Rightarrow> string \<Rightarrow> go_error + scenario list" where
  "LoadScenarios read yaml path =
     (case read path of
        Inl e \<Rightarrow> Inl (Errorf ''read scenarios file: %w'' [AErr e])
      | Inr d \<Rightarrow>
          (case yaml d of
             Inl e \<Rightarrow> Inl (Errorf ''parse scenarios file: %w'' [AErr e])
           | Inr ss \<Rightarrow>
               if ss = [] then Inl (Errorf ''no scenarios defined in %s'' [AStr path])
               else Inr (map scenario_defaults ss)))"

fun FindScenario :: "scenario list \<Rightarrow> string \<Rightarrow> go_error + scenario" where
  "FindScenario [] i = Inl (Errorf ''scenario %q not found'' [AStr i])"
| "FindScenario (s # ss) i = (if sc_ID s = i then Inr s else FindScenario ss i)"

definition resolvePath :: "string \<Rightarrow> string \<Rightarrow> string" where
  "resolvePath repoRoot rel =
     (if HasPrefix rel ''/'' then rel else if repoRoot = [] then rel else path_join [repoRoot, rel])"

text \<open>
  What a scenario meets: files, \<open>SendCommand\<close>, the reads while it waits for a reply, those of the stream collector up
  to its end, and \<open>kubectl\<close> (its error and output). \<open>sn_text\<close> is the text of a body, \<open>sn_show\<close> the text of a JSON value
  that is not a string.
\<close>

datatype stream_turn = StreamEnded | StreamTimeout | StreamFailed bool | StreamGot kmsg

record scenario_env =
  sn_read :: "string \<Rightarrow> go_error + http_body"
  sn_send :: "http_body \<Rightarrow> go_error + send_result"
  sn_reply :: "string \<Rightarrow> listen_turn list"
  sn_stream :: "string \<Rightarrow> stream_turn list"
  sn_lookpath :: bool
  sn_kubectl :: "string list \<Rightarrow> (go_error \<times> string) option"
  sn_text :: "http_body \<Rightarrow> string"
  sn_show :: "json \<Rightarrow> string"
  sn_quote :: "string \<Rightarrow> string"

text \<open>A member of the reply; of two with the same name the last counts.\<close>

definition extractField :: "(json \<Rightarrow> string) \<Rightarrow> http_body \<Rightarrow> string \<Rightarrow> string" where
  "extractField show_json body key =
     (case body of
        BodyJson (JObj kvs) \<Rightarrow>
          (case map_of (rev kvs) key of
             None \<Rightarrow> [] | Some JNull \<Rightarrow> [] | Some (JStr s) \<Rightarrow> s | Some v \<Rightarrow> show_json v)
      | _ \<Rightarrow> [])"

definition reply_status :: "http_body \<Rightarrow> int" where
  "reply_status body =
     (case body of
        BodyJson (JObj kvs) \<Rightarrow> (case fld_int ''http_status'' kvs of None \<Rightarrow> 0 | Some n \<Rightarrow> n)
      | _ \<Rightarrow> 0)"

text \<open>The fields are checked in the order of the list; Go visits the map in any order.\<close>

definition assertExpectation :: "scenario_env \<Rightarrow> mock_message \<Rightarrow> scenario_expect \<Rightarrow> go_error option" where
  "assertExpectation w reply x =
     (let body = mk_Body reply; text = sn_text w body; field = extractField (sn_show w) body in
      first_error
        ([if xp_Status x \<noteq> [] \<and> field ''status'' \<noteq> xp_Status x
          then Some (Errorf ''status=%q want %q body=%s'' [AStr (field ''status''), AStr (xp_Status x), AStr text]) else None,
          if xp_HTTPStatus x > 0 \<and> reply_status body \<noteq> xp_HTTPStatus x
          then Some (Errorf ''http_status=%d want %d body=%s'' [AInt (reply_status body), AInt (xp_HTTPStatus x), AStr text])
          else None]
         @ map (\<lambda>(key, want). if field key \<noteq> want
             then Some (Errorf ''field %q=%q want %q body=%s'' [AStr key, AStr (field key), AStr want, AStr text]) else None)
             (xp_Fields x)
         @ map (\<lambda>needle. if \<not> Contains text needle then Some (Errorf ''reply body missing %q'' [AStr needle]) else None)
             (xp_BodyContains x)))"

fun collectStreamMessages ::
  "(string \<Rightarrow> string) \<Rightarrow> string \<Rightarrow> int \<Rightarrow> gtime \<Rightarrow> mock_message list \<Rightarrow> stream_turn list \<Rightarrow> (mock_message list \<times> go_error option) option" where
  "collectStreamMessages quote topic minN timeout out turns =
     (if int (length out) \<ge> minN then Some (out, None)
      else case turns of
             [] \<Rightarrow> None
           | StreamEnded # _ \<Rightarrow> Some (out, Some (LibErr ''context''))
           | StreamTimeout # _ \<Rightarrow>
               Some (out, Some (Errorf ''timeout after %s: got %d messages, want >= %d'' [AInt timeout, AInt (int (length out)), AInt minN]))
           | StreamFailed ended # rest \<Rightarrow>
               if ended then Some (out, Some (LibErr ''context'')) else collectStreamMessages quote topic minN timeout out rest
           | StreamGot msg # rest \<Rightarrow> collectStreamMessages quote topic minN timeout (out @ [FormatMessage quote topic msg]) rest)"

definition kubectlNamespaceCreate :: "scenario_env \<Rightarrow> string \<Rightarrow> go_error option" where
  "kubectlNamespaceCreate w ns =
     (if ns = [] then Some (Errorf ''namespace is required'' [])
      else if \<not> sn_lookpath w then Some (Errorf ''kubectl not found in PATH'' [])
      else case sn_kubectl w [''create'', ''namespace'', ns] of
             None \<Rightarrow> None
           | Some (e, out) \<Rightarrow> Some (Errorf ''kubectl create namespace: %w: %s'' [AErr e, AStr (TrimSpace out)]))"

definition kubectlPodChurn :: "scenario_env \<Rightarrow> string \<Rightarrow> string \<Rightarrow> go_error option" where
  "kubectlPodChurn w ns pod =
     (if ns = [] \<or> pod = [] then Some (Errorf ''namespace and pod_name are required'' [])
      else if \<not> sn_lookpath w then Some (Errorf ''kubectl not found in PATH'' [])
      else case sn_kubectl w [''run'', pod, ''--image=busybox:1.36'', ''--restart=Never'', ''-n'', ns, ''--'', ''sleep'', ''120''] of
             None \<Rightarrow> None
           | Some (e, out) \<Rightarrow> Some (Errorf ''kubectl run: %w: %s'' [AErr e, AStr (TrimSpace out)]))"

definition runTrigger :: "scenario_env \<Rightarrow> scenario \<Rightarrow> go_error option" where
  "runTrigger w s =
     (if sc_Trigger s = ''kubectl_pod_churn'' then kubectlPodChurn w (sc_Namespace s) (sc_PodName s)
      else if sc_Trigger s = ''kubectl_namespace_create'' then kubectlNamespaceCreate w (sc_Namespace s)
      else Some (Errorf ''unknown trigger %q'' [AStr (sc_Trigger s)]))"

text \<open>The messages of the stream once the collector has ended.\<close>

definition check_stream :: "scenario_env \<Rightarrow> scenario_stream \<Rightarrow> string \<Rightarrow> mock_message list \<Rightarrow> go_error option" where
  "check_stream w x subscriptionID msgs =
     (let ms = (if subscriptionID \<noteq> [] then filter (\<lambda>m. Contains (sn_text w (mk_Body m)) subscriptionID) msgs else msgs) in
      first_error
        ((if int (length ms) < xs_MinMessages x
          then Some (Errorf ''stream %q: got %d messages, want >= %d''
                       [AStr (xs_Topic x), AInt (int (length ms)), AInt (xs_MinMessages x)]) else None) #
         map (\<lambda>needle. if list_ex (\<lambda>m. Contains (sn_text w (mk_Body m)) needle) ms then None
                  else Some (Errorf ''stream %q: no message contains %q'' [AStr (xs_Topic x), AStr needle])) (xs_BodyContains x)))"

text \<open>\<open>None\<close>: the wait for a reply or for the collector never ends.\<close>

definition run_stream :: "scenario_env \<Rightarrow> scenario \<Rightarrow> mock_message \<Rightarrow> go_error option option" where
  "run_stream w s reply =
     (case sc_Stream s of
        None \<Rightarrow> Some None
      | Some x \<Rightarrow>
          (case collectStreamMessages (sn_quote w) (xs_Topic x) (if xs_MinMessages x < 1 then 1 else xs_MinMessages x)
                  (xs_Timeout x) []
                  (sn_stream w (xs_Topic x)) of
             None \<Rightarrow> None
           | Some (msgs, Some e) \<Rightarrow> Some (Some (Errorf ''stream %q: %w'' [AStr (xs_Topic x), AErr e]))
           | Some (msgs, None) \<Rightarrow> Some (check_stream w x (extractField (sn_show w) (mk_Body reply) ''subscription_id'') msgs)))"

definition run_cleanup :: "scenario_env \<Rightarrow> string \<Rightarrow> string \<Rightarrow> scenario \<Rightarrow> go_error option option" where
  "run_cleanup w repoRoot replyTopic s =
     (if sc_Cleanup s = [] then Some None
      else case sn_read w (resolvePath repoRoot (sc_Cleanup s)) of
             Inl e \<Rightarrow> Some (Some (Errorf ''read cleanup file: %w'' [AErr e]))
           | Inr body \<Rightarrow>
               (case sn_send w body of
                  Inl e \<Rightarrow> Some (Some (Errorf ''send cleanup: %w'' [AErr e]))
                | Inr r \<Rightarrow>
                    (case listenOnce (sn_quote w) replyTopic (sr_CorrelationID r) (sn_reply w (sr_CorrelationID r)) of
                       None \<Rightarrow> None
                     | Some (Inl e) \<Rightarrow> Some (Some (Errorf ''cleanup reply: %w'' [AErr (Errorf ''wait reply: %w'' [AErr e])]))
                     | Some (Inr _) \<Rightarrow> Some None)))"

definition RunScenario :: "scenario_env \<Rightarrow> string \<Rightarrow> string \<Rightarrow> scenario \<Rightarrow> go_error option option" where
  "RunScenario w replyTopic repoRoot s =
     (case sn_read w (resolvePath repoRoot (sc_Command s)) of
        Inl e \<Rightarrow> Some (Some (Errorf ''read command file: %w'' [AErr e]))
      | Inr body \<Rightarrow>
          (case sn_send w body of
             Inl e \<Rightarrow> Some (Some (Errorf ''send command: %w'' [AErr e]))
           | Inr r \<Rightarrow>
               (case listenOnce (sn_quote w) replyTopic (sr_CorrelationID r) (sn_reply w (sr_CorrelationID r)) of
                  None \<Rightarrow> None
                | Some (Inl e) \<Rightarrow> Some (Some (Errorf ''wait reply: %w'' [AErr e]))
                | Some (Inr reply) \<Rightarrow>
                    (case assertExpectation w reply (sc_Expect s) of
                       Some e \<Rightarrow> Some (Some (Errorf ''reply assertion: %w'' [AErr e]))
                     | None \<Rightarrow>
                         (case (if sc_Trigger s = [] then None else runTrigger w s) of
                            Some e \<Rightarrow> Some (Some (Errorf ''trigger %q: %w'' [AStr (sc_Trigger s), AErr e]))
                          | None \<Rightarrow>
                              (case run_stream w s reply of
                                 None \<Rightarrow> None
                               | Some (Some e) \<Rightarrow> Some (Some e)
                               | Some None \<Rightarrow> run_cleanup w repoRoot replyTopic s))))))"

text \<open>The failures of a catalogue: the scenarios that returned an error. The list of what each returned.\<close>

definition scenario_failures :: "(scenario \<times> go_error option) list \<Rightarrow> (string \<times> go_error) list" where
  "scenario_failures rs = concat (map (\<lambda>(s, r). case r of None \<Rightarrow> [] | Some e \<Rightarrow> [(sc_ID s, e)]) rs)"

section \<open>Properties\<close>

text \<open>Of two headers with one key \<open>HeaderValue\<close> takes the first and the map keeps the last.\<close>

lemma mock_HeaderValue_first: "mock_HeaderValue hs key = (case map_of hs key of None \<Rightarrow> [] | Some v \<Rightarrow> v)"
  by (induction hs key rule: mock_HeaderValue.induct) auto

lemma HeadersMap_last: "gm_get (HeadersMap hs) key = map_of (rev hs) key"
proof -
  have "gm_get (fold (\<lambda>(k, v). gm_put k v) hs m) key = (case map_of (rev hs) key of None \<Rightarrow> gm_get m key | r \<Rightarrow> r)" for m
  proof (induction hs arbitrary: m)
    case (Cons h hs)
    obtain k v where h: "h = (k, v)" by fastforce
    show ?case using Cons.IH [of "gm_put k v m"] by (auto simp: h map_add_def split: option.splits if_splits)
  qed simp
  from this [of "[]"] show ?thesis by (simp add: HeadersMap_def split: option.split)
qed

text \<open>A wait returns the first message with its correlation id, when the reads give it before an end.\<close>

lemma listenOnce_first:
  assumes "list_all (\<lambda>t. case t of ReadMessage m \<Rightarrow> mock_HeaderValue (km_Headers m) ''correlation_id'' \<noteq> corrID | _ \<Rightarrow> False) ts"
    and "mock_HeaderValue (km_Headers msg) ''correlation_id'' = corrID"
  shows "listenOnce quote topic corrID (ts @ ReadMessage msg # rest) = Some (Inr (FormatMessage quote topic msg))"
  using assms by (induction ts) (auto split: listen_turn.splits)

text \<open>The time out of a wait is looked at between two reads only: without a message the wait never ends.\<close>

lemma listenOnce_silent: "listenOnce quote topic corrID [] = None"
  by simp

definition wanted :: "string \<Rightarrow> kmsg \<Rightarrow> bool" where
  "wanted corrID msg \<longleftrightarrow> corrID = [] \<or> mock_HeaderValue (km_Headers msg) ''correlation_id'' = corrID"

text \<open>
  Reading a partition up to its last offset gives the wanted messages in order; the loop stops by itself exactly when
  the last message is a wanted one, and else waits for the read to fail.
\<close>

lemma recent_loop_reference:
  assumes "list_all (\<lambda>m. km_Offset m + 1 < lst) ms" and "km_Offset msg + 1 = lst"
  shows "recent_loop quote topic corrID lst (ms @ [msg]) =
    (map (FormatMessage quote topic) (filter (wanted corrID) (ms @ [msg])), \<not> wanted corrID msg)"
  using assms by (induction ms) (auto simp: wanted_def)

lemma recent_start_window:
  assumes "first < lst" and "0 < limit"
  shows "first \<le> recent_start limit corrID first lst" "recent_start limit corrID first lst < lst"
    "corrID = [] \<Longrightarrow> lst - recent_start limit corrID first lst \<le> limit"
  using assms by (auto simp: recent_start_def Let_def)

text \<open>The history without a filter: the newest messages, at most the limit, in order.\<close>

lemma ReadRecentMessages_plain:
  assumes "dial (hd brokers) = None" and "brokers \<noteq> []" and "topic \<noteq> []" and "first < lst" and "\<And>i. seek i = None"
    and "\<And>i. first \<le> i \<Longrightarrow> i < lst \<Longrightarrow> map km_Offset (msgs i) = [i..lst - 1]"
  shows "\<exists>out. ReadRecentMessages quote dial (Inr (first, lst)) seek msgs brokers topic limit [] = Inr out \<and>
    map mk_Offset out = [max first (lst - recent_limit limit)..lst - 1]"
proof -
  have lim: "0 < recent_limit limit" by (simp add: recent_limit_def Let_def)
  let ?i = "recent_start (recent_limit limit) [] first lst"
  have i: "first \<le> ?i" "?i < lst" using recent_start_window [OF assms(4) lim] by auto
  have e: "?i = max first (lst - recent_limit limit)" by (simp add: recent_start_def Let_def max_def)
  have o: "map km_Offset (msgs ?i) = [?i..lst - 1]" using assms(6) i by blast
  then have "msgs ?i \<noteq> []" using i(2) by auto
  then obtain ms msg where ms: "msgs ?i = ms @ [msg]" by (metis rev_exhaust)
  have u: "[?i..lst - 1] = [?i..lst - 2] @ [lst - 1]" using i(2) upto_rec2 [of ?i "lst - 1"] by simp
  have "map km_Offset ms = [?i..lst - 2]" "km_Offset msg = lst - 1" using o unfolding ms u by auto
  moreover from this have "list_all (\<lambda>m. km_Offset m + 1 < lst) ms"
    unfolding list_all_iff by (metis (no_types, lifting) atLeastAtMost_iff image_eqI image_set set_upto zle_diff1_eq
        add_le_cancel_right diff_add_cancel le_less_trans less_add_one one_add_one diff_diff_eq less_diff_eq)
  ultimately have "recent_loop quote topic [] lst (msgs ?i) = (map (FormatMessage quote topic) (msgs ?i), False)"
    using recent_loop_reference [of lst ms msg quote topic "[]"] by (simp add: ms wanted_def)
  moreover have "mk_Offset \<circ> FormatMessage quote topic = km_Offset" by (auto simp: FormatMessage_def)
  ultimately show ?thesis using assms(1-5) o e by (auto simp: ReadRecentMessages_def Let_def)
qed

text \<open>
  What makes a scenario pass. The collector of its stream is cancelled as soon as reply and trigger are done, so the
  messages have to be there by then; the time out of the stream gives them no longer.
\<close>

lemma RunScenario_passes:
  "RunScenario w replyTopic repoRoot s = Some None \<longleftrightarrow>
     (\<exists>body r reply. sn_read w (resolvePath repoRoot (sc_Command s)) = Inr body \<and> sn_send w body = Inr r \<and>
        listenOnce (sn_quote w) replyTopic (sr_CorrelationID r) (sn_reply w (sr_CorrelationID r)) = Some (Inr reply) \<and>
        assertExpectation w reply (sc_Expect s) = None \<and> (if sc_Trigger s = [] then None else runTrigger w s) = None \<and>
        run_stream w s reply = Some None \<and> run_cleanup w repoRoot replyTopic s = Some None)"
  unfolding RunScenario_def by (auto split: sum.splits option.splits)

lemma collect_cancelled:
  assumes "list_all (\<lambda>t. case t of StreamGot _ \<Rightarrow> True | StreamFailed ended \<Rightarrow> \<not> ended | _ \<Rightarrow> False) ts"
    and "int (length out + length (filter (\<lambda>t. case t of StreamGot _ \<Rightarrow> True | _ \<Rightarrow> False) ts)) < minN"
  shows "\<exists>msgs. collectStreamMessages quote topic minN timeout out (ts @ StreamEnded # rest) = Some (msgs, Some (LibErr ''context''))"
  using assms
proof (induction ts arbitrary: out)
  case (Cons t ts)
  then show ?case by (cases t) auto
qed simp

text \<open>
  \<open>SendAndWait\<close>: the steps of \<open>SendCommand\<close>, then the wait for the reply on a reader opened before. The result (empty when the
  command was not sent), the reply and the error.
\<close>

definition no_result :: send_result where
  "no_result = \<lparr> sr_CorrelationID = [], sr_ReplyTopic = [], sr_RequestTopic = [] \<rparr>"

definition SendAndWait ::
  "mock_broker \<Rightarrow> (kmsg \<Rightarrow> go_error option) \<Rightarrow> (string \<Rightarrow> string) \<Rightarrow> listen_turn list \<Rightarrow> string list \<Rightarrow> string \<Rightarrow> string \<Rightarrow> string \<Rightarrow> http_body
     \<Rightarrow> (send_result \<times> mock_message option \<times> go_error option) option" where
  "SendAndWait b wr quote turns brokers corrID requestTopic replyTopic body =
     (case SendCommand b wr brokers corrID requestTopic replyTopic body of
        Inl e \<Rightarrow> Some (no_result, None, Some e)
      | Inr r \<Rightarrow>
          (case listenOnce quote (sr_ReplyTopic r) corrID turns of
             None \<Rightarrow> None
           | Some (Inl e) \<Rightarrow> Some (r, None, Some e)
           | Some (Inr m) \<Rightarrow> Some (r, Some m, None)))"

text \<open>Without an error there is a reply, with the correlation id of the command.\<close>

lemma listenOnce_matches: "listenOnce quote topic corrID ts = Some (Inr m) \<Longrightarrow> mk_CorrelationID m = corrID \<and> mk_Topic m = topic"
  by (induction quote topic corrID ts rule: listenOnce.induct) (auto simp: FormatMessage_def split: if_splits)

lemma SendAndWait_reply:
  "SendAndWait b wr quote turns brokers corrID req rep body = Some (r, m, None) \<Longrightarrow>
     \<exists>x. m = Some x \<and> mk_CorrelationID x = corrID \<and> sr_CorrelationID r = corrID \<and> mk_Topic x = sr_ReplyTopic r"
  by (auto simp: SendAndWait_def SendCommand_def Let_def dest!: listenOnce_matches split: sum.splits option.splits)

section \<open>The command line program (mock-core/main.go)\<close>

text \<open>Every scenario of the catalog is run; \<open>None\<close> when a run does not end.\<close>

fun run_scenarios :: "(scenario \<Rightarrow> go_error option option) \<Rightarrow> scenario list \<Rightarrow> (scenario \<times> go_error option) list option" where
  "run_scenarios run [] = Some []"
| "run_scenarios run (s # ss) =
     (case run s of
        None \<Rightarrow> None
      | Some r \<Rightarrow> map_option (\<lambda>rs. (s, r) # rs) (run_scenarios run ss))"

definition RunAllScenarios :: "(scenario \<Rightarrow> go_error option option) \<Rightarrow> scenario list \<Rightarrow> go_error option option" where
  "RunAllScenarios run catalog =
     map_option (\<lambda>rs. let fs = scenario_failures rs in
                      if fs \<noteq> [] then Some (Errorf ''%d scenario(s) failed:'' (AInt (int (length fs)) # concat (map (\<lambda>(i, e). [AStr i, AErr e]) fs)))
                      else None)
       (run_scenarios run catalog)"

text \<open>
  \<open>FindRepoRoot\<close> on a working directory given by its components, the innermost first; \<open>stat\<close> tells whether the directory has
  a \<open>go.mod\<close>. \<open>KafkaReachable\<close> with \<open>dial\<close>.
\<close>

fun find_root :: "(string list \<Rightarrow> bool) \<Rightarrow> string list \<Rightarrow> go_error + string list" where
  "find_root stat [] = (if stat [] then Inr [] else Inl (Errorf ''go.mod not found from cwd'' []))"
| "find_root stat (c # cs) = (if stat (c # cs) then Inr (c # cs) else find_root stat cs)"

definition KafkaReachable :: "(string \<Rightarrow> go_error option) \<Rightarrow> string list \<Rightarrow> bool" where
  "KafkaReachable dial brokers = list_ex (\<lambda>b. dial b = None) brokers"

text \<open>\<open>fatal\<close> prints its error and ends the program with status 1, whatever the error is. The status of a run, \<open>None\<close> while it waits.\<close>

definition fatal :: "go_error option \<Rightarrow> int" where
  "fatal err = 1"

definition runScenarioCLI ::
  "go_error + string \<Rightarrow> (string \<Rightarrow> go_error + scenario list) \<Rightarrow> (string \<Rightarrow> scenario \<Rightarrow> go_error option option) \<Rightarrow> string \<Rightarrow> string \<Rightarrow> int option" where
  "runScenarioCLI root load run scenarioID scenariosFile =
     (case root of
        Inl e \<Rightarrow> Some (fatal (Some e))
      | Inr r \<Rightarrow>
          (case load (if HasPrefix scenariosFile ''/'' then scenariosFile else path_join [r, scenariosFile]) of
             Inl e \<Rightarrow> Some (fatal (Some e))
           | Inr catalog \<Rightarrow>
               if scenarioID = ''all'' then map_option fatal (RunAllScenarios (run r) catalog)
               else case FindScenario catalog scenarioID of
                      Inl e \<Rightarrow> Some (fatal (Some e))
                    | Inr sc \<Rightarrow> map_option fatal (run r sc)))"

text \<open>The catalog passes exactly when every scenario does.\<close>

lemma run_scenarios_all: "run_scenarios run ss = Some rs \<Longrightarrow> rs = map (\<lambda>s. (s, the (run s))) ss \<and> (\<forall>s\<in>set ss. run s \<noteq> None)"
  by (induction run ss arbitrary: rs rule: run_scenarios.induct) (auto split: option.splits)

lemma RunAllScenarios_passes: "RunAllScenarios run catalog = Some None \<longleftrightarrow> (\<forall>s\<in>set catalog. run s = Some None)"
proof (induction catalog)
  case (Cons s ss)
  then show ?case
    by (cases "run s"; cases "run_scenarios run ss") (auto simp: RunAllScenarios_def scenario_failures_def Let_def split: option.splits if_splits)
qed (simp add: RunAllScenarios_def scenario_failures_def)

text \<open>The root is the innermost directory with a \<open>go.mod\<close>.\<close>

lemma find_root_innermost:
  "find_root stat dir = Inr r \<Longrightarrow> \<exists>below. dir = below @ r \<and> stat r \<and> (\<forall>n < length below. \<not> stat (drop n dir))"
proof (induction stat dir rule: find_root.induct)
  case (2 stat c cs)
  show ?case
  proof (cases "stat (c # cs)")
    case False
    then obtain below where b: "cs = below @ r" "stat r" "\<forall>n < length below. \<not> stat (drop n cs)" using 2 by auto
    then have "\<forall>n < length (c # below). \<not> stat (drop n (c # cs))" using False by (auto simp: nth_Cons less_Suc_eq_0_disj)
    then show ?thesis using b by (intro exI [of _ "c # below"]) simp
  qed (use 2 in auto)
qed (auto split: if_splits)

text \<open>The program ends with status 1 after every scenario, also after one that passed.\<close>

lemma runScenarioCLI_status: "runScenarioCLI root load run i f = Some st \<Longrightarrow> st = 1"
  by (auto simp: runScenarioCLI_def fatal_def split: sum.splits if_splits)

end
