(* ===== verification/Mock_Ui.thy ===== *)
theory Mock_Ui
  imports Mock_Core
begin

text \<open>
  The controllers of the user interface of the mock core, \<open>hack/mock-core-ui\<close>: agent targets (\<open>targets.go\<close>), agent modes
  (\<open>agent_modes.go\<close>), inventory of the cluster (\<open>cluster_inventory.go\<close>), resource profiles and snapshots
  (\<open>resources.go\<close>). The API server, files, YAML, quantities and the HTTP client are parameters. The lemmas: which topics are
  monitored, that a selection is the current target, what a profile and a mode change of a deployment, that the counts of an
  inventory are those of what it lists, and that the totals of a snapshot are the sums of its rows.
\<close>

section \<open>Targets (targets.go)\<close>

record agent_target =
  at_ID :: string
  at_Implementation :: string
  at_RequestTopic :: string
  at_ReplyTopic :: string
  at_AgentNamespace :: string
  at_AgentHTTPURL :: string
  at_EventsTopic :: string
  at_LogsStreamTopic :: string
  at_HealthTopic :: string
  at_LifecycleTopic :: string

record target_registry =
  tr_all :: "agent_target list"
  tr_selected :: string

text \<open>\<open>embedded\<close> is the decoded \<open>targets.yaml\<close> of the program.\<close>

definition defaultTargets :: "go_error + agent_target list \<Rightarrow> agent_target \<Rightarrow> agent_target list" where
  "defaultTargets embedded fallback =
     (case embedded of
        Inr (t # ts) \<Rightarrow>
          map (\<lambda>t. t\<lparr> at_AgentHTTPURL := (if at_AgentHTTPURL fallback \<noteq> [] then at_AgentHTTPURL fallback else at_AgentHTTPURL t),
                      at_ReplyTopic := (if at_ReplyTopic t = [] \<and> at_ReplyTopic fallback \<noteq> [] then at_ReplyTopic fallback
                                        else at_ReplyTopic t) \<rparr>) (t # ts)
      | _ \<Rightarrow> [fallback])"

definition loadTargets ::
  "(string \<Rightarrow> file_read) \<Rightarrow> (string \<Rightarrow> go_error + agent_target list) \<Rightarrow> go_error + agent_target list \<Rightarrow> string \<Rightarrow> string \<Rightarrow> agent_target
     \<Rightarrow> go_error + target_registry" where
  "loadTargets read yaml embedded env_id path fallback =
     (let builtins = defaultTargets embedded fallback;
          reg = \<lparr> tr_all = builtins, tr_selected = at_ID (hd builtins) \<rparr>;
          loaded = (if path = [] then Inr reg
                    else case read path of
                           Missing \<Rightarrow> Inr reg
                         | Unreadable e \<Rightarrow> Inl e
                         | Contents d \<Rightarrow>
                             (case yaml d of
                                Inl e \<Rightarrow> Inl (Errorf ''parse targets: %w'' [AErr e])
                              | Inr [] \<Rightarrow> Inr reg
                              | Inr (t # ts) \<Rightarrow> Inr \<lparr> tr_all = t # ts, tr_selected = at_ID t \<rparr>))
      in sum_bind loaded (\<lambda>reg.
           Inr (if env_id \<noteq> [] \<and> list_ex (\<lambda>t. at_ID t = env_id) (tr_all reg) then reg\<lparr> tr_selected := env_id \<rparr> else reg)))"

definition targets_Current :: "target_registry \<Rightarrow> go_error + agent_target" where
  "targets_Current r =
     (case filter (\<lambda>t. at_ID t = tr_selected r) (tr_all r) of
        t # _ \<Rightarrow> Inr t
      | [] \<Rightarrow> (case tr_all r of t # _ \<Rightarrow> Inr t | [] \<Rightarrow> Inl (Errorf ''no targets configured'' [])))"

definition targets_Select :: "target_registry \<Rightarrow> string \<Rightarrow> target_registry \<times> (go_error + agent_target)" where
  "targets_Select r i =
     (case filter (\<lambda>t. at_ID t = i) (tr_all r) of
        t # _ \<Rightarrow> (r\<lparr> tr_selected := i \<rparr>, Inr t)
      | [] \<Rightarrow> (r, Inl (Errorf ''unknown target %q'' [AStr i])))"

definition add_topic :: "string \<Rightarrow> string list \<Rightarrow> string list" where
  "add_topic s out = (if s = [] \<or> s \<in> set out then out else out @ [s])"

definition target_topics :: "agent_target \<Rightarrow> string list" where
  "target_topics t =
     [at_RequestTopic t, at_ReplyTopic t, at_EventsTopic t, at_LogsStreamTopic t, at_HealthTopic t, at_LifecycleTopic t]"

definition MonitorTopics :: "agent_target \<Rightarrow> string list" where
  "MonitorTopics t = fold add_topic (target_topics t) []"

text \<open>\<open>currentRequestTopic\<close> and \<open>currentReplyTopic\<close>: the topic of the current target or that of the configuration.\<close>

definition current_topic :: "(agent_target \<Rightarrow> string) \<Rightarrow> target_registry \<Rightarrow> string \<Rightarrow> string" where
  "current_topic sel r configured =
     (case targets_Current r of Inr t \<Rightarrow> if sel t \<noteq> [] then sel t else configured | Inl _ \<Rightarrow> configured)"

section \<open>Agent modes (agent_modes.go)\<close>

record mode_preset =
  mp_ID :: string
  mp_Name :: string
  mp_File :: string

definition mode_presets :: "mode_preset list" where
  "mode_presets =
     [\<lparr> mp_ID = ''full'', mp_Name = ''Full'', mp_File = ''features.yaml'' \<rparr>,
      \<lparr> mp_ID = ''minimal'', mp_Name = ''Observability'', mp_File = ''features-minimal.yaml'' \<rparr>]"

definition presetByID :: "string \<Rightarrow> go_error + mode_preset" where
  "presetByID i =
     (case filter (\<lambda>p. mp_ID p = i) mode_presets of
        p # _ \<Rightarrow> Inr p
      | [] \<Rightarrow> Inl (Errorf ''unknown mode %q'' [AStr i]))"

definition enabledFeatureNames :: "features_config \<Rightarrow> string list" where
  "enabledFeatureNames cfg = sort (map fst (filter (\<lambda>(n, f). f_Enabled f) cfg))"

definition gvkLabel :: "gvk \<Rightarrow> string" where
  "gvkLabel g =
     (if g_Group g = [] then g_Version g @ ''/'' @ g_Kind g else g_Group g @ ''/'' @ g_Version g @ ''/'' @ g_Kind g)"

record mode_feature =
  mf_ID :: string
  mf_Enabled :: bool
  mf_Description :: string
  mf_RBACRole :: string
  mf_WatchGVK :: "string list"

definition summarizeFeatures :: "features_config \<Rightarrow> mode_feature list" where
  "summarizeFeatures cfg =
     map (\<lambda>(n, f). \<lparr> mf_ID = n, mf_Enabled = f_Enabled f, mf_Description = f_Description f, mf_RBACRole = f_RBACRole f,
                     mf_WatchGVK = (if n = ''watch_events'' then map gvkLabel (f_AllowedGVK f) else []) \<rparr>)
       (sort_key fst cfg)"

text \<open>\<open>norm\<close> decodes and encodes a YAML text; \<open>file\<close> reads a file of the directory of features.\<close>

definition normalizeYAML :: "(string \<Rightarrow> string option) \<Rightarrow> string \<Rightarrow> string option" where
  "normalizeYAML norm d = map_option TrimSpace (norm d)"

fun match_preset :: "(string \<Rightarrow> string option) \<Rightarrow> (string \<Rightarrow> string option) \<Rightarrow> string \<Rightarrow> mode_preset list \<Rightarrow> string \<times> string" where
  "match_preset norm file current [] = (''custom'', ''Custom'')"
| "match_preset norm file current (p # ps) =
     (case file (mp_File p) of
        None \<Rightarrow> match_preset norm file current ps
      | Some d \<Rightarrow>
          if normalizeYAML norm d = Some current then (mp_ID p, mp_Name p) else match_preset norm file current ps)"

definition detectMode :: "(string \<Rightarrow> string option) \<Rightarrow> (string \<Rightarrow> string option) \<Rightarrow> string \<Rightarrow> string \<times> string" where
  "detectMode norm file currentYAML =
     (case normalizeYAML norm currentYAML of
        None \<Rightarrow> (''custom'', ''Custom'')
      | Some current \<Rightarrow> match_preset norm file current mode_presets)"

text \<open>
  The namespace of the agent as the modes and profiles change it: the data of the config map of the agent, and its
  deployments with replicas, containers, volumes and the annotations of the template. \<open>ul_GetErr\<close> and \<open>ul_UpdateErr\<close> are
  the calls on an object, by its name, that the API server refuses.
\<close>

record ui_container =
  uc_Env :: "(string \<times> string option) list"
  uc_MemLimit :: "string option"

record ui_deployment =
  ud_Replicas :: int
  ud_Containers :: "ui_container list"
  ud_Volumes :: "(string \<times> string option option) list"
  ud_Annotations :: "(string, string) gomap"

record ui_cluster =
  ul_ConfigMap :: "(string, string) gomap option"
  ul_Deployments :: "(string, ui_deployment) gomap"
  ul_GetErr :: "string \<Rightarrow> go_error option"
  ul_UpdateErr :: "string \<Rightarrow> go_error option"

definition get_object :: "ui_cluster \<Rightarrow> string \<Rightarrow> 'a option \<Rightarrow> go_error + 'a" where
  "get_object k name x =
     (case (ul_GetErr k name, x) of
        (Some e, _) \<Rightarrow> Inl e
      | (None, None) \<Rightarrow> Inl (LibErr ''not found'')
      | (None, Some v) \<Rightarrow> Inr v)"

definition get_deployment :: "ui_cluster \<Rightarrow> string \<Rightarrow> go_error + ui_deployment" where
  "get_deployment k name = get_object k name (gm_get (ul_Deployments k) name)"

definition update_deployment :: "ui_cluster \<Rightarrow> string \<Rightarrow> ui_deployment \<Rightarrow> ui_cluster \<times> go_error option" where
  "update_deployment k name d =
     (case ul_UpdateErr k name of
        Some e \<Rightarrow> (k, Some e)
      | None \<Rightarrow> (k\<lparr> ul_Deployments := gm_put name d (ul_Deployments k) \<rparr>, None))"

definition restartedAt :: string where
  "restartedAt = ''kubectl.kubernetes.io/restartedAt''"

definition restartDeployment :: "string \<Rightarrow> ui_cluster \<Rightarrow> string \<Rightarrow> ui_cluster \<times> go_error option" where
  "restartDeployment now k name =
     (case get_deployment k name of
        Inl e \<Rightarrow> (k, Some e)
      | Inr d \<Rightarrow> update_deployment k name (d\<lparr> ud_Annotations := gm_put restartedAt now (ud_Annotations d) \<rparr>))"

fun restart_all :: "string \<Rightarrow> ui_cluster \<Rightarrow> string list \<Rightarrow> string list \<Rightarrow> ui_cluster \<times> (go_error + string list)" where
  "restart_all now k [] restarted = (k, Inr restarted)"
| "restart_all now k (n # ns) restarted =
     (case restartDeployment now k n of
        (k', Some e) \<Rightarrow> (k', Inl (Errorf ''restart %s: %w'' [AStr n, AErr e]))
      | (k', None) \<Rightarrow> restart_all now k' ns (restarted @ [n]))"

text \<open>\<open>read\<close> is \<open>ReadFile\<close> and \<open>load\<close> is \<open>features.Load\<close>, both on a file of the directory of features.\<close>

definition readPresetYAML ::
  "(string \<Rightarrow> go_error + string) \<Rightarrow> (string \<Rightarrow> go_error + features_config option) \<Rightarrow> string \<Rightarrow> go_error + string \<times> features_config" where
  "readPresetYAML read load modeID =
     sum_bind (presetByID modeID) (\<lambda>preset.
       case read (mp_File preset) of
         Inl e \<Rightarrow> Inl (Errorf ''read preset %s: %w'' [AStr (mp_File preset), AErr e])
       | Inr data \<Rightarrow>
           (case load (mp_File preset) of
              Inl e \<Rightarrow> Inl e
            | Inr None \<Rightarrow> Inl (Errorf ''preset %s is empty'' [AStr (mp_File preset)])
            | Inr (Some cfg) \<Rightarrow> Inr (data, cfg)))"

record apply_mode_response =
  am_Mode :: string
  am_Restarted :: "string list"
  am_EnabledFeatures :: "string list"

text \<open>\<open>valid\<close> is the error of \<open>features.Apply\<close>; \<open>client\<close> whether there is a client; \<open>cmName\<close> the name of the config map.\<close>

definition no_client :: go_error where
  "no_client = Errorf ''kubernetes client not available (set KUBECONFIG)'' []"

definition applyMode ::
  "(string \<Rightarrow> go_error + string) \<Rightarrow> (string \<Rightarrow> go_error + features_config option) \<Rightarrow> (features_config \<Rightarrow> go_error option)
     \<Rightarrow> bool \<Rightarrow> string \<Rightarrow> string list \<Rightarrow> string \<Rightarrow> ui_cluster \<Rightarrow> string \<Rightarrow> ui_cluster \<times> (go_error + apply_mode_response)" where
  "applyMode read load valid client cmName deployments now k modeID =
     (if \<not> client then (k, Inl no_client)
      else case presetByID modeID of
        Inl e \<Rightarrow> (k, Inl e)
      | Inr preset \<Rightarrow>
          (case readPresetYAML read load modeID of
             Inl e \<Rightarrow> (k, Inl e)
           | Inr (data, cfg) \<Rightarrow>
               (case valid cfg of
                  Some e \<Rightarrow> (k, Inl (Errorf ''invalid preset %s: %w'' [AStr (mp_File preset), AErr e]))
                | None \<Rightarrow>
                    (case get_object k cmName (ul_ConfigMap k) of
                       Inl e \<Rightarrow> (k, Inl (Errorf ''get configmap: %w'' [AErr e]))
                     | Inr cm \<Rightarrow>
                         (case ul_UpdateErr k cmName of
                            Some e \<Rightarrow> (k, Inl (Errorf ''update configmap: %w'' [AErr e]))
                          | None \<Rightarrow>
                              (case restart_all now (k\<lparr> ul_ConfigMap := Some (gm_put ''features.yaml'' data cm) \<rparr>) deployments [] of
                                 (k', Inl e) \<Rightarrow> (k', Inl e)
                               | (k', Inr restarted) \<Rightarrow>
                                   (k', Inr \<lparr> am_Mode = modeID, am_Restarted = restarted,
                                              am_EnabledFeatures = enabledFeatureNames cfg \<rparr>)))))))"

text \<open>\<open>parse\<close> is \<open>parseFeaturesYAML\<close>, the decoder of YAML with its error; the message without a client is \<open>kubeUnavailableMessage\<close>.\<close>

record mode_status =
  ms_K8sAvailable :: bool
  ms_K8sError :: "go_error option"
  ms_CurrentMode :: string
  ms_CurrentModeName :: string
  ms_EnabledFeatures :: "string list"
  ms_Features :: "mode_feature list"

definition kubeUnavailableMessage :: "string \<Rightarrow> go_error" where
  "kubeUnavailableMessage kubeInitError =
     (if kubeInitError \<noteq> [] then LibErr kubeInitError else Errorf ''KUBECONFIG not configured or cluster unreachable'' [])"

definition modes_status ::
  "(string \<Rightarrow> string option) \<Rightarrow> (string \<Rightarrow> string option) \<Rightarrow> (string \<Rightarrow> go_error + features_config) \<Rightarrow> bool \<Rightarrow> string \<Rightarrow> string
     \<Rightarrow> ui_cluster \<Rightarrow> mode_status" where
  "modes_status norm file parse client kubeInitError cmName k =
     (let st = \<lparr> ms_K8sAvailable = client, ms_K8sError = None, ms_CurrentMode = ''unknown'', ms_CurrentModeName = [],
                 ms_EnabledFeatures = [], ms_Features = [] \<rparr>;
          failed = (\<lambda>e. st\<lparr> ms_K8sError := Some e \<rparr>) in
      if \<not> client then failed (kubeUnavailableMessage kubeInitError)
      else case get_object k cmName (ul_ConfigMap k) of
             Inl e \<Rightarrow> failed e
           | Inr cm \<Rightarrow>
               (case gm_get cm ''features.yaml'' of
                  None \<Rightarrow> failed (Errorf ''configmap missing features.yaml key'' [])
                | Some y \<Rightarrow>
                    if y = [] then failed (Errorf ''configmap missing features.yaml key'' [])
                    else case parse y of
                           Inl e \<Rightarrow> failed (Errorf ''parse features.yaml: %w'' [AErr e])
                         | Inr cfg \<Rightarrow>
                             st\<lparr> ms_CurrentMode := fst (detectMode norm file y), ms_CurrentModeName := snd (detectMode norm file y),
                                 ms_EnabledFeatures := enabledFeatureNames cfg, ms_Features := summarizeFeatures cfg \<rparr>))"

section \<open>Inventory (cluster_inventory.go)\<close>

record ui_pod =
  up_Name :: string
  up_Phase :: string
  up_Conditions :: "(string \<times> string) list"
  up_Node :: string

record cluster_pod =
  clp_Name :: string
  clp_Phase :: string
  clp_Ready :: bool
  clp_Node :: string

record cluster_deployment =
  cld_Name :: string
  cld_Ready :: int
  cld_Desired :: int

record cluster_namespace =
  cln_Name :: string
  cln_Phase :: string
  cln_Deployments :: "cluster_deployment list"
  cln_Pods :: "cluster_pod list"

record cluster_inventory =
  inv_K8sAvailable :: bool
  inv_K8sError :: "go_error option"
  inv_Namespaces :: "cluster_namespace list"
  inv_CountNamespaces :: int
  inv_CountDeployments :: int
  inv_CountPods :: int

definition isSystemNamespace :: "string \<Rightarrow> bool" where
  "isSystemNamespace name \<longleftrightarrow>
     name \<in> set [''default'', ''kube-node-lease'', ''kube-public'', ''kube-system''] \<or>
     list_ex (\<lambda>p. HasPrefix name p) [''kube-'', ''local-'']"

definition ui_podReady :: "ui_pod \<Rightarrow> bool" where
  "ui_podReady p =
     (if up_Phase p \<noteq> ''Running'' then False
      else case filter (\<lambda>(ty, _). ty = ''Ready'') (up_Conditions p) of [] \<Rightarrow> False | (_, st) # _ \<Rightarrow> st = ''True'')"

text \<open>The API server: namespaces with their phase, deployments (name, ready, desired) and pods of a namespace.\<close>

record inventory_api =
  ia_namespaces :: "go_error + (string \<times> string) list"
  ia_deployments :: "string \<Rightarrow> go_error + (string \<times> int \<times> int option) list"
  ia_pods :: "string \<Rightarrow> go_error + ui_pod list"

definition inventory_item ::
  "string \<Rightarrow> string \<Rightarrow> (string \<times> int \<times> int option) list \<Rightarrow> ui_pod list \<Rightarrow> cluster_namespace" where
  "inventory_item name phase ds ps =
     \<lparr> cln_Name = name, cln_Phase = phase,
       cln_Deployments =
         sort_key cld_Name
           (map (\<lambda>(n, ready, desired). \<lparr> cld_Name = n, cld_Ready = ready,
              cld_Desired = (case desired of None \<Rightarrow> 0 | Some r \<Rightarrow> r) \<rparr>) ds),
       cln_Pods =
         sort_key clp_Name
           (map (\<lambda>p. \<lparr> clp_Name = up_Name p, clp_Phase = up_Phase p, clp_Ready = ui_podReady p, clp_Node = up_Node p \<rparr>) ps) \<rparr>"

definition add_item :: "cluster_namespace \<Rightarrow> cluster_inventory \<Rightarrow> cluster_inventory" where
  "add_item item v =
     v\<lparr> inv_Namespaces := inv_Namespaces v @ [item], inv_CountNamespaces := inv_CountNamespaces v + 1,
        inv_CountDeployments := inv_CountDeployments v + int (length (cln_Deployments item)),
        inv_CountPods := inv_CountPods v + int (length (cln_Pods item)) \<rparr>"

fun inventory_loop :: "inventory_api \<Rightarrow> (string \<Rightarrow> string) \<Rightarrow> string list \<Rightarrow> cluster_inventory \<Rightarrow> cluster_inventory" where
  "inventory_loop a phase [] v = v"
| "inventory_loop a phase (n # ns) v =
     (case ia_deployments a n of
        Inl e \<Rightarrow> v\<lparr> inv_K8sError := Some (Errorf ''list deployments in %s: %v'' [AStr n, AErr e]) \<rparr>
      | Inr ds \<Rightarrow>
          (case ia_pods a n of
             Inl e \<Rightarrow> v\<lparr> inv_K8sError := Some (Errorf ''list pods in %s: %v'' [AStr n, AErr e]) \<rparr>
           | Inr ps \<Rightarrow> inventory_loop a phase ns (add_item (inventory_item n (phase n) ds ps) v)))"

definition no_inventory :: "bool \<Rightarrow> cluster_inventory" where
  "no_inventory client =
     \<lparr> inv_K8sAvailable = client, inv_K8sError = None, inv_Namespaces = [], inv_CountNamespaces = 0, inv_CountDeployments = 0,
       inv_CountPods = 0 \<rparr>"

text \<open>\<open>None\<close> is a controller without a client.\<close>

definition inventory :: "string \<Rightarrow> inventory_api option \<Rightarrow> bool \<Rightarrow> cluster_inventory" where
  "inventory kubeInitError client includeSystem =
     (case client of
        None \<Rightarrow> (no_inventory False)\<lparr> inv_K8sError := Some (kubeUnavailableMessage kubeInitError) \<rparr>
      | Some a \<Rightarrow>
          (case ia_namespaces a of
             Inl e \<Rightarrow> (no_inventory True)\<lparr> inv_K8sError := Some (Errorf ''list namespaces: %v'' [AErr e]) \<rparr>
           | Inr nss \<Rightarrow>
               let shown = filter (\<lambda>(n, _). includeSystem \<or> \<not> isSystemNamespace n) nss;
                   phases = fold (\<lambda>(n, ph). gm_put n ph) shown []
               in inventory_loop a (\<lambda>n. case gm_get phases n of None \<Rightarrow> [] | Some ph \<Rightarrow> ph) (sort (map fst shown))
                    (no_inventory True)))"

section \<open>Resource profiles (resources.go)\<close>

record resource_profile =
  rp_ID :: string
  rp_Replicas :: int
  rp_Env :: "(string, string) gomap"
  rp_FeaturesMode :: string
  rp_AgentMemLimit :: string
  rp_EmptyDirLimit :: string

definition profile_env :: "string \<Rightarrow> string \<Rightarrow> string \<Rightarrow> string \<Rightarrow> (string, string) gomap" where
  "profile_env qps burst jobs lim =
     [(''K8S_API_QPS'', qps), (''K8S_API_BURST'', burst), (''LOGS_COLLECT_MAX_JOBS'', jobs), (''LOGS_COLLECT_MAX_BYTES'', lim)]"

definition resourceProfiles :: "resource_profile list" where
  "resourceProfiles =
     [\<lparr> rp_ID = ''ha'', rp_Replicas = 2, rp_Env = profile_env ''50'' ''100'' ''20'' ''524288000'', rp_FeaturesMode = ''full'',
        rp_AgentMemLimit = ''512Mi'', rp_EmptyDirLimit = ''2Gi'' \<rparr>,
      \<lparr> rp_ID = ''balanced'', rp_Replicas = 1, rp_Env = profile_env ''30'' ''60'' ''5'' ''104857600'', rp_FeaturesMode = ''full'',
        rp_AgentMemLimit = ''768Mi'', rp_EmptyDirLimit = ''2Gi'' \<rparr>,
      \<lparr> rp_ID = ''lean'', rp_Replicas = 1, rp_Env = profile_env ''20'' ''40'' ''2'' ''52428800'', rp_FeaturesMode = ''minimal'',
        rp_AgentMemLimit = ''512Mi'', rp_EmptyDirLimit = ''512Mi'' \<rparr>]"

definition profileByID :: "string \<Rightarrow> go_error + resource_profile" where
  "profileByID i =
     (case filter (\<lambda>p. rp_ID p = i) resourceProfiles of
        p # _ \<Rightarrow> Inr p
      | [] \<Rightarrow> Inl (Errorf ''unknown profile %q (want ha|balanced|lean)'' [AStr i]))"

text \<open>A variable: its name and its value, \<open>None\<close> when it has a source instead.\<close>

fun setEnvVar :: "string \<Rightarrow> string \<Rightarrow> (string \<times> string option) list \<Rightarrow> (string \<times> string option) list" where
  "setEnvVar name v [] = [(name, Some v)]"
| "setEnvVar name v ((n, x) # vars) = (if n = name then (n, Some v) # vars else (n, x) # setEnvVar name v vars)"

definition patch_container :: "string \<Rightarrow> resource_profile \<Rightarrow> ui_container \<Rightarrow> ui_container" where
  "patch_container name p c =
     c\<lparr> uc_Env := fold (\<lambda>(k, v). setEnvVar k v) (rp_Env p) (uc_Env c),
        uc_MemLimit := (if name = ''agent-service'' \<and> rp_AgentMemLimit p \<noteq> [] then Some (rp_AgentMemLimit p) else uc_MemLimit c) \<rparr>"

definition patch_volume :: "string \<Rightarrow> resource_profile \<Rightarrow> string \<times> string option option \<Rightarrow> string \<times> string option option" where
  "patch_volume name p vol =
     (case vol of
        (n, Some lim) \<Rightarrow>
          if name = ''agent-service'' \<and> rp_EmptyDirLimit p \<noteq> [] \<and> n = ''logs-temp'' then (n, Some (Some (rp_EmptyDirLimit p))) else vol
      | _ \<Rightarrow> vol)"

definition patchDeploymentProfile :: "resource_profile \<Rightarrow> ui_cluster \<Rightarrow> string \<Rightarrow> ui_cluster \<times> go_error option" where
  "patchDeploymentProfile p k name =
     (case get_deployment k name of
        Inl e \<Rightarrow> (k, Some e)
      | Inr d \<Rightarrow>
          if ud_Containers d = [] then (k, Some (Errorf ''no containers'' []))
          else update_deployment k name
                 (d\<lparr> ud_Replicas := rp_Replicas p, ud_Containers := map (patch_container name p) (ud_Containers d),
                     ud_Volumes := map (patch_volume name p) (ud_Volumes d) \<rparr>))"

fun patch_all :: "string \<Rightarrow> resource_profile \<Rightarrow> ui_cluster \<Rightarrow> string list \<Rightarrow> ui_cluster \<times> go_error option" where
  "patch_all now p k [] = (k, None)"
| "patch_all now p k (n # ns) =
     (case patchDeploymentProfile p k n of
        (k', Some e) \<Rightarrow> (k', Some (Errorf ''patch %s: %w'' [AStr n, AErr e]))
      | (k', None) \<Rightarrow>
          (case restartDeployment now k' n of
             (k'', Some e) \<Rightarrow> (k'', Some (Errorf ''restart %s: %w'' [AStr n, AErr e]))
           | (k'', None) \<Rightarrow> patch_all now p k'' ns))"

definition profile_deployments :: "string list" where
  "profile_deployments = [''ingress'', ''egress'', ''agent-service'']"

record apply_profile_response =
  ap_Profile :: string
  ap_Namespace :: string
  ap_Patched :: "string list"
  ap_Restarted :: "string list"
  ap_Features :: string
  ap_Hints :: "go_error list"

text \<open>The dash of the texts, in UTF-8.\<close>

definition em_dash :: string where
  "em_dash = [CHR 0xE2, CHR 0x80, CHR 0x94]"

definition daemonset_hint :: go_error where
  "daemonset_hint =
     Errorf (''DaemonSet logs-node-agent (v2) is not resized by this profile '' @ em_dash @ '' check snapshot DS pods separately'') []"

text \<open>\<open>mode\<close> is \<open>applyMode\<close>, whose error becomes a hint. The list of the deployments patched is that of those restarted.\<close>

definition profile_mode ::
  "(ui_cluster \<Rightarrow> string \<Rightarrow> ui_cluster \<times> (go_error + apply_mode_response)) \<Rightarrow> ui_cluster \<Rightarrow> string \<Rightarrow> ui_cluster \<times> string \<times> go_error list" where
  "profile_mode mode k m =
     (if m = ''minimal'' \<or> m = ''full'' then
        case mode k m of
          (k', Inl e) \<Rightarrow> (k', [], [Errorf (if m = ''minimal'' then ''features-minimal apply failed: '' else ''features full apply failed: '') [AErr e]])
        | (k', Inr _) \<Rightarrow> (k', m, [])
      else (k, [], []))"

definition applyProfile ::
  "(ui_cluster \<Rightarrow> string \<Rightarrow> ui_cluster \<times> (go_error + apply_mode_response)) \<Rightarrow> bool \<Rightarrow> string \<Rightarrow> string \<Rightarrow> ui_cluster \<Rightarrow> string
     \<Rightarrow> ui_cluster \<times> (go_error + apply_profile_response)" where
  "applyProfile mode client ns now k profileID =
     (if \<not> client then (k, Inl no_client)
      else case profileByID profileID of
        Inl e \<Rightarrow> (k, Inl e)
      | Inr p \<Rightarrow>
          (case patch_all now p k profile_deployments of
             (k', Some e) \<Rightarrow> (k', Inl e)
           | (k', None) \<Rightarrow>
               (case profile_mode mode k' (rp_FeaturesMode p) of
                  (k'', f, hints) \<Rightarrow>
                    (k'', Inr \<lparr> ap_Profile = rp_ID p, ap_Namespace = ns, ap_Patched = profile_deployments,
                                ap_Restarted = profile_deployments, ap_Features = f, ap_Hints = hints @ [daemonset_hint] \<rparr>))))"

section \<open>Snapshots (resources.go)\<close>

text \<open>
  The requests and limits of a container as milli-CPU and bytes, the values of its quantities. \<open>milli\<close> and \<open>val\<close> parse a
  quantity and take \<open>MilliValue\<close> and \<open>Value\<close> of it.
\<close>

record container_resources =
  cr_ReqCPU :: "int option"
  cr_ReqMem :: "int option"
  cr_LimCPU :: "int option"
  cr_LimMem :: "int option"

definition sum_opts :: "int option list \<Rightarrow> int" where
  "sum_opts xs = fold (\<lambda>x acc. case x of None \<Rightarrow> acc | Some v \<Rightarrow> int64 (acc + v)) xs 0"

definition sumPodResources :: "container_resources list \<Rightarrow> int \<times> int \<times> int \<times> int" where
  "sumPodResources cs =
     (sum_opts (map cr_ReqCPU cs), sum_opts (map cr_ReqMem cs), sum_opts (map cr_LimCPU cs), sum_opts (map cr_LimMem cs))"

text \<open>An item of the metrics API: its name and its containers, \<open>None\<close> when there is no such list; of each the usage it has.\<close>

definition usage_of :: "(string \<Rightarrow> int option) \<Rightarrow> string \<Rightarrow> obj option list \<Rightarrow> int" where
  "usage_of q field cs =
     sum_opts (map (\<lambda>c. case c of
                          None \<Rightarrow> None
                        | Some u \<Rightarrow> (case map_of u field of Some (JStr s) \<Rightarrow> if s = [] then None else q s | _ \<Rightarrow> None)) cs)"

definition podMetrics ::
  "(string \<Rightarrow> int option) \<Rightarrow> (string \<Rightarrow> int option) \<Rightarrow> (go_error + (string \<times> obj option list option) list) option
     \<Rightarrow> go_error + (string, int \<times> int) gomap" where
  "podMetrics milli val api =
     (case api of
        None \<Rightarrow> Inl (Errorf ''no rest config'' [])
      | Some (Inl e) \<Rightarrow> Inl (Errorf ''metrics.k8s.io unavailable (install metrics-server): %w'' [AErr e])
      | Some (Inr items) \<Rightarrow>
          Inr (fold (\<lambda>(n, cs) out. case cs of
                                     None \<Rightarrow> out
                                   | Some cs \<Rightarrow> gm_put n (usage_of milli ''cpu'' cs, usage_of val ''memory'' cs) out) items []))"

record resource_pod =
  rc_Name :: string
  rc_Component :: string
  rc_Phase :: string
  rc_Node :: string
  rc_Containers :: "container_resources list"

record pod_row =
  pw_Name :: string
  pw_Component :: string
  pw_Phase :: string
  pw_Node :: string
  pw_Kind :: string
  pw_CPUUsage :: int
  pw_MemUsage :: int
  pw_CPURequest :: int
  pw_MemRequest :: int
  pw_CPULimit :: int
  pw_MemLimit :: int

record resource_totals =
  rt_CPUUsage :: int
  rt_MemUsage :: int
  rt_CPURequest :: int
  rt_MemRequest :: int
  rt_PodCount :: int

definition no_totals :: resource_totals where
  "no_totals = \<lparr> rt_CPUUsage = 0, rt_MemUsage = 0, rt_CPURequest = 0, rt_MemRequest = 0, rt_PodCount = 0 \<rparr>"

definition add_row :: "pod_row \<Rightarrow> resource_totals \<Rightarrow> resource_totals" where
  "add_row r t =
     \<lparr> rt_CPUUsage = int64 (rt_CPUUsage t + pw_CPUUsage r), rt_MemUsage = int64 (rt_MemUsage t + pw_MemUsage r),
       rt_CPURequest = int64 (rt_CPURequest t + pw_CPURequest r), rt_MemRequest = int64 (rt_MemRequest t + pw_MemRequest r),
       rt_PodCount = rt_PodCount t + 1 \<rparr>"

definition pod_row_of :: "(string, int \<times> int) gomap \<Rightarrow> resource_pod \<Rightarrow> pod_row" where
  "pod_row_of usage p =
     (case sumPodResources (rc_Containers p) of (reqCPU, reqMem, limCPU, limMem) \<Rightarrow>
        let u = (case gm_get usage (rc_Name p) of None \<Rightarrow> (0, 0) | Some u \<Rightarrow> u)
        in \<lparr> pw_Name = rc_Name p, pw_Component = rc_Component p, pw_Phase = rc_Phase p, pw_Node = rc_Node p,
             pw_Kind = (if rc_Component p = ''logs-node-agent'' then ''DaemonSet-pod'' else ''Pod''),
             pw_CPUUsage = fst u, pw_MemUsage = snd u, pw_CPURequest = reqCPU, pw_MemRequest = reqMem,
             pw_CPULimit = limCPU, pw_MemLimit = limMem \<rparr>)"

text \<open>
  The gauges of a metrics page, line by line; \<open>float\<close> is \<open>ParseFloat\<close>. A sample without labels replaces one with labels.
\<close>

definition metric_name :: "string \<Rightarrow> string" where
  "metric_name line =
     (if CHR 0x7B \<in> set line then takeWhile (\<lambda>c. c \<noteq> CHR 0x7B) line else takeWhile (\<lambda>c. c \<noteq> CHR '' '') line)"

definition str_Fields :: "string \<Rightarrow> string list" where
  "str_Fields s = filter (\<lambda>w. w \<noteq> []) (SplitChar (CHR '' '') (map (\<lambda>c. if is_space c then CHR '' '' else c) s))"

definition gauge_line :: "(string \<Rightarrow> 'f option) \<Rightarrow> string list \<Rightarrow> string \<Rightarrow> (string, 'f) gomap \<Rightarrow> (string, 'f) gomap" where
  "gauge_line float names line out =
     (if line = [] \<or> HasPrefix line ''#'' \<or> metric_name line \<notin> set names \<or> length (str_Fields line) < 2 then out
      else case float (last (str_Fields line)) of
             None \<Rightarrow> out
           | Some v \<Rightarrow>
               if gm_get out (metric_name line) = None \<or> CHR 0x7B \<notin> set line then gm_put (metric_name line) v out else out)"

definition parsePromGauges :: "(string \<Rightarrow> 'f option) \<Rightarrow> string list \<Rightarrow> string \<Rightarrow> (string, 'f) gomap" where
  "parsePromGauges float names text = fold (gauge_line float names) (fst (scan_lines text)) []"


text \<open>
  The page of metrics: the proxy of the API server, when there is a client and a namespace, before the address of the agent.
  \<open>exchange\<close> is the HTTP client, with the bearer token of the configuration: its error, or the status and the read of at most so many bytes.
\<close>

definition readAgentMetrics ::
  "(string \<Rightarrow> go_error + string) option \<Rightarrow> (string \<Rightarrow> go_error option) \<Rightarrow> (string \<Rightarrow> go_error + int \<times> (nat \<Rightarrow> go_error + string))
     \<Rightarrow> string \<Rightarrow> string \<Rightarrow> go_error + string \<times> string" where
  "readAgentMetrics proxy newreq exchange namespace agentHTTP =
     (let base = trim_right (\<lambda>c. c = CHR ''/'') agentHTTP;
          direct = (\<lambda>kubeErr :: go_error option.
            if base = [] then
              (case kubeErr of
                 Some e \<Rightarrow> Inl (Errorf ''agent /metrics via kube proxy failed: %w'' [AErr e])
               | None \<Rightarrow> Inl (Errorf ''agent HTTP URL not set'' []))
            else case newreq (base @ ''/metrics'') of
                   Some e \<Rightarrow> Inl e
                 | None \<Rightarrow>
                     (case exchange (base @ ''/metrics'') of
                        Inl e \<Rightarrow>
                          Inl (Errorf (''%s '' @ em_dash @ '' run: powershell -File hack/port-forward-agent-http.ps1 (or rely on kubeconfig Service proxy)'')
                                 [AErr (case kubeErr of None \<Rightarrow> e | Some ke \<Rightarrow> Errorf ''%s; kube proxy: %v'' [AErr e, AErr ke])])
                      | Inr (status, read) \<Rightarrow>
                          sum_bind (read 2097152) (\<lambda>b.
                            if status \<ge> 300 then Inl (Errorf ''HTTP %d: %s'' [AInt status, AStr b]) else Inr (b, base)))) in
      case (if namespace = [] then None else proxy) of
        None \<Rightarrow> direct None
      | Some px \<Rightarrow>
          (case px namespace of
             Inr raw \<Rightarrow> Inr (raw, ''kube-proxy:'' @ namespace @ ''/services/k8s-agent-http'')
           | Inl e \<Rightarrow> direct (Some e)))"

record 'f agent_metrics =
  ag_Gauges :: "(string, 'f) gomap"
  ag_RawError :: "go_error option"

definition agent_gauges :: "string list" where
  "agent_gauges =
     [''process_resident_memory_bytes'', ''go_memstats_alloc_bytes'', ''go_goroutines'', ''k8s_agent_logs_collect_jobs_active'',
      ''k8s_agent_watch_subscriptions_active'', ''k8s_agent_log_streams_active'', ''k8s_agent_health_reports_active'',
      ''k8s_agent_cache_entries'']"

definition fetchAgentMetrics :: "(string \<Rightarrow> 'f option) \<Rightarrow> go_error + string \<times> string \<Rightarrow> 'f agent_metrics" where
  "fetchAgentMetrics float page =
     (case page of
        Inl e \<Rightarrow> \<lparr> ag_Gauges = [], ag_RawError = Some e \<rparr>
      | Inr (body, _) \<Rightarrow> \<lparr> ag_Gauges = parsePromGauges float agent_gauges body, ag_RawError = None \<rparr>)"

record 'f resources_snapshot =
  rs_Namespace :: string
  rs_TargetID :: string
  rs_K8sAvailable :: bool
  rs_K8sError :: "go_error option"
  rs_MetricsError :: "go_error option"
  rs_Pods :: "pod_row list"
  rs_Totals :: resource_totals
  rs_AgentMetrics :: "'f agent_metrics"
  rs_AgentHTTPURL :: string

text \<open>\<open>pods\<close> lists the pods of the agent, \<open>None\<close> without a client; \<open>usage\<close> is \<open>podMetrics\<close>; \<open>metrics\<close> is \<open>fetchAgentMetrics\<close>.\<close>

definition resources_snapshot_of ::
  "(string \<Rightarrow> go_error + resource_pod list) option \<Rightarrow> (string \<Rightarrow> go_error + (string, int \<times> int) gomap)
     \<Rightarrow> (string \<Rightarrow> string \<Rightarrow> 'f agent_metrics) \<Rightarrow> string \<Rightarrow> string \<Rightarrow> string \<Rightarrow> 'f resources_snapshot" where
  "resources_snapshot_of pods usage metrics namespace targetID agentHTTP =
     (let out = \<lparr> rs_Namespace = namespace, rs_TargetID = targetID, rs_K8sAvailable = pods \<noteq> None, rs_K8sError = None,
                  rs_MetricsError = None, rs_Pods = [], rs_Totals = no_totals, rs_AgentMetrics = metrics namespace agentHTTP,
                  rs_AgentHTTPURL = agentHTTP \<rparr> in
      case pods of
        None \<Rightarrow> out\<lparr> rs_K8sError := Some no_client \<rparr>
      | Some ls \<Rightarrow>
          (case ls namespace of
             Inl e \<Rightarrow> out\<lparr> rs_K8sError := Some e \<rparr>
           | Inr ps \<Rightarrow>
               let rows = map (pod_row_of (case usage namespace of Inl _ \<Rightarrow> [] | Inr u \<Rightarrow> u)) ps
               in out\<lparr> rs_MetricsError := (case usage namespace of Inl e \<Rightarrow> Some e | Inr _ \<Rightarrow> None), rs_Pods := rows,
                       rs_Totals := fold add_row rows no_totals \<rparr>))"

section \<open>Properties\<close>

lemma fold_add_topic:
  "distinct out \<Longrightarrow> distinct (fold add_topic ts out) \<and> set (fold add_topic ts out) = set out \<union> (set ts - {[]})"
proof (induction ts arbitrary: out)
  case (Cons t ts)
  have "distinct (add_topic t out)" using Cons.prems by (auto simp: add_topic_def)
  from Cons.IH [OF this] show ?case by (auto simp: add_topic_def)
qed simp

text \<open>The monitored topics are those of the target, each once and none empty.\<close>

lemma MonitorTopics_exact: "distinct (MonitorTopics t)" "set (MonitorTopics t) = set (target_topics t) - {[]}"
  using fold_add_topic [of "[]" "target_topics t"] by (simp_all add: MonitorTopics_def)

text \<open>A target that was selected is the current one; a failed selection changes nothing.\<close>

lemma Select_Current:
  "targets_Select r i = (r', Inr t) \<Longrightarrow> targets_Current r' = Inr t \<and> at_ID t = i \<and> tr_all r' = tr_all r"
proof -
  assume "targets_Select r i = (r', Inr t)"
  then obtain ts where f: "filter (\<lambda>t. at_ID t = i) (tr_all r) = t # ts" and r': "r' = r\<lparr> tr_selected := i \<rparr>"
    by (auto simp: targets_Select_def split: list.splits)
  have "t \<in> set (filter (\<lambda>t. at_ID t = i) (tr_all r))" unfolding f by simp
  then have "at_ID t = i" by simp
  then show ?thesis using f r' by (simp add: targets_Current_def)
qed

lemma Select_unknown: "targets_Select r i = (r', Inl e) \<Longrightarrow> r' = r"
  by (auto simp: targets_Select_def split: list.splits)

text \<open>A registry that loads has a current target.\<close>

lemma loadTargets_Current:
  assumes "loadTargets read yaml embedded env_id path fallback = Inr r"
  shows "\<exists>t. targets_Current r = Inr t"
proof -
  have "defaultTargets embedded fallback \<noteq> []" by (auto simp: defaultTargets_def split: sum.split list.split)
  then have "tr_all r \<noteq> []"
    using assms by (auto simp: loadTargets_def Let_def split: if_splits file_read.splits sum.splits list.splits)
  then show ?thesis by (auto simp: targets_Current_def neq_Nil_conv split: list.split)
qed

text \<open>Setting a variable changes its value alone, and keeps the others in their order.\<close>

lemma setEnvVar_get: "map_of (setEnvVar n v vars) = (map_of vars)(n \<mapsto> Some v)"
  by (induction n v vars rule: setEnvVar.induct) (auto simp: fun_eq_iff)

lemma setEnvVar_others: "filter (\<lambda>(k, _). k \<noteq> n) (setEnvVar n v vars) = filter (\<lambda>(k, _). k \<noteq> n) vars"
  by (induction n v vars rule: setEnvVar.induct) auto

text \<open>The counts of an inventory are those of what it lists, and system namespaces are left out unless asked for.\<close>

definition inventory_counted :: "cluster_inventory \<Rightarrow> bool" where
  "inventory_counted v \<longleftrightarrow>
     inv_CountNamespaces v = int (length (inv_Namespaces v)) \<and>
     inv_CountDeployments v = sum_list (map (\<lambda>n. int (length (cln_Deployments n))) (inv_Namespaces v)) \<and>
     inv_CountPods v = sum_list (map (\<lambda>n. int (length (cln_Pods n))) (inv_Namespaces v))"

lemma inventory_counted_simps:
  "inventory_counted (no_inventory b)" "inventory_counted v \<Longrightarrow> inventory_counted (add_item i v)"
  "inventory_counted (v\<lparr> inv_K8sError := e \<rparr>) = inventory_counted v"
  by (simp_all add: inventory_counted_def no_inventory_def add_item_def)

lemma inventory_loop_counted: "inventory_counted v \<Longrightarrow> inventory_counted (inventory_loop a phase ns v)"
  by (induction a phase ns v rule: inventory_loop.induct) (auto simp: inventory_counted_simps split: sum.split)

lemma inventory_loop_names:
  "cln_Name ` set (inv_Namespaces (inventory_loop a phase ns v)) \<subseteq> cln_Name ` set (inv_Namespaces v) \<union> set ns"
proof (induction ns arbitrary: v)
  case (Cons n ns)
  have "cln_Name ` set (inv_Namespaces (add_item (inventory_item n (phase n) ds ps) v)) =
      insert n (cln_Name ` set (inv_Namespaces v))" for ds ps
    by (simp add: add_item_def inventory_item_def)
  with Cons.IH [of "add_item (inventory_item n (phase n) _ _) v"] show ?case by (auto split: sum.split)
qed simp

lemma inventory_is_counted: "inventory_counted (inventory msg client includeSystem)"
  by (simp add: inventory_def Let_def inventory_counted_simps inventory_loop_counted split: option.split sum.split)

lemma inventory_names:
  assumes "ia_namespaces a = Inr nss"
  shows "cln_Name ` set (inv_Namespaces (inventory msg (Some a) b)) \<subseteq> fst ` {(n, ph) \<in> set nss. b \<or> \<not> isSystemNamespace n}"
proof -
  let ?shown = "filter (\<lambda>(n, _). b \<or> \<not> isSystemNamespace n) nss"
  have e: "inv_Namespaces (no_inventory True) = []" by (simp add: no_inventory_def)
  have "set (sort (map fst ?shown)) = fst ` {(n, ph) \<in> set nss. b \<or> \<not> isSystemNamespace n}"
    by (simp add: case_prod_unfold)
  then show ?thesis unfolding inventory_def option.case assms sum.case Let_def
    using inventory_loop_names [of a _ "sort (map fst ?shown)" "no_inventory True", unfolded e] by simp
qed

lemma inventory_hides_system:
  assumes "n \<in> set (inv_Namespaces (inventory msg client False))"
  shows "\<not> isSystemNamespace (cln_Name n)"
proof (cases client)
  case None
  then show ?thesis using assms by (simp add: inventory_def no_inventory_def)
next
  case (Some a)
  show ?thesis
  proof (cases "ia_namespaces a")
    case (Inl e)
    then show ?thesis using assms Some by (simp add: inventory_def no_inventory_def)
  next
    case (Inr nss)
    have "cln_Name n \<in> cln_Name ` set (inv_Namespaces (inventory msg (Some a) False))" using assms Some by blast
    then show ?thesis using inventory_names [OF Inr, of msg False] by auto
  qed
qed

text \<open>The totals of a snapshot are the sums of its rows, when these stay within 64 bits.\<close>

lemma int64_add_left: "int64 (int64 a + b) = int64 (a + b)"
  by (simp add: int64_def)

lemma fold_add_row:
  "rt_PodCount (fold add_row rows t) = rt_PodCount t + int (length rows) \<and>
   int64 (rt_CPURequest (fold add_row rows t)) = int64 (rt_CPURequest t + sum_list (map pw_CPURequest rows)) \<and>
   int64 (rt_MemUsage (fold add_row rows t)) = int64 (rt_MemUsage t + sum_list (map pw_MemUsage rows))"
  by (induction rows arbitrary: t) (simp_all add: add_row_def int64_add_left add.assoc)

text \<open>
  A deployment that a profile patched has its replicas, and each of its containers has every variable of the profile; the other
  deployments and the config map are as they were.
\<close>

lemma fold_setEnvVar_keeps: "n \<notin> set (map fst env') \<Longrightarrow> map_of (fold (\<lambda>(k, v). setEnvVar k v) env' vars) n = map_of vars n"
  by (induction env' arbitrary: vars) (auto simp: setEnvVar_get)

lemma fold_setEnvVar:
  "distinct (map fst env') \<Longrightarrow> (n, v) \<in> set env' \<Longrightarrow> map_of (fold (\<lambda>(k, v). setEnvVar k v) env' vars) n = Some (Some v)"
proof (induction env' arbitrary: vars)
  case (Cons kv env')
  obtain k w where kv: "kv = (k, w)" by (cases kv)
  show ?case
  proof (cases "(n, v) = (k, w)")
    case True
    then show ?thesis using Cons.prems kv by (simp add: fold_setEnvVar_keeps setEnvVar_get)
  next
    case False
    then show ?thesis using Cons kv by auto
  qed
qed simp

lemma patched:
  assumes "patchDeploymentProfile p k name = (k', None)" and "distinct (map fst (rp_Env p))"
  shows "\<exists>d. gm_get (ul_Deployments k') name = Some d \<and> ud_Replicas d = rp_Replicas p \<and>
      (\<forall>c\<in>set (ud_Containers d). \<forall>(n, v)\<in>set (rp_Env p). map_of (uc_Env c) n = Some (Some v)) \<and>
      (\<forall>m. m \<noteq> name \<longrightarrow> gm_get (ul_Deployments k') m = gm_get (ul_Deployments k) m) \<and> ul_ConfigMap k' = ul_ConfigMap k"
proof -
  let ?patch = "\<lambda>d. d\<lparr> ud_Replicas := rp_Replicas p, ud_Containers := map (patch_container name p) (ud_Containers d),
      ud_Volumes := map (patch_volume name p) (ud_Volumes d) \<rparr>"
  obtain d where "update_deployment k name (?patch d) = (k', None)"
    using assms(1) unfolding patchDeploymentProfile_def by (simp split: sum.splits if_splits)
  then have k': "k' = k\<lparr> ul_Deployments := gm_put name (?patch d) (ul_Deployments k) \<rparr>"
    unfolding update_deployment_def by (simp split: option.splits)
  have "\<forall>c\<in>set (ud_Containers (?patch d)). \<forall>(n, v)\<in>set (rp_Env p). map_of (uc_Env c) n = Some (Some v)"
    using fold_setEnvVar [OF assms(2)] by (auto simp: patch_container_def)
  then show ?thesis unfolding k' by (intro exI [of _ "?patch d"]) simp
qed

text \<open>Without an error every deployment of a list is restarted, in the order of the list.\<close>

lemma restart_all_order: "restart_all now k ns done0 = (k', Inr out) \<Longrightarrow> out = done0 @ ns"
  by (induction now k ns done0 rule: restart_all.induct) (auto split: prod.splits option.splits)

end
