(* ===== verification/Mock_Server.thy ===== *)
theory Mock_Server
  imports Mock_Ui
begin

text \<open>
  The server of the user interface of the mock core, \<open>hack/mock-core-ui\<close>: the probes of the agent and the scenarios
  (\<open>scenarios.go\<close>), the objects of the store (\<open>s3.go\<close>) and the handlers (\<open>api.go\<close>). An answer is its status with what is
  encoded; texts for the reader (titles, descriptions, the words of a hint) are left out, a hint is what it says. Kafka,
  files, the API server, the store and the HTTP client are parameters. The lemmas: a selected target is the one every
  controller works on, except for an address it does not have; every scenario is found and has a channel that runs; what a
  run asks of Kafka; a place in the store is never half empty.
\<close>

section \<open>Scenarios (scenarios.go)\<close>

record ui_scenario =
  us_ID :: string
  us_Channel :: string
  us_Fixture :: string
  us_RESTPath :: string
  us_RESTMethod :: string
  us_ExpectS3 :: bool
  us_WatchTopic :: string

definition kafka_scenario :: "string \<Rightarrow> string \<Rightarrow> string \<Rightarrow> ui_scenario" where
  "kafka_scenario i fixture topic =
     \<lparr> us_ID = i, us_Channel = ''kafka'', us_Fixture = fixture, us_RESTPath = [], us_RESTMethod = [], us_ExpectS3 = False,
       us_WatchTopic = topic \<rparr>"

definition rest_scenario :: "string \<Rightarrow> string \<Rightarrow> ui_scenario" where
  "rest_scenario i path =
     \<lparr> us_ID = i, us_Channel = ''rest'', us_Fixture = [], us_RESTPath = path, us_RESTMethod = ''GET'', us_ExpectS3 = False,
       us_WatchTopic = [] \<rparr>"

definition ui_scenarios :: "string \<Rightarrow> ui_scenario list" where
  "ui_scenarios reply =
     [kafka_scenario ''ui-list-namespaces'' ''k8s-api-list-namespaces.json'' reply,
      kafka_scenario ''ui-list-pods'' ''k8s-api-list-pods.json'' reply,
      kafka_scenario ''ui-list-deployments'' ''k8s-api-list-deployments.json'' reply,
      kafka_scenario ''ui-list-services'' ''k8s-api-list-services.json'' reply,
      kafka_scenario ''ui-watch-pods'' ''watch-subscribe-pods.json'' ''cluster.events'',
      kafka_scenario ''ui-watch-pods-stop'' ''watch-unsubscribe-pods.json'' reply,
      (kafka_scenario ''ui-logs-collect'' ''logs-collect.json'' reply)\<lparr> us_ExpectS3 := True \<rparr>,
      kafka_scenario ''ui-logs-stream-start'' ''logs-stream-start-logger-a.json'' ''logs.stream'',
      kafka_scenario ''ui-logs-stream-stop'' ''logs-stream-stop-logger-a.json'' reply,
      kafka_scenario ''ui-cache-put'' ''cache-put.json'' reply,
      kafka_scenario ''ui-cache-delete'' ''cache-delete.json'' reply,
      kafka_scenario ''ui-health-report-start'' ''health-report-start.json'' ''cluster.health'',
      kafka_scenario ''ui-health-report-stop'' ''health-report-stop.json'' reply,
      rest_scenario ''rest-healthz'' ''/healthz'', rest_scenario ''rest-readyz'' ''/readyz'',
      rest_scenario ''rest-metrics'' ''/metrics'', rest_scenario ''rest-cache-list'' ''/v1/cache'',
      (kafka_scenario ''flow-logs-to-s3'' ''logs-collect.json'' reply)\<lparr> us_Channel := ''flow'', us_ExpectS3 := True \<rparr>,
      (kafka_scenario ''flow-cache-put-get'' ''cache-put.json'' reply)\<lparr> us_Channel := ''flow'' \<rparr>]"

definition scenarioByID :: "string \<Rightarrow> string \<Rightarrow> go_error + ui_scenario" where
  "scenarioByID reply i =
     (case filter (\<lambda>s. us_ID s = i) (ui_scenarios reply) of
        s # _ \<Rightarrow> Inr s
      | [] \<Rightarrow> Inl (Errorf ''unknown scenario %q'' [AStr i]))"

text \<open>
  Where the bundle of a collection is, from the result of a Kafka scenario: the candidates, and the probe of one.
  \<open>parse\<close> decodes a body that is a JSON string.
\<close>

definition s3_pair :: "obj \<Rightarrow> (string \<times> string) option" where
  "s3_pair kvs = do { b \<leftarrow> fld_str ''s3_bucket'' kvs; k \<leftarrow> fld_str ''s3_key'' kvs; Some (b, k) }"

definition s3_probe :: "json \<Rightarrow> (string \<times> string) list" where
  "s3_probe j =
     (case j of
        JObj kvs \<Rightarrow>
          (case do { top \<leftarrow> s3_pair kvs; pm \<leftarrow> dec_obj [] (members ''payload'' kvs); p \<leftarrow> s3_pair pm;
                     rm \<leftarrow> dec_obj [] (members ''result'' kvs); r \<leftarrow> s3_pair rm; Some [top, p, r] } of
             None \<Rightarrow> []
           | Some ps \<Rightarrow> filter (\<lambda>(b, k). b \<noteq> [] \<and> k \<noteq> []) ps)
      | _ \<Rightarrow> [])"

definition with_string :: "(string \<Rightarrow> json option) \<Rightarrow> json \<Rightarrow> json list" where
  "with_string parse j =
     j # (case j of
            JStr s \<Rightarrow> (case parse s of None \<Rightarrow> [] | Some x \<Rightarrow> [x])
          | JNull \<Rightarrow> (case parse [] of None \<Rightarrow> [] | Some x \<Rightarrow> [x])
          | _ \<Rightarrow> [])"

definition s3_candidates :: "(string \<Rightarrow> json option) \<Rightarrow> obj \<Rightarrow> json list" where
  "s3_candidates parse kvs =
     JObj kvs #
     (case map_of (rev kvs) ''body'' of None \<Rightarrow> [] | Some b \<Rightarrow> with_string parse b) @
     (case map_of (rev kvs) ''reply'' of
        Some (JObj r) \<Rightarrow> (case fld_raw ''body'' r of None \<Rightarrow> [] | Some b \<Rightarrow> with_string parse b)
      | _ \<Rightarrow> [])"

definition extractS3FromKafkaResult :: "(string \<Rightarrow> json option) \<Rightarrow> raw \<Rightarrow> (string \<times> string) option" where
  "extractS3FromKafkaResult parse raw =
     (case raw of
        Some (JObj kvs) \<Rightarrow>
          (case concat (map s3_probe (s3_candidates parse kvs)) of [] \<Rightarrow> None | p # _ \<Rightarrow> Some p)
      | _ \<Rightarrow> None)"

definition extractCacheKeyFromFixture :: "(string \<Rightarrow> go_error + http_body) \<Rightarrow> string \<Rightarrow> string \<Rightarrow> string" where
  "extractCacheKeyFromFixture read name dir =
     (case read (path_join [dir, name]) of
        Inr (BodyJson (JObj kvs)) \<Rightarrow>
          (case do { p \<leftarrow> dec_obj [] (members ''payload'' kvs);
                     es \<leftarrow> fld_list ''entries'' [] (\<lambda>j. do { o1 \<leftarrow> json_obj j; fld_str ''key'' o1 }) p;
                     ks \<leftarrow> fld_strs ''keys'' p; Some (es, ks) } of
             None \<Rightarrow> []
           | Some (es, ks) \<Rightarrow> if es \<noteq> [] then hd es else if ks \<noteq> [] then hd ks else [])
      | _ \<Rightarrow> [])"


section \<open>Probes of the agent (scenarios.go)\<close>

record rest_probe =
  pr_URL :: string
  pr_Method :: string
  pr_StatusCode :: int
  pr_Body :: string
  pr_Truncated :: bool

text \<open>The response of the agent: its status, the length it announces and the bytes of its body that were read.\<close>

record probe_response =
  px_Status :: int
  px_ContentLength :: int
  px_Body :: string

definition probeAgentRESTDirect ::
  "(string \<Rightarrow> string \<Rightarrow> go_error option) \<Rightarrow> (string \<Rightarrow> string \<Rightarrow> go_error + probe_response) \<Rightarrow> string \<Rightarrow> string \<Rightarrow> string \<Rightarrow> go_error + rest_probe" where
  "probeAgentRESTDirect newreq exchange meth base path =
     (case newreq meth (base @ path) of
        Some e \<Rightarrow> Inl e
      | None \<Rightarrow>
          (case exchange meth (base @ path) of
             Inl e \<Rightarrow>
               Inl (Errorf (''%w '' @ em_dash @ '' agent HTTP is ClusterIP; run: powershell -File hack/port-forward-agent-http.ps1 (exposes localhost:8080)'')
                      [AErr e])
           | Inr resp \<Rightarrow>
               (let data = take 65536 (px_Body resp) in
                Inr \<lparr> pr_URL = base @ path, pr_Method = meth, pr_StatusCode = px_Status resp, pr_Body = data,
                      pr_Truncated = (px_ContentLength resp > 65536 \<or> length data \<ge> 65536) \<rparr>)))"

text \<open>
  First the proxy of the API server, for \<open>GET\<close> only (\<open>proxy\<close> is there when a client is), then the address of the
  configuration. \<open>direct\<close> is \<open>probeAgentRESTDirect\<close>.
\<close>

definition probe_namespace :: "target_registry \<Rightarrow> string \<Rightarrow> string" where
  "probe_namespace r configured = current_topic at_AgentNamespace r configured"

definition probeAgentREST ::
  "(string \<Rightarrow> string \<Rightarrow> go_error + string) option \<Rightarrow> (string \<Rightarrow> string \<Rightarrow> string \<Rightarrow> go_error + rest_probe) \<Rightarrow> string \<Rightarrow> string \<Rightarrow> string \<Rightarrow> string
     \<Rightarrow> go_error + rest_probe" where
  "probeAgentREST proxy direct ns agentHTTPURL meth0 path0 =
     (let meth = (if meth0 = [] then ''GET'' else meth0);
          path = (if HasPrefix path0 ''/'' then path0 else ''/'' @ path0);
          base = trim_right (\<lambda>c. c = CHR ''/'') agentHTTPURL in
      case (if meth = ''GET'' \<and> ns \<noteq> [] then proxy else None) of
        Some px \<Rightarrow>
          (case px ns (TrimPrefix path ''/'') of
             Inr body \<Rightarrow>
               Inr \<lparr> pr_URL = ''kube-proxy://'' @ ns @ ''/services/k8s-agent-http'' @ path, pr_Method = meth, pr_StatusCode = 200,
                     pr_Body = take 65536 body, pr_Truncated = (length body \<ge> 65536) \<rparr>
           | Inl e \<Rightarrow>
               if base \<noteq> [] then
                 (case direct meth base path of
                    Inr out \<Rightarrow> Inr out
                  | Inl httpErr \<Rightarrow>
                      Inl (Errorf (''%v; kube proxy: %v '' @ em_dash @ '' agent HTTP is ClusterIP; run: powershell -File hack/port-forward-agent-http.ps1 -Namespace %s'')
                             [AErr httpErr, AErr e, AStr ns]))
               else Inl (Errorf ''kube proxy %s%s: %w'' [AStr ns, AStr path, AErr e]))
      | None \<Rightarrow>
          if base = [] then
            Inl (Errorf ''AGENT_HTTP_URL is not set and kube proxy unavailable (example: http://host.docker.internal:8080)'' [])
          else direct meth base path)"

section \<open>Objects of the store (s3.go)\<close>

record s3_info =
  si_Bucket :: string
  si_Key :: string
  si_Exists :: bool
  si_Size :: int
  si_ETag :: string
  si_ContentType :: string
  si_LastModified :: string
  si_ConsoleURL :: string

text \<open>The fields of the answer of \<open>HeadObject\<close> that may be missing; the time is already formatted.\<close>

record head_output =
  ho_ContentLength :: "int option"
  ho_ETag :: "string option"
  ho_ContentType :: "string option"
  ho_LastModified :: "string option"

definition or_zero :: "'a \<Rightarrow> 'a option \<Rightarrow> 'a" where
  "or_zero z x = (case x of None \<Rightarrow> z | Some v \<Rightarrow> v)"

definition headObject ::
  "go_error option \<Rightarrow> (string \<Rightarrow> string \<Rightarrow> go_error + head_output) \<Rightarrow> string \<Rightarrow> string \<Rightarrow> go_error + s3_info" where
  "headObject cfgErr head bucket key =
     (case cfgErr of
        Some e \<Rightarrow> Inl (Errorf ''aws config: %w'' [AErr e])
      | None \<Rightarrow>
          (case head bucket key of
             Inl e \<Rightarrow> Inl (Errorf ''head object: %w'' [AErr e])
           | Inr out \<Rightarrow>
               Inr \<lparr> si_Bucket = bucket, si_Key = key, si_Exists = True, si_Size = or_zero 0 (ho_ContentLength out),
                     si_ETag = or_zero [] (ho_ETag out), si_ContentType = or_zero [] (ho_ContentType out),
                     si_LastModified = or_zero [] (ho_LastModified out), si_ConsoleURL = [] \<rparr>))"

definition console_url :: "string \<Rightarrow> s3_info \<Rightarrow> s3_info" where
  "console_url console i = i\<lparr> si_ConsoleURL := console @ ''/browser/'' @ si_Bucket i @ ''/'' @ si_Key i \<rparr>"

section \<open>The server and its answers (api.go)\<close>

record ui_config =
  uf_RequestTopic :: string
  uf_ReplyTopic :: string
  uf_FixturesDir :: string
  uf_AgentNamespace :: string
  uf_AgentHTTPURL :: string
  uf_MinIOConsole :: string
  uf_DefaultTopics :: "string list"

text \<open>The server with the parts of the copies of its configuration, in its two controllers, that change.\<close>

record ui_server =
  sv_cfg :: ui_config
  sv_modesNamespace :: string
  sv_resNamespace :: string
  sv_resHTTPURL :: string
  sv_targets :: target_registry

definition fallback_target :: "ui_config \<Rightarrow> agent_target" where
  "fallback_target cfg =
     \<lparr> at_ID = ''default'', at_Implementation = ''v1'', at_RequestTopic = uf_RequestTopic cfg, at_ReplyTopic = uf_ReplyTopic cfg,
       at_AgentNamespace = uf_AgentNamespace cfg, at_AgentHTTPURL = uf_AgentHTTPURL cfg, at_EventsTopic = ''cluster.events'',
       at_LogsStreamTopic = ''logs.stream'', at_HealthTopic = ''cluster.health'', at_LifecycleTopic = ''agent.lifecycle'' \<rparr>"

text \<open>\<open>load\<close> is \<open>loadTargets\<close> on a path; on the empty path it does not fail.\<close>

definition newServer :: "(string \<Rightarrow> agent_target \<Rightarrow> go_error + target_registry) \<Rightarrow> string \<Rightarrow> ui_config \<Rightarrow> ui_server option" where
  "newServer load targetsFile cfg =
     (let mk = (\<lambda>reg. \<lparr> sv_cfg = cfg, sv_modesNamespace = uf_AgentNamespace cfg, sv_resNamespace = uf_AgentNamespace cfg,
                        sv_resHTTPURL = uf_AgentHTTPURL cfg, sv_targets = reg \<rparr>) in
      case load targetsFile (fallback_target cfg) of
        Inr reg \<Rightarrow> Some (mk reg)
      | Inl _ \<Rightarrow> (case load [] (fallback_target cfg) of Inr reg \<Rightarrow> Some (mk reg) | Inl _ \<Rightarrow> None))"

definition currentRequestTopic :: "ui_server \<Rightarrow> string" where
  "currentRequestTopic s = current_topic at_RequestTopic (sv_targets s) (uf_RequestTopic (sv_cfg s))"

definition currentReplyTopic :: "ui_server \<Rightarrow> string" where
  "currentReplyTopic s = current_topic at_ReplyTopic (sv_targets s) (uf_ReplyTopic (sv_cfg s))"

text \<open>A value encoded with status 200, an error encoded with its status, or a plain text.\<close>

datatype 'a ui_answer = UiOK 'a | UiError int go_error | UiPlain int string

definition not_allowed :: "'a ui_answer" where
  "not_allowed = UiPlain 405 ''method not allowed''"

definition decode_request :: "(obj \<Rightarrow> 'a option) \<Rightarrow> http_body \<Rightarrow> go_error + 'a" where
  "decode_request dec body =
     (case body of
        BodyRaw _ \<Rightarrow> Inl json_error
      | BodyJson j \<Rightarrow> sum_bind (unmarshal_struct (Some j)) (\<lambda>kvs. case dec kvs of None \<Rightarrow> Inl json_error | Some x \<Rightarrow> Inr x))"

record topics_answer =
  ta_Topics :: "string list"
  ta_ReplyTopic :: string
  ta_RequestTopic :: string
  ta_TargetID :: string

definition handleTopics :: "ui_server \<Rightarrow> string \<Rightarrow> topics_answer ui_answer" where
  "handleTopics s meth =
     (if meth \<noteq> ''GET'' then not_allowed
      else case targets_Current (sv_targets s) of
             Inl e \<Rightarrow> UiError 500 e
           | Inr t \<Rightarrow>
               UiOK \<lparr> ta_Topics = (if MonitorTopics t = [] then uf_DefaultTopics (sv_cfg s) else MonitorTopics t),
                      ta_ReplyTopic = at_ReplyTopic t, ta_RequestTopic = at_RequestTopic t, ta_TargetID = at_ID t \<rparr>)"

definition select_effect :: "ui_server \<Rightarrow> target_registry \<Rightarrow> agent_target \<Rightarrow> ui_server" where
  "select_effect s r t =
     (let url = (if at_AgentHTTPURL t \<noteq> [] then at_AgentHTTPURL t else uf_AgentHTTPURL (sv_cfg s)) in
      s\<lparr> sv_targets := r, sv_cfg := (sv_cfg s)\<lparr> uf_AgentNamespace := at_AgentNamespace t, uf_AgentHTTPURL := url \<rparr>,
         sv_modesNamespace := at_AgentNamespace t, sv_resNamespace := at_AgentNamespace t, sv_resHTTPURL := url \<rparr>)"

definition handleTargetSelect :: "ui_server \<Rightarrow> string \<Rightarrow> http_body \<Rightarrow> ui_server \<times> agent_target ui_answer" where
  "handleTargetSelect s meth body =
     (if meth \<noteq> ''POST'' then (s, not_allowed)
      else case decode_request (fld_str ''id'') body of
             Inl e \<Rightarrow> (s, UiError 400 (Errorf ''invalid JSON: %w'' [AErr e]))
           | Inr i \<Rightarrow>
               if TrimSpace i = [] then (s, UiError 400 (Errorf ''id is required'' []))
               else case targets_Select (sv_targets s) (TrimSpace i) of
                      (r, Inl e) \<Rightarrow> (s\<lparr> sv_targets := r \<rparr>, UiError 400 e)
                    | (r, Inr t) \<Rightarrow> (select_effect s r t, UiOK t))"

text \<open>The directory of templates as entries with whether they are directories; a file is read through \<open>read\<close>.\<close>

definition extractCommandType :: "http_body \<Rightarrow> string" where
  "extractCommandType d =
     (case d of
        BodyJson (JObj kvs) \<Rightarrow>
          fold (\<lambda>v acc. case v of JStr t \<Rightarrow> t | _ \<Rightarrow> acc) (members ''type'' kvs) []
      | _ \<Rightarrow> [])"

fun templates_of :: "(string \<Rightarrow> go_error + http_body) \<Rightarrow> string \<Rightarrow> (string \<times> bool) list \<Rightarrow> go_error + (string \<times> string \<times> http_body) list" where
  "templates_of read dir [] = Inr []"
| "templates_of read dir ((n, isDir) # es) =
     (if isDir \<or> \<not> HasSuffix n ''.json'' then templates_of read dir es
      else sum_bind (read (path_join [dir, n])) (\<lambda>d.
           sum_bind (templates_of read dir es) (\<lambda>ts. Inr ((TrimSuffix n ''.json'', extractCommandType d, d) # ts))))"

definition handleTemplates ::
  "(string \<Rightarrow> go_error + http_body) \<Rightarrow> (string \<Rightarrow> go_error + (string \<times> bool) list) \<Rightarrow> ui_server \<Rightarrow> string
     \<Rightarrow> (string \<times> string \<times> http_body) list ui_answer" where
  "handleTemplates read readDir s meth =
     (if meth \<noteq> ''GET'' then not_allowed
      else case sum_bind (readDir (uf_FixturesDir (sv_cfg s))) (templates_of read (uf_FixturesDir (sv_cfg s))) of
             Inl e \<Rightarrow> UiError 500 e
           | Inr ts \<Rightarrow> UiOK ts)"

text \<open>
  A command of the user: \<open>send\<close> is \<open>SendAndWait\<close> on the two topics, \<open>None\<close> while it waits. The answer has the result, the
  identity of the target, and the reply or the error of the wait.
\<close>

record command_answer =
  ca_Result :: send_result
  ca_Target :: "(string \<times> string) option"
  ca_Reply :: "mock_message option"
  ca_WaitError :: "go_error option"

definition handleCommands ::
  "(string \<Rightarrow> string \<Rightarrow> json \<Rightarrow> (send_result \<times> mock_message option \<times> go_error option) option) \<Rightarrow> ui_server \<Rightarrow> string \<Rightarrow> http_body
     \<Rightarrow> command_answer ui_answer option" where
  "handleCommands send s meth body =
     (if meth \<noteq> ''POST'' then Some not_allowed
      else case decode_request (\<lambda>kvs. do { t \<leftarrow> fld_str ''reply_topic'' kvs; Some (fld_raw ''body'' kvs, t) }) body of
             Inl e \<Rightarrow> Some (UiError 400 (Errorf ''invalid JSON body: %w'' [AErr e]))
           | Inr (None, _) \<Rightarrow> Some (UiError 400 (Errorf ''body is required'' []))
           | Inr (Some j, rt) \<Rightarrow>
               (case send (currentRequestTopic s) (if rt = [] then currentReplyTopic s else rt) j of
                  None \<Rightarrow> None
                | Some (r, m, e) \<Rightarrow>
                    Some (case (if sr_CorrelationID r = [] then e else None) of
                            Some err \<Rightarrow> UiError 502 err
                          | None \<Rightarrow>
                              UiOK \<lparr> ca_Result = r,
                                     ca_Target = (case targets_Current (sv_targets s) of Inl _ \<Rightarrow> None | Inr t \<Rightarrow> Some (at_ID t, at_Implementation t)),
                                     ca_Reply = (if e = None then m else None), ca_WaitError = e \<rparr>)))"

text \<open>The stream of a topic: what its loop meets, and the frames it writes; \<open>marshal\<close> may refuse a message.\<close>

datatype topic_event = ClientGone | StreamOver "go_error option" | StreamMessage mock_message | ChannelClosed
datatype stream_frame = FrameConnected string | FrameError go_error | FrameMessage string

fun stream_frames :: "(mock_message \<Rightarrow> string option) \<Rightarrow> topic_event list \<Rightarrow> stream_frame list" where
  "stream_frames marshal [] = []"
| "stream_frames marshal (ClientGone # es) = []"
| "stream_frames marshal (ChannelClosed # es) = []"
| "stream_frames marshal (StreamOver e # es) = (case e of None \<Rightarrow> [] | Some err \<Rightarrow> [FrameError err])"
| "stream_frames marshal (StreamMessage m # es) =
     (case marshal m of None \<Rightarrow> stream_frames marshal es | Some d \<Rightarrow> FrameMessage d # stream_frames marshal es)"

definition monitored_topic :: "ui_server \<Rightarrow> string \<Rightarrow> string" where
  "monitored_topic s topic = or_topic topic (uf_ReplyTopic (sv_cfg s))"

definition handleMessageStream ::
  "(mock_message \<Rightarrow> string option) \<Rightarrow> bool \<Rightarrow> (string \<Rightarrow> string \<Rightarrow> topic_event list) \<Rightarrow> ui_server \<Rightarrow> string \<Rightarrow> string \<Rightarrow> string
     \<Rightarrow> stream_frame list ui_answer" where
  "handleMessageStream marshal flusher events s meth topic corrID =
     (if meth \<noteq> ''GET'' then not_allowed
      else if \<not> flusher then UiPlain 500 ''streaming unsupported''
      else UiOK (FrameConnected (monitored_topic s topic) # stream_frames marshal (events (monitored_topic s topic) corrID)))"

text \<open>\<open>recent\<close> is \<open>ReadRecentMessages\<close> on a topic, a limit and a correlation id.\<close>

definition handleMessageHistory ::
  "(string \<Rightarrow> int \<Rightarrow> string \<Rightarrow> go_error + mock_message list) \<Rightarrow> ui_server \<Rightarrow> string \<Rightarrow> string \<Rightarrow> string \<Rightarrow> string
     \<Rightarrow> (string \<times> int \<times> mock_message list) ui_answer" where
  "handleMessageHistory recent s meth topic corrID lim =
     (if meth \<noteq> ''GET'' then not_allowed
      else case (if TrimSpace lim = [] then Some 50
                 else case Atoi (TrimSpace lim) of None \<Rightarrow> None | Some n \<Rightarrow> if n < 1 then None else Some n) of
             None \<Rightarrow> UiError 400 (Errorf ''invalid limit'' [])
           | Some n \<Rightarrow>
               (case recent (monitored_topic s topic) n corrID of
                  Inl e \<Rightarrow> UiError 502 e
                | Inr msgs \<Rightarrow> UiOK (monitored_topic s topic, n, msgs)))"

definition handleS3Head :: "(string \<Rightarrow> string \<Rightarrow> go_error + s3_info) \<Rightarrow> ui_server \<Rightarrow> string \<Rightarrow> string \<Rightarrow> string \<Rightarrow> s3_info ui_answer" where
  "handleS3Head head s meth bucket key =
     (if meth \<noteq> ''GET'' then not_allowed
      else if bucket = [] \<or> key = [] then UiError 400 (Errorf ''bucket and key are required'' [])
      else case head bucket key of
             Inl e \<Rightarrow> UiError 404 e
           | Inr i \<Rightarrow> UiOK (console_url (uf_MinIOConsole (sv_cfg s)) i))"

definition handleClusterInventory :: "(bool \<Rightarrow> cluster_inventory) \<Rightarrow> string \<Rightarrow> string \<Rightarrow> cluster_inventory ui_answer" where
  "handleClusterInventory inv0 meth include_system =
     (if meth \<noteq> ''GET'' then not_allowed
      else UiOK (inv0 (include_system = ''1'' \<or> EqualFold include_system ''true'')))"

datatype mode_answer = ModeStatus mode_status | ModeApplied apply_mode_response

definition handleAgentMode ::
  "(ui_cluster \<Rightarrow> mode_status) \<Rightarrow> (ui_cluster \<Rightarrow> string \<Rightarrow> ui_cluster \<times> (go_error + apply_mode_response)) \<Rightarrow> ui_cluster \<Rightarrow> string \<Rightarrow> http_body
     \<Rightarrow> ui_cluster \<times> mode_answer ui_answer" where
  "handleAgentMode status apply_mode k meth body =
     (if meth = ''GET'' then (k, UiOK (ModeStatus (status k)))
      else if meth = ''POST'' then
        (case decode_request (fld_str ''mode'') body of
           Inl e \<Rightarrow> (k, UiError 400 (Errorf ''invalid JSON body: %w'' [AErr e]))
         | Inr m \<Rightarrow>
             if TrimSpace m = [] then (k, UiError 400 (Errorf ''mode is required'' []))
             else case apply_mode k m of
                    (k', Inl e) \<Rightarrow> (k', UiError 502 e)
                  | (k', Inr r) \<Rightarrow> (k', UiOK (ModeApplied r)))
      else (k, not_allowed))"

text \<open>\<open>snap\<close> is \<open>snapshot\<close> on a namespace, the id of a target and an address.\<close>

definition handleResourcesSnapshot ::
  "(string \<Rightarrow> string \<Rightarrow> string \<Rightarrow> 'f resources_snapshot) \<Rightarrow> ui_server \<Rightarrow> string \<Rightarrow> string \<Rightarrow> 'f resources_snapshot ui_answer" where
  "handleResourcesSnapshot snap s meth ns =
     (let cfgURL = uf_AgentHTTPURL (sv_cfg s); cur = targets_Current (sv_targets s) in
      if meth \<noteq> ''GET'' then not_allowed
      else if ns = [] then
        (case cur of
           Inr t \<Rightarrow> UiOK (snap (at_AgentNamespace t) (at_ID t) (if at_AgentHTTPURL t \<noteq> [] then at_AgentHTTPURL t else cfgURL))
         | Inl _ \<Rightarrow> UiOK (snap (uf_AgentNamespace (sv_cfg s)) [] cfgURL))
      else UiOK (snap ns (case cur of Inr t \<Rightarrow> at_ID t | Inl _ \<Rightarrow> []) cfgURL))"

definition handleResourcesCompare ::
  "(string \<Rightarrow> string \<Rightarrow> string \<Rightarrow> 'f resources_snapshot) \<Rightarrow> ui_server \<Rightarrow> string \<Rightarrow> (agent_target \<times> 'f resources_snapshot) list ui_answer" where
  "handleResourcesCompare snap s meth =
     (if meth \<noteq> ''GET'' then not_allowed
      else UiOK (map (\<lambda>t. (t, snap (at_AgentNamespace t) (at_ID t)
                              (if at_AgentHTTPURL t = [] then uf_AgentHTTPURL (sv_cfg s) else at_AgentHTTPURL t)))
                   (tr_all (sv_targets s))))"

datatype profile_answer = ProfileList "resource_profile list" | ProfileApplied apply_profile_response

definition handleResourcesProfile ::
  "(ui_cluster \<Rightarrow> string \<Rightarrow> ui_cluster \<times> (go_error + apply_profile_response)) \<Rightarrow> ui_cluster \<Rightarrow> string \<Rightarrow> http_body
     \<Rightarrow> ui_cluster \<times> profile_answer ui_answer" where
  "handleResourcesProfile apply_profile k meth body =
     (if meth = ''GET'' then (k, UiOK (ProfileList resourceProfiles))
      else if meth = ''POST'' then
        (case decode_request (fld_str ''profile'') body of
           Inl e \<Rightarrow> (k, UiError 400 (Errorf ''invalid JSON: %w'' [AErr e]))
         | Inr p \<Rightarrow>
             (case apply_profile k (TrimSpace p) of
                (k', Inl e) \<Rightarrow> (k', UiError 502 e)
              | (k', Inr r) \<Rightarrow> (k', UiOK (ProfileApplied r))))
      else (k, not_allowed))"

section \<open>Running a scenario (scenarios.go)\<close>

definition handleScenarioFixture ::
  "(string \<Rightarrow> go_error + http_body) \<Rightarrow> ui_server \<Rightarrow> string \<Rightarrow> string \<Rightarrow> (string \<times> string \<times> json) ui_answer" where
  "handleScenarioFixture read s meth i =
     (if meth \<noteq> ''GET'' then not_allowed
      else if TrimSpace i = [] then UiError 400 (Errorf ''id is required'' [])
      else case scenarioByID (uf_ReplyTopic (sv_cfg s)) (TrimSpace i) of
             Inl e \<Rightarrow> UiError 404 e
           | Inr sc \<Rightarrow>
               if us_Fixture sc = [] then
                 UiError 400 (Errorf ''scenario %q has no editable Kafka fixture (channel=%s)'' [AStr (TrimSpace i), AStr (us_Channel sc)])
               else case read (path_join [uf_FixturesDir (sv_cfg s), us_Fixture sc]) of
                      Inl e \<Rightarrow> UiError 500 e
                    | Inr (BodyRaw _) \<Rightarrow> UiError 500 (Errorf ''fixture is not valid JSON'' [])
                    | Inr (BodyJson j) \<Rightarrow> UiOK (us_ID sc, us_Fixture sc, j))"

definition handleAgentRESTProbe ::
  "(string \<Rightarrow> string \<Rightarrow> go_error + rest_probe) \<Rightarrow> string \<Rightarrow> string \<Rightarrow> string \<Rightarrow> rest_probe ui_answer" where
  "handleAgentRESTProbe ask meth path qmeth =
     (if meth \<noteq> ''GET'' \<and> meth \<noteq> ''POST'' then not_allowed
      else case ask (if qmeth = [] then ''GET'' else qmeth) (if path = [] then ''/healthz'' else path) of
             Inl e \<Rightarrow> UiError 502 e
           | Inr r \<Rightarrow> UiOK r)"

datatype run_hint =
    HintReplyTimeout go_error
  | HintSentTo string
  | HintS3NotReady go_error
  | HintNoS3
  | HintNoCacheKey
  | HintRESTFailed go_error
  | HintCheckS3
  | HintWatch string

record timing_info =
  ti_SentAt :: gtime
  ti_ReceivedAt :: "gtime option"
  ti_DurationMs :: int
  ti_TimedOut :: bool

record run_response =
  rr_ScenarioID :: string
  rr_Channel :: string
  rr_CorrelationID :: string
  rr_ReplyTopic :: string
  rr_WatchTopic :: string
  rr_KafkaResult :: raw
  rr_REST :: "rest_probe option"
  rr_S3 :: "s3_info option"
  rr_Hints :: "run_hint list"
  rr_Timing :: timing_info
  rr_TargetID :: string

definition Milliseconds :: "int \<Rightarrow> int" where
  "Milliseconds d = (if d < 0 then - ((- d) div 1000000) else d div 1000000)"

text \<open>
  What a run meets. \<open>re_send\<close> is \<open>SendAndWait\<close> on the two topics, \<open>None\<close> while it waits; \<open>re_parse\<close> decodes a text;
  \<open>re_text\<close> is the text of an error and \<open>re_timing\<close> the encoding of the times; \<open>re_started\<close>, \<open>re_sent\<close> and \<open>re_done\<close>
  are the readings of the clock.
\<close>

record run_env =
  re_read :: "string \<Rightarrow> go_error + http_body"
  re_send :: "string \<Rightarrow> string \<Rightarrow> http_body \<Rightarrow> (send_result \<times> mock_message option \<times> go_error option) option"
  re_probe :: "string \<Rightarrow> string \<Rightarrow> go_error + rest_probe"
  re_head :: "string \<Rightarrow> string \<Rightarrow> go_error + s3_info"
  re_parse :: "string \<Rightarrow> json option"
  re_text :: "go_error \<Rightarrow> string"
  re_timing :: "timing_info \<Rightarrow> json"
  re_started :: gtime
  re_sent :: gtime
  re_done :: gtime

definition run_body :: "run_env \<Rightarrow> ui_server \<Rightarrow> ui_scenario \<Rightarrow> raw \<Rightarrow> go_error + http_body" where
  "run_body w s sc override =
     (case override of
        Some j \<Rightarrow> Inr (BodyJson j)
      | None \<Rightarrow>
          (case re_read w (path_join [uf_FixturesDir (sv_cfg s), us_Fixture sc]) of
             Inl e \<Rightarrow> Inl (Errorf ''fixture %s: %w'' [AStr (us_Fixture sc), AErr e])
           | Inr b \<Rightarrow> Inr b))"

definition request_json :: "send_result \<Rightarrow> ui_scenario \<Rightarrow> raw \<Rightarrow> http_body \<Rightarrow> obj" where
  "request_json r sc override body =
     [(''correlation_id'', JStr (sr_CorrelationID r)), (''reply_topic'', JStr (sr_ReplyTopic r)),
      (''request_topic'', JStr (sr_RequestTopic r)),
      (''request'', JObj [(''topic'', JStr (sr_RequestTopic r)),
                          (''fixture'', JStr (us_Fixture sc @ (if override = None then [] else '' (edited)''))),
                          (''body'', case body of BodyJson j \<Rightarrow> j | BodyRaw t \<Rightarrow> JStr t)])]"

text \<open>
  The reply in the result. A body whose quotation is not JSON is put into the result as it is, so that encoding the result
  fails: \<open>None\<close>.
\<close>

definition reply_json :: "run_env \<Rightarrow> string \<Rightarrow> mock_message \<Rightarrow> obj option" where
  "reply_json w replyTopic m =
     (case (case mk_Body m of BodyJson j \<Rightarrow> Some j | BodyRaw t \<Rightarrow> re_parse w t) of
        None \<Rightarrow> None
      | Some b \<Rightarrow>
          Some [(''reply'', JObj [(''topic'', JStr replyTopic), (''correlation_id'', JStr (mk_CorrelationID m)),
                                  (''headers'', JObj (map (\<lambda>(k, v). (k, JStr v)) (mk_Headers m))), (''body'', b)]),
                (''body'', b)])"

definition sent_response :: "run_env \<Rightarrow> string \<Rightarrow> send_result \<Rightarrow> go_error option \<Rightarrow> run_response \<Rightarrow> run_response" where
  "sent_response w replyTopic r e out =
     (let out = out\<lparr> rr_Timing := \<lparr> ti_SentAt = re_sent w, ti_ReceivedAt = Some (re_done w),
                                    ti_DurationMs = Milliseconds (re_done w - re_sent w), ti_TimedOut = (e \<noteq> None) \<rparr> \<rparr>
      in if sr_CorrelationID r \<noteq> [] then out\<lparr> rr_ReplyTopic := replyTopic, rr_CorrelationID := sr_CorrelationID r \<rparr> else out)"

definition kafka_result ::
  "run_env \<Rightarrow> string \<Rightarrow> string \<Rightarrow> obj \<Rightarrow> mock_message option \<times> go_error option \<Rightarrow> run_response \<Rightarrow> go_error + run_response" where
  "kafka_result w requestTopic replyTopic request reply out =
     (case reply of
        (_, Some err) \<Rightarrow>
          Inr (out\<lparr> rr_Hints := rr_Hints out @ [HintReplyTimeout err, HintSentTo requestTopic],
                    rr_KafkaResult := Some (JObj (request @ [(''wait_error'', JStr (re_text w err)),
                                                             (''timing'', re_timing w (rr_Timing out))])) \<rparr>)
      | (m, None) \<Rightarrow>
          (case m of
             None \<Rightarrow> Inl json_error
           | Some x \<Rightarrow>
               (case reply_json w replyTopic x of
                  None \<Rightarrow> Inl json_error
                | Some rep \<Rightarrow>
                    Inr (out\<lparr> rr_KafkaResult := Some (JObj (request @ rep @ [(''timing'', re_timing w (rr_Timing out))])) \<rparr>))))"

definition runKafkaScenario ::
  "run_env \<Rightarrow> ui_server \<Rightarrow> ui_scenario \<Rightarrow> string \<Rightarrow> raw \<Rightarrow> run_response \<Rightarrow> (go_error + run_response) option" where
  "runKafkaScenario w s sc replyTopic0 override out =
     (case run_body w s sc override of
        Inl e \<Rightarrow> Some (Inl e)
      | Inr body \<Rightarrow>
          (let replyTopic = (if replyTopic0 = [] then currentReplyTopic s else replyTopic0) in
           case re_send w (currentRequestTopic s) replyTopic body of
             None \<Rightarrow> None
           | Some (r, m, e) \<Rightarrow>
               Some (case (if sr_CorrelationID r = [] then e else None) of
                       Some err \<Rightarrow> Inl err
                     | None \<Rightarrow> kafka_result w (currentRequestTopic s) replyTopic (request_json r sc override body) (m, e)
                                (sent_response w replyTopic r e out))))"

text \<open>What a flow does after its command, by the id of the scenario.\<close>

definition run_flow :: "run_env \<Rightarrow> ui_server \<Rightarrow> ui_scenario \<Rightarrow> run_response \<Rightarrow> run_response" where
  "run_flow w s sc out =
     (if us_ID sc = ''flow-logs-to-s3'' then
        (case extractS3FromKafkaResult (re_parse w) (rr_KafkaResult out) of
           None \<Rightarrow> out\<lparr> rr_Hints := rr_Hints out @ [HintNoS3] \<rparr>
         | Some (bucket, key) \<Rightarrow>
             (case re_head w bucket key of
                Inl e \<Rightarrow> out\<lparr> rr_Hints := rr_Hints out @ [HintS3NotReady e] \<rparr>
              | Inr i \<Rightarrow> out\<lparr> rr_S3 := Some (console_url (uf_MinIOConsole (sv_cfg s)) i) \<rparr>))
      else if us_ID sc = ''flow-cache-put-get'' then
        (let key = extractCacheKeyFromFixture (re_read w) (us_Fixture sc) (uf_FixturesDir (sv_cfg s)) in
         if key = [] then out\<lparr> rr_Hints := rr_Hints out @ [HintNoCacheKey] \<rparr>
         else case re_probe w ''GET'' (''/v1/cache/'' @ key) of
                Inl e \<Rightarrow> out\<lparr> rr_Hints := rr_Hints out @ [HintRESTFailed e] \<rparr>
              | Inr r \<Rightarrow> out\<lparr> rr_REST := Some r \<rparr>)
      else out)"

definition closing_hints :: "ui_scenario \<Rightarrow> run_response \<Rightarrow> run_response" where
  "closing_hints sc out =
     out\<lparr> rr_Hints := rr_Hints out @
            (if us_ExpectS3 sc \<and> rr_S3 out = None then [HintCheckS3] else []) @
            (if us_WatchTopic sc \<noteq> [] \<and> us_WatchTopic sc \<noteq> rr_ReplyTopic out then [HintWatch (us_WatchTopic sc)] else []) \<rparr>"

definition run_start :: "run_env \<Rightarrow> ui_server \<Rightarrow> ui_scenario \<Rightarrow> run_response" where
  "run_start w s sc =
     \<lparr> rr_ScenarioID = us_ID sc, rr_Channel = us_Channel sc, rr_CorrelationID = [], rr_ReplyTopic = [],
       rr_WatchTopic = us_WatchTopic sc, rr_KafkaResult = None, rr_REST = None, rr_S3 = None, rr_Hints = [],
       rr_Timing = \<lparr> ti_SentAt = re_started w, ti_ReceivedAt = None, ti_DurationMs = 0, ti_TimedOut = False \<rparr>,
       rr_TargetID = (case targets_Current (sv_targets s) of Inl _ \<Rightarrow> [] | Inr t \<Rightarrow> at_ID t) \<rparr>"

definition run_channel ::
  "run_env \<Rightarrow> ui_server \<Rightarrow> ui_scenario \<Rightarrow> string \<Rightarrow> raw \<Rightarrow> run_response ui_answer option" where
  "run_channel w s sc replyTopic override =
     (let out = run_start w s sc;
          kafka = (\<lambda>k. case runKafkaScenario w s sc replyTopic override out of
                         None \<Rightarrow> None
                       | Some (Inl e) \<Rightarrow> Some (UiError 502 e)
                       | Some (Inr out') \<Rightarrow> Some (UiOK (closing_hints sc (k out')))) in
      if us_Channel sc = ''rest'' then
        Some (case re_probe w (us_RESTMethod sc) (us_RESTPath sc) of
                Inl e \<Rightarrow> UiError 502 e
              | Inr r \<Rightarrow>
                  UiOK (closing_hints sc (out\<lparr> rr_REST := Some r, rr_Timing := (rr_Timing out)\<lparr> ti_ReceivedAt := Some (re_done w),
                    ti_DurationMs := Milliseconds (re_done w - re_started w) \<rparr> \<rparr>)))
      else if us_Channel sc = ''kafka'' then kafka (\<lambda>out'. out')
      else if us_Channel sc = ''flow'' then kafka (run_flow w s sc)
      else Some (UiError 400 (Errorf ''unsupported channel %q'' [AStr (us_Channel sc)])))"

definition handleScenarioRun :: "run_env \<Rightarrow> ui_server \<Rightarrow> string \<Rightarrow> http_body \<Rightarrow> run_response ui_answer option" where
  "handleScenarioRun w s meth body =
     (if meth \<noteq> ''POST'' then Some not_allowed
      else case decode_request (\<lambda>kvs. do { i \<leftarrow> fld_str ''id'' kvs; t \<leftarrow> fld_str ''reply_topic'' kvs; Some (i, t, fld_raw ''body'' kvs) }) body of
             Inl e \<Rightarrow> Some (UiError 400 (Errorf ''invalid JSON: %w'' [AErr e]))
           | Inr (i, t, override) \<Rightarrow>
               (case scenarioByID (uf_ReplyTopic (sv_cfg s)) (TrimSpace i) of
                  Inl e \<Rightarrow> Some (UiError 404 e)
                | Inr sc \<Rightarrow> run_channel w s sc t override))"

section \<open>Properties\<close>

text \<open>
  A selection puts the server and both controllers on the namespace of the target, which is then the current one; every
  other answer leaves the server as it was.
\<close>

lemma select_scopes:
  assumes "handleTargetSelect s meth body = (s', UiOK t)"
  shows "targets_Current (sv_targets s') = Inr t \<and> uf_AgentNamespace (sv_cfg s') = at_AgentNamespace t \<and>
    sv_modesNamespace s' = at_AgentNamespace t \<and> sv_resNamespace s' = at_AgentNamespace t \<and>
    sv_resHTTPURL s' = uf_AgentHTTPURL (sv_cfg s')"
proof -
  obtain i r where "targets_Select (sv_targets s) i = (r, Inr t)" "s' = select_effect s r t"
    using assms by (auto simp: handleTargetSelect_def not_allowed_def split: if_splits sum.splits prod.splits)
  then show ?thesis using Select_Current by (auto simp: select_effect_def Let_def)
qed

lemma select_refused:
  assumes "handleTargetSelect s meth body = (s', a)" and "\<forall>t. a \<noteq> UiOK t"
  shows "s' = s"
  using assms
  by (auto simp: handleTargetSelect_def dest: Select_unknown split: if_splits sum.splits prod.splits)

text \<open>The address of the agent is kept from the selection before when the target has none.\<close>

lemma select_keeps_address:
  assumes "handleTargetSelect s meth body = (s', UiOK t)" and "at_AgentHTTPURL t = []"
  shows "uf_AgentHTTPURL (sv_cfg s') = uf_AgentHTTPURL (sv_cfg s)"
  using assms by (auto simp: handleTargetSelect_def select_effect_def not_allowed_def split: if_splits sum.splits prod.splits)

text \<open>Every scenario has an id of its own and is found by it; its channel is one that runs.\<close>

lemma scenario_ids_distinct: "distinct (map us_ID (ui_scenarios reply))"
  by (simp add: ui_scenarios_def kafka_scenario_def rest_scenario_def)

lemma filter_key_unique: "distinct (map f xs) \<Longrightarrow> x \<in> set xs \<Longrightarrow> filter (\<lambda>y. f y = f x) xs = [x]"
  by (induction xs) (auto simp: filter_empty_conv image_iff intro!: filter_False)

lemma scenarioByID_found: "s \<in> set (ui_scenarios reply) \<Longrightarrow> scenarioByID reply (us_ID s) = Inr s"
  by (simp add: scenarioByID_def filter_key_unique [OF scenario_ids_distinct])

lemma scenario_channels: "s \<in> set (ui_scenarios reply) \<Longrightarrow> us_Channel s \<in> {''rest'', ''kafka'', ''flow''}"
  by (auto simp: ui_scenarios_def kafka_scenario_def rest_scenario_def)

text \<open>A scenario of the REST side does not touch Kafka.\<close>

lemma rest_no_kafka: "us_Channel sc = ''rest'' \<Longrightarrow> run_channel (w\<lparr> re_send := f \<rparr>) s sc t b = run_channel w s sc t b"
  by (simp add: run_channel_def run_start_def Let_def split: sum.split)

text \<open>A place found in a result has both parts.\<close>

lemma s3_probe_nonempty: "(b, k) \<in> set (s3_probe j) \<Longrightarrow> b \<noteq> [] \<and> k \<noteq> []"
  by (auto simp: s3_probe_def split: json.splits option.splits)

lemma extractS3_nonempty:
  assumes "extractS3FromKafkaResult parse raw = Some (b, k)"
  shows "b \<noteq> [] \<and> k \<noteq> []"
proof -
  obtain kvs ps where "concat (map s3_probe (s3_candidates parse kvs)) = (b, k) # ps"
    using assms by (auto simp: extractS3FromKafkaResult_def split: option.splits json.splits list.splits)
  then have "(b, k) \<in> set (concat (map s3_probe (s3_candidates parse kvs)))" by simp
  then show ?thesis by (auto dest: s3_probe_nonempty)
qed

text \<open>The bundle a reply names is found, in the body of the reply.\<close>

lemma extractS3_reply:
  assumes "s3_probe (JObj (request @ rep)) = []" and "map_of (rev (request @ rep)) ''body'' = Some j" and "s3_probe j = p # ps"
  shows "extractS3FromKafkaResult parse (Some (JObj (request @ rep))) = Some p"
  using assms by (simp add: extractS3FromKafkaResult_def s3_candidates_def with_string_def)

text \<open>At most 64 KiB of a page are shown.\<close>

lemma probe_bounded:
  assumes "probeAgentREST proxy (probeAgentRESTDirect newreq exchange) ns url meth path = Inr r"
  shows "length (pr_Body r) \<le> 65536"
  using assms
  by (auto simp: probeAgentREST_def probeAgentRESTDirect_def Let_def split: option.splits sum.splits if_splits)

end
