(* ===== verification/Spec2Isabelle.thy ===== *)
theory Spec2Isabelle
  imports Agent Nup_Service Mock_Server
begin

text \<open>
  A verification of the USMC Kubernetes agent.

  \<^bold>\<open>The program.\<close> The agent runs in a Kubernetes cluster. It reads commands from a Kafka topic, checks them
  against an allow-list, executes them with the API server or on the nodes, and publishes replies and events. One
  replica leads at a time. The same binary also runs as one of several components (agent service, egress, ingress
  gateway, node log agent). A second, older agent is archived under \<open>k8s-agent\<close>; it has its own envelope, policy and
  commands.

  \<^bold>\<open>How the parts interact.\<close> The wiring (\<open>internal/agent\<close>) loads configuration, features and policy, builds the
  managers and collects their handlers in a router. The command loop of the leader hands each Kafka message to the
  processor, which decodes and guards it, calls the router, publishes the reply and commits. Handlers act on their
  manager: watches, log streams, health reports, collections, cache, or send a request to the API server. In protobuf
  and dual mode a dispatcher and the core client stand beside the JSON path. The HTTP server gives state, cache and an
  internal command endpoint to the other components.

  \<^bold>\<open>The theories\<close>, in the order of their imports, with the sources under \<open>src/\<close> they model:

  \<^item> \<open>Go_Prelude\<close>: Go itself. Error values, package \<open>strings\<close>, 32 and 64 bit integers with wrap-around, maps as
    association lists with the contract \<open>go_map_spec\<close>, panics as values, instants and durations, reachable states.
  \<^item> \<open>Go_Json\<close>: JSON documents and their decoding into structs (\<open>encoding/json\<close>).
  \<^item> \<open>Command_Router\<close>: \<open>internal/command\<close> and \<open>internal/result\<close>. Envelope, replies, router; the contracts
    \<open>command_handler\<close> and \<open>routed_handlers\<close> that every handler and router meets.
  \<^item> \<open>Config\<close>, \<open>Features\<close>, \<open>Policy_Path\<close>, \<open>Policy_Engine\<close>: \<open>internal/config\<close>, \<open>internal/features\<close>, \<open>internal/policy\<close>.
  \<^item> \<open>Transport\<close>, \<open>Kafka\<close>: \<open>internal/protoheaders\<close>, \<open>internal/protodispatch\<close>, \<open>internal/transport\<close>,
    \<open>internal/kafka\<close>. A message is handled by one function that yields the new state and the trace of what it did (execute, publish, commit).
  \<^item> \<open>Cache\<close>: \<open>internal/cache\<close> and its handlers; the contract \<open>ttl_cache\<close>.
  \<^item> \<open>Subscriptions\<close>: contexts and the contract \<open>subscription_table\<close>, which five managers meet.
  \<^item> \<open>K8s_Api\<close>: \<open>internal/k8s\<close> and the handler of \<open>k8s.api\<close>.
  \<^item> \<open>Watch\<close>, \<open>Log_Stream\<close>, \<open>Health_Report\<close>: \<open>internal/watch\<close>, \<open>internal/logstream\<close>, \<open>internal/healthreport\<close> and
    their handlers.
  \<^item> \<open>Node_Logs\<close>, \<open>Logs_Collect\<close>: \<open>internal/nodelocal\<close>, \<open>internal/nodeagent\<close>, \<open>internal/handlers/logs\<close>, \<open>internal/s3\<close>.
  \<^item> \<open>Http_Api\<close>: \<open>internal/httpapi\<close>, the state in \<open>internal/observability\<close>, the ingress proxy and the bridge to the
    agent service.
  \<^item> \<open>Core_Client\<close>: \<open>internal/coreclient\<close>, batcher, keyed locks and lifecycle.
  \<^item> \<open>Modules\<close>: the modules without commands under \<open>internal/modules\<close>.
  \<^item> \<open>Agent\<close>: module registry, wiring, command loop, leadership and shutdown (\<open>internal/agent\<close>,
    \<open>internal/leaderelection\<close>); the whole agent as one router.
  \<^item> \<open>Nup_Policy\<close>, \<open>Nup_Streams\<close>, \<open>Nup_Fetch\<close>, \<open>Nup_Service\<close>: the archived agent, \<open>k8s-agent/internal\<close>, bottom up;
    the contracts \<open>nup_handler\<close> and \<open>nup_routed\<close>.
  \<^item> \<open>Mock_Core\<close>, \<open>Mock_Ui\<close>, \<open>Mock_Server\<close>: the mock core for development clusters, \<open>hack/mockcorelib\<close>,
    \<open>hack/mock-core\<close> and \<open>hack/mock-core-ui\<close>, which drives an agent over Kafka and HTTP. Its lemmas are local: what a wait
    returns, when a scenario passes, that a selected target is the one every controller works on, what profiles change.

  \<^bold>\<open>Conventions.\<close> A struct is a record, a manager or handler a state that its operations return updated, an error or
  an early return a branch of a sum, option or result type, a panic the value \<open>Panic\<close> or \<open>Crash\<close>. Names are those of
  the source, with a prefix where two packages share one. Goroutines are steps of an inductive relation, or take
  effect in an order that is a parameter. Clocks, file systems, the API server, brokers, object stores, YAML decoders
  and regular expressions are parameters, bundled in records of the surroundings; what a property needs of them is
  among its hypotheses, and a witness instantiates them.

  \<^bold>\<open>What the properties show.\<close>

  \<^item> Confinement: secrets and namespaces outside the allow-list are out of reach of \<open>k8s.api\<close>, watches, log streams,
    health reports and node logs (C1, C2, C6, C7, C9, C10, C19, C20); a disabled command changes nothing (C13); HTTP
    gives nothing to a caller without the token (C17); the archived agent acts only on accepted commands (C26).
  \<^item> Messages: guard, address, order and commit of a reply (C3, C4, C5, C25); requests to the core meet their own
    response (C16); one final result for each command of the archived agent (C27).
  \<^item> Managers: tables, goroutines and contexts agree in every reachable state, and stopping stops (C7, C8, C10, C12,
    C21, C28).
  \<^item> Functional behaviour: batches and pages lose and repeat nothing (C11, C22, C24), optimised loops equal their
    reference (C23), trimming (C32), configuration and features (C31, C37), headers round trip (C38), cache (C39), the
    bridge executes as the service does (C18).
  \<^item> Types and termination: every reply of the assembled router is well formed (C14); the command loop returns exactly
    when its context ends (C15).
  \<^item> Limits and faults, each proved of the code as it is: C29, C30, C33, C34, C35, C36, C40.

  \<^bold>\<open>Bounds and fuel.\<close> There is no fuel. Loops over data are structural recursions. Two loops may run for ever, the
  command loop and the listing of all pages, and are partial functions into \<open>option\<close>, where \<open>None\<close> is not returning;
  C15 characterises when the first returns, \<open>ListAllPages_complete\<close> gives the result of the second for a server whose
  pages end. Loops that wait for their surroundings (consumers, tickers, streams) recurse over the list of what they
  meet, of any length. Numbers are \<open>int\<close> with the wrap-around of the source written out where it can matter.

  \<^bold>\<open>Not modelled\<close>, and why.

  \<^item> The entry points under \<open>cmd/\<close> and \<open>k8s-agent/cmd\<close>: flags, signals and calls of the packages above.
  \<^item> Construction of clients (Kubernetes, Kafka, S3), leader election and rate limiting themselves: libraries that the
    sources configure. The configuration they are given is modelled, their behaviour is a parameter.
  \<^item> Registration of metrics (\<open>internal/observability/metrics.go\<close>, \<open>k8s-agent/internal/metrics\<close>): calls of a library.
    Gauges that follow the state are fields of it.
  \<^item> Logging: it changes no state.
  \<^item> Of the mock core: \<open>hack/mock-core-ui/main.go\<close> and the flags of \<open>hack/mock-core/main.go\<close>, the construction of the
    Kubernetes client in \<open>agent_modes.go\<close>, handlers that only encode a list, static files and texts for the reader. The
    scripts under \<open>hack/\<close> run tools of a local cluster.
  \<^item> Interleavings inside an operation that holds its lock: an operation is one step. Data races of the archived agent's
    \<open>isLeader\<close> flag of the service, which has no lock, are outside the model.
\<close>

end
